(* ===== verification/Prelude.thy ===== *)
theory Prelude
  imports Main "HOL-Library.Sublist"
begin

text \<open>
  Shared vocabulary of the development.

  \<^item> Results: a fallible Rust function is a value of \<open>'e + 'a\<close>, \<open>Inl\<close> for \<open>Err\<close>.
  \<^item> Effects: an \<open>async\<close> function that touches the database, the clock or the network is a
    function of the world, \<open>'w \<Rightarrow> ('e + 'a) \<times> 'w\<close>. \<open>bnd\<close> is the sequencing that the
    \<open>?\<close> operator gives: the first error ends the function, and every effect made before it
    stays.
  \<^item> Strings: a Rust \<open>str\<close> is its list of UTF-8 bytes (\<^typ>\<open>string\<close>), so \<open>length\<close>
    is \<open>str::len\<close>. The functions of \<open>std::str\<close> that the source uses are here.
\<close>

named_theorems io_defs \<open>definitions of the effect combinators\<close>
named_theorems str_simps \<open>evaluation of the string functions\<close>

section \<open>Results\<close>

type_synonym ('e, 'a) result = "'e + 'a"

definition ok :: "'e + 'a \<Rightarrow> 'a option" where
  "ok r = (case r of Inl _ \<Rightarrow> None | Inr a \<Rightarrow> Some a)"

definition map_err :: "('e \<Rightarrow> 'f) \<Rightarrow> 'e + 'a \<Rightarrow> 'f + 'a" where
  "map_err f r = (case r of Inl e \<Rightarrow> Inl (f e) | Inr a \<Rightarrow> Inr a)"

definition ok_or :: "'e \<Rightarrow> 'a option \<Rightarrow> 'e + 'a" where
  "ok_or e x = (case x of None \<Rightarrow> Inl e | Some a \<Rightarrow> Inr a)"

definition rbind :: "'e + 'a \<Rightarrow> ('a \<Rightarrow> 'e + 'b) \<Rightarrow> 'e + 'b" where
  "rbind r k = (case r of Inl e \<Rightarrow> Inl e | Inr a \<Rightarrow> k a)"

definition unwrap_or :: "'a \<Rightarrow> 'a option \<Rightarrow> 'a" where
  "unwrap_or d x = (case x of None \<Rightarrow> d | Some a \<Rightarrow> a)"

text \<open>The first \<open>Some\<close> of two options, \<open>Option::or\<close>.\<close>

definition or_else :: "'a option \<Rightarrow> 'a option \<Rightarrow> 'a option" where
  "or_else x y = (case x of None \<Rightarrow> y | Some a \<Rightarrow> Some a)"

definition filter_opt :: "('a \<Rightarrow> bool) \<Rightarrow> 'a option \<Rightarrow> 'a option" where
  "filter_opt p x = (case x of None \<Rightarrow> None | Some a \<Rightarrow> if p a then Some a else None)"

fun find_map :: "('a \<Rightarrow> 'b option) \<Rightarrow> 'a list \<Rightarrow> 'b option" where
  "find_map f [] = None"
| "find_map f (x # xs) = (case f x of None \<Rightarrow> find_map f xs | Some y \<Rightarrow> Some y)"

section \<open>Effects with early return\<close>

type_synonym ('w, 'e, 'a) io = "'w \<Rightarrow> ('e + 'a) \<times> 'w"

definition ret :: "'a \<Rightarrow> ('w, 'e, 'a) io" where
  "ret a = (\<lambda>w. (Inr a, w))"

definition fail :: "'e \<Rightarrow> ('w, 'e, 'a) io" where
  "fail e = (\<lambda>w. (Inl e, w))"

definition bnd :: "('w, 'e, 'a) io \<Rightarrow> ('a \<Rightarrow> ('w, 'e, 'b) io) \<Rightarrow> ('w, 'e, 'b) io" where
  "bnd m k = (\<lambda>w. case m w of (Inl e, w') \<Rightarrow> (Inl e, w') | (Inr a, w') \<Rightarrow> k a w')"

definition seq :: "('w, 'e, 'a) io \<Rightarrow> ('w, 'e, 'b) io \<Rightarrow> ('w, 'e, 'b) io" where
  "seq m n = bnd m (\<lambda>_. n)"

text \<open>\<open>attempt m\<close> is \<open>m\<close> whose result is inspected by a \<open>match\<close> instead of passed on by \<open>?\<close>.\<close>

definition attempt :: "('w, 'e, 'a) io \<Rightarrow> ('w, 'f, 'e + 'a) io" where
  "attempt m = (\<lambda>w. case m w of (r, w') \<Rightarrow> (Inr r, w'))"

definition of_result :: "'e + 'a \<Rightarrow> ('w, 'e, 'a) io" where
  "of_result r = (\<lambda>w. (r, w))"

definition io_map_err :: "('e \<Rightarrow> 'f) \<Rightarrow> ('w, 'e, 'a) io \<Rightarrow> ('w, 'f, 'a) io" where
  "io_map_err f m = (\<lambda>w. case m w of (r, w') \<Rightarrow> (map_err f r, w'))"

definition when_io :: "bool \<Rightarrow> ('w, 'e, unit) io \<Rightarrow> ('w, 'e, unit) io" where
  "when_io b m = (if b then m else ret ())"

lemmas [io_defs] = ret_def fail_def bnd_def seq_def attempt_def of_result_def io_map_err_def
  when_io_def

lemma bnd_ret [simp]: "bnd (ret a) k = k a"
  by (simp add: io_defs)

lemma bnd_fail [simp]: "bnd (fail e) k = fail e"
  by (simp add: io_defs)

lemma bnd_assoc: "bnd (bnd m k) l = bnd m (\<lambda>a. bnd (k a) l)"
  by (auto simp: io_defs split: prod.split sum.split)

lemma ret_apply [simp]: "ret a w = (Inr a, w)"
  by (simp add: ret_def)

lemma fail_apply [simp]: "fail e w = (Inl e, w)"
  by (simp add: fail_def)

lemma bnd_Inr: "m w = (Inr a, w') \<Longrightarrow> bnd m k w = k a w'"
  by (simp add: bnd_def)

lemma bnd_Inl: "m w = (Inl e, w') \<Longrightarrow> bnd m k w = (Inl e, w')"
  by (simp add: bnd_def)

lemma bnd_returns: "bnd m k w = (Inr b, w') \<longleftrightarrow> (\<exists>a v. m w = (Inr a, v) \<and> k a v = (Inr b, w'))"
  by (auto simp: bnd_def split: prod.splits sum.splits)

lemma seq_returns: "seq m n w = (Inr b, w') \<longleftrightarrow> (\<exists>a v. m w = (Inr a, v) \<and> n v = (Inr b, w'))"
  by (simp add: seq_def bnd_returns)

lemma bnd_fails:
  "bnd m k w = (Inl e, w') \<longleftrightarrow> m w = (Inl e, w') \<or> (\<exists>a v. m w = (Inr a, v) \<and> k a v = (Inl e, w'))"
  by (auto simp: bnd_def split: prod.splits sum.splits)

lemma io_map_err_returns: "io_map_err f m w = (Inr a, w') \<longleftrightarrow> m w = (Inr a, w')"
  by (auto simp: io_map_err_def map_err_def split: prod.splits sum.splits)

lemma bnd_cases:
  obtains (err) e w' where "m w = (Inl e, w')" and "bnd m k w = (Inl e, w')"
  | (val) a w' where "m w = (Inr a, w')" and "bnd m k w = k a w'"
  by (cases "m w"; cases "fst (m w)") (auto simp: bnd_def)

text \<open>A fixed list of actions run one after another, as a \<open>for\<close> loop with \<open>?\<close> in its body.\<close>

fun for_each :: "('a \<Rightarrow> ('w, 'e, unit) io) \<Rightarrow> 'a list \<Rightarrow> ('w, 'e, unit) io" where
  "for_each f [] = ret ()"
| "for_each f (x # xs) = seq (f x) (for_each f xs)"

subsection \<open>What a function may do to the world\<close>

text \<open>
  \<open>keeps R m\<close>: whatever \<open>m\<close> returns, and wherever it stops, the world it leaves is related to the
  one it started in. For a reflexive and transitive relation this is compositional, so a fact
  about the single SQL statements lifts to every function built from them.
\<close>

definition keeps :: "('w \<Rightarrow> 'w \<Rightarrow> bool) \<Rightarrow> ('w, 'e, 'a) io \<Rightarrow> bool" where
  "keeps R m \<longleftrightarrow> (\<forall>w. R w (snd (m w)))"

lemma keepsI: "(\<And>w. R w (snd (m w))) \<Longrightarrow> keeps R m"
  by (simp add: keeps_def)

lemma keepsD: "keeps R m \<Longrightarrow> R w (snd (m w))"
  by (simp add: keeps_def)

locale frame =
  fixes R :: "'w \<Rightarrow> 'w \<Rightarrow> bool"
  assumes R_refl: "R w w"
    and R_trans: "R u v \<Longrightarrow> R v w \<Longrightarrow> R u w"
begin

lemma keeps_ret [intro!]: "keeps R (ret a)"
  by (simp add: keeps_def R_refl)

lemma keeps_fail [intro!]: "keeps R (fail e)"
  by (simp add: keeps_def R_refl)

lemma keeps_of_result [intro!]: "keeps R (of_result r)"
  by (simp add: keeps_def of_result_def R_refl)

lemma keeps_Pair [intro!]: "keeps R (Pair r)"
  by (simp add: keeps_def R_refl)

lemma keeps_bnd [intro!]:
  assumes "keeps R m" and "\<And>a. keeps R (k a)"
  shows "keeps R (bnd m k)"
proof (rule keepsI)
  fix w
  show "R w (snd (bnd m k w))"
  proof (cases rule: bnd_cases [of m w k])
    case (err e w')
    with keepsD [OF assms(1), of w] show ?thesis by simp
  next
    case (val a w')
    from keepsD [OF assms(1), of w] val have "R w w'" by simp
    moreover have "R w' (snd (k a w'))" by (rule keepsD [OF assms(2)])
    ultimately show ?thesis using val by (auto intro: R_trans)
  qed
qed

lemma keeps_seq [intro!]: "keeps R m \<Longrightarrow> keeps R n \<Longrightarrow> keeps R (seq m n)"
  unfolding seq_def by (rule keeps_bnd)

lemma keeps_attempt [intro!]: "keeps R m \<Longrightarrow> keeps R (attempt m)"
  by (auto simp: keeps_def attempt_def split: prod.splits) (metis snd_conv)

lemma keeps_map_err [intro!]: "keeps R m \<Longrightarrow> keeps R (io_map_err f m)"
  by (auto simp: keeps_def io_map_err_def split: prod.splits) (metis snd_conv)

lemma keeps_when [intro!]: "keeps R m \<Longrightarrow> keeps R (when_io b m)"
  by (auto simp: when_io_def)

lemma keeps_for_each [intro]:
  "(\<And>x. x \<in> set xs \<Longrightarrow> keeps R (f x)) \<Longrightarrow> keeps R (for_each f xs)"
  by (induction xs) auto

end

section \<open>Strings\<close>

definition starts_with :: "string \<Rightarrow> string \<Rightarrow> bool" where
  "starts_with s p \<longleftrightarrow> take (length p) s = p"

definition ends_with :: "string \<Rightarrow> string \<Rightarrow> bool" where
  "ends_with s p \<longleftrightarrow> length p \<le> length s \<and> drop (length s - length p) s = p"

definition strip_prefix :: "string \<Rightarrow> string \<Rightarrow> string option" where
  "strip_prefix s p = (if starts_with s p then Some (drop (length p) s) else None)"

definition strip_suffix :: "string \<Rightarrow> string \<Rightarrow> string option" where
  "strip_suffix s p = (if ends_with s p then Some (take (length s - length p) s) else None)"

text \<open>\<open>str::split(c)\<close>: one more piece than there are separators.\<close>

fun split_on :: "char \<Rightarrow> string \<Rightarrow> string list" where
  "split_on c [] = [[]]"
| "split_on c (x # xs) =
     (if x = c then [] # split_on c xs
      else (case split_on c xs of [] \<Rightarrow> [[x]] | y # ys \<Rightarrow> (x # y) # ys))"

definition split_once :: "char \<Rightarrow> string \<Rightarrow> (string \<times> string) option" where
  "split_once c s =
     (case dropWhile (\<lambda>x. x \<noteq> c) s of
        [] \<Rightarrow> None
      | _ # rest \<Rightarrow> Some (takeWhile (\<lambda>x. x \<noteq> c) s, rest))"

text \<open>\<open>slice::split_inclusive(|b| b == c)\<close>: pieces keep their terminator; no empty last piece.\<close>

fun split_inclusive :: "char \<Rightarrow> string \<Rightarrow> string list" where
  "split_inclusive c [] = []"
| "split_inclusive c (x # xs) =
     (if x = c then [x] # split_inclusive c xs
      else (case split_inclusive c xs of [] \<Rightarrow> [[x]] | y # ys \<Rightarrow> (x # y) # ys))"

fun join :: "string \<Rightarrow> string list \<Rightarrow> string" where
  "join sep [] = []"
| "join sep [x] = x"
| "join sep (x # y # ys) = x @ sep @ join sep (y # ys)"

definition is_ascii_digit :: "char \<Rightarrow> bool" where
  "is_ascii_digit c \<longleftrightarrow> 48 \<le> (of_char c :: nat) \<and> of_char c \<le> (57 :: nat)"

definition is_ascii_hexdigit :: "char \<Rightarrow> bool" where
  "is_ascii_hexdigit c \<longleftrightarrow> is_ascii_digit c
     \<or> (65 \<le> (of_char c :: nat) \<and> of_char c \<le> (70 :: nat))
     \<or> (97 \<le> (of_char c :: nat) \<and> of_char c \<le> (102 :: nat))"

definition to_ascii_lower :: "char \<Rightarrow> char" where
  "to_ascii_lower c =
     (if 65 \<le> (of_char c :: nat) \<and> of_char c \<le> (90 :: nat) then char_of (of_char c + 32 :: nat) else c)"

definition eq_ignore_ascii_case :: "string \<Rightarrow> string \<Rightarrow> bool" where
  "eq_ignore_ascii_case s t \<longleftrightarrow> map to_ascii_lower s = map to_ascii_lower t"

subsection \<open>Unicode white space\<close>

text \<open>
  The UTF-8 encodings of the code points with the Unicode property \<open>White_Space\<close>, which is what
  \<open>str::trim\<close>, \<open>str::split_whitespace\<close> and \<open>char::is_whitespace\<close> use.
\<close>

definition whitespace :: "string list" where
  "whitespace =
     [[CHR 0x20], [CHR 0x09], [CHR 0x0A], [CHR 0x0B], [CHR 0x0C], [CHR 0x0D],
      [CHR 0xC2, CHR 0x85], [CHR 0xC2, CHR 0xA0], [CHR 0xE1, CHR 0x9A, CHR 0x80],
      [CHR 0xE2, CHR 0x80, CHR 0x80], [CHR 0xE2, CHR 0x80, CHR 0x81],
      [CHR 0xE2, CHR 0x80, CHR 0x82], [CHR 0xE2, CHR 0x80, CHR 0x83],
      [CHR 0xE2, CHR 0x80, CHR 0x84], [CHR 0xE2, CHR 0x80, CHR 0x85],
      [CHR 0xE2, CHR 0x80, CHR 0x86], [CHR 0xE2, CHR 0x80, CHR 0x87],
      [CHR 0xE2, CHR 0x80, CHR 0x88], [CHR 0xE2, CHR 0x80, CHR 0x89],
      [CHR 0xE2, CHR 0x80, CHR 0x8A], [CHR 0xE2, CHR 0x80, CHR 0xA8],
      [CHR 0xE2, CHR 0x80, CHR 0xA9], [CHR 0xE2, CHR 0x80, CHR 0xAF],
      [CHR 0xE2, CHR 0x81, CHR 0x9F], [CHR 0xE3, CHR 0x80, CHR 0x80]]"

definition leading :: "string list \<Rightarrow> string \<Rightarrow> string option" where
  "leading seqs s = find (\<lambda>w. w \<noteq> [] \<and> starts_with s w) seqs"

lemma leading_decreases [dest]: "leading seqs s = Some w \<Longrightarrow> length (drop (length w) s) < length s"
  by (auto simp: leading_def find_Some_iff starts_with_def)
     (metis diff_less length_greater_0_conv take_Nil)

fun strip_leading :: "string list \<Rightarrow> string \<Rightarrow> string" where
  "strip_leading seqs s =
     (case leading seqs s of None \<Rightarrow> s | Some w \<Rightarrow> strip_leading seqs (drop (length w) s))"

declare strip_leading.simps [simp del]

definition trim_start :: "string \<Rightarrow> string" where
  "trim_start s = strip_leading whitespace s"

definition trim_end :: "string \<Rightarrow> string" where
  "trim_end s = rev (strip_leading (map rev whitespace) (rev s))"

definition trim :: "string \<Rightarrow> string" where
  "trim s = trim_end (trim_start s)"

text \<open>\<open>split_ws acc s\<close>: the pieces of \<open>s\<close> between runs of white space; \<open>acc\<close> is the piece being read.\<close>

function split_ws :: "string \<Rightarrow> string \<Rightarrow> string list" where
  "split_ws acc s =
     (case leading whitespace s of
        Some w \<Rightarrow> (if acc = [] then [] else [acc]) @ split_ws [] (drop (length w) s)
      | None \<Rightarrow>
         (case s of
            [] \<Rightarrow> if acc = [] then [] else [acc]
          | c # cs \<Rightarrow> split_ws (acc @ [c]) cs))"
  by pat_completeness auto
termination
  by (relation "measure (\<lambda>(acc, s). length s)") auto

declare split_ws.simps [simp del]

definition split_whitespace :: "string \<Rightarrow> string list" where
  "split_whitespace s = split_ws [] s"

subsection \<open>Integers as text\<close>

fun show_nat :: "nat \<Rightarrow> string" where
  "show_nat n = (if n < 10 then [char_of (48 + n)] else show_nat (n div 10) @ [char_of (48 + n mod 10)])"

declare show_nat.simps [simp del]

definition show_int :: "int \<Rightarrow> string" where
  "show_int i = (if i < 0 then ''-'' @ show_nat (nat (- i)) else show_nat (nat i))"

definition digit_value :: "char \<Rightarrow> nat" where
  "digit_value c = of_char c - 48"

fun digits_value :: "nat \<Rightarrow> string \<Rightarrow> nat" where
  "digits_value acc [] = acc"
| "digits_value acc (c # cs) = digits_value (10 * acc + digit_value c) cs"

definition parse_nat :: "string \<Rightarrow> nat option" where
  "parse_nat s = (if s \<noteq> [] \<and> list_all is_ascii_digit s then Some (digits_value 0 s) else None)"

text \<open>\<open>str::parse::<i64>\<close> and \<open>str::parse::<usize>\<close> (64 bits): an optional sign, digits, no overflow.\<close>

definition parse_i64 :: "string \<Rightarrow> int option" where
  "parse_i64 s =
     (case s of
        [] \<Rightarrow> None
      | c # cs \<Rightarrow>
         (let r = (if c = CHR ''-'' then map_option (\<lambda>n. - int n) (parse_nat cs)
                   else if c = CHR ''+'' then map_option int (parse_nat cs)
                   else map_option int (parse_nat s))
          in filter_opt (\<lambda>i. - (2 ^ 63) \<le> i \<and> i < 2 ^ 63) r))"

definition parse_usize :: "string \<Rightarrow> nat option" where
  "parse_usize s =
     filter_opt (\<lambda>n. n < 2 ^ 64)
       (case s of
          [] \<Rightarrow> None
        | c # cs \<Rightarrow> if c = CHR ''+'' then parse_nat cs else parse_nat s)"

subsection \<open>Debug formatting\<close>

definition hex_digit :: "nat \<Rightarrow> char" where
  "hex_digit n = (if n < 10 then char_of (48 + n) else char_of (87 + n))"

fun show_hex :: "nat \<Rightarrow> string" where
  "show_hex n = (if n < 16 then [hex_digit n] else show_hex (n div 16) @ [hex_digit (n mod 16)])"

declare show_hex.simps [simp del]

text \<open>
  \<open>{:?}\<close> of a \<open>str\<close>: quotes, backslashes and control characters escaped. Bytes of non-ASCII
  characters are kept as they are; the escapes Rust uses for unprintable ones are left out.
\<close>

definition debug_char :: "char \<Rightarrow> string" where
  "debug_char c =
     (let n = (of_char c :: nat)
      in if n = 0 then [CHR 0x5C, CHR ''0'']
         else if n = 9 then [CHR 0x5C, CHR ''t'']
         else if n = 10 then [CHR 0x5C, CHR ''n'']
         else if n = 13 then [CHR 0x5C, CHR ''r'']
         else if n = 34 then [CHR 0x5C, CHR 0x22]
         else if n = 92 then [CHR 0x5C, CHR 0x5C]
         else if n < 32 \<or> n = 127 then [CHR 0x5C, CHR ''u'', CHR 0x7B] @ show_hex n @ [CHR 0x7D]
         else [c])"

definition str_debug :: "string \<Rightarrow> string" where
  "str_debug s = [CHR 0x22] @ concat (map debug_char s) @ [CHR 0x22]"

definition quoted :: "string \<Rightarrow> string" where
  "quoted s = [CHR 0x22] @ s @ [CHR 0x22]"

subsection \<open>UTF-8\<close>

text \<open>
  \<open>utf8_step s\<close> looks at the start of a non-empty byte string: a complete character and its length, or an
  invalid sequence and the length of its maximal prefix, which \<open>from_utf8_lossy\<close> replaces by one U+FFFD.
\<close>

definition byte_at :: "string \<Rightarrow> nat \<Rightarrow> nat" where
  "byte_at s i = (if i < length s then of_char (s ! i) else 0)"

definition is_cont :: "nat \<Rightarrow> bool" where
  "is_cont b \<longleftrightarrow> 0x80 \<le> b \<and> b \<le> 0xBF"

definition second_ok :: "nat \<Rightarrow> nat \<Rightarrow> bool" where
  "second_ok b c \<longleftrightarrow>
     (if b = 0xE0 then 0xA0 \<le> c \<and> c \<le> 0xBF
      else if b = 0xED then 0x80 \<le> c \<and> c \<le> 0x9F
      else if b = 0xF0 then 0x90 \<le> c \<and> c \<le> 0xBF
      else if b = 0xF4 then 0x80 \<le> c \<and> c \<le> 0x8F
      else is_cont c)"

definition utf8_step :: "string \<Rightarrow> bool \<times> nat" where
  "utf8_step s =
     (let b = byte_at s 0
      in if b < 0x80 then (True, 1)
         else if 0xC2 \<le> b \<and> b \<le> 0xDF then (if is_cont (byte_at s 1) then (True, 2) else (False, 1))
         else if 0xE0 \<le> b \<and> b \<le> 0xEF then
           (if \<not> second_ok b (byte_at s 1) then (False, 1)
            else if \<not> is_cont (byte_at s 2) then (False, 2) else (True, 3))
         else if 0xF0 \<le> b \<and> b \<le> 0xF4 then
           (if \<not> second_ok b (byte_at s 1) then (False, 1)
            else if \<not> is_cont (byte_at s 2) then (False, 2)
            else if \<not> is_cont (byte_at s 3) then (False, 3) else (True, 4))
         else (False, 1))"

lemma utf8_step_pos: "utf8_step s = (b, n) \<Longrightarrow> 0 < n"
  by (auto simp: utf8_step_def Let_def split: if_splits)

function from_utf8_lossy :: "string \<Rightarrow> string" where
  "from_utf8_lossy s =
     (if s = [] then []
      else (case utf8_step s of
              (good, n) \<Rightarrow>
                (if good then take n s else [CHR 0xEF, CHR 0xBF, CHR 0xBD]) @ from_utf8_lossy (drop n s)))"
  by pat_completeness auto
termination
  by (relation "measure length") (auto dest: utf8_step_pos [OF sym])

declare from_utf8_lossy.simps [simp del]

function utf8_valid :: "string \<Rightarrow> bool" where
  "utf8_valid s =
     (if s = [] then True else (case utf8_step s of (good, n) \<Rightarrow> good \<and> utf8_valid (drop n s)))"
  by pat_completeness auto
termination
  by (relation "measure length") (auto dest: utf8_step_pos [OF sym])

declare utf8_valid.simps [simp del]

text \<open>\<open>String::from_utf8\<close>.\<close>

definition from_utf8 :: "string \<Rightarrow> string option" where
  "from_utf8 bytes = (if utf8_valid bytes then Some bytes else None)"

lemma from_utf8_lossy_valid: "utf8_valid s \<Longrightarrow> from_utf8_lossy s = s"
proof (induction s rule: utf8_valid.induct)
  case (1 s)
  show ?case
  proof (cases "s = []")
    case True
    then show ?thesis by (simp add: from_utf8_lossy.simps)
  next
    case False
    obtain good n where st: "utf8_step s = (good, n)" by (cases "utf8_step s")
    from 1(2) False st have "good" and "utf8_valid (drop n s)"
      by (auto simp: utf8_valid.simps [of s])
    with 1(1) [OF False st [symmetric]] False st show ?thesis
      by (simp add: from_utf8_lossy.simps [of s])
  qed
qed

subsection \<open>Other functions of the standard library\<close>

text \<open>\<open>str::replace\<close>: every occurrence, left to right, without overlaps.\<close>

function replace_all :: "string \<Rightarrow> string \<Rightarrow> string \<Rightarrow> string" where
  "replace_all pat new s =
     (case s of
        [] \<Rightarrow> []
      | c # cs \<Rightarrow>
         if pat \<noteq> [] \<and> starts_with s pat then new @ replace_all pat new (drop (length pat) s)
         else c # replace_all pat new cs)"
  by pat_completeness auto
termination
  by (relation "measure (\<lambda>(pat, new, s). length s)") auto

declare replace_all.simps [simp del]

definition trim_end_matches :: "char \<Rightarrow> string \<Rightarrow> string" where
  "trim_end_matches c s = rev (dropWhile (\<lambda>x. x = c) (rev s))"

text \<open>\<open>enumerate()\<close>.\<close>

definition enumerate_list :: "'a list \<Rightarrow> (nat \<times> 'a) list" where
  "enumerate_list xs = zip [0..<length xs] xs"

text \<open>A \<open>for\<close> loop over pure code with \<open>?\<close> in its body: the accumulator, or the first error.\<close>

fun try_fold :: "('b \<Rightarrow> 'a \<Rightarrow> 'e + 'b) \<Rightarrow> 'b \<Rightarrow> 'a list \<Rightarrow> 'e + 'b" where
  "try_fold f b [] = Inr b"
| "try_fold f b (x # xs) = rbind (f b x) (\<lambda>b'. try_fold f b' xs)"

fun for_all :: "('a \<Rightarrow> 'e + unit) \<Rightarrow> 'a list \<Rightarrow> 'e + unit" where
  "for_all f [] = Inr ()"
| "for_all f (x # xs) = rbind (f x) (\<lambda>_. for_all f xs)"

lemma for_all_Inr: "for_all f xs = Inr () \<longleftrightarrow> (\<forall>x \<in> set xs. f x = Inr ())"
  by (induction xs) (auto simp: rbind_def split: sum.splits)

lemma rbind_Inr: "rbind r k = Inr b \<longleftrightarrow> (\<exists>a. r = Inr a \<and> k a = Inr b)"
  by (auto simp: rbind_def split: sum.splits)

lemma try_fold_invariant:
  assumes "try_fold f b xs = Inr b'" and "P b"
    and "\<And>x a a'. x \<in> set xs \<Longrightarrow> P a \<Longrightarrow> f a x = Inr a' \<Longrightarrow> P a'"
  shows "P b'"
  using assms by (induction xs arbitrary: b) (auto simp: rbind_Inr)

lemma split_once_Some: "split_once c s = Some (a, b) \<longleftrightarrow> s = a @ [c] @ b \<and> c \<notin> set a"
proof
  assume "split_once c s = Some (a, b)"
  then have "dropWhile (\<lambda>x. x \<noteq> c) s = c # b" and "takeWhile (\<lambda>x. x \<noteq> c) s = a"
    by (auto simp: split_once_def split: list.splits dest: dropWhile_eq_Cons_conv [THEN iffD1])
  then show "s = a @ [c] @ b \<and> c \<notin> set a"
    by (metis (mono_tags, lifting) append_Cons append_Nil set_takeWhileD takeWhile_dropWhile_id)
next
  assume s: "s = a @ [c] @ b \<and> c \<notin> set a"
  then have "takeWhile (\<lambda>x. x \<noteq> c) s = a"
    by (simp only: takeWhile_append2 [where P = "\<lambda>x. x \<noteq> c"]) (subst takeWhile_append2, auto)
  moreover from s have "dropWhile (\<lambda>x. x \<noteq> c) s = c # b"
    by (simp only:) (subst dropWhile_append2, auto)
  ultimately show "split_once c s = Some (a, b)" by (simp add: split_once_def)
qed

lemma split_once_None: "split_once c s = None \<longleftrightarrow> c \<notin> set s"
proof -
  have "split_once c s = None \<longleftrightarrow> dropWhile (\<lambda>x. x \<noteq> c) s = []"
    unfolding split_once_def by (cases "dropWhile (\<lambda>x. x \<noteq> c) s") (simp_all del: dropWhile_eq_Nil_conv)
  also have "\<dots> \<longleftrightarrow> c \<notin> set s" by (auto simp only: dropWhile_eq_Nil_conv)
  finally show ?thesis .
qed

lemma split_once_shorter: "split_once c s = Some (a, b) \<Longrightarrow> length b < length s"
  by (auto simp: split_once_Some)

section \<open>Generic lemmas\<close>

lemma starts_with_append [simp]: "starts_with (p @ s) p"
  by (simp add: starts_with_def)

lemma starts_with_iff: "starts_with s p \<longleftrightarrow> (\<exists>r. s = p @ r)"
  by (metis append_take_drop_id starts_with_append starts_with_def)

lemma strip_prefix_Some: "strip_prefix s p = Some r \<longleftrightarrow> s = p @ r"
  by (auto simp: strip_prefix_def starts_with_def) (metis append_take_drop_id)

lemma strip_suffix_Some: "strip_suffix s p = Some r \<longleftrightarrow> s = r @ p"
  by (auto simp: strip_suffix_def ends_with_def) (metis append_take_drop_id)

lemma split_on_nonempty [simp]: "split_on c s \<noteq> []"
  by (induction s) (auto split: list.splits)

lemma join_split_on: "join [c] (split_on c s) = s"
proof (induction s)
  case Nil
  show ?case by simp
next
  case (Cons x xs)
  then show ?case
    by (cases "split_on c xs"; cases "tl (split_on c xs)") auto
qed

lemma split_on_pieces: "p \<in> set (split_on c s) \<Longrightarrow> c \<notin> set p"
  by (induction s arbitrary: p) (auto split: if_splits list.splits)

lemma concat_split_inclusive [simp]: "concat (split_inclusive c s) = s"
  by (induction s) (auto split: list.splits)

lemma split_inclusive_nonempty: "l \<in> set (split_inclusive c s) \<Longrightarrow> l \<noteq> []"
  by (induction s arbitrary: l) (auto split: if_splits list.splits)

lemma find_map_Some:
  "find_map f xs = Some y \<Longrightarrow> \<exists>x \<in> set xs. f x = Some y"
  by (induction xs) (auto split: option.splits)

lemma find_map_None: "find_map f xs = None \<longleftrightarrow> (\<forall>x \<in> set xs. f x = None)"
  by (induction xs) (auto split: option.splits)

lemma digit_value_char [simp]: "(n::nat) < 10 \<Longrightarrow> digit_value (char_of (48 + n)) = n"
  by (simp add: digit_value_def of_char_of)

lemma is_ascii_digit_char [simp]: "(n::nat) < 10 \<Longrightarrow> is_ascii_digit (char_of (48 + n))"
  by (simp add: is_ascii_digit_def of_char_of)

lemma digits_value_append: "digits_value acc (s @ t) = digits_value (digits_value acc s) t"
  by (induction s arbitrary: acc) auto

lemma show_nat_digits: "show_nat n \<noteq> [] \<and> list_all is_ascii_digit (show_nat n)"
proof (induction n rule: show_nat.induct)
  case (1 n)
  then show ?case by (auto simp: show_nat.simps [of n])
qed

lemma digits_value_show_nat: "digits_value 0 (show_nat n) = n"
proof (induction n rule: show_nat.induct)
  case (1 n)
  then show ?case by (auto simp: show_nat.simps [of n] digits_value_append)
qed

lemma parse_nat_show_nat [simp]: "parse_nat (show_nat n) = Some n"
  using show_nat_digits [of n] by (simp add: parse_nat_def digits_value_show_nat)

lemma show_nat_inj: "show_nat m = show_nat n \<longleftrightarrow> m = n"
  by (metis digits_value_show_nat)

lemma parse_usize_show: "n < 2 ^ 64 \<Longrightarrow> parse_usize (show_nat n) = Some n"
proof -
  obtain c cs where s: "show_nat n = c # cs" using show_nat_digits [of n] by (cases "show_nat n") auto
  with show_nat_digits [of n] have "c \<noteq> CHR ''+''" by (auto simp: is_ascii_digit_def)
  then show "n < 2 ^ 64 \<Longrightarrow> parse_usize (show_nat n) = Some n"
    using parse_nat_show_nat [of n] by (simp add: parse_usize_def s filter_opt_def)
qed

end
