(* ===== verification/Float64.thy ===== *)
theory Float64
  imports Prelude "HOL-Library.Log_Nat" Complex_Main
begin

text \<open>
  Rust's \<open>f64\<close>: IEEE 754 binary64 with rounding to nearest, ties to even.

  A value is a rational number, an infinity or NaN; every arithmetic operation computes the exact
  rational result and rounds it (\<open>rnd\<close>), with gradual underflow and overflow to the infinities.
  Negative zero is not told apart from zero, and all NaNs are one.

  The second part shows what the rest of the development needs of rounding: it is monotone, it keeps
  zero and the sign, and it does not change a value that is already a binary64 number. The
  locale \<open>rounding\<close> collects the first two, and the budget lemmas are proved in it.
\<close>

section \<open>Rounding\<close>

definition round_half_even :: "rat \<Rightarrow> int" where
  "round_half_even x =
     (let f = \<lfloor>x\<rfloor>; d = x - of_int f
      in if d < 1 / 2 then f else if d > 1 / 2 then f + 1 else if even f then f else f + 1)"

text \<open>The exponent of the leading bit of a positive rational, computed on numerator and denominator.\<close>

definition ilog2 :: "rat \<Rightarrow> int" where
  "ilog2 x =
     (let (n, d) = quotient_of x; e = bitlen n - bitlen d
      in if 2 powi e \<le> x then e else e - 1)"

definition ulp_exponent :: "rat \<Rightarrow> int" where
  "ulp_exponent x = max (ilog2 \<bar>x\<bar> - 52) (-1074)"

definition round_rat :: "rat \<Rightarrow> rat" where
  "round_rat x =
     (if x = 0 then 0
      else (let u = 2 powi ulp_exponent x in of_int (round_half_even (x / u)) * u))"

datatype f64 = Fin rat | PInf | NInf | NaN

definition rnd :: "rat \<Rightarrow> f64" where
  "rnd x =
     (let y = round_rat x
      in if 2 ^ 1024 \<le> y then PInf else if y \<le> - (2 ^ 1024) then NInf else Fin y)"

section \<open>Arithmetic and comparison\<close>

fun f64_neg :: "f64 \<Rightarrow> f64" where
  "f64_neg (Fin a) = Fin (- a)"
| "f64_neg PInf = NInf"
| "f64_neg NInf = PInf"
| "f64_neg NaN = NaN"

fun f64_add :: "f64 \<Rightarrow> f64 \<Rightarrow> f64" where
  "f64_add (Fin a) (Fin b) = rnd (a + b)"
| "f64_add NaN _ = NaN"
| "f64_add _ NaN = NaN"
| "f64_add PInf NInf = NaN"
| "f64_add NInf PInf = NaN"
| "f64_add PInf _ = PInf"
| "f64_add _ PInf = PInf"
| "f64_add NInf _ = NInf"
| "f64_add _ NInf = NInf"

definition f64_sub :: "f64 \<Rightarrow> f64 \<Rightarrow> f64" where
  "f64_sub a b = f64_add a (f64_neg b)"

definition f64_sign :: "f64 \<Rightarrow> int" where
  "f64_sign x = (case x of Fin a \<Rightarrow> sgn (if a < 0 then -1 else if a = 0 then 0 else 1) | PInf \<Rightarrow> 1 | NInf \<Rightarrow> -1 | NaN \<Rightarrow> 0)"

definition signed_inf :: "int \<Rightarrow> f64" where
  "signed_inf s = (if s = 0 then NaN else if s < 0 then NInf else PInf)"

definition f64_mul :: "f64 \<Rightarrow> f64 \<Rightarrow> f64" where
  "f64_mul a b =
     (case (a, b) of
        (NaN, _) \<Rightarrow> NaN
      | (_, NaN) \<Rightarrow> NaN
      | (Fin x, Fin y) \<Rightarrow> rnd (x * y)
      | _ \<Rightarrow> signed_inf (f64_sign a * f64_sign b))"

definition f64_div :: "f64 \<Rightarrow> f64 \<Rightarrow> f64" where
  "f64_div a b =
     (case (a, b) of
        (NaN, _) \<Rightarrow> NaN
      | (_, NaN) \<Rightarrow> NaN
      | (Fin x, Fin y) \<Rightarrow> if y = 0 then signed_inf (f64_sign a) else rnd (x / y)
      | (Fin x, _) \<Rightarrow> Fin 0
      | (_, Fin y) \<Rightarrow> signed_inf (f64_sign a * (if y < 0 then -1 else 1))
      | _ \<Rightarrow> NaN)"

fun f64_le :: "f64 \<Rightarrow> f64 \<Rightarrow> bool" where
  "f64_le NaN _ = False"
| "f64_le _ NaN = False"
| "f64_le NInf _ = True"
| "f64_le _ PInf = True"
| "f64_le (Fin a) (Fin b) = (a \<le> b)"
| "f64_le _ _ = False"

text \<open>\<open>==\<close> on \<open>f64\<close>: NaN is equal to nothing.\<close>

definition f64_eq :: "f64 \<Rightarrow> f64 \<Rightarrow> bool" where
  "f64_eq a b \<longleftrightarrow> a \<noteq> NaN \<and> a = b"

definition f64_lt :: "f64 \<Rightarrow> f64 \<Rightarrow> bool" where
  "f64_lt a b \<longleftrightarrow> f64_le a b \<and> a \<noteq> b"

text \<open>\<open>f64::max\<close> and \<open>f64::min\<close> return the other operand when one is NaN.\<close>

definition f64_max :: "f64 \<Rightarrow> f64 \<Rightarrow> f64" where
  "f64_max a b = (if a = NaN then b else if b = NaN then a else if f64_le a b then b else a)"

definition f64_min :: "f64 \<Rightarrow> f64 \<Rightarrow> f64" where
  "f64_min a b = (if a = NaN then b else if b = NaN then a else if f64_le a b then a else b)"

definition f64_is_finite :: "f64 \<Rightarrow> bool" where
  "f64_is_finite x = (case x of Fin _ \<Rightarrow> True | _ \<Rightarrow> False)"

definition f64_abs :: "f64 \<Rightarrow> f64" where
  "f64_abs x = (case x of Fin a \<Rightarrow> Fin \<bar>a\<bar> | NInf \<Rightarrow> PInf | y \<Rightarrow> y)"

definition f64_less :: "f64 \<Rightarrow> f64 \<Rightarrow> bool" where
  "f64_less x y \<longleftrightarrow> f64_le x y \<and> \<not> f64_le y x"

definition f64_of_int :: "int \<Rightarrow> f64" where
  "f64_of_int i = rnd (of_int i)"

definition f64_ceil :: "f64 \<Rightarrow> f64" where
  "f64_ceil x = (case x of Fin a \<Rightarrow> Fin (of_int \<lceil>a\<rceil>) | y \<Rightarrow> y)"

text \<open>\<open>f64::round\<close>: half away from zero.\<close>

definition f64_round :: "f64 \<Rightarrow> f64" where
  "f64_round x =
     (case x of
        Fin a \<Rightarrow> Fin (if a < 0 then - of_int \<lfloor>- a + 1 / 2\<rfloor> else of_int \<lfloor>a + 1 / 2\<rfloor>)
      | y \<Rightarrow> y)"

text \<open>The saturating cast \<open>as u32\<close>.\<close>

definition f64_as_u32 :: "f64 \<Rightarrow> nat" where
  "f64_as_u32 x =
     (case x of
        Fin a \<Rightarrow> (if a \<le> 0 then 0 else min (nat \<lfloor>a\<rfloor>) (2 ^ 32 - 1))
      | PInf \<Rightarrow> 2 ^ 32 - 1
      | NInf \<Rightarrow> 0
      | NaN \<Rightarrow> 0)"

text \<open>\<open>iter().sum::<f64>()\<close>.\<close>

definition f64_sum :: "f64 list \<Rightarrow> f64" where
  "f64_sum xs = foldl f64_add (Fin 0) xs"

section \<open>Text\<close>

text \<open>
  \<open>str::parse::<f64>\<close>: an optional sign, then \<open>inf\<close>, \<open>infinity\<close> or \<open>nan\<close> in any case, or a decimal
  number with at least one digit before or after the point and an optional exponent. The result is
  the correctly rounded value.
\<close>

definition parse_exponent :: "string \<Rightarrow> int option" where
  "parse_exponent s =
     (case s of
        [] \<Rightarrow> None
      | c # cs \<Rightarrow>
         (if c = CHR ''-'' then map_option (\<lambda>n. - int n) (parse_nat cs)
          else if c = CHR ''+'' then map_option int (parse_nat cs)
          else map_option int (parse_nat s)))"

definition parse_decimal :: "string \<Rightarrow> rat option" where
  "parse_decimal s =
     (let int_part = takeWhile is_ascii_digit s;
          s1 = dropWhile is_ascii_digit s;
          (frac_part, s2) =
            (case s1 of
               [] \<Rightarrow> ([], [])
             | c # cs \<Rightarrow>
                if c = CHR ''.'' then (takeWhile is_ascii_digit cs, dropWhile is_ascii_digit cs)
                else ([], s1));
          mantissa = of_nat (digits_value 0 (int_part @ frac_part))
                       / 10 ^ length frac_part
      in if int_part = [] \<and> frac_part = [] then None
         else (case s2 of
                 [] \<Rightarrow> Some mantissa
               | c # cs \<Rightarrow>
                  if c = CHR ''e'' \<or> c = CHR ''E''
                  then map_option (\<lambda>e. mantissa * 10 powi e) (parse_exponent cs)
                  else None))"

definition parse_f64 :: "string \<Rightarrow> f64 option" where
  "parse_f64 s =
     (let (neg, body) =
            (case s of
               [] \<Rightarrow> (False, [])
             | c # cs \<Rightarrow> if c = CHR ''-'' then (True, cs) else if c = CHR ''+'' then (False, cs) else (False, s));
          lower = map to_ascii_lower body;
          r = (if lower = ''inf'' \<or> lower = ''infinity'' then Some PInf
               else if lower = ''nan'' then Some NaN
               else map_option rnd (parse_decimal body))
      in map_option (\<lambda>x. if neg then f64_neg x else x) r)"

text \<open>\<open>{:.n}\<close>: \<open>n\<close> decimals, the exact value rounded to nearest with ties to even.\<close>

definition show_fixed_rat :: "nat \<Rightarrow> rat \<Rightarrow> string" where
  "show_fixed_rat n q =
     (let m = nat (round_half_even (\<bar>q\<bar> * 10 ^ n));
          frac = show_nat (m mod 10 ^ n);
          pad = replicate (n - length frac) (CHR ''0'')
      in (if q < 0 then ''-'' else []) @ show_nat (m div 10 ^ n)
         @ (if n = 0 then [] else ''.'' @ pad @ frac))"

definition show_fixed :: "nat \<Rightarrow> f64 \<Rightarrow> string" where
  "show_fixed n x =
     (case x of Fin q \<Rightarrow> show_fixed_rat n q | PInf \<Rightarrow> ''inf'' | NInf \<Rightarrow> ''-inf'' | NaN \<Rightarrow> ''NaN'')"

text \<open>\<open>{:+.n}\<close>: the same with an explicit sign.\<close>

definition show_fixed_signed :: "nat \<Rightarrow> f64 \<Rightarrow> string" where
  "show_fixed_signed n x =
     (case x of
        Fin q \<Rightarrow> (if q < 0 then [] else ''+'') @ show_fixed_rat n q
      | PInf \<Rightarrow> ''+inf'' | NInf \<Rightarrow> ''-inf'' | NaN \<Rightarrow> ''NaN'')"

section \<open>Rounding to an integer\<close>

lemma round_half_even_bounds: "\<lfloor>x\<rfloor> \<le> round_half_even x" "round_half_even x \<le> \<lfloor>x\<rfloor> + 1"
  by (auto simp: round_half_even_def Let_def)

lemma round_half_even_mono: "x \<le> y \<Longrightarrow> round_half_even x \<le> round_half_even y"
proof (cases "\<lfloor>x\<rfloor> = \<lfloor>y\<rfloor>")
  case True
  assume "x \<le> y"
  with True show ?thesis by (auto simp: round_half_even_def Let_def)
next
  case False
  assume "x \<le> y"
  with False have "\<lfloor>x\<rfloor> + 1 \<le> \<lfloor>y\<rfloor>" using floor_mono [of x y] by linarith
  then show ?thesis
    using round_half_even_bounds(2) [of x] round_half_even_bounds(1) [of y] by linarith
qed

lemma round_half_even_of_int [simp]: "round_half_even (of_int n) = n"
  by (simp add: round_half_even_def)

lemma round_half_even_minus: "round_half_even (- x) = - round_half_even x"
proof (cases "x = of_int \<lfloor>x\<rfloor>")
  case True
  then obtain n where "x = of_int n" by blast
  then show ?thesis by (simp flip: of_int_minus)
next
  case False
  then have "\<lfloor>- x\<rfloor> = - \<lfloor>x\<rfloor> - 1"
    using floor_correct [of x] by (intro floor_unique) linarith+
  moreover from this have "even \<lfloor>- x\<rfloor> = odd \<lfloor>x\<rfloor>" by simp
  ultimately show ?thesis
    by (auto simp: round_half_even_def Let_def field_simps)
qed

lemma round_half_even_le: "x \<le> of_int n \<Longrightarrow> round_half_even x \<le> n"
  by (metis round_half_even_mono round_half_even_of_int)

lemma round_half_even_ge: "of_int n \<le> x \<Longrightarrow> n \<le> round_half_even x"
  by (metis round_half_even_mono round_half_even_of_int)

section \<open>The exponent\<close>

lemma pow2_pos [simp]: "0 < (2::rat) powi e"
  by (simp add: zero_less_power_int)

lemma pow2_le_iff: "(2::rat) powi a \<le> 2 powi b \<longleftrightarrow> a \<le> b"
  by (metis linorder_not_le one_less_numeral_iff order_le_less power_int_increasing
        power_int_strict_increasing semiring_norm(76))

lemma pow2_less_iff: "(2::rat) powi a < 2 powi b \<longleftrightarrow> a < b"
  by (metis linorder_not_le pow2_le_iff)

lemma pow2_add: "(2::rat) powi (a + b) = 2 powi a * 2 powi b"
  by (simp add: power_int_add)

lemma bitlen_pow_bounds:
  assumes "0 < n"
  shows "2 powi (bitlen n - 1) \<le> (of_int n :: rat)" and "(of_int n :: rat) < 2 powi (bitlen n)"
proof -
  from assms have pos: "1 \<le> bitlen n"
    using bitlen_eq_zero_iff [of n] bitlen_nonneg [of n] by linarith
  from bitlen_bounds [OF assms] have "2 ^ nat (bitlen n - 1) \<le> n" and lt: "n < 2 ^ nat (bitlen n)"
    by auto
  then have "(of_int (2 ^ nat (bitlen n - 1)) :: rat) \<le> of_int n" by (simp only: of_int_le_iff)
  then show "2 powi (bitlen n - 1) \<le> (of_int n :: rat)"
    using pos by (simp add: power_int_def)
  from lt have "(of_int n :: rat) < of_int (2 ^ nat (bitlen n))" by (simp only: of_int_less_iff)
  then show "(of_int n :: rat) < 2 powi (bitlen n)"
    using pos by (simp add: power_int_def)
qed

lemma ilog2_bounds:
  assumes "0 < x"
  shows "2 powi (ilog2 x) \<le> x" and "x < 2 powi (ilog2 x + 1)"
proof -
  obtain n d where q: "quotient_of x = (n, d)" by (cases "quotient_of x")
  then have d: "0 < d" by (rule quotient_of_denom_pos)
  from q have x: "x = of_int n / of_int d" by (rule quotient_of_div)
  with assms d have n: "0 < n" by (simp add: zero_less_divide_iff)
  let ?e = "bitlen n - bitlen d"
  note bn = bitlen_pow_bounds [OF n] and bd = bitlen_pow_bounds [OF d]
  have split1: "(2::rat) powi (?e - 1) * 2 powi (bitlen d) = 2 powi (bitlen n - 1)"
    by (simp flip: pow2_add)
  have split2: "(2::rat) powi (?e + 1) * 2 powi (bitlen d - 1) = 2 powi (bitlen n)"
    by (simp flip: pow2_add)
  have "2 powi (?e - 1) * of_int d \<le> (2::rat) powi (?e - 1) * 2 powi (bitlen d)"
    using bd(2) by (intro mult_left_mono) auto
  also have "\<dots> \<le> of_int n" using split1 bn(1) by simp
  finally have low: "2 powi (?e - 1) \<le> x" using d by (simp add: x le_divide_eq)
  have "of_int n < (2::rat) powi (?e + 1) * 2 powi (bitlen d - 1)" using split2 bn(2) by simp
  also have "\<dots> \<le> 2 powi (?e + 1) * of_int d"
    using bd(1) by (intro mult_left_mono) auto
  finally have high: "x < 2 powi (?e + 1)" using d by (simp add: x divide_less_eq)
  show "2 powi (ilog2 x) \<le> x" and "x < 2 powi (ilog2 x + 1)"
    using low high by (auto simp: ilog2_def q Let_def)
qed

lemma ilog2_mono: "0 < x \<Longrightarrow> x \<le> y \<Longrightarrow> ilog2 x \<le> ilog2 y"
proof -
  assume "0 < x" and "x \<le> y"
  then have "(2::rat) powi (ilog2 x) < 2 powi (ilog2 y + 1)"
    using ilog2_bounds(1) [of x] ilog2_bounds(2) [of y] by linarith
  then show ?thesis by (simp add: pow2_less_iff)
qed

lemma ilog2_eqI: "2 powi e \<le> x \<Longrightarrow> x < 2 powi (e + 1) \<Longrightarrow> ilog2 x = e"
proof -
  assume a: "2 powi e \<le> x" and b: "x < 2 powi (e + 1)"
  from a have "0 < x" using pow2_pos [of e] by linarith
  then have "(2::rat) powi e < 2 powi (ilog2 x + 1)" and "(2::rat) powi (ilog2 x) < 2 powi (e + 1)"
    using a b ilog2_bounds [of x] by linarith+
  then show ?thesis by (simp add: pow2_less_iff)
qed

section \<open>Rounding is monotone and keeps binary64 numbers\<close>

lemma round_rat_zero [simp]: "round_rat 0 = 0"
  by (simp add: round_rat_def)

lemma ulp_exponent_minus [simp]: "ulp_exponent (- x) = ulp_exponent x"
  by (simp add: ulp_exponent_def)

lemma round_rat_minus: "round_rat (- x) = - round_rat x"
  by (simp add: round_rat_def Let_def round_half_even_minus)

lemma round_rat_nonneg: "0 \<le> x \<Longrightarrow> 0 \<le> round_rat x"
  using round_half_even_ge [of 0 "x / 2 powi ulp_exponent x"]
  by (auto simp: round_rat_def Let_def less_imp_le)

lemma scaled_bound:
  assumes "x \<noteq> 0"
  shows "\<bar>x / 2 powi ulp_exponent x\<bar> < 2 ^ 53"
proof -
  have "\<bar>x\<bar> < 2 powi (ilog2 \<bar>x\<bar> + 1)" using ilog2_bounds(2) [of "\<bar>x\<bar>"] assms by simp
  also have "\<dots> \<le> 2 powi (ulp_exponent x + 53)" by (auto simp: pow2_le_iff ulp_exponent_def)
  also have "\<dots> = 2 ^ 53 * 2 powi ulp_exponent x" by (simp add: pow2_add mult.commute)
  finally show ?thesis by (simp add: abs_divide divide_less_eq)
qed

lemma round_rat_mono_pos:
  assumes "0 < x" and "x \<le> y"
  shows "round_rat x \<le> round_rat y"
proof (cases "ulp_exponent x = ulp_exponent y")
  case True
  have "round_half_even (x / 2 powi ulp_exponent y) \<le> round_half_even (y / 2 powi ulp_exponent y)"
    using assms by (intro round_half_even_mono divide_right_mono) (auto simp: less_imp_le)
  with True assms show ?thesis by (simp add: round_rat_def Let_def)
next
  case False
  with ilog2_mono [OF assms] assms have lt: "ulp_exponent x < ulp_exponent y"
    by (auto simp: ulp_exponent_def split: if_splits)
  have "x / 2 powi ulp_exponent x \<le> of_int (2 ^ 53)"
    using scaled_bound [of x] assms by simp
  then have "(of_int (round_half_even (x / 2 powi ulp_exponent x)) :: rat) \<le> of_int (2 ^ 53)"
    using round_half_even_le of_int_le_iff by blast
  then have rx: "round_rat x \<le> 2 ^ 53 * 2 powi ulp_exponent x"
    using assms by (simp add: round_rat_def Let_def mult_right_mono)
  from lt have e: "ulp_exponent y = ilog2 y - 52"
    using assms by (auto simp: ulp_exponent_def split: if_splits)
  have "(2::rat) ^ 52 * 2 powi ulp_exponent y = 2 powi (ilog2 y)"
    unfolding e using pow2_add [of 52 "ilog2 y - 52"] by simp
  then have "of_int (2 ^ 52) \<le> y / 2 powi ulp_exponent y"
    using ilog2_bounds(1) [of y] assms by (simp add: le_divide_eq)
  then have "(of_int (2 ^ 52) :: rat) \<le> of_int (round_half_even (y / 2 powi ulp_exponent y))"
    using round_half_even_ge of_int_le_iff by blast
  then have ry: "2 ^ 52 * 2 powi ulp_exponent y \<le> round_rat y"
    using assms by (simp add: round_rat_def Let_def mult_right_mono)
  have "(2::rat) ^ 53 * 2 powi ulp_exponent x = 2 ^ 52 * 2 powi (ulp_exponent x + 1)"
    using pow2_add [of "ulp_exponent x" 1] by simp
  also have "\<dots> \<le> 2 ^ 52 * 2 powi ulp_exponent y" using lt by (simp add: pow2_le_iff)
  finally show ?thesis using rx ry by linarith
qed

lemma round_rat_mono: "x \<le> y \<Longrightarrow> round_rat x \<le> round_rat y"
proof -
  assume xy: "x \<le> y"
  consider "0 < x" | "x = 0" | "x < 0" "y \<le> 0" | "x < 0" "0 < y" by linarith
  then show ?thesis
  proof cases
    case 1
    then show ?thesis using xy by (rule round_rat_mono_pos)
  next
    case 2
    then show ?thesis using round_rat_nonneg [of y] xy by simp
  next
    case 3
    have "round_rat (- y) \<le> round_rat (- x)"
    proof (cases "y = 0")
      case True
      with 3 show ?thesis using round_rat_nonneg [of "- x"] by simp
    next
      case False
      with 3 xy show ?thesis by (intro round_rat_mono_pos) auto
    qed
    then show ?thesis by (simp add: round_rat_minus)
  next
    case 4
    then show ?thesis
      using round_rat_nonneg [of "- x"] round_rat_nonneg [of y] by (simp add: round_rat_minus)
  qed
qed

definition representable :: "rat \<Rightarrow> bool" where
  "representable y \<longleftrightarrow> (\<exists>m e. y = of_int m * 2 powi e \<and> \<bar>m\<bar> \<le> 2 ^ 53 \<and> - 1074 \<le> e)"

lemma round_rat_exact:
  assumes "y = of_int k * 2 powi ulp_exponent y"
  shows "round_rat y = y"
proof -
  have "y / 2 powi ulp_exponent y = of_int k" by (subst assms) simp
  then show ?thesis using assms by (simp add: round_rat_def Let_def)
qed

lemma round_rat_representable:
  assumes "representable y"
  shows "round_rat y = y"
proof (cases "y = 0")
  case False
  from assms obtain m e where y: "y = of_int m * 2 powi e" and m: "\<bar>m\<bar> \<le> 2 ^ 53" and e: "- 1074 \<le> e"
    by (auto simp: representable_def)
  let ?k = "ulp_exponent y"
  show ?thesis
  proof (cases "?k \<le> e")
    case True
    then have "(2::rat) powi e = of_int (2 ^ nat (e - ?k)) * 2 powi ?k"
      using pow2_add [of "e - ?k" ?k] by (simp add: power_int_def)
    then have "y = of_int (m * 2 ^ nat (e - ?k)) * 2 powi ?k" using y by simp
    then show ?thesis by (rule round_rat_exact)
  next
    case gt: False
    then have k: "?k = ilog2 \<bar>y\<bar> - 52" using e by (auto simp: ulp_exponent_def split: if_splits)
    have "(2::rat) powi (e + 53) \<le> 2 powi (ilog2 \<bar>y\<bar>)" using gt k by (simp add: pow2_le_iff)
    also have "\<dots> \<le> \<bar>y\<bar>" using False by (intro ilog2_bounds) simp
    also have "\<dots> = of_int \<bar>m\<bar> * 2 powi e" by (simp add: y abs_mult)
    finally have "(2::rat) ^ 53 \<le> of_int \<bar>m\<bar>" by (simp add: pow2_add mult.commute)
    then have "(of_int (2 ^ 53) :: rat) \<le> of_int \<bar>m\<bar>" by simp
    then have m': "\<bar>m\<bar> = 2 ^ 53" using m by linarith
    then have "\<bar>y\<bar> = 2 powi (e + 53)" by (simp add: y abs_mult pow2_add mult.commute flip: of_int_abs)
    then have "ilog2 \<bar>y\<bar> = e + 53" by (intro ilog2_eqI) (simp_all add: pow2_less_iff)
    then have "?k = e + 1" using k by simp
    moreover have "y = of_int (sgn m * 2 ^ 52) * 2 powi (e + 1)"
    proof -
      have "m = sgn m * \<bar>m\<bar>" by (simp add: sgn_mult_abs)
      then have "(of_int m :: rat) = of_int (sgn m * 2 ^ 52) * 2" using m' by simp
      then show ?thesis by (simp add: y pow2_add)
    qed
    ultimately have "y = of_int (sgn m * 2 ^ 52) * 2 powi ?k" by simp
    then show ?thesis by (rule round_rat_exact)
  qed
qed simp

lemma representable_round_rat: "representable (round_rat x)"
proof (cases "x = 0")
  case True
  then show ?thesis by (auto simp: representable_def intro: exI [of _ 0])
next
  case False
  let ?s = "x / 2 powi ulp_exponent x"
  have "?s \<le> 2 ^ 53 \<and> - (2 ^ 53) \<le> ?s"
    using scaled_bound [OF False] unfolding abs_less_iff by linarith
  then have "?s \<le> of_int (2 ^ 53)" and "of_int (- (2 ^ 53)) \<le> ?s" by simp_all
  then have "round_half_even ?s \<le> 2 ^ 53" and "- (2 ^ 53) \<le> round_half_even ?s"
    by (auto intro: round_half_even_le round_half_even_ge)
  then have "\<bar>round_half_even ?s\<bar> \<le> 2 ^ 53" by linarith
  with False show ?thesis
    unfolding representable_def round_rat_def Let_def
    by (intro exI [of _ "round_half_even ?s"] exI [of _ "ulp_exponent x"])
       (auto simp: ulp_exponent_def)
qed

lemma round_rat_idem [simp]: "round_rat (round_rat x) = round_rat x"
  by (rule round_rat_representable [OF representable_round_rat])

text \<open>What the arithmetic lemmas below need of a rounding function.\<close>

locale rounding =
  fixes r :: "rat \<Rightarrow> rat"
  assumes r_mono: "x \<le> y \<Longrightarrow> r x \<le> r y"
    and r_zero: "r 0 = 0"
    and r_idem: "r (r x) = r x"
begin

lemma r_nonneg: "0 \<le> x \<Longrightarrow> 0 \<le> r x"
  using r_mono [of 0 x] by (simp add: r_zero)

lemma r_nonpos: "x \<le> 0 \<Longrightarrow> r x \<le> 0"
  using r_mono [of x 0] by (simp add: r_zero)

lemma r_add_nonneg: "r b = b \<Longrightarrow> 0 \<le> a \<Longrightarrow> b \<le> r (b + a)"
  using r_mono [of b "b + a"] by simp

lemma r_add_nonpos: "r b = b \<Longrightarrow> a \<le> 0 \<Longrightarrow> r (b + a) \<le> b"
  using r_mono [of "b + a" b] by simp

lemma r_le_fixed: "r y = y \<Longrightarrow> x \<le> y \<Longrightarrow> r x \<le> y"
  using r_mono [of x y] by simp

lemma r_ge_fixed: "r y = y \<Longrightarrow> y \<le> x \<Longrightarrow> y \<le> r x"
  using r_mono [of y x] by simp

end

interpretation binary64: rounding round_rat
  by unfold_locales (auto intro: round_rat_mono)

section \<open>Evaluation on exactly representable numbers\<close>

lemma representable_dyadic: "\<bar>m\<bar> \<le> 2 ^ 53 \<Longrightarrow> k \<le> 1074 \<Longrightarrow> representable (of_int m / 2 ^ k)"
  unfolding representable_def
  by (intro exI [of _ m] exI [of _ "- int k"]) (simp add: power_int_minus divide_inverse)

lemma rnd_representable: "representable q \<Longrightarrow> \<bar>q\<bar> < 2 ^ 1024 \<Longrightarrow> rnd q = Fin q"
  unfolding rnd_def Let_def by (simp only: round_rat_representable) (auto simp: abs_less_iff not_le)

lemma dyadic_small:
  assumes "\<bar>m\<bar> \<le> 2 ^ 53"
  shows "\<bar>(of_int m :: rat) / 2 ^ k\<bar> < 2 ^ 1024"
proof -
  have "\<bar>(of_int m :: rat) / 2 ^ k\<bar> \<le> \<bar>of_int m\<bar>"
    by (simp add: abs_divide divide_le_eq mult_le_cancel_left1 abs_le_zero_iff)
  also have "\<dots> = of_int \<bar>m\<bar>" by simp
  also have "\<dots> \<le> (of_int (2 ^ 53) :: rat)" using assms by (simp only: of_int_le_iff)
  also have "\<dots> < 2 ^ 1024" by simp
  finally show ?thesis .
qed

lemma rnd_dyadic: "\<bar>m\<bar> \<le> 2 ^ 53 \<Longrightarrow> k \<le> 1074 \<Longrightarrow> rnd (of_int m / 2 ^ k) = Fin (of_int m / 2 ^ k)"
  by (intro rnd_representable representable_dyadic dyadic_small)

lemma rnd_of_int: "\<bar>m\<bar> \<le> 2 ^ 53 \<Longrightarrow> rnd (of_int m) = Fin (of_int m)"
  using rnd_dyadic [of m 0] by simp

lemma rnd_simps [simp]:
  "rnd 0 = Fin 0"
  "rnd 1 = Fin 1"
  "(numeral n :: int) \<le> 2 ^ 53 \<Longrightarrow> rnd (numeral n) = Fin (numeral n)"
  "(numeral n :: int) \<le> 2 ^ 53 \<Longrightarrow> rnd (- numeral n) = Fin (- numeral n)"
  using rnd_of_int [of 0] rnd_of_int [of 1] rnd_of_int [of "numeral n"] rnd_of_int [of "- numeral n"]
  by simp_all

lemma rnd_Fin: "rnd x = Fin y \<Longrightarrow> y = round_rat x"
  by (auto simp: rnd_def Let_def split: if_splits)

lemma rnd_not_NaN [simp]: "rnd x \<noteq> NaN"
  by (simp add: rnd_def Let_def)

lemma rnd_mono: "x \<le> y \<Longrightarrow> f64_le (rnd x) (rnd y)"
  using round_rat_mono [of x y] by (auto simp: rnd_def Let_def)

end
