(* ===== verification/Json.thy ===== *)
theory Json
  imports Float64
begin

text \<open>
  The JSON values the program reads its specs from (\<open>serde_json::Value\<close>): the enum with its
  variants, and the accessors the source calls. An object is the list of its entries in key order,
  with distinct keys. A JSON pointer such as \<open>/template/spec\<close> is written as the list of its
  tokens. Reading and printing JSON text is the library's own code and stays a parameter
  (theory World).
\<close>

datatype json =
    JNull
  | JBool bool
  | JPos nat
  | JNeg int
  | JFloat f64
  | JStr string
  | JArr "json list"
  | JObj "(string \<times> json) list"

fun get :: "json \<Rightarrow> string \<Rightarrow> json option" where
  "get (JObj kvs) k = map_of kvs k"
| "get _ k = None"

fun as_bool :: "json \<Rightarrow> bool option" where
  "as_bool (JBool b) = Some b"
| "as_bool _ = None"

fun as_str :: "json \<Rightarrow> string option" where
  "as_str (JStr s) = Some s"
| "as_str _ = None"

fun as_array :: "json \<Rightarrow> json list option" where
  "as_array (JArr xs) = Some xs"
| "as_array _ = None"

fun as_object :: "json \<Rightarrow> (string \<times> json) list option" where
  "as_object (JObj kvs) = Some kvs"
| "as_object _ = None"

fun as_i64 :: "json \<Rightarrow> int option" where
  "as_i64 (JPos n) = (if int n < 2 ^ 63 then Some (int n) else None)"
| "as_i64 (JNeg i) = Some i"
| "as_i64 _ = None"

fun as_u64 :: "json \<Rightarrow> nat option" where
  "as_u64 (JPos n) = Some n"
| "as_u64 _ = None"

definition is_null :: "json \<Rightarrow> bool" where
  "is_null v \<longleftrightarrow> v = JNull"

text \<open>An array index in a pointer has no sign and no leading zero.\<close>

definition parse_index :: "string \<Rightarrow> nat option" where
  "parse_index s =
     (case s of
        [] \<Rightarrow> None
      | c # cs \<Rightarrow> if c = CHR ''+'' \<or> (c = CHR ''0'' \<and> cs \<noteq> []) then None else parse_usize s)"

fun pointer :: "json \<Rightarrow> string list \<Rightarrow> json option" where
  "pointer v [] = Some v"
| "pointer v (t # ts) =
     (case v of
        JObj kvs \<Rightarrow> Option.bind (map_of kvs t) (\<lambda>v'. pointer v' ts)
      | JArr xs \<Rightarrow>
          (case parse_index t of
             None \<Rightarrow> None
           | Some i \<Rightarrow> if i < length xs then pointer (xs ! i) ts else None)
      | _ \<Rightarrow> None)"

text \<open>\<open>value["key"]\<close>: \<open>null\<close> where there is no such key.\<close>

definition index_str :: "json \<Rightarrow> string \<Rightarrow> json" where
  "index_str v k = unwrap_or JNull (get v k)"

definition get_str :: "json \<Rightarrow> string \<Rightarrow> string option" where
  "get_str v k = Option.bind (get v k) as_str"

definition get_array :: "json \<Rightarrow> string \<Rightarrow> json list option" where
  "get_array v k = Option.bind (get v k) as_array"

definition pointer_str :: "json \<Rightarrow> string list \<Rightarrow> string option" where
  "pointer_str v p = Option.bind (pointer v p) as_str"

lemma pointer_append: "pointer v (p @ q) = Option.bind (pointer v p) (\<lambda>u. pointer u q)"
proof (induction p arbitrary: v)
  case Nil
  show ?case by simp
next
  case (Cons t ts)
  show ?case
    by (cases v) (auto simp: Cons.IH split: option.split bind_splits)
qed

lemma parse_index_0 [simp]: "parse_index ''0'' = Some 0"
  by (simp add: parse_index_def parse_usize_def filter_opt_def parse_nat_def is_ascii_digit_def
        digit_value_def)

lemma pointer_single_get: "pointer (JObj kvs) [k] = get (JObj kvs) k"
  by (simp split: bind_splits)

end
