(* ===== verification/Providers.thy ===== *)
theory Providers
  imports Json
begin

text \<open>
  The seam between the reconciliation loop and the cloud, \<open>src/src/providers/mod.rs\<close>: the request and
  resource types, the error type and the \<open>CloudProvider\<close> trait as a record of operations over the
  state of the outside world. The one implementation in the source is in theory UpCloud.
\<close>

datatype provider_error =
    AuthenticationFailed string
  | NotFound string
  | Api nat string
  | Request string

fun provider_error_to_string :: "provider_error \<Rightarrow> string" where
  "provider_error_to_string (AuthenticationFailed m) = ''authentication failed: '' @ m"
| "provider_error_to_string (NotFound m) = ''resource not found: '' @ m"
| "provider_error_to_string (Api status m) = ''provider API error ('' @ show_nat status @ ''): '' @ m"
| "provider_error_to_string (Request m) = ''request failed: '' @ m"

record create_volume_request =
  cv_size_gb :: nat
  cv_tier :: string
  cv_title :: string
  cv_zone :: string

record volume =
  vol_id :: string
  vol_size_gb :: nat
  vol_tier :: string
  vol_title :: string
  vol_zone :: string

record create_server_request =
  cs_title :: string
  cs_hostname :: string
  cs_zone :: string
  cs_plan :: string
  cs_template_uuid :: string
  cs_boot_disk_size_gb :: nat
  cs_boot_disk_tier :: string
  cs_ssh_public_keys :: "string list"
  cs_user_data :: string

record server =
  srv_id :: string
  srv_title :: string
  srv_state :: string
  srv_public_ipv4 :: "string option"
  srv_public_ipv6 :: "string option"

definition is_started :: "server \<Rightarrow> bool" where
  "is_started s \<longleftrightarrow> srv_state s = ''started''"

definition is_stopped :: "server \<Rightarrow> bool" where
  "is_stopped s \<longleftrightarrow> srv_state s = ''stopped''"

datatype firewall_direction = In | Out
datatype firewall_action = Accept | Drop
datatype firewall_family = Ipv4 | Ipv6

record firewall_rule =
  fw_direction :: firewall_direction
  fw_action :: firewall_action
  fw_family :: firewall_family
  fw_protocol :: "string option"
  fw_source_address :: "string option"
  fw_source_port_start :: "string option"
  fw_source_port_end :: "string option"
  fw_destination_port_start :: "string option"
  fw_destination_port_end :: "string option"

record price_entry =
  pe_amount :: f64
  pe_price :: f64
  pe_currency :: string

record plan_info =
  pi_name :: string
  pi_cpu_cores :: nat
  pi_memory_mb :: nat
  pi_storage_gb :: nat
  pi_storage_tier :: "string option"
  pi_gpu_count :: nat
  pi_current_offering :: bool

text \<open>
  \<open>trait CloudProvider\<close>. Each operation takes the state of the outside world and returns its
  result and the state afterwards; a failing call may have changed the world too.
\<close>

record 'x cloud_provider =
  provider_name :: string
  invoice_issuer_name :: string
  create_volume :: "create_volume_request \<Rightarrow> 'x \<Rightarrow> (provider_error + volume) \<times> 'x"
  delete_volume :: "string \<Rightarrow> 'x \<Rightarrow> (provider_error + unit) \<times> 'x"
  list_volumes :: "string \<Rightarrow> 'x \<Rightarrow> (provider_error + volume list) \<times> 'x"
  attach_volume :: "string \<Rightarrow> string \<Rightarrow> 'x \<Rightarrow> (provider_error + unit) \<times> 'x"
  detach_volume :: "string \<Rightarrow> string \<Rightarrow> 'x \<Rightarrow> (provider_error + unit) \<times> 'x"
  create_server :: "create_server_request \<Rightarrow> 'x \<Rightarrow> (provider_error + server) \<times> 'x"
  get_server :: "string \<Rightarrow> 'x \<Rightarrow> (provider_error + server) \<times> 'x"
  stop_server :: "string \<Rightarrow> 'x \<Rightarrow> (provider_error + server) \<times> 'x"
  delete_server :: "string \<Rightarrow> 'x \<Rightarrow> (provider_error + unit) \<times> 'x"
  list_servers :: "string \<Rightarrow> 'x \<Rightarrow> (provider_error + server list) \<times> 'x"
  create_firewall_rules :: "string \<Rightarrow> firewall_rule list \<Rightarrow> 'x \<Rightarrow> (provider_error + unit) \<times> 'x"
  list_firewall_rules :: "string \<Rightarrow> 'x \<Rightarrow> (provider_error + firewall_rule list) \<times> 'x"
  get_zone_prices :: "string \<Rightarrow> 'x \<Rightarrow> (provider_error + (string \<times> price_entry) list) \<times> 'x"
  list_plans :: "'x \<Rightarrow> (provider_error + plan_info list) \<times> 'x"

end
