(* ===== verification/World.thy ===== *)
theory World
  imports Providers
begin

text \<open>
  What a function of the program can reach: the SQLite database (tables of \<open>src/src/db/schema.sql\<close> with
  the columns that \<open>src/src/db/migrations.rs\<close> adds) and the world outside the process.

  \<^item> A table is the list of its rows. A query is a function on the database, a statement a function
    to a new database or to the text of a constraint violation.
  \<^item> Code that is not part of the repository is a parameter: \<open>libs\<close> holds pure library functions
    (JSON text and patches, base64, RFC 3339 dates, cron expressions, the shortest text of a double),
    \<open>services\<close> adds the effectful ones (clock, UUIDs, failures of SQLite statements, the wake-up of the
    job loop, SSH sessions). Time is counted in nanoseconds since the
    Unix epoch, and \<open>timestamp\<close> is \<open>DateTime::timestamp\<close>.
  \<^item> Every SQL statement may fail (\<open>db_fault\<close>), so each \<open>?\<close> after one is an early return of the model;
    a crash between two statements is a run in which all later statements fail.
\<close>

section \<open>Tables\<close>

record secret_row =
  sec_id :: string
  sec_name :: string
  sec_namespace :: string
  sec_data :: string
  sec_created_at :: int
  sec_updated_at :: int
  sec_version :: int

record cronjob_row =
  cj_id :: string
  cj_name :: string
  cj_namespace :: string
  cj_spec :: string
  cj_status :: "string option"
  cj_schedule :: string
  cj_created_at :: int
  cj_updated_at :: int
  cj_version :: int

record job_row =
  j_id :: string
  j_name :: string
  j_namespace :: string
  j_cronjob_name :: "string option"
  j_spec :: string
  j_status :: string
  j_retry_count :: int
  j_last_error :: "string option"
  j_worker_vm_id :: "string option"
  j_worker_vm_name :: "string option"
  j_worker_ssh_ip :: "string option"
  j_exit_code :: "int option"
  j_created_at :: int
  j_updated_at :: int
  j_last_transition_time :: "int option"
  j_version :: int
  j_cached_logs :: "string option"
  j_estimated_cost :: "f64 option"
  j_actual_cost :: "f64 option"
  j_completed_at :: "int option"
  j_worker_plan :: "string option"
  j_cached_logs_timestamped :: bool

record job_volume_row =
  jv_id :: string
  jv_job_id :: string
  jv_size_gb :: nat
  jv_storage_class_name :: string
  jv_provider_volume_id :: "string option"
  jv_provider_volume_name :: "string option"
  jv_created_at :: int

record event_row =
  ev_id :: string
  ev_job_id :: "string option"
  ev_reason :: string
  ev_message :: string
  ev_timestamp :: int
  ev_type :: string

record pricing_row =
  pr_zone :: string
  pr_price_key :: string
  pr_amount :: f64
  pr_price :: f64
  pr_currency :: string
  pr_fetched_at :: int

record plan_row =
  pl_name :: string
  pl_cpu_cores :: nat
  pl_memory_mb :: nat
  pl_storage_gb :: nat
  pl_storage_tier :: "string option"
  pl_fetched_at :: int

record rate_row =
  er_currency :: string
  er_rate :: f64
  er_fetched_at :: int

record budget_row =
  bs_balance :: f64
  bs_last_accrual_at :: int
  bs_main_currency :: string
  bs_budget_daily_rate :: f64
  bs_budget_rollover_cap_days :: nat

record metrics_row =
  wm_job_id :: string
  wm_cpu_millicores :: "int option"
  wm_memory_usage_bytes :: "int option"
  wm_node_memory_total_bytes :: int
  wm_node_memory_used_bytes :: int
  wm_node_cpu_count :: int
  wm_node_load1 :: f64
  wm_sampled_at :: int
  wm_pgfault :: "int option"
  wm_pgmajfault :: "int option"
  wm_pswpin :: "int option"
  wm_pswpout :: "int option"
  wm_mapped_bytes :: "int option"
  wm_cached_bytes :: "int option"
  wm_anon_bytes :: "int option"

record database =
  secrets :: "secret_row list"
  cronjobs :: "cronjob_row list"
  jobs :: "job_row list"
  job_volumes :: "job_volume_row list"
  events :: "event_row list"
  worker_metrics :: "metrics_row list"
  provider_pricing :: "pricing_row list"
  provider_plans :: "plan_row list"
  exchange_rates :: "rate_row list"
  budget_state :: "budget_row option"

section \<open>Libraries and services\<close>

record libs =
  from_str :: "string \<Rightarrow> string + json"
  to_string :: "json \<Rightarrow> string"
  b64_encode :: "string \<Rightarrow> string"
  b64_decode :: "string \<Rightarrow> string option"
  parse_from_rfc3339 :: "string \<Rightarrow> int option"
  to_rfc3339_nanos :: "int \<Rightarrow> string"
  cron_from_str :: "string \<Rightarrow> (int \<Rightarrow> int option) option"
  min_utc :: int
  max_utc :: int
  rfc3339_secs :: "int \<Rightarrow> string option"
  rfc3339_offset :: "int \<Rightarrow> string option"
  display_f64 :: "f64 \<Rightarrow> string"
  patch_from_slice :: "string \<Rightarrow> string + json"
  json_patch :: "json \<Rightarrow> json \<Rightarrow> string + json"

datatype channel_msg = Data string | ExtendedData string nat | ExitStatus nat | OtherMsg

record 'x services = libs +
  utc_now :: "'x \<Rightarrow> int \<times> 'x"
  uuid_v4 :: "'x \<Rightarrow> string \<times> 'x"
  db_fault :: "'x \<Rightarrow> string option \<times> 'x"
  notify_one :: "'x \<Rightarrow> 'x"
  ssh_session :: "string \<Rightarrow> nat \<Rightarrow> string \<Rightarrow> string \<Rightarrow> string option \<Rightarrow> 'x \<Rightarrow> (string + channel_msg list) \<times> 'x"

record 'x world =
  db :: database
  ext :: 'x

text \<open>An \<open>anyhow::Error\<close> is what the program shows of it, its text.\<close>

type_synonym anyhow = string
type_synonym ('x, 'a) job_io = "('x world, anyhow, 'a) io"

definition nanos_per_second :: int where
  "nanos_per_second = 10 ^ 9"

definition timestamp :: "int \<Rightarrow> int" where
  "timestamp t = t div nanos_per_second"

definition lift_ext :: "('x \<Rightarrow> 'r \<times> 'x) \<Rightarrow> 'x world \<Rightarrow> 'r \<times> 'x world" where
  "lift_ext f w = (case f (ext w) of (r, x) \<Rightarrow> (r, w\<lparr>ext := x\<rparr>))"

definition now_nanos :: "'x services \<Rightarrow> ('x world, 'e, int) io" where
  "now_nanos S = (\<lambda>w. case lift_ext (utc_now S) w of (t, w') \<Rightarrow> (Inr t, w'))"

definition now_ts :: "'x services \<Rightarrow> ('x world, 'e, int) io" where
  "now_ts S = bnd (now_nanos S) (\<lambda>t. ret (timestamp t))"

definition new_uuid :: "'x services \<Rightarrow> ('x world, 'e, string) io" where
  "new_uuid S = (\<lambda>w. case lift_ext (uuid_v4 S) w of (u, w') \<Rightarrow> (Inr u, w'))"

text \<open>A call of the cloud provider.\<close>

definition provider_call :: "('x \<Rightarrow> (provider_error + 'a) \<times> 'x) \<Rightarrow> ('x world, provider_error, 'a) io" where
  "provider_call f = lift_ext f"

section \<open>SQL statements\<close>

definition sql_query :: "'x services \<Rightarrow> (database \<Rightarrow> 'a) \<Rightarrow> ('x, 'a) job_io" where
  "sql_query S q = (\<lambda>w.
     case lift_ext (db_fault S) w of
       (Some msg, w') \<Rightarrow> (Inl msg, w')
     | (None, w') \<Rightarrow> (Inr (q (db w)), w'))"

definition sql_exec :: "'x services \<Rightarrow> (database \<Rightarrow> string + database) \<Rightarrow> ('x, unit) job_io" where
  "sql_exec S f = (\<lambda>w.
     case lift_ext (db_fault S) w of
       (Some msg, w') \<Rightarrow> (Inl msg, w')
     | (None, w') \<Rightarrow> (case f (db w) of Inl msg \<Rightarrow> (Inl msg, w') | Inr d \<Rightarrow> (Inr (), w'\<lparr>db := d\<rparr>)))"

text \<open>\<open>fetch_one\<close>: a query that finds no row is an error.\<close>

definition row_not_found :: anyhow where
  "row_not_found = ''no rows returned by a query that expected to return at least one row''"

definition sql_fetch_one :: "'x services \<Rightarrow> (database \<Rightarrow> 'a option) \<Rightarrow> ('x, 'a) job_io" where
  "sql_fetch_one S q = bnd (sql_query S q) (\<lambda>r. of_result (ok_or row_not_found r))"

text \<open>A transaction whose closure fails, or whose commit fails, leaves the tables as they were.\<close>

definition transaction :: "'x services \<Rightarrow> ('x, 'a) job_io \<Rightarrow> ('x, 'a) job_io" where
  "transaction S body = (\<lambda>w.
     case bnd (sql_query S (\<lambda>_. ())) (\<lambda>_. bnd body (\<lambda>a. bnd (sql_query S (\<lambda>_. ())) (\<lambda>_. ret a))) w of
       (Inl e, w') \<Rightarrow> (Inl e, w'\<lparr>db := db w\<rparr>)
     | (Inr a, w') \<Rightarrow> (Inr a, w'))"

definition update_where :: "('r \<Rightarrow> bool) \<Rightarrow> ('r \<Rightarrow> 'r) \<Rightarrow> 'r list \<Rightarrow> 'r list" where
  "update_where p f rows = map (\<lambda>r. if p r then f r else r) rows"

definition unique_violation :: "string \<Rightarrow> string" where
  "unique_violation col = ''UNIQUE constraint failed: '' @ col"

definition insert_job_row :: "job_row \<Rightarrow> database \<Rightarrow> string + database" where
  "insert_job_row r d =
     (if j_id r \<in> j_id ` set (jobs d) then Inl (unique_violation ''jobs.id'')
      else Inr (d\<lparr>jobs := jobs d @ [r]\<rparr>))"

definition insert_event_row :: "event_row \<Rightarrow> database \<Rightarrow> string + database" where
  "insert_event_row r d =
     (if ev_id r \<in> ev_id ` set (events d) then Inl (unique_violation ''events.id'')
      else Inr (d\<lparr>events := events d @ [r]\<rparr>))"

definition insert_job_volume_row :: "job_volume_row \<Rightarrow> database \<Rightarrow> string + database" where
  "insert_job_volume_row r d =
     (if jv_id r \<in> jv_id ` set (job_volumes d) then Inl (unique_violation ''job_volumes.id'')
      else Inr (d\<lparr>job_volumes := job_volumes d @ [r]\<rparr>))"

definition update_jobs :: "string \<Rightarrow> (job_row \<Rightarrow> job_row) \<Rightarrow> database \<Rightarrow> string + database" where
  "update_jobs jid f d = Inr (d\<lparr>jobs := update_where (\<lambda>r. j_id r = jid) f (jobs d)\<rparr>)"

definition find_job :: "string \<Rightarrow> database \<Rightarrow> job_row option" where
  "find_job jid d = find (\<lambda>r. j_id r = jid) (jobs d)"

section \<open>Lemmas\<close>

lemma lift_ext_eq: "lift_ext f w = (fst (f (ext w)), w\<lparr>ext := snd (f (ext w))\<rparr>)"
  by (simp add: lift_ext_def split: prod.split)

lemma db_ext_update [simp]: "db (w\<lparr>ext := x\<rparr>) = db w"
  by simp

text \<open>The effects that only touch the outside world leave the database as it is.\<close>

lemma db_now_nanos [simp]: "db (snd (now_nanos S w)) = db w"
  by (simp add: now_nanos_def lift_ext_eq)

lemma now_nanos_Inr: "\<exists>t. now_nanos S w = (Inr t, w\<lparr>ext := snd (utc_now S (ext w))\<rparr>)"
  by (simp add: now_nanos_def lift_ext_eq)

lemma now_ts_eq: "now_ts S w = (Inr (timestamp (fst (utc_now S (ext w)))), w\<lparr>ext := snd (utc_now S (ext w))\<rparr>)"
  by (simp add: now_ts_def now_nanos_def lift_ext_eq bnd_def)

lemma new_uuid_eq: "new_uuid S w = (Inr (fst (uuid_v4 S (ext w))), w\<lparr>ext := snd (uuid_v4 S (ext w))\<rparr>)"
  by (simp add: new_uuid_def lift_ext_eq)

lemma db_now_ts [simp]: "db (snd (now_ts S w)) = db w"
  by (simp add: now_ts_eq)

lemma db_new_uuid [simp]: "db (snd (new_uuid S w)) = db w"
  by (simp add: new_uuid_eq)

lemma db_provider_call [simp]: "db (snd (provider_call f w)) = db w"
  by (simp add: provider_call_def lift_ext_eq)

lemma db_sql_query [simp]: "db (snd (sql_query S q w)) = db w"
  by (simp add: sql_query_def lift_ext_eq split: option.split)

lemma db_sql_fetch_one [simp]: "db (snd (sql_fetch_one S q w)) = db w"
  by (cases rule: bnd_cases [of "sql_query S q" w "\<lambda>r. of_result (ok_or row_not_found r)"])
     (auto simp: sql_fetch_one_def of_result_def dest: arg_cong [of "sql_query S q w" _ "\<lambda>r. db (snd r)"])

lemma sql_query_cases:
  obtains (fault) msg where "sql_query S q w = (Inl msg, w\<lparr>ext := snd (db_fault S (ext w))\<rparr>)"
  | (result) "sql_query S q w = (Inr (q (db w)), w\<lparr>ext := snd (db_fault S (ext w))\<rparr>)"
  by (cases "fst (db_fault S (ext w))") (auto simp: sql_query_def lift_ext_eq)

lemma sql_exec_cases:
  obtains (fault) msg where "sql_exec S f w = (Inl msg, w\<lparr>ext := snd (db_fault S (ext w))\<rparr>)"
  | (executed) d where "f (db w) = Inr d"
      and "sql_exec S f w = (Inr (), w\<lparr>ext := snd (db_fault S (ext w)), db := d\<rparr>)"
  by (cases "fst (db_fault S (ext w))"; cases "f (db w)") (auto simp: sql_exec_def lift_ext_eq)

lemma set_update_where: "set (update_where p f rows) = (\<lambda>r. if p r then f r else r) ` set rows"
  by (simp add: update_where_def)

lemma map_update_where_same: "(\<And>r. g (f r) = g r) \<Longrightarrow> map g (update_where p f rows) = map g rows"
  by (simp add: update_where_def)

lemma find_job_SomeD: "find_job jid d = Some r \<Longrightarrow> r \<in> set (jobs d) \<and> j_id r = jid"
  by (auto simp: find_job_def find_Some_iff)

lemma find_job_update_same:
  assumes "\<And>r. j_id (f r) = j_id r"
  shows "find (\<lambda>r. j_id r = jid) (update_where (\<lambda>r. j_id r = jid) f rows)
           = map_option f (find (\<lambda>r. j_id r = jid) rows)"
  by (induction rows) (auto simp: update_where_def assms)

lemma find_job_update_other:
  assumes "\<And>r. j_id (f r) = j_id r" and "jid \<noteq> jid'"
  shows "find (\<lambda>r. j_id r = jid') (update_where (\<lambda>r. j_id r = jid) f rows)
           = find (\<lambda>r. j_id r = jid') rows"
  by (induction rows) (use assms in \<open>auto simp: update_where_def\<close>)

text \<open>
  A relation between databases that is reflexive and transitive, seen as a relation between worlds.
  Whatever only touches the outside world respects it.
\<close>

locale db_frame =
  fixes Q :: "database \<Rightarrow> database \<Rightarrow> bool"
  assumes Q_refl: "Q d d"
    and Q_trans: "Q a b \<Longrightarrow> Q b c \<Longrightarrow> Q a c"
begin

definition on_world :: "'x world \<Rightarrow> 'x world \<Rightarrow> bool" where
  "on_world v w \<longleftrightarrow> Q (db v) (db w)"

lemma keeps_same_db: "(\<And>w. db (snd (m w)) = db w) \<Longrightarrow> keeps on_world m"
  by (simp add: keeps_def on_world_def Q_refl)

lemma keeps_now_nanos [intro!]: "keeps on_world (now_nanos S)"
  by (rule keeps_same_db) simp

lemma keeps_now_ts [intro!]: "keeps on_world (now_ts S)"
  by (rule keeps_same_db) simp

lemma keeps_new_uuid [intro!]: "keeps on_world (new_uuid S)"
  by (rule keeps_same_db) simp

lemma keeps_provider_call [intro!]: "keeps on_world (provider_call f)"
  by (rule keeps_same_db) simp

lemma keeps_sql_query [intro!]: "keeps on_world (sql_query S q)"
  by (rule keeps_same_db) simp

lemma keeps_sql_fetch_one [intro!]: "keeps on_world (sql_fetch_one S q)"
  by (rule keeps_same_db) simp

lemma keeps_sql_exec:
  assumes "\<And>d d'. f d = Inr d' \<Longrightarrow> Q d d'"
  shows "keeps on_world (sql_exec S f)"
proof (rule keepsI)
  fix w
  show "on_world w (snd (sql_exec S f w))"
    by (cases rule: sql_exec_cases [of S f w]) (auto simp: on_world_def Q_refl intro: assms)
qed

end

sublocale db_frame \<subseteq> frame on_world
  by unfold_locales (auto simp: on_world_def Q_refl intro: Q_trans)

text \<open>Code that only reads leaves the database as it is, whatever it does to the outside world.\<close>

interpretation same_db: db_frame "(=)"
  by unfold_locales auto

lemma same_dbD: "keeps same_db.on_world m \<Longrightarrow> m w = (r, w') \<Longrightarrow> db w' = db w"
  by (simp add: keeps_def same_db.on_world_def) (metis snd_conv)

end
