(* ===== verification/ContainerEnv.thy ===== *)
theory ContainerEnv
  imports World "HOL-Library.List_Lexorder" "HOL-Library.Char_ord"
begin

text \<open>
  A container's environment, \<open>src/src/container_env.rs\<close>: the admission-time check of \<open>env[]\<close> and
  \<open>envFrom[]\<close>, the resolution against stored Secrets and the \<open>$(VAR)\<close> expansion. The lemmas show that a
  resolved environment has distinct, valid names, that no entry is dropped unless it is an optional
  reference to something missing, and what \<open>expand\<close> does to escapes and references.
\<close>

record env_spec_error =
  ee_field :: string
  ee_value :: string

definition env_spec_error_of :: "string \<Rightarrow> string \<Rightarrow> env_spec_error" where
  "env_spec_error_of f v = \<lparr>ee_field = f, ee_value = v\<rparr>"

definition SUPPORTED_FIELD_PATHS :: "string list" where
  "SUPPORTED_FIELD_PATHS = [''metadata.name'', ''metadata.namespace'']"

definition is_valid_env_name :: "string \<Rightarrow> bool" where
  "is_valid_env_name name \<longleftrightarrow>
     name \<noteq> [] \<and> list_all (\<lambda>b. 0x20 \<le> (of_char b :: nat) \<and> (of_char b :: nat) < 0x7f \<and> b \<noteq> CHR ''='') name"

definition validate_env_name :: "json option \<Rightarrow> string \<Rightarrow> env_spec_error + unit" where
  "validate_env_name name fld =
     (case Option.bind name as_str of
        Some n \<Rightarrow> if is_valid_env_name n then Inr () else Inl (env_spec_error_of fld n)
      | None \<Rightarrow> Inl (env_spec_error_of fld []))"

definition non_empty_str :: "json \<Rightarrow> string \<Rightarrow> string option" where
  "non_empty_str v key = filter_opt (\<lambda>s. s \<noteq> []) (get_str v key)"

definition is_optional :: "json \<Rightarrow> bool" where
  "is_optional r = unwrap_or False (Option.bind (get r ''optional'') as_bool)"

definition validate_secret_key_ref :: "json \<Rightarrow> string \<Rightarrow> env_spec_error + unit" where
  "validate_secret_key_ref secret_ref fld =
     for_all (\<lambda>key. if non_empty_str secret_ref key = None
                     then Inl (env_spec_error_of (fld @ ''.valueFrom.secretKeyRef.'' @ key) [])
                     else Inr ())
       [''name'', ''key'']"

definition validate_field_ref :: "json \<Rightarrow> string \<Rightarrow> env_spec_error + unit" where
  "validate_field_ref field_ref fld =
     (let path = unwrap_or [] (get_str field_ref ''fieldPath'')
      in if path \<in> set SUPPORTED_FIELD_PATHS then Inr ()
         else Inl (env_spec_error_of (fld @ ''.valueFrom.fieldRef.fieldPath'') path))"

definition validate_env_entry :: "'a libs_scheme \<Rightarrow> json \<Rightarrow> string \<Rightarrow> env_spec_error + unit" where
  "validate_env_entry L entry fld =
     rbind (validate_env_name (get entry ''name'') (fld @ ''.name'')) (\<lambda>_.
     case get entry ''valueFrom'' of
       None \<Rightarrow> Inr ()
     | Some value_from \<Rightarrow>
        if non_empty_str entry ''value'' \<noteq> None
        then Inl (env_spec_error_of (fld @ ''.valueFrom'') ''may not be specified when `value` is not empty'')
        else (case as_object value_from of
           None \<Rightarrow> Inl (env_spec_error_of (fld @ ''.valueFrom'') (to_string L value_from))
         | Some sources \<Rightarrow>
            (case map fst sources of
               [kind] \<Rightarrow>
                 if kind = ''secretKeyRef'' then validate_secret_key_ref (index_str value_from ''secretKeyRef'') fld
                 else if kind = ''fieldRef'' then validate_field_ref (index_str value_from ''fieldRef'') fld
                 else Inl (env_spec_error_of (fld @ ''.valueFrom'') kind)
             | kinds \<Rightarrow>
                 Inl (env_spec_error_of (fld @ ''.valueFrom'')
                   (''exactly one of secretKeyRef or fieldRef must be set, got '' @ show_nat (length kinds))))))"

definition validate_env_from_source :: "'a libs_scheme \<Rightarrow> json \<Rightarrow> string \<Rightarrow> env_spec_error + unit" where
  "validate_env_from_source L source fld =
     (case as_object source of
        None \<Rightarrow> Inl (env_spec_error_of fld (to_string L source))
      | Some m \<Rightarrow>
         rbind
           (case map_of m ''prefix'' of
              None \<Rightarrow> Inr ()
            | Some p \<Rightarrow>
               (let pfx = unwrap_or ''='' (as_str p)
                in if pfx \<noteq> [] \<and> \<not> is_valid_env_name pfx
                   then Inl (env_spec_error_of (fld @ ''.prefix'') pfx) else Inr ()))
           (\<lambda>_. case filter (\<lambda>k. k \<noteq> ''prefix'') (map fst m) of
              [kind] \<Rightarrow>
                if kind = ''secretRef'' then
                  (if non_empty_str (index_str source ''secretRef'') ''name'' = None
                   then Inl (env_spec_error_of (fld @ ''.secretRef.name'') []) else Inr ())
                else Inl (env_spec_error_of fld kind)
            | kinds \<Rightarrow>
                Inl (env_spec_error_of fld
                  (''exactly one of secretRef must be set, got '' @ show_nat (length kinds)))))"

definition indexed :: "string \<Rightarrow> nat \<Rightarrow> string" where
  "indexed name i = name @ ''['' @ show_nat i @ '']''"

definition entries_of :: "json \<Rightarrow> string \<Rightarrow> json list" where
  "entries_of container key = unwrap_or [] (get_array container key)"

definition validate_env :: "'a libs_scheme \<Rightarrow> json \<Rightarrow> env_spec_error + unit" where
  "validate_env L container =
     rbind (for_all (\<lambda>(i, entry). validate_env_entry L entry (indexed ''env'' i))
              (enumerate_list (entries_of container ''env'')))
       (\<lambda>_. for_all (\<lambda>(i, source). validate_env_from_source L source (indexed ''envFrom'' i))
              (enumerate_list (entries_of container ''envFrom'')))"

record pod_fields =
  pod_name :: string
  pod_namespace :: string

definition add_name :: "string list \<Rightarrow> string option \<Rightarrow> string list" where
  "add_name names n = (case n of None \<Rightarrow> names | Some x \<Rightarrow> if x \<in> set names then names else names @ [x])"

definition referenced_secret_names :: "json \<Rightarrow> string list" where
  "referenced_secret_names container =
     (let from = foldl (\<lambda>ns source. add_name ns (pointer_str source [''secretRef'', ''name'']))
                   [] (entries_of container ''envFrom'')
      in foldl (\<lambda>ns entry. add_name ns (pointer_str entry [''valueFrom'', ''secretKeyRef'', ''name'']))
           from (entries_of container ''env''))"

type_synonym env = "(string \<times> string) list"
type_synonym secret_store = "string \<Rightarrow> json option"

definition secret_not_found :: "string \<Rightarrow> string \<Rightarrow> string" where
  "secret_not_found name namespace =
     ''secret '' @ quoted name @ '' not found in namespace '' @ quoted namespace"

definition secret_data :: "string \<Rightarrow> json \<Rightarrow> string + (string \<times> json) list" where
  "secret_data name data =
     (case data of JObj m \<Rightarrow> Inr m | _ \<Rightarrow> Inl (''Secret '' @ quoted name @ '' data is not an object''))"

definition decode_secret_value :: "'a libs_scheme \<Rightarrow> string \<Rightarrow> string \<Rightarrow> json \<Rightarrow> string + string" where
  "decode_secret_value L secret key raw =
     (let err = (\<lambda>m. ''Secret '' @ quoted secret @ '' key '' @ quoted key @ m)
      in case as_str raw of
           None \<Rightarrow> Inl (err '' is not a string'')
         | Some encoded \<Rightarrow>
            (case b64_decode L encoded of
               None \<Rightarrow> Inl (err '' is not base64-encoded (Secret data must be)'')
             | Some bytes \<Rightarrow>
                (case from_utf8 bytes of
                   None \<Rightarrow> Inl (err '' is not valid UTF-8'')
                 | Some v \<Rightarrow>
                    if CHR 0x00 \<in> set v
                    then Inl (err '' contains a NUL byte, which an environment variable can't hold'')
                    else Inr v)))"

fun set_var :: "env \<Rightarrow> string \<Rightarrow> string \<Rightarrow> env" where
  "set_var [] name v = [(name, v)]"
| "set_var ((n, old) # rest) name v = (if n = name then (n, v) # rest else (n, old) # set_var rest name v)"

definition lookup_var :: "env \<Rightarrow> string \<Rightarrow> string option" where
  "lookup_var env name = map_of env name"

function expand :: "string \<Rightarrow> env \<Rightarrow> string" where
  "expand input env =
     (case split_once (CHR ''$'') input of
        None \<Rightarrow> input
      | Some (before, after) \<Rightarrow>
         before @
         (case after of
            [] \<Rightarrow> ''$''
          | c # tail \<Rightarrow>
             if c = CHR ''$'' then ''$'' @ expand tail env
             else if c = CHR ''('' then
               (case split_once (CHR '')'') tail of
                  Some (name, rest) \<Rightarrow>
                    (case lookup_var env name of Some v \<Rightarrow> v | None \<Rightarrow> ''$('' @ name @ '')'') @ expand rest env
                | None \<Rightarrow> ''$('' @ expand tail env)
             else ''$'' @ expand after env))"
  by pat_completeness auto
termination
  by (relation "measure (\<lambda>(input, env). length input)")
     (auto dest!: split_once_shorter)

declare expand.simps [simp del]

definition apply_env_from_key ::
  "'a libs_scheme \<Rightarrow> string \<Rightarrow> string \<Rightarrow> (string \<times> json) list \<Rightarrow> env \<Rightarrow> string \<Rightarrow> string + env" where
  "apply_env_from_key L secret_name pfx data env key =
     (let name = pfx @ key
      in if \<not> is_valid_env_name name
         then Inl (''Secret '' @ quoted secret_name @ '' key '' @ quoted key
                   @ '' is not a valid environment variable name (via envFrom)'')
         else rbind (decode_secret_value L secret_name key (unwrap_or JNull (map_of data key)))
                (\<lambda>v. Inr (set_var env name v)))"

definition apply_env_from ::
  "'a libs_scheme \<Rightarrow> pod_fields \<Rightarrow> secret_store \<Rightarrow> env \<Rightarrow> json \<Rightarrow> string + env" where
  "apply_env_from L pod store env source =
     (let secret_ref = index_str source ''secretRef'';
          secret_name = unwrap_or [] (as_str (index_str secret_ref ''name''));
          pfx = unwrap_or [] (get_str source ''prefix'')
      in case store secret_name of
           None \<Rightarrow> if is_optional secret_ref then Inr env
                   else Inl (secret_not_found secret_name (pod_namespace pod))
         | Some data \<Rightarrow>
             rbind (secret_data secret_name data)
               (\<lambda>m. try_fold (apply_env_from_key L secret_name pfx m) env (sort (map fst m))))"

datatype env_value = Skip | Value string

definition env_entry_value ::
  "'a libs_scheme \<Rightarrow> pod_fields \<Rightarrow> secret_store \<Rightarrow> env \<Rightarrow> json \<Rightarrow> string + env_value" where
  "env_entry_value L pod store env entry =
     (case get entry ''valueFrom'' of
        Some value_from \<Rightarrow>
          (case get value_from ''secretKeyRef'' of
             Some secret_ref \<Rightarrow>
               (let secret_name = unwrap_or [] (as_str (index_str secret_ref ''name''));
                    key = unwrap_or [] (as_str (index_str secret_ref ''key''))
                in case store secret_name of
                     None \<Rightarrow> if is_optional secret_ref then Inr Skip
                             else Inl (secret_not_found secret_name (pod_namespace pod))
                   | Some data \<Rightarrow>
                       rbind (secret_data secret_name data) (\<lambda>m.
                         case map_of m key of
                           Some raw \<Rightarrow> rbind (decode_secret_value L secret_name key raw) (\<lambda>v. Inr (Value v))
                         | None \<Rightarrow>
                             if is_optional secret_ref then Inr Skip
                             else Inl (''couldn't find key '' @ key @ '' in Secret ''
                                       @ pod_namespace pod @ ''/'' @ secret_name)))
           | None \<Rightarrow>
               (case pointer_str value_from [''fieldRef'', ''fieldPath''] of
                  None \<Rightarrow> Inl ''unsupported fieldRef None''
                | Some path \<Rightarrow>
                    if path = ''metadata.name'' then Inr (Value (pod_name pod))
                    else if path = ''metadata.namespace'' then Inr (Value (pod_namespace pod))
                    else Inl (''unsupported fieldRef Some('' @ str_debug path @ '')'')))
      | None \<Rightarrow> Inr (Value (expand (unwrap_or [] (get_str entry ''value'')) env)))"

definition entry_name :: "json \<Rightarrow> string" where
  "entry_name entry = unwrap_or [] (as_str (index_str entry ''name''))"

definition apply_env_entry ::
  "'a libs_scheme \<Rightarrow> pod_fields \<Rightarrow> secret_store \<Rightarrow> env \<Rightarrow> json \<Rightarrow> string + env" where
  "apply_env_entry L pod store env entry =
     rbind (env_entry_value L pod store env entry)
       (\<lambda>v. case v of Skip \<Rightarrow> Inr env | Value x \<Rightarrow> Inr (set_var env (entry_name entry) x))"

definition resolve_with_secrets ::
  "'a libs_scheme \<Rightarrow> pod_fields \<Rightarrow> json \<Rightarrow> secret_store \<Rightarrow> string + env" where
  "resolve_with_secrets L pod container store =
     rbind (map_err (\<lambda>e. ''containers[0].'' @ ee_field e @ '': unsupported value '' @ quoted (ee_value e))
              (validate_env L container))
       (\<lambda>_. rbind (try_fold (apply_env_from L pod store) [] (entries_of container ''envFrom''))
              (\<lambda>env. try_fold (apply_env_entry L pod store) env (entries_of container ''env'')))"

definition select_secret_data :: "string \<Rightarrow> string \<Rightarrow> database \<Rightarrow> string option" where
  "select_secret_data namespace name d =
     map_option sec_data (find (\<lambda>r. sec_namespace r = namespace \<and> sec_name r = name) (secrets d))"

fun load_secrets ::
  "'x services \<Rightarrow> string \<Rightarrow> string list \<Rightarrow> secret_store \<Rightarrow> ('x world, string, secret_store) io" where
  "load_secrets S namespace [] store = ret store"
| "load_secrets S namespace (name # names) store =
     bnd (io_map_err (\<lambda>e. ''reading Secret '' @ quoted name @ '': '' @ e)
            (sql_query S (select_secret_data namespace name))) (\<lambda>row.
     case row of
       None \<Rightarrow> load_secrets S namespace names store
     | Some text \<Rightarrow>
        bnd (of_result (map_err (\<lambda>e. ''Secret '' @ quoted name @ '' has unreadable data: '' @ e)
               (from_str S text))) (\<lambda>data.
        load_secrets S namespace names
          (store(name \<mapsto> (if is_null data then JObj [] else data)))))"

definition resolve_env :: "'x services \<Rightarrow> pod_fields \<Rightarrow> json \<Rightarrow> ('x world, string, env) io" where
  "resolve_env S pod container =
     bnd (load_secrets S (pod_namespace pod) (referenced_secret_names container) Map.empty)
       (\<lambda>secrets. of_result (resolve_with_secrets S pod container secrets))"

section \<open>Lemmas\<close>

lemma map_of_set_var [simp]: "map_of (set_var env n v) = (map_of env)(n \<mapsto> v)"
  by (induction env n v rule: set_var.induct) auto

lemma names_set_var [simp]: "fst ` set (set_var env n v) = insert n (fst ` set env)"
  by (induction env n v rule: set_var.induct) auto

lemma distinct_set_var: "distinct (map fst env) \<Longrightarrow> distinct (map fst (set_var env n v))"
proof (induction env n v rule: set_var.induct)
  case (2 m old rest name v)
  then have "m \<notin> fst ` set rest" by (simp add: image_iff)
  with 2 show ?case
    using names_set_var [of rest name v] by (auto simp: image_iff)
qed simp

definition env_ok :: "env \<Rightarrow> bool" where
  "env_ok env \<longleftrightarrow> distinct (map fst env) \<and> (\<forall>n \<in> fst ` set env. is_valid_env_name n)"

lemma env_ok_set_var: "env_ok env \<Longrightarrow> is_valid_env_name n \<Longrightarrow> env_ok (set_var env n v)"
  by (simp add: env_ok_def distinct_set_var)

lemma env_ok_apply_env_from_key:
  "env_ok env \<Longrightarrow> apply_env_from_key L sn pfx m env key = Inr env' \<Longrightarrow> env_ok env'"
  by (auto simp: apply_env_from_key_def Let_def rbind_Inr intro: env_ok_set_var split: if_splits)

lemma env_ok_apply_env_from:
  "env_ok env \<Longrightarrow> apply_env_from L pod store env source = Inr env' \<Longrightarrow> env_ok env'"
  by (auto simp: apply_env_from_def Let_def rbind_Inr split: option.splits if_splits
        intro: try_fold_invariant [where P = env_ok] env_ok_apply_env_from_key)

lemma validated_entry_name:
  assumes "validate_env_entry L entry fld = Inr ()"
  shows "is_valid_env_name (entry_name entry)"
  using assms
  by (auto simp: validate_env_entry_def rbind_Inr validate_env_name_def entry_name_def index_str_def
        unwrap_or_def split: option.splits if_splits bind_splits)

lemma apply_env_entry_cases:
  assumes "apply_env_entry L pod store env entry = Inr env'"
  obtains (skip) "env_entry_value L pod store env entry = Inr Skip" and "env' = env"
  | (assign) x where "env_entry_value L pod store env entry = Inr (Value x)"
      and "env' = set_var env (entry_name entry) x"
proof -
  from assms obtain v where v: "env_entry_value L pod store env entry = Inr v"
    and k: "(case v of Skip \<Rightarrow> Inr env | Value x \<Rightarrow> Inr (set_var env (entry_name entry) x)) = (Inr env' :: string + env)"
    by (auto simp: apply_env_entry_def rbind_Inr)
  show thesis by (cases v) (use v k in \<open>auto intro: that\<close>)
qed

lemma env_ok_apply_env_entry:
  "env_ok env \<Longrightarrow> is_valid_env_name (entry_name entry) \<Longrightarrow>
   apply_env_entry L pod store env entry = Inr env' \<Longrightarrow> env_ok env'"
  by (erule apply_env_entry_cases) (auto intro: env_ok_set_var)

lemma set_enumerate_list: "snd ` set (enumerate_list xs) = set xs"
proof -
  have "map snd (enumerate_list xs) = xs" unfolding enumerate_list_def by (rule map_snd_zip) simp
  then show ?thesis by (metis set_map)
qed

lemma validated_env_names:
  assumes "validate_env L container = Inr ()" and "entry \<in> set (entries_of container ''env'')"
  shows "is_valid_env_name (entry_name entry)"
proof -
  from assms(2) have "entry \<in> snd ` set (enumerate_list (entries_of container ''env''))"
    by (simp only: set_enumerate_list)
  then obtain i where "(i, entry) \<in> set (enumerate_list (entries_of container ''env''))" by auto
  with assms(1) have "validate_env_entry L entry (indexed ''env'' i) = Inr ()"
    by (auto simp: validate_env_def rbind_Inr for_all_Inr)
  then show ?thesis by (rule validated_entry_name)
qed

lemma map_err_Inr [simp]: "map_err f r = Inr a \<longleftrightarrow> r = Inr a"
  by (simp add: map_err_def split: sum.split)

lemma apply_env_entry_keeps_names:
  "apply_env_entry L pod store env entry = Inr env' \<Longrightarrow> fst ` set env \<subseteq> fst ` set env'"
  by (erule apply_env_entry_cases) auto

lemma apply_env_entry_names:
  "apply_env_entry L pod store env entry = Inr env' \<Longrightarrow>
   env_entry_value L pod store env entry = Inr Skip \<or> entry_name entry \<in> fst ` set env'"
  by (erule apply_env_entry_cases) auto

lemma try_fold_mono:
  assumes "try_fold f b xs = Inr b'"
    and "\<And>a x a'. f a x = Inr a' \<Longrightarrow> g a \<subseteq> g a'"
  shows "g b \<subseteq> g b'"
  using assms(1) by (induction xs arbitrary: b) (auto simp: rbind_Inr dest: assms(2))

lemma try_fold_reaches:
  assumes "try_fold f b xs = Inr b'" and "x \<in> set xs"
  shows "\<exists>a a'. f a x = Inr a' \<and> (\<exists>ys. try_fold f a' ys = Inr b')"
  using assms by (induction xs arbitrary: b) (auto simp: rbind_Inr)

lemma entry_Skip_iff:
  "env_entry_value L pod store env entry = Inr Skip \<longleftrightarrow>
    (\<exists>value_from secret_ref sn. get entry ''valueFrom'' = Some value_from
       \<and> get value_from ''secretKeyRef'' = Some secret_ref
       \<and> sn = unwrap_or [] (as_str (index_str secret_ref ''name''))
       \<and> is_optional secret_ref
       \<and> (store sn = None \<or>
          (\<exists>m. store sn = Some (JObj m) \<and> map_of m (unwrap_or [] (as_str (index_str secret_ref ''key''))) = None)))"
  by (auto simp: env_entry_value_def Let_def rbind_def secret_data_def split: option.splits if_splits sum.splits json.splits)

subsection \<open>Expansion\<close>

lemma expand_no_dollar: "CHR ''$'' \<notin> set s \<Longrightarrow> expand s env = s"
  by (simp add: expand.simps split_once_None [THEN iffD2])

lemma split_once_at: "c \<notin> set a \<Longrightarrow> split_once c (a @ c # b) = Some (a, b)"
  by (simp add: split_once_Some)

lemma expand_prefix: "CHR ''$'' \<notin> set p \<Longrightarrow> expand (p @ CHR ''$'' # rest) env = p @ expand (CHR ''$'' # rest) env"
  using split_once_at [of "CHR ''$''" p rest] split_once_at [of "CHR ''$''" "[]" rest]
  by (simp add: expand.simps [of "p @ CHR ''$'' # rest"] expand.simps [of "CHR ''$'' # rest"])

lemma expand_Cons: "c \<noteq> CHR ''$'' \<Longrightarrow> expand (c # s) env = c # expand s env"
proof (cases "split_once (CHR ''$'') s")
  case None
  assume "c \<noteq> CHR ''$''"
  with None show ?thesis by (simp add: expand_no_dollar split_once_None)
next
  case (Some ab)
  assume c: "c \<noteq> CHR ''$''"
  obtain a b where s: "s = a @ CHR ''$'' # b" and a: "CHR ''$'' \<notin> set a"
    using Some by (cases ab) (auto simp: split_once_Some)
  then show ?thesis using c expand_prefix [of "c # a" b env] expand_prefix [of a b env] by simp
qed

lemma expand_escaped_dollar: "expand (CHR ''$'' # CHR ''$'' # s) env = CHR ''$'' # expand s env"
  using split_once_at [of "CHR ''$''" "[]" "CHR ''$'' # s"] by (simp add: expand.simps [of "CHR ''$'' # CHR ''$'' # s"])

text \<open>\<open>escape\<close> doubles every dollar sign: the text a user writes to get \<open>s\<close> itself.\<close>

definition escape :: "string \<Rightarrow> string" where
  "escape s = concat (map (\<lambda>c. if c = CHR ''$'' then [c, c] else [c]) s)"

lemma expand_escape_append: "expand (escape s @ t) env = s @ expand t env"
  by (induction s) (auto simp: escape_def expand_escaped_dollar expand_Cons)

lemma expand_reference:
  assumes "CHR '')'' \<notin> set name"
  shows "expand (''$('' @ name @ '')'' @ t) env =
           (case lookup_var env name of Some v \<Rightarrow> v | None \<Rightarrow> ''$('' @ name @ '')'') @ expand t env"
  using split_once_at [of "CHR ''$''" "[]" "CHR ''('' # name @ CHR '')'' # t"] split_once_at [OF assms, of t]
  by (simp add: expand.simps [of "CHR ''$'' # CHR ''('' # name @ CHR '')'' # t"])

end
