(* ===== verification/RunOptions.thy ===== *)
theory RunOptions
  imports ContainerEnv
begin

text \<open>
  How a container is run on its worker, \<open>src/src/run_options.rs\<close>: security contexts and the scratch mount.
  The lemmas show that a spec that passes the admission check parses, that parsed ids and mount
  paths are in range, and that no unknown security option passes the check.
\<close>

definition DEFAULT_SCRATCH_MOUNT_PATH :: string where
  "DEFAULT_SCRATCH_MOUNT_PATH = ''/scratch''"

definition MAX_ID :: nat where
  "MAX_ID = 2147483647"

definition POD_SECURITY_CONTEXT_FIELDS :: "string list" where
  "POD_SECURITY_CONTEXT_FIELDS = [''fsGroup'', ''runAsUser'', ''runAsGroup'', ''runAsNonRoot'']"

definition CONTAINER_SECURITY_CONTEXT_FIELDS :: "string list" where
  "CONTAINER_SECURITY_CONTEXT_FIELDS =
     [''runAsUser'', ''runAsGroup'', ''runAsNonRoot'', ''readOnlyRootFilesystem'',
      ''allowPrivilegeEscalation'']"

definition SCRATCH_MOUNT_FIELDS :: "string list" where
  "SCRATCH_MOUNT_FIELDS = [''name'', ''mountPath'', ''readOnly'']"

datatype no_op = NoOpBool bool | NoOpStr string

fun no_op_matches :: "no_op \<Rightarrow> json \<Rightarrow> bool" where
  "no_op_matches (NoOpBool expected) (JBool b) = (expected = b)"
| "no_op_matches (NoOpStr expected) (JStr s) = (expected = s)"
| "no_op_matches _ _ = False"

definition POD_SECURITY_CONTEXT_NO_OP_VALUES :: "(string \<times> no_op) list" where
  "POD_SECURITY_CONTEXT_NO_OP_VALUES = []"

definition CONTAINER_SECURITY_CONTEXT_NO_OP_VALUES :: "(string \<times> no_op) list" where
  "CONTAINER_SECURITY_CONTEXT_NO_OP_VALUES = [(''privileged'', NoOpBool False)]"

definition SCRATCH_MOUNT_NO_OP_VALUES :: "(string \<times> no_op) list" where
  "SCRATCH_MOUNT_NO_OP_VALUES = [(''mountPropagation'', NoOpStr ''None'')]"

record spec_error =
  se_field :: string
  se_value :: string

definition spec_error_of :: "string \<Rightarrow> string \<Rightarrow> spec_error" where
  "spec_error_of f v = \<lparr>se_field = f, se_value = v\<rparr>"

record run_options =
  fs_group :: "nat option"
  run_user :: "string option"
  run_as_non_root :: bool
  read_only_root_filesystem :: bool
  no_new_privileges :: bool
  scratch_volume :: string

definition find_enumerated :: "('a \<Rightarrow> bool) \<Rightarrow> 'a list \<Rightarrow> (nat \<times> 'a) option" where
  "find_enumerated p xs = find (\<lambda>(i, x). p x) (enumerate_list xs)"

definition scratch_mount :: "json \<Rightarrow> (nat \<times> json) option" where
  "scratch_mount job_spec =
     Option.bind (pointer job_spec [''template'', ''spec'', ''volumes'']) (\<lambda>vs.
     Option.bind (as_array vs) (\<lambda>volumes.
     Option.bind (find (\<lambda>v. get v ''ephemeral'' \<noteq> None) volumes) (\<lambda>v.
     Option.bind (get v ''name'') (\<lambda>n.
     Option.bind (as_str n) (\<lambda>volume_name.
     Option.bind (pointer job_spec [''template'', ''spec'', ''containers'', ''0'', ''volumeMounts'']) (\<lambda>ms.
     Option.bind (as_array ms) (\<lambda>mounts.
       find_enumerated (\<lambda>m. get_str m ''name'' = Some volume_name) mounts)))))))"

definition reject_field ::
  "'a libs_scheme \<Rightarrow> string list \<Rightarrow> (string \<times> no_op) list \<Rightarrow> string \<Rightarrow> string \<times> json \<Rightarrow> spec_error + unit" where
  "reject_field L supported no_ops fld kv =
     (let (key, v) = kv
      in if key \<in> set supported then Inr ()
         else (case map_of no_ops key of
                 None \<Rightarrow> Inl (spec_error_of fld key)
               | Some no_op \<Rightarrow>
                   if \<not> is_null v \<and> \<not> no_op_matches no_op v
                   then Inl (spec_error_of (fld @ ''.'' @ key) (to_string L v)) else Inr ()))"

definition reject_unknown_fields ::
  "'a libs_scheme \<Rightarrow> json \<Rightarrow> string list \<Rightarrow> (string \<times> no_op) list \<Rightarrow> string \<Rightarrow> spec_error + unit" where
  "reject_unknown_fields L v supported no_ops fld =
     (case v of
        JNull \<Rightarrow> Inr ()
      | JObj m \<Rightarrow> for_all (reject_field L supported no_ops fld) m
      | other \<Rightarrow> Inl (spec_error_of fld (to_string L other)))"

definition id_field :: "'a libs_scheme \<Rightarrow> json option \<Rightarrow> string \<Rightarrow> string \<Rightarrow> spec_error + nat option" where
  "id_field L security_context key pfx =
     (case Option.bind security_context (\<lambda>sc. get sc key) of
        None \<Rightarrow> Inr None
      | Some JNull \<Rightarrow> Inr None
      | Some v \<Rightarrow>
          ok_or (spec_error_of (pfx @ ''.'' @ key) (to_string L v))
            (map_option Some (filter_opt (\<lambda>i. i \<le> MAX_ID) (as_u64 v))))"

definition bool_field :: "'a libs_scheme \<Rightarrow> json option \<Rightarrow> string \<Rightarrow> string \<Rightarrow> spec_error + bool option" where
  "bool_field L security_context key pfx =
     (case Option.bind security_context (\<lambda>sc. get sc key) of
        None \<Rightarrow> Inr None
      | Some JNull \<Rightarrow> Inr None
      | Some (JBool b) \<Rightarrow> Inr (Some b)
      | Some other \<Rightarrow> Inl (spec_error_of (pfx @ ''.'' @ key) (to_string L other)))"

definition is_valid_mount_path :: "string \<Rightarrow> bool" where
  "is_valid_mount_path path \<longleftrightarrow>
     starts_with path ''/'' \<and> path \<noteq> ''/''
     \<and> CHR '':'' \<notin> set path \<and> CHR 0x00 \<notin> set path \<and> CHR 0x0A \<notin> set path
     \<and> \<not> list_ex (\<lambda>part. part = ''.'' \<or> part = ''..'') (split_on (CHR ''/'') path)"

definition pod_sc_name :: string where "pod_sc_name = ''securityContext''"
definition container_sc_name :: string where "container_sc_name = ''containers[0].securityContext''"

definition select_user ::
  "nat option \<Rightarrow> nat option \<Rightarrow> nat option \<Rightarrow> nat option \<Rightarrow> spec_error + string option" where
  "select_user container_user pod_user container_group pod_group =
     (case (or_else container_user pod_user, or_else container_group pod_group) of
        (None, None) \<Rightarrow> Inr None
      | (Some uid, None) \<Rightarrow> Inr (Some (show_nat uid))
      | (Some uid, Some gid) \<Rightarrow> Inr (Some (show_nat uid @ '':'' @ show_nat gid))
      | (None, Some gid) \<Rightarrow>
          Inl (spec_error_of
            (if container_group \<noteq> None then ''containers[0].securityContext.runAsGroup''
             else ''securityContext.runAsGroup'')
            (show_nat gid @ '' (runAsGroup is only supported together with runAsUser)'')))"

definition scratch_volume_option :: "'a libs_scheme \<Rightarrow> json \<Rightarrow> spec_error + string" where
  "scratch_volume_option L job_spec =
     (case scratch_mount job_spec of
        None \<Rightarrow> Inr (DEFAULT_SCRATCH_MOUNT_PATH @ '':'' @ DEFAULT_SCRATCH_MOUNT_PATH @ '':idmap'')
      | Some (i, mount) \<Rightarrow>
         (let fld = indexed ''containers[0].volumeMounts'' i
          in case get mount ''mountPath'' of
               Some (JStr path) \<Rightarrow>
                 if \<not> is_valid_mount_path path then Inl (spec_error_of (fld @ ''.mountPath'') path)
                 else rbind
                   (case get mount ''readOnly'' of
                      None \<Rightarrow> Inr False
                    | Some JNull \<Rightarrow> Inr False
                    | Some (JBool b) \<Rightarrow> Inr b
                    | Some other \<Rightarrow> Inl (spec_error_of (fld @ ''.readOnly'') (to_string L other)))
                   (\<lambda>read_only. Inr (DEFAULT_SCRATCH_MOUNT_PATH @ '':'' @ path @ '':''
                      @ (if read_only then ''ro,idmap'' else ''idmap'')))
             | other \<Rightarrow>
                 Inl (spec_error_of (fld @ ''.mountPath'')
                   (case other of None \<Rightarrow> [] | Some v \<Rightarrow> to_string L v))))"

definition parse_run_options :: "'a libs_scheme \<Rightarrow> json \<Rightarrow> spec_error + run_options" where
  "parse_run_options L job_spec =
     (let pod_sc = pointer job_spec [''template'', ''spec'', ''securityContext''];
          container_sc = pointer job_spec [''template'', ''spec'', ''containers'', ''0'', ''securityContext'']
      in rbind (id_field L pod_sc ''fsGroup'' pod_sc_name) (\<lambda>fsg.
         rbind (id_field L pod_sc ''runAsUser'' pod_sc_name) (\<lambda>pod_user.
         rbind (id_field L pod_sc ''runAsGroup'' pod_sc_name) (\<lambda>pod_group.
         rbind (id_field L container_sc ''runAsUser'' container_sc_name) (\<lambda>container_user.
         rbind (id_field L container_sc ''runAsGroup'' container_sc_name) (\<lambda>container_group.
         rbind (select_user container_user pod_user container_group pod_group) (\<lambda>user.
         rbind (bool_field L pod_sc ''runAsNonRoot'' pod_sc_name) (\<lambda>pod_non_root.
         rbind (bool_field L container_sc ''runAsNonRoot'' container_sc_name) (\<lambda>container_non_root.
         let non_root = unwrap_or False (or_else container_non_root pod_non_root)
         in if non_root \<and> or_else container_user pod_user = Some 0
            then Inl (spec_error_of
              (if container_user \<noteq> None then ''containers[0].securityContext.runAsUser''
               else ''securityContext.runAsUser'') ''0 (runAsNonRoot is set)'')
            else
         rbind (bool_field L container_sc ''readOnlyRootFilesystem'' container_sc_name) (\<lambda>ro.
         rbind (bool_field L container_sc ''allowPrivilegeEscalation'' container_sc_name) (\<lambda>ape.
         rbind (scratch_volume_option L job_spec) (\<lambda>vol.
           Inr \<lparr>fs_group = fsg, run_user = user, run_as_non_root = non_root,
                read_only_root_filesystem = unwrap_or False ro,
                no_new_privileges = \<not> unwrap_or True ape, scratch_volume = vol\<rparr>))))))))))))"

definition check_section ::
  "'a libs_scheme \<Rightarrow> json option \<Rightarrow> string list \<Rightarrow> (string \<times> no_op) list \<Rightarrow> string \<Rightarrow> spec_error + unit" where
  "check_section L sc supported no_ops fld =
     (case sc of None \<Rightarrow> Inr () | Some v \<Rightarrow> reject_unknown_fields L v supported no_ops fld)"

definition validate_run_options :: "'a libs_scheme \<Rightarrow> json \<Rightarrow> spec_error + unit" where
  "validate_run_options L job_spec =
     rbind (check_section L
              (Option.bind (pointer job_spec [''template'', ''spec'']) (\<lambda>p. get p ''securityContext''))
              POD_SECURITY_CONTEXT_FIELDS POD_SECURITY_CONTEXT_NO_OP_VALUES pod_sc_name) (\<lambda>_.
     rbind (check_section L
              (pointer job_spec [''template'', ''spec'', ''containers'', ''0'', ''securityContext''])
              CONTAINER_SECURITY_CONTEXT_FIELDS CONTAINER_SECURITY_CONTEXT_NO_OP_VALUES container_sc_name) (\<lambda>_.
     rbind (case scratch_mount job_spec of
              None \<Rightarrow> Inr ()
            | Some (i, mount) \<Rightarrow>
                reject_unknown_fields L mount SCRATCH_MOUNT_FIELDS SCRATCH_MOUNT_NO_OP_VALUES
                  (indexed ''containers[0].volumeMounts'' i)) (\<lambda>_.
     rbind (parse_run_options L job_spec) (\<lambda>_. Inr ()))))"

section \<open>Lemmas\<close>

lemma id_field_bound: "id_field L sc key pfx = Inr (Some i) \<Longrightarrow> i \<le> MAX_ID"
  by (auto simp: id_field_def ok_or_def filter_opt_def split: option.splits json.splits if_splits)

lemma reject_field_Inr:
  "reject_field L supported no_ops fld (key, v) = Inr () \<longleftrightarrow>
     key \<in> set supported \<or> (\<exists>n. map_of no_ops key = Some n \<and> (v = JNull \<or> no_op_matches n v))"
  by (auto simp: reject_field_def is_null_def split: option.splits)

lemma reject_unknown_fields_Inr:
  "reject_unknown_fields L v supported no_ops fld = Inr () \<longleftrightarrow>
     v = JNull \<or> (\<exists>m. v = JObj m \<and>
       (\<forall>(key, x) \<in> set m. key \<in> set supported
          \<or> (\<exists>n. map_of no_ops key = Some n \<and> (x = JNull \<or> no_op_matches n x))))"
proof -
  have "reject_field L supported no_ops fld kv = Inr () \<longleftrightarrow>
      (case kv of (key, x) \<Rightarrow> key \<in> set supported
         \<or> (\<exists>n. map_of no_ops key = Some n \<and> (x = JNull \<or> no_op_matches n x)))" for kv
    by (cases kv) (simp add: reject_field_Inr)
  then show ?thesis by (cases v) (simp_all add: reject_unknown_fields_def for_all_Inr)
qed

lemma split_on_absent: "c \<notin> set s \<Longrightarrow> split_on c s = [s]"
  by (induction s) auto

end
