(* ===== verification/Workload.thy ===== *)
theory Workload
  imports Volumes "HOL-Library.List_Lexorder" "HOL-Library.Char_ord"
begin

text \<open>
  Worker sizing, \<open>src/src/workload.rs\<close>: the catalog of server plans and the choice of the cheapest one that
  fits. \<open>cheapest_fitting_server_plan\<close> is one SQL query in the source; here its \<open>WHERE\<close> is a filter
  and its \<open>ORDER BY ... LIMIT 1\<close> the minimum under the lexicographic key \<open>plan_key\<close>. The lemmas show that
  the choice fits the request, that a plan is found whenever one fits, and that no fitting plan
  has a smaller key.
\<close>

datatype workload_kind = CronJob

record server_plan =
  sp_name :: string
  sp_cpu_cores :: nat
  sp_memory_mb :: nat
  sp_storage_gb :: nat
  sp_storage_tier :: "string option"

definition WORKER_BOOT_DISK_GB :: nat where
  "WORKER_BOOT_DISK_GB = 10"

definition plan_bundles_disk_and_ip :: "nat \<Rightarrow> bool" where
  "plan_bundles_disk_and_ip plan_storage_gb \<longleftrightarrow> plan_storage_gb \<ge> WORKER_BOOT_DISK_GB"

definition boot_disk_tier :: "server_plan \<Rightarrow> string" where
  "boot_disk_tier plan =
     (case sp_storage_tier plan of
        Some tier \<Rightarrow> if plan_bundles_disk_and_ip (sp_storage_gb plan) then tier else ''standard''
      | None \<Rightarrow> ''standard'')"

record plan_filter =
  allow_prefixes :: "string list"
  deny_prefixes :: "string list"

definition is_eligible :: "plan_filter \<Rightarrow> plan_info \<Rightarrow> bool" where
  "is_eligible f plan =
     (if pi_gpu_count plan > 0 \<or> \<not> pi_current_offering plan then False
      else (let allowed = allow_prefixes f = [] \<or> list_ex (starts_with (pi_name plan)) (allow_prefixes f);
                denied = list_ex (starts_with (pi_name plan)) (deny_prefixes f)
            in allowed \<and> \<not> denied))"

definition plan_row_of :: "int \<Rightarrow> plan_info \<Rightarrow> plan_row" where
  "plan_row_of fetched_at plan =
     \<lparr>pl_name = pi_name plan, pl_cpu_cores = pi_cpu_cores plan, pl_memory_mb = pi_memory_mb plan,
      pl_storage_gb = pi_storage_gb plan, pl_storage_tier = pi_storage_tier plan,
      pl_fetched_at = fetched_at\<rparr>"

definition insert_plan_row :: "plan_row \<Rightarrow> database \<Rightarrow> string + database" where
  "insert_plan_row r d =
     (if pl_name r \<in> pl_name ` set (provider_plans d) then Inl (unique_violation ''provider_plans.name'')
      else Inr (d\<lparr>provider_plans := provider_plans d @ [r]\<rparr>))"

definition store_plans :: "'x services \<Rightarrow> plan_info list \<Rightarrow> plan_filter \<Rightarrow> int \<Rightarrow> ('x, nat) job_io" where
  "store_plans S plans f fetched_at =
     (let eligible = filter (is_eligible f) plans
      in transaction S
           (seq (sql_exec S (\<lambda>d. Inr (d\<lparr>provider_plans := []\<rparr>)))
           (seq (for_each (\<lambda>plan. sql_exec S (insert_plan_row (plan_row_of fetched_at plan))) eligible)
             (ret (length eligible)))))"

definition has_cached_plans :: "'x services \<Rightarrow> ('x, bool) job_io" where
  "has_cached_plans S = sql_query S (\<lambda>d. 0 < length (provider_plans d))"

section \<open>The plan query\<close>

text \<open>SQLite's \<open>/\<close> on REAL columns: NULL for a NULL operand, for a zero divisor and for NaN.\<close>

definition sqlite_div :: "f64 \<Rightarrow> f64 \<Rightarrow> f64 option" where
  "sqlite_div a b = (if b = Fin 0 then None else case f64_div a b of NaN \<Rightarrow> None | x \<Rightarrow> Some x)"

definition price_row :: "database \<Rightarrow> string \<Rightarrow> string \<Rightarrow> pricing_row option" where
  "price_row d zone key = find (\<lambda>r. pr_zone r = zone \<and> pr_price_key r = key) (provider_pricing d)"

definition unit_price_sql :: "database \<Rightarrow> string \<Rightarrow> string \<Rightarrow> f64 option" where
  "unit_price_sql d zone key = Option.bind (price_row d zone key) (\<lambda>r. sqlite_div (pr_price r) (pr_amount r))"

definition coalesce0 :: "f64 option \<Rightarrow> f64" where
  "coalesce0 x = unwrap_or (Fin 0) x"

definition plan_cost_sql :: "database \<Rightarrow> string \<Rightarrow> plan_row \<Rightarrow> f64 option" where
  "plan_cost_sql d zone p =
     (let extra =
            (if pl_storage_gb p < WORKER_BOOT_DISK_GB
             then f64_add (f64_mul (coalesce0 (unit_price_sql d zone ''storage_standard'')) (Fin 10))
                    (coalesce0 (unit_price_sql d zone ''ipv4_address''))
             else Fin 0)
      in Option.bind (unit_price_sql d zone (''server_plan_'' @ pl_name p))
           (\<lambda>b. case f64_add b extra of NaN \<Rightarrow> None | x \<Rightarrow> Some x))"

text \<open>The rank of a cost in SQLite's order: NULL first, then the numbers.\<close>

definition cost_le :: "f64 option \<Rightarrow> f64 option \<Rightarrow> bool" where
  "cost_le a b = (case a of None \<Rightarrow> True | Some x \<Rightarrow> (case b of None \<Rightarrow> False | Some y \<Rightarrow> f64_le x y))"

definition plan_le :: "database \<Rightarrow> string \<Rightarrow> plan_row \<Rightarrow> plan_row \<Rightarrow> bool" where
  "plan_le d zone p q =
     (let np = price_row d zone (''server_plan_'' @ pl_name p) = None;
          nq = price_row d zone (''server_plan_'' @ pl_name q) = None;
          cp = plan_cost_sql d zone p;
          cq = plan_cost_sql d zone q
      in if np \<noteq> nq then nq
         else if cp \<noteq> cq then cost_le cp cq
         else if pl_cpu_cores p \<noteq> pl_cpu_cores q then pl_cpu_cores p < pl_cpu_cores q
         else if pl_memory_mb p \<noteq> pl_memory_mb q then pl_memory_mb p < pl_memory_mb q
         else pl_name p \<le> pl_name q)"

fun first_min :: "('a \<Rightarrow> 'a \<Rightarrow> bool) \<Rightarrow> 'a list \<Rightarrow> 'a option" where
  "first_min le [] = None"
| "first_min le (x # xs) =
     (case first_min le xs of None \<Rightarrow> Some x | Some y \<Rightarrow> if le x y then Some x else Some y)"

definition server_plan_of :: "plan_row \<Rightarrow> server_plan" where
  "server_plan_of r =
     \<lparr>sp_name = pl_name r, sp_cpu_cores = pl_cpu_cores r, sp_memory_mb = pl_memory_mb r,
      sp_storage_gb = pl_storage_gb r, sp_storage_tier = pl_storage_tier r\<rparr>"

definition fitting_plans :: "database \<Rightarrow> nat \<Rightarrow> nat \<Rightarrow> plan_row list" where
  "fitting_plans d cpu_cores memory_gb =
     filter (\<lambda>p. pl_cpu_cores p \<ge> cpu_cores \<and> pl_memory_mb p \<ge> memory_gb * 1024) (provider_plans d)"

definition cheapest_fitting_server_plan ::
  "'x services \<Rightarrow> string \<Rightarrow> nat \<Rightarrow> nat \<Rightarrow> ('x, server_plan option) job_io" where
  "cheapest_fitting_server_plan S zone cpu_cores memory_gb =
     sql_query S (\<lambda>d. map_option server_plan_of
       (first_min (plan_le d zone) (fitting_plans d cpu_cores memory_gb)))"

definition div_ceil :: "nat \<Rightarrow> nat \<Rightarrow> nat" where
  "div_ceil a b = (a + b - 1) div b"

definition whole_units_for_requests :: "nat option \<Rightarrow> nat option \<Rightarrow> nat \<times> nat" where
  "whole_units_for_requests cpu_millicores memory_mb =
     (div_ceil (unwrap_or 1000 cpu_millicores) 1000, div_ceil (unwrap_or 1024 memory_mb) 1024)"

definition plan_for_resource_requests ::
  "'x services \<Rightarrow> string \<Rightarrow> nat option \<Rightarrow> nat option \<Rightarrow> ('x, server_plan option) job_io" where
  "plan_for_resource_requests S zone cpu_millicores memory_mb =
     (let (cpu_cores, memory_gb) = whole_units_for_requests cpu_millicores memory_mb
      in cheapest_fitting_server_plan S zone cpu_cores memory_gb)"

definition parse_cpu_millicores :: "string \<Rightarrow> string + nat" where
  "parse_cpu_millicores q =
     (let quantity = trim q
      in case strip_suffix quantity ''m'' of
           Some millicores \<Rightarrow>
             (case parse_f64 millicores of
                None \<Rightarrow> Inl (''not a valid CPU quantity: '' @ str_debug quantity)
              | Some n \<Rightarrow>
                 if f64_lt n (Fin 0) then Inl (''CPU quantity must not be negative: '' @ str_debug quantity)
                 else Inr (f64_as_u32 (f64_round n)))
         | None \<Rightarrow>
             (case parse_f64 quantity of
                None \<Rightarrow> Inl (''not a valid CPU quantity: '' @ str_debug quantity)
              | Some cores \<Rightarrow>
                 if f64_lt cores (Fin 0) then Inl (''CPU quantity must not be negative: '' @ str_debug quantity)
                 else Inr (f64_as_u32 (f64_round (f64_mul cores (Fin 1000))))))"

definition parse_cpu_cores :: "string \<Rightarrow> string + nat" where
  "parse_cpu_cores quantity = rbind (parse_cpu_millicores quantity) (\<lambda>m. Inr (div_ceil m 1000))"

section \<open>Lemmas\<close>

lemma first_min_None: "first_min le xs = None \<longleftrightarrow> xs = []"
  by (induction xs) (auto split: option.splits)

lemma first_min_in: "first_min le xs = Some x \<Longrightarrow> x \<in> set xs"
  by (induction xs arbitrary: x) (auto split: option.splits if_splits)

text \<open>For a total and transitive order the chosen element is below all others.\<close>

locale ranking =
  fixes le :: "'a \<Rightarrow> 'a \<Rightarrow> bool"
  assumes le_total: "le x y \<or> le y x"
    and le_trans: "le x y \<Longrightarrow> le y z \<Longrightarrow> le x z"
begin

lemma le_refl: "le x x"
  using le_total by blast

lemma first_min_least: "first_min le xs = Some x \<Longrightarrow> y \<in> set xs \<Longrightarrow> le x y"
proof (induction xs arbitrary: x)
  case Nil
  then show ?case by simp
next
  case (Cons z zs)
  show ?case
  proof (cases "first_min le zs")
    case None
    with Cons.prems show ?thesis by (auto simp: first_min_None le_refl)
  next
    case (Some m)
    with Cons show ?thesis
      by (auto simp: le_refl split: if_splits intro: le_trans) (metis le_total le_trans)
  qed
qed

end

lemma cost_not_NaN: "plan_cost_sql d zone p \<noteq> Some NaN"
  by (auto simp: plan_cost_sql_def Let_def split: bind_splits f64.splits)

lemma f64_le_total: "a \<noteq> NaN \<Longrightarrow> b \<noteq> NaN \<Longrightarrow> f64_le a b \<or> f64_le b a"
  by (cases a; cases b) auto

lemma cost_le_total: "a \<noteq> Some NaN \<Longrightarrow> b \<noteq> Some NaN \<Longrightarrow> cost_le a b \<or> cost_le b a"
  by (cases a; cases b) (simp_all add: cost_le_def f64_le_total)

lemma f64_le_trans: "f64_le a b \<Longrightarrow> f64_le b c \<Longrightarrow> f64_le a c"
  by (cases a; cases b; cases c) auto

lemma f64_le_antisym: "f64_le a b \<Longrightarrow> f64_le b a \<Longrightarrow> a = b"
  by (cases a; cases b) auto

lemma cost_le_trans: "cost_le a b \<Longrightarrow> cost_le b c \<Longrightarrow> cost_le a c"
  by (auto simp: cost_le_def intro: f64_le_trans split: option.splits)

lemma cost_le_antisym: "cost_le a b \<Longrightarrow> cost_le b a \<Longrightarrow> a = b"
  by (auto simp: cost_le_def intro: f64_le_antisym split: option.splits)

interpretation plans: ranking "plan_le d zone" for d zone
proof unfold_locales
  fix p q
  show "plan_le d zone p q \<or> plan_le d zone q p"
    using cost_le_total [OF cost_not_NaN cost_not_NaN, of d zone p d zone q]
    by (auto simp: plan_le_def Let_def)
next
  fix p q r
  assume "plan_le d zone p q" and "plan_le d zone q r"
  then show "plan_le d zone p r"
    using cost_le_trans [of "plan_cost_sql d zone p" "plan_cost_sql d zone q" "plan_cost_sql d zone r"]
      cost_le_antisym [of "plan_cost_sql d zone p" "plan_cost_sql d zone q"]
    by (auto simp: plan_le_def Let_def split: if_splits)
qed

lemma div_ceil_ge: "0 < b \<Longrightarrow> a \<le> div_ceil a b * b"
proof -
  assume "0 < b"
  then have "(a + b - 1) mod b \<le> b - 1" by (simp add: Suc_leI flip: less_Suc_eq_le)
  moreover have "(a + b - 1) div b * b + (a + b - 1) mod b = a + b - 1" by simp
  ultimately show ?thesis using \<open>0 < b\<close> unfolding div_ceil_def by linarith
qed

lemma fitting_plans_iff:
  "p \<in> set (fitting_plans d c m) \<longleftrightarrow>
     p \<in> set (provider_plans d) \<and> c \<le> pl_cpu_cores p \<and> m * 1024 \<le> pl_memory_mb p"
  by (auto simp: fitting_plans_def)

text \<open>The queries only read.\<close>

context db_frame
begin

lemma keeps_plan_for [intro!]: "keeps on_world (plan_for_resource_requests S zone c m)"
  by (auto simp: plan_for_resource_requests_def cheapest_fitting_server_plan_def split: prod.split)

lemma keeps_has_cached_plans [intro!]: "keeps on_world (has_cached_plans S)"
  by (auto simp: has_cached_plans_def)

end

end
