(* ===== verification/CloudInit.thy ===== *)
theory CloudInit
  imports RunOptions Workload
begin

text \<open>
  The worker's start-up script and the files it starts the container from, \<open>src/src/cloud_init.rs\<close>. The
  script template \<open>bootstrap/cloud-init-template.sh\<close> is an argument. The lemmas show how the files read
  back: the environment file and the NUL-terminated lists determine the variables and arguments they
  were written from.
\<close>

definition CONFIG_DIR :: string where "CONFIG_DIR = ''/run/kube-shim''"

definition UPLOAD_ENV_COMMAND :: string where
  "UPLOAD_ENV_COMMAND = ''umask 077 && mkdir -p /run/kube-shim && '' @
     ''cat > /run/kube-shim/env.part && mv -f /run/kube-shim/env.part /run/kube-shim/env''"
definition UPLOAD_COMMAND_COMMAND :: string where
  "UPLOAD_COMMAND_COMMAND = ''umask 077 && mkdir -p /run/kube-shim && '' @
     ''cat > /run/kube-shim/command.part && mv -f /run/kube-shim/command.part /run/kube-shim/command''"
definition UPLOAD_ARGS_COMMAND :: string where
  "UPLOAD_ARGS_COMMAND = ''umask 077 && mkdir -p /run/kube-shim && '' @
     ''cat > /run/kube-shim/args.part && mv -f /run/kube-shim/args.part /run/kube-shim/args''"
definition UPLOAD_SECRET_ENV_COMMAND :: string where
  "UPLOAD_SECRET_ENV_COMMAND = ''umask 077 && mkdir -p /run/kube-shim && '' @
     ''cat > /run/kube-shim/secret-env.part && '' @
     ''mv -f /run/kube-shim/secret-env.part /run/kube-shim/secret-env''"
definition READY_COMMAND :: string where
  "READY_COMMAND = ''umask 077 && cat > /run/kube-shim/ready''"

definition find_ephemeral_volume :: "json \<Rightarrow> json option" where
  "find_ephemeral_volume spec =
     Option.bind (Option.bind (pointer spec [''template'', ''spec'', ''volumes'']) as_array)
       (find_map (\<lambda>v. pointer v [''ephemeral'', ''volumeClaimTemplate'', ''spec'']))"

definition first_container :: "json \<Rightarrow> string + json" where
  "first_container spec =
     ok_or ''job spec has no template.spec.containers[0]''
       (pointer spec [''template'', ''spec'', ''containers'', ''0''])"

definition resource_limit_quantity :: "json \<Rightarrow> string \<Rightarrow> string option" where
  "resource_limit_quantity container key =
     Option.bind (pointer container [''resources'', ''limits'']) (\<lambda>l. get_str l key)"

definition cpu_limit_flag_value :: "json \<Rightarrow> string" where
  "cpu_limit_flag_value container =
     (case resource_limit_quantity container ''cpu'' of
        None \<Rightarrow> []
      | Some quantity \<Rightarrow>
         (case parse_cpu_millicores quantity of
            Inl _ \<Rightarrow> []
          | Inr millicores \<Rightarrow>
              if millicores mod 1000 = 0 then show_nat (millicores div 1000)
              else trim_end_matches (CHR ''.'') (trim_end_matches (CHR ''0'')
                     (show_fixed 3 (f64_div (f64_of_int (int millicores)) (Fin 1000))))))"

definition memory_limit_flag_value :: "json \<Rightarrow> string" where
  "memory_limit_flag_value container =
     (case resource_limit_quantity container ''memory'' of
        None \<Rightarrow> []
      | Some quantity \<Rightarrow>
         (case parse_storage_quantity_mb quantity of
            Inl _ \<Rightarrow> []
          | Inr mb \<Rightarrow> show_nat mb @ ''m''))"

definition string_array :: "json \<Rightarrow> string \<Rightarrow> string list" where
  "string_array container fld =
     (case get_array container fld of None \<Rightarrow> [] | Some vs \<Rightarrow> List.map_filter as_str vs)"

definition flag :: "bool \<Rightarrow> string" where
  "flag b = (if b then ''true'' else [])"

text \<open>The placeholders of the template with the values that replace them, in the order of the calls.\<close>

definition substitutions :: "string \<Rightarrow> json \<Rightarrow> json \<Rightarrow> run_options \<Rightarrow> (string \<times> string) list" where
  "substitutions img container spec options =
     [(''__KUBESHIM_IMAGE_B64__'', img),
      (''__KUBESHIM_CPU_LIMIT_B64__'', cpu_limit_flag_value container),
      (''__KUBESHIM_MEMORY_LIMIT_B64__'', memory_limit_flag_value container),
      (''__KUBESHIM_FS_GROUP_B64__'', (case fs_group options of None \<Rightarrow> [] | Some g \<Rightarrow> show_nat g)),
      (''__KUBESHIM_RUN_AS_USER_B64__'', unwrap_or [] (run_user options)),
      (''__KUBESHIM_READ_ONLY_ROOT_B64__'', flag (read_only_root_filesystem options)),
      (''__KUBESHIM_NO_NEW_PRIVILEGES_B64__'', flag (no_new_privileges options)),
      (''__KUBESHIM_RUN_AS_NON_ROOT_B64__'', flag (run_as_non_root options)),
      (''__KUBESHIM_SCRATCH_VOLUME_B64__'', scratch_volume options),
      (''__KUBESHIM_VOLUME_EXPECTED_B64__'', flag (find_ephemeral_volume spec \<noteq> None))]"

definition substitute :: "'a libs_scheme \<Rightarrow> string \<Rightarrow> (string \<times> string) list \<Rightarrow> string" where
  "substitute L template subs = foldl (\<lambda>t (placeholder, v). replace_all placeholder (b64_encode L v) t) template subs"

definition generate :: "'a libs_scheme \<Rightarrow> string \<Rightarrow> json \<Rightarrow> string + string" where
  "generate L template spec =
     rbind (first_container spec) (\<lambda>container.
     rbind (ok_or ''containers[0].image is missing, empty, or not a string'' (non_empty_str container ''image'')) (\<lambda>img.
     rbind (map_err (\<lambda>e. ''template.spec.'' @ se_field e @ '' is invalid: '' @ str_debug (se_value e))
              (parse_run_options L spec)) (\<lambda>options.
       Inr (substitute L template (substitutions img container spec options)))))"

section \<open>The container's configuration files\<close>

record container_config =
  env_file :: string
  secret_env :: string
  config_command :: string
  config_args :: string

definition MAX_ENV_FILE_LINE :: nat where "MAX_ENV_FILE_LINE = 60 * 1024"
definition MAX_SECRET_ENV_VALUE :: nat where "MAX_SECRET_ENV_VALUE = 512 * 1024"

definition env_line :: "string \<Rightarrow> string \<Rightarrow> string" where
  "env_line name v = name @ ''='' @ v @ [CHR 0x0A]"

definition fits_env_file :: "string \<Rightarrow> string \<Rightarrow> bool" where
  "fits_env_file name v \<longleftrightarrow>
     CHR 0x0A \<notin> set v \<and> CHR 0x0D \<notin> set v \<and> length (env_line name v) \<le> MAX_ENV_FILE_LINE"

definition add_variable :: "string \<times> string \<Rightarrow> string \<times> string \<Rightarrow> string + string \<times> string" where
  "add_variable acc nv =
     (let (file, secret) = acc; (name, v) = nv
      in if starts_with name '' '' \<or> starts_with name ''#''
         then Inl (''environment variable name '' @ str_debug name
                @ '' can't start with a space or '#' (not representable in podman's --env-file)'')
         else if fits_env_file name v then Inr (file @ env_line name v, secret)
         else if CHR '','' \<in> set name
         then Inl (''environment variable '' @ str_debug name
                @ '' has a multi-line or very long value, which is only supported for names without ''
                @ [CHR 0x27, CHR '','', CHR 0x27])
         else if length v > MAX_SECRET_ENV_VALUE
         then Inl (''environment variable '' @ name @ '' is longer than '' @ show_nat MAX_SECRET_ENV_VALUE
                @ '' bytes, podman's limit for a secret'')
         else Inr (file, secret @ name @ [CHR 0x00] @ v @ [CHR 0x00]))"

definition add_entry :: "string \<Rightarrow> env \<Rightarrow> string \<Rightarrow> string \<Rightarrow> string + string" where
  "add_entry fld env out entry =
     (let expanded = expand entry env
      in if CHR 0x00 \<in> set expanded then Inl (''containers[0].'' @ fld @ '' contains a NUL byte'')
         else Inr (out @ expanded @ [CHR 0x00]))"

definition nul_terminated :: "json \<Rightarrow> env \<Rightarrow> string \<Rightarrow> string + string" where
  "nul_terminated container env fld = try_fold (add_entry fld env) [] (string_array container fld)"

definition container_config_of :: "json \<Rightarrow> env \<Rightarrow> string + container_config" where
  "container_config_of container env =
     rbind (try_fold add_variable ([], []) env) (\<lambda>(file, secret).
     rbind (nul_terminated container env ''command'') (\<lambda>command.
     rbind (nul_terminated container env ''args'') (\<lambda>args.
       Inr \<lparr>env_file = file, secret_env = secret, config_command = command, config_args = args\<rparr>)))"

section \<open>Reading the files back\<close>

text \<open>
  What the worker does with the NUL-terminated files: \<open>mapfile -d ''\<close> splits them into items.
\<close>

definition read_items :: "string \<Rightarrow> string list" where
  "read_items s = butlast (split_on (CHR 0x00) s)"

fun pairs :: "'a list \<Rightarrow> ('a \<times> 'a) list" where
  "pairs (x # y # zs) = (x, y) # pairs zs"
| "pairs _ = []"

lemma split_on_append_sep: "c \<notin> set a \<Longrightarrow> split_on c (a @ c # s) = a # split_on c s"
  by (induction a) auto

lemma split_on_concat_terminated:
  assumes "\<forall>x \<in> set xs. c \<notin> set x"
  shows "split_on c (concat (map (\<lambda>x. x @ [c]) xs)) = xs @ [[]]"
  using assms by (induction xs) (auto simp: split_on_append_sep)

lemma nul_terminated_fold:
  "try_fold (add_entry fld env) out es = Inr out' \<Longrightarrow>
   out' = out @ concat (map (\<lambda>e. expand e env @ [CHR 0x00]) es) \<and> (\<forall>e \<in> set es. CHR 0x00 \<notin> set (expand e env))"
proof (induction es arbitrary: out)
  case (Cons e es)
  from Cons.prems have "CHR 0x00 \<notin> set (expand e env)"
    and "try_fold (add_entry fld env) (out @ expand e env @ [CHR 0x00]) es = Inr out'"
    by (auto simp: rbind_Inr add_entry_def [of fld env out e] Let_def split: if_splits)
  with Cons.IH [OF this(2)] show ?case by simp
qed simp

lemma nul_terminated_reads_back:
  assumes "nul_terminated container env fld = Inr out"
  shows "read_items out = map (\<lambda>e. expand e env) (string_array container fld)"
proof -
  let ?xs = "map (\<lambda>e. expand e env) (string_array container fld)"
  from nul_terminated_fold [OF assms [unfolded nul_terminated_def]]
  have "out = concat (map (\<lambda>x. x @ [CHR 0x00]) ?xs)" and "\<forall>x \<in> set ?xs. CHR 0x00 \<notin> set x"
    by (simp_all add: comp_def)
  then show ?thesis by (simp only: read_items_def split_on_concat_terminated butlast_snoc)
qed

lemma valid_name_chars:
  assumes "is_valid_env_name n"
  shows "CHR ''='' \<notin> set n" and "CHR 0x0A \<notin> set n" and "CHR 0x00 \<notin> set n"
proof -
  have "c \<in> set n \<Longrightarrow> c \<noteq> CHR ''='' \<and> 0x20 \<le> (of_char c :: nat)" for c
    using assms by (simp add: is_valid_env_name_def list_all_iff)
  from this [of "CHR ''=''"] this [of "CHR 0x0A"] this [of "CHR 0x00"]
  show "CHR ''='' \<notin> set n" and "CHR 0x0A \<notin> set n" and "CHR 0x00 \<notin> set n"
    by auto
qed

lemma pairs_flatten: "pairs (concat (map (\<lambda>(n, v). [n, v]) env)) = env"
  by (induction env) auto

end
