(* ===== verification/JobStates.thy ===== *)
theory JobStates
  imports CloudInit
begin

text \<open>
  The states of a job run and the statements every part of the job loop shares, from
  \<open>src/src/reconcile/job.rs\<close>: \<open>STATE_SEQUENCE\<close>, \<open>next_state\<close>, \<open>is_pre_completion_state\<close>, the fields read
  from a spec, \<open>record_event\<close>, \<open>force_failed\<close> and the single-statement helpers on the tables. A status is
  the text in the database, so a row may hold any string. The lemmas order the states: every
  recognised state but the last has a successor of higher rank, so a run that keeps moving ends in
  \<open>Archived\<close>.
\<close>

section \<open>States\<close>

definition STATE_SEQUENCE :: "string list" where
  "STATE_SEQUENCE =
     [''Created'', ''VolumePending'', ''VolumeCreating'', ''VolumeCreated'', ''VMPending'',
      ''FirewallApplying'', ''FirewallVerified'', ''VMCreating'', ''VMRunning'', ''VolumeAttaching'',
      ''VolumeAttached'', ''ContainerConfiguring'', ''ContainerRunning'', ''Succeeded'',
      ''VolumeDetaching'', ''VolumeDeleted'', ''VMTerminating'', ''Archived'']"

definition TERMINAL_STATE :: string where
  "TERMINAL_STATE = ''Archived''"

text \<open>Seconds.\<close>

definition RETRY_ESCALATION_THRESHOLD :: int where
  "RETRY_ESCALATION_THRESHOLD = 5 * 60"

definition CONTAINER_START_TIMEOUT :: int where
  "CONTAINER_START_TIMEOUT = 30 * 60"

definition WORKER_STATUS_COMMAND :: string where
  "WORKER_STATUS_COMMAND = ''tail -c 4096 /tmp/job-status.txt''"

text \<open>\<open>iter().position\<close>.\<close>

fun position :: "('a \<Rightarrow> bool) \<Rightarrow> 'a list \<Rightarrow> nat option" where
  "position p [] = None"
| "position p (x # xs) = (if p x then Some 0 else map_option Suc (position p xs))"

definition next_state :: "string \<Rightarrow> string option" where
  "next_state current =
     (if current = ''Failed'' then Some ''VolumeDetaching''
      else Option.bind (position (\<lambda>s. s = current) STATE_SEQUENCE) (\<lambda>index.
             if index + 1 < length STATE_SEQUENCE then Some (STATE_SEQUENCE ! (index + 1)) else None))"

text \<open>The \<open>expect\<close> of the source never fails: \<open>Succeeded\<close> has the index 13.\<close>

definition succeeded_index :: nat where
  "succeeded_index = the (position (\<lambda>s. s = ''Succeeded'') STATE_SEQUENCE)"

definition is_pre_completion_state :: "string \<Rightarrow> bool" where
  "is_pre_completion_state status =
     (case position (\<lambda>s. s = status) STATE_SEQUENCE of
        Some index \<Rightarrow> index < succeeded_index
      | None \<Rightarrow> False)"

section \<open>Reading a spec\<close>

definition active_deadline_seconds :: "json \<Rightarrow> int option" where
  "active_deadline_seconds spec = Option.bind (get spec ''activeDeadlineSeconds'') as_i64"

definition extract_resource_requests :: "json \<Rightarrow> nat option \<times> nat option" where
  "extract_resource_requests spec =
     (let requests = pointer spec [''template'', ''spec'', ''containers'', ''0'', ''resources'', ''requests''];
          cpu = Option.bind (Option.bind requests (\<lambda>r. get_str r ''cpu'')) (\<lambda>q. ok (parse_cpu_millicores q));
          memory = Option.bind (Option.bind requests (\<lambda>r. get_str r ''memory'')) (\<lambda>q. ok (parse_storage_quantity_mb q))
      in (cpu, memory))"

text \<open>\<open>serde_json::from_str(..).unwrap_or(Null)\<close>, how every handler reads its spec.\<close>

definition parse_spec :: "'a libs_scheme \<Rightarrow> string \<Rightarrow> json" where
  "parse_spec L text = (case from_str L text of Inr v \<Rightarrow> v | Inl _ \<Rightarrow> JNull)"

section \<open>Statements\<close>

text \<open>\<open>RUN_FAILED_SQL\<close>.\<close>

definition run_failed :: "database \<Rightarrow> job_row \<Rightarrow> bool" where
  "run_failed d r \<longleftrightarrow>
     unwrap_or 0 (j_exit_code r) \<noteq> 0
     \<or> list_ex (\<lambda>e. ev_job_id e = Some (j_id r) \<and> ev_reason e = ''Failed'') (events d)"

definition record_event ::
  "'x services \<Rightarrow> string option \<Rightarrow> string \<Rightarrow> string \<Rightarrow> string \<Rightarrow> ('x, unit) job_io" where
  "record_event S job_id reason message event_type =
     bnd (new_uuid S) (\<lambda>eid.
     bnd (now_ts S) (\<lambda>now.
       sql_exec S (insert_event_row
         \<lparr>ev_id = eid, ev_job_id = job_id, ev_reason = reason, ev_message = message,
          ev_timestamp = now, ev_type = event_type\<rparr>)))"

definition force_failed :: "'x services \<Rightarrow> string \<Rightarrow> string \<Rightarrow> int \<Rightarrow> ('x, unit) job_io" where
  "force_failed S job_id reason now =
     seq (sql_exec S (update_jobs job_id (\<lambda>r. r\<lparr>j_status := ''Failed'', j_last_error := Some reason,
            j_last_transition_time := Some now, j_updated_at := now, j_version := j_version r + 1\<rparr>)))
       (record_event S (Some job_id) ''Failed'' reason ''Warning'')"

definition insert_job_volume ::
  "'x services \<Rightarrow> string \<Rightarrow> nat \<Rightarrow> storage_tier \<Rightarrow> string \<Rightarrow> string \<Rightarrow> ('x, unit) job_io" where
  "insert_job_volume S job_id size_gb tier provider_volume_id provider_volume_name =
     bnd (new_uuid S) (\<lambda>rid.
     bnd (now_ts S) (\<lambda>now.
       sql_exec S (insert_job_volume_row
         \<lparr>jv_id = rid, jv_job_id = job_id, jv_size_gb = size_gb, jv_storage_class_name = class_name tier,
          jv_provider_volume_id = Some provider_volume_id,
          jv_provider_volume_name = Some provider_volume_name, jv_created_at = now\<rparr>)))"

definition job_volume_id :: "'x services \<Rightarrow> string \<Rightarrow> ('x, string option) job_io" where
  "job_volume_id S job_id =
     sql_query S (\<lambda>d. Option.bind (find (\<lambda>v. jv_job_id v = job_id) (job_volumes d)) jv_provider_volume_id)"

definition delete_job_volume :: "'x services \<Rightarrow> string \<Rightarrow> ('x, unit) job_io" where
  "delete_job_volume S job_id =
     sql_exec S (\<lambda>d. Inr (d\<lparr>job_volumes := filter (\<lambda>v. jv_job_id v \<noteq> job_id) (job_volumes d)\<rparr>))"

definition set_worker_vm :: "'x services \<Rightarrow> string \<Rightarrow> string \<Rightarrow> string \<Rightarrow> string \<Rightarrow> ('x, unit) job_io" where
  "set_worker_vm S job_id vm_id vm_name plan =
     sql_exec S (update_jobs job_id (\<lambda>r. r\<lparr>j_worker_vm_id := Some vm_id, j_worker_vm_name := Some vm_name,
       j_worker_plan := Some plan\<rparr>))"

definition worker_vm_id :: "'x services \<Rightarrow> string \<Rightarrow> ('x, string option) job_io" where
  "worker_vm_id S job_id = sql_fetch_one S (\<lambda>d. map_option j_worker_vm_id (find_job job_id d))"

definition set_worker_ssh_ip :: "'x services \<Rightarrow> string \<Rightarrow> string \<Rightarrow> ('x, unit) job_io" where
  "set_worker_ssh_ip S job_id ip =
     sql_exec S (update_jobs job_id (\<lambda>r. r\<lparr>j_worker_ssh_ip := Some ip\<rparr>))"

definition worker_ssh_ip :: "'x services \<Rightarrow> string \<Rightarrow> ('x, string option) job_io" where
  "worker_ssh_ip S job_id = sql_fetch_one S (\<lambda>d. map_option j_worker_ssh_ip (find_job job_id d))"

text \<open>A NaN bound to a REAL column is stored as NULL.\<close>

definition sql_real :: "f64 option \<Rightarrow> f64 option" where
  "sql_real x = (case x of Some NaN \<Rightarrow> None | _ \<Rightarrow> x)"

definition record_completion ::
  "'x services \<Rightarrow> string \<Rightarrow> int \<Rightarrow> string \<Rightarrow> bool \<Rightarrow> f64 option \<Rightarrow> ('x, unit) job_io" where
  "record_completion S job_id exit_code logs logs_timestamped actual_cost =
     bnd (now_ts S) (\<lambda>now.
       sql_exec S (update_jobs job_id (\<lambda>r. r\<lparr>j_exit_code := Some exit_code, j_cached_logs := Some logs,
         j_cached_logs_timestamped := logs_timestamped, j_actual_cost := sql_real actual_cost,
         j_completed_at := Some now\<rparr>)))"

text \<open>The read of \<open>retry_count\<close> only feeds the log line, but its failure is an error.\<close>

definition record_failed_attempt :: "'x services \<Rightarrow> string \<Rightarrow> string \<Rightarrow> ('x, unit) job_io" where
  "record_failed_attempt S job_id error =
     bnd (now_ts S) (\<lambda>now.
     seq (sql_exec S (update_jobs job_id (\<lambda>r. r\<lparr>j_retry_count := j_retry_count r + 1,
            j_last_error := Some error, j_updated_at := now\<rparr>)))
     (bnd (sql_fetch_one S (\<lambda>d. map_option j_retry_count (find_job job_id d))) (\<lambda>_. ret ())))"

section \<open>Lemmas\<close>

lemma position_Some: "position p xs = Some i \<Longrightarrow> i < length xs \<and> p (xs ! i)"
  by (induction xs arbitrary: i) (auto split: if_splits)

lemma position_None: "position p xs = None \<longleftrightarrow> (\<forall>x \<in> set xs. \<not> p x)"
  by (induction xs) auto

text \<open>The rank of a state: its place in the pipeline, with \<open>Failed\<close> beside \<open>Succeeded\<close>.\<close>

definition rank :: "string \<Rightarrow> nat" where
  "rank s = (if s = ''Failed'' then 13 else unwrap_or 0 (position (\<lambda>x. x = s) STATE_SEQUENCE))"

definition recognised :: "string \<Rightarrow> bool" where
  "recognised s \<longleftrightarrow> s \<in> set STATE_SEQUENCE \<or> s = ''Failed''"

lemma recognised_cases:
  assumes "recognised s"
  obtains "s = ''Created''" | "s = ''VolumePending''" | "s = ''VolumeCreating''" | "s = ''VolumeCreated''"
  | "s = ''VMPending''" | "s = ''FirewallApplying''" | "s = ''FirewallVerified''" | "s = ''VMCreating''"
  | "s = ''VMRunning''" | "s = ''VolumeAttaching''" | "s = ''VolumeAttached''" | "s = ''ContainerConfiguring''"
  | "s = ''ContainerRunning''" | "s = ''Succeeded''" | "s = ''VolumeDetaching''" | "s = ''VolumeDeleted''"
  | "s = ''VMTerminating''" | "s = ''Archived''" | "s = ''Failed''"
  using assms unfolding recognised_def STATE_SEQUENCE_def list.set insert_iff empty_iff
  by (elim disjE FalseE) (erule that)+

lemma next_state_simps [simp]:
  "next_state ''Created'' = Some ''VolumePending''" "next_state ''VolumePending'' = Some ''VolumeCreating''"
  "next_state ''VolumeCreating'' = Some ''VolumeCreated''" "next_state ''VolumeCreated'' = Some ''VMPending''"
  "next_state ''VMPending'' = Some ''FirewallApplying''" "next_state ''FirewallApplying'' = Some ''FirewallVerified''"
  "next_state ''FirewallVerified'' = Some ''VMCreating''" "next_state ''VMCreating'' = Some ''VMRunning''"
  "next_state ''VMRunning'' = Some ''VolumeAttaching''" "next_state ''VolumeAttaching'' = Some ''VolumeAttached''"
  "next_state ''VolumeAttached'' = Some ''ContainerConfiguring''"
  "next_state ''ContainerConfiguring'' = Some ''ContainerRunning''"
  "next_state ''ContainerRunning'' = Some ''Succeeded''" "next_state ''Succeeded'' = Some ''VolumeDetaching''"
  "next_state ''VolumeDetaching'' = Some ''VolumeDeleted''" "next_state ''VolumeDeleted'' = Some ''VMTerminating''"
  "next_state ''VMTerminating'' = Some ''Archived''" "next_state ''Archived'' = None"
  "next_state ''Failed'' = Some ''VolumeDetaching''"
  by (simp_all add: next_state_def STATE_SEQUENCE_def)

lemma next_state_unrecognised: "\<not> recognised s \<Longrightarrow> next_state s = None"
proof -
  assume "\<not> recognised s"
  then have "s \<notin> set STATE_SEQUENCE" and "s \<noteq> ''Failed''" by (auto simp: recognised_def)
  then have "position (\<lambda>x. x = s) STATE_SEQUENCE = None" by (auto simp: position_None)
  with \<open>s \<noteq> ''Failed''\<close> show ?thesis by (simp add: next_state_def)
qed

lemma rank_simps [simp]:
  "rank ''Created'' = 0" "rank ''VolumePending'' = 1" "rank ''VolumeCreating'' = 2" "rank ''VolumeCreated'' = 3"
  "rank ''VMPending'' = 4" "rank ''FirewallApplying'' = 5" "rank ''FirewallVerified'' = 6" "rank ''VMCreating'' = 7"
  "rank ''VMRunning'' = 8" "rank ''VolumeAttaching'' = 9" "rank ''VolumeAttached'' = 10"
  "rank ''ContainerConfiguring'' = 11" "rank ''ContainerRunning'' = 12" "rank ''Succeeded'' = 13"
  "rank ''VolumeDetaching'' = 14" "rank ''VolumeDeleted'' = 15" "rank ''VMTerminating'' = 16"
  "rank ''Archived'' = 17" "rank ''Failed'' = 13"
  by (simp_all add: rank_def STATE_SEQUENCE_def unwrap_or_def)

lemma is_pre_completion_simps [simp]:
  "is_pre_completion_state ''Succeeded'' = False" "is_pre_completion_state ''Failed'' = False"
  "is_pre_completion_state ''VolumeDetaching'' = False" "is_pre_completion_state ''VolumeDeleted'' = False"
  "is_pre_completion_state ''VMTerminating'' = False" "is_pre_completion_state ''Archived'' = False"
  "is_pre_completion_state ''ContainerRunning'' = True"
  by (simp_all add: is_pre_completion_state_def succeeded_index_def STATE_SEQUENCE_def)

lemma is_pre_completion_rank: "is_pre_completion_state s \<longleftrightarrow> recognised s \<and> rank s < 13"
proof (cases "recognised s")
  case True
  then show ?thesis
    by (cases rule: recognised_cases)
       (simp_all add: is_pre_completion_state_def succeeded_index_def STATE_SEQUENCE_def recognised_def)
next
  case False
  then have "position (\<lambda>x. x = s) STATE_SEQUENCE = None" by (auto simp: position_None recognised_def)
  with False show ?thesis by (simp add: is_pre_completion_state_def)
qed

lemma next_state_rank: "next_state s = Some t \<Longrightarrow> recognised s \<and> recognised t \<and> t \<noteq> ''Failed'' \<and> rank t = rank s + 1"
proof -
  assume t: "next_state s = Some t"
  then have "recognised s" using next_state_unrecognised by fastforce
  then show ?thesis using t
    by (cases rule: recognised_cases) (auto simp: recognised_def STATE_SEQUENCE_def)
qed

lemma next_state_None: "recognised s \<Longrightarrow> next_state s = None \<longleftrightarrow> s = ''Archived''"
  by (erule recognised_cases) simp_all

end
