(* ===== verification/Pricing.thy ===== *)
theory Pricing
  imports JobStates
begin

text \<open>
  Cost calculation and the rolling budget, \<open>src/src/currency.rs\<close> and \<open>src/src/pricing/mod.rs\<close>. All amounts
  are IEEE doubles (theory Float64) and the order of operations is the source's. The lemmas describe
  accrual, top-ups and the admission check on every branch.
\<close>

section \<open>Exchange rates\<close>

record exchange_rate =
  xr_currency :: string
  xr_rate :: f64

definition insert_rate_row :: "rate_row \<Rightarrow> database \<Rightarrow> string + database" where
  "insert_rate_row r d =
     (if er_currency r \<in> er_currency ` set (exchange_rates d)
      then Inl (unique_violation ''exchange_rates.currency'')
      else if er_rate r = NaN then Inl ''NOT NULL constraint failed: exchange_rates.rate''
      else Inr (d\<lparr>exchange_rates := exchange_rates d @ [r]\<rparr>))"

definition store_rates :: "'x services \<Rightarrow> exchange_rate list \<Rightarrow> int \<Rightarrow> ('x, unit) job_io" where
  "store_rates S rates fetched_at =
     transaction S
       (seq (sql_exec S (\<lambda>d. Inr (d\<lparr>exchange_rates := []\<rparr>)))
            (for_each (\<lambda>r. sql_exec S (insert_rate_row
               \<lparr>er_currency = xr_currency r, er_rate = xr_rate r, er_fetched_at = fetched_at\<rparr>)) rates))"

definition rate_of :: "database \<Rightarrow> string \<Rightarrow> f64 option" where
  "rate_of d currency = map_option er_rate (find (\<lambda>r. er_currency r = currency) (exchange_rates d))"

definition cached_rate :: "'x services \<Rightarrow> string \<Rightarrow> ('x, f64 option) job_io" where
  "cached_rate S currency = sql_query S (\<lambda>d. rate_of d currency)"

definition convert :: "'x services \<Rightarrow> f64 \<Rightarrow> string \<Rightarrow> string \<Rightarrow> ('x, f64 option) job_io" where
  "convert S amount from_currency to_currency =
     (if from_currency = to_currency then ret (Some amount)
      else bnd (if from_currency = ''EUR'' then ret (Some amount)
                else bnd (cached_rate S from_currency) (\<lambda>r. ret (map_option (\<lambda>rate. f64_div amount rate) r)))
        (\<lambda>eur. case eur of
           None \<Rightarrow> ret None
         | Some eur_amount \<Rightarrow>
             if to_currency = ''EUR'' then ret (Some eur_amount)
             else bnd (cached_rate S to_currency)
                    (\<lambda>r. ret (map_option (\<lambda>rate. f64_mul eur_amount rate) r))))"

section \<open>Charges\<close>

definition SECONDS_PER_HOUR :: f64 where
  "SECONDS_PER_HOUR = Fin 3600"

definition cached_price :: "'x services \<Rightarrow> string \<Rightarrow> string \<Rightarrow> ('x, (f64 \<times> f64 \<times> string) option) job_io" where
  "cached_price S zone price_key =
     sql_query S (\<lambda>d. map_option (\<lambda>r. (pr_amount r, pr_price r, pr_currency r)) (price_row d zone price_key))"

record charge_breakdown =
  ch_sku_id :: string
  ch_sku_price_id :: string
  ch_pricing_category :: string
  ch_quantity :: f64
  ch_unit :: string
  ch_unit_price :: f64
  ch_total :: f64

definition charge :: "string \<Rightarrow> string \<Rightarrow> f64 \<Rightarrow> f64 \<Rightarrow> charge_breakdown" where
  "charge sku price_id quantity unit_price =
     \<lparr>ch_sku_id = sku, ch_sku_price_id = price_id, ch_pricing_category = ''Standard'',
      ch_quantity = quantity, ch_unit = ''Hours'', ch_unit_price = unit_price,
      ch_total = f64_mul unit_price quantity\<rparr>"

definition unit_cost :: "f64 \<Rightarrow> f64 \<Rightarrow> f64" where
  "unit_cost price amount = f64_div (f64_div price amount) (Fin 100)"

text \<open>The plan to charge for: the recorded one, or the one the job would get.\<close>

definition charged_plan ::
  "'x services \<Rightarrow> string \<Rightarrow> json \<Rightarrow> string option \<Rightarrow> ('x, (string \<times> nat) option) job_io" where
  "charged_plan S zone spec recorded_plan =
     (case recorded_plan of
        Some name \<Rightarrow>
          bnd (sql_query S (\<lambda>d. map_option pl_storage_gb (find (\<lambda>p. pl_name p = name) (provider_plans d))))
            (\<lambda>storage. ret (Some (name, unwrap_or WORKER_BOOT_DISK_GB storage)))
      | None \<Rightarrow>
          (let (cpu_millicores, memory_mb) = extract_resource_requests spec
           in bnd (plan_for_resource_requests S zone cpu_millicores memory_mb)
                (\<lambda>plan. ret (map_option (\<lambda>p. (sp_name p, sp_storage_gb p)) plan))))"

definition optional_charge ::
  "'x services \<Rightarrow> string \<Rightarrow> string \<Rightarrow> string \<Rightarrow> f64 \<Rightarrow> (f64 \<Rightarrow> f64) \<Rightarrow> ('x, charge_breakdown list) job_io" where
  "optional_charge S zone sku price_key hours scale =
     bnd (cached_price S zone price_key) (\<lambda>p.
       ret (case p of
              None \<Rightarrow> []
            | Some (amount, price, _) \<Rightarrow> [charge sku price_key hours (scale (unit_cost price amount))]))"

definition bundle_charges :: "'x services \<Rightarrow> string \<Rightarrow> nat \<Rightarrow> f64 \<Rightarrow> ('x, charge_breakdown list) job_io" where
  "bundle_charges S zone plan_storage_gb hours =
     (if plan_bundles_disk_and_ip plan_storage_gb then ret []
      else (let boot_tier = upcloud_tier Standard
            in bnd (optional_charge S zone (boot_tier @ ''-'' @ show_nat WORKER_BOOT_DISK_GB @ ''GB-boot'')
                      (''storage_'' @ boot_tier) hours
                      (\<lambda>u. f64_mul u (f64_of_int (int WORKER_BOOT_DISK_GB)))) (\<lambda>boot.
               bnd (optional_charge S zone ''ipv4-address'' ''ipv4_address'' hours (\<lambda>u. u)) (\<lambda>ip.
                 ret (boot @ ip)))))"

definition requested_storage_gb :: "json \<Rightarrow> nat option" where
  "requested_storage_gb volume =
     Option.bind (pointer_str volume [''resources'', ''requests'', ''storage'']) (\<lambda>q. ok (parse_storage_quantity_gb q))"

definition requested_tier :: "json \<Rightarrow> storage_tier" where
  "requested_tier volume = unwrap_or Standard (ok (tier_parse (get_str volume ''storageClassName'')))"

definition volume_charges :: "'x services \<Rightarrow> string \<Rightarrow> json \<Rightarrow> f64 \<Rightarrow> ('x, charge_breakdown list) job_io" where
  "volume_charges S zone spec hours =
     (case find_ephemeral_volume spec of
        None \<Rightarrow> ret []
      | Some volume \<Rightarrow>
         (case requested_storage_gb volume of
            None \<Rightarrow> ret []
          | Some size_gb \<Rightarrow>
             (let tier = upcloud_tier (requested_tier volume)
              in optional_charge S zone (tier @ ''-'' @ show_nat size_gb @ ''GB'') (''storage_'' @ tier) hours
                   (\<lambda>per_gb_hour. f64_mul per_gb_hour (f64_of_int (int size_gb))))))"

definition charge_breakdown_for_duration ::
  "'x services \<Rightarrow> string \<Rightarrow> json \<Rightarrow> string option \<Rightarrow> f64 \<Rightarrow> ('x, (charge_breakdown list \<times> string) option) job_io" where
  "charge_breakdown_for_duration S zone spec recorded_plan duration_hours =
     bnd (charged_plan S zone spec recorded_plan) (\<lambda>plan.
     case plan of
       None \<Rightarrow> ret None
     | Some (plan_name, plan_storage_gb) \<Rightarrow>
        (let vm_price_key = ''server_plan_'' @ plan_name
         in bnd (cached_price S zone vm_price_key) (\<lambda>p.
            case p of
              None \<Rightarrow> ret None
            | Some (vm_amount, vm_price, provider_currency) \<Rightarrow>
               bnd (bundle_charges S zone plan_storage_gb duration_hours) (\<lambda>bundled.
               bnd (volume_charges S zone spec duration_hours) (\<lambda>volume.
                 ret (Some ([charge plan_name vm_price_key duration_hours (unit_cost vm_price vm_amount)]
                            @ bundled @ volume, provider_currency)))))))"

definition hours_of :: "int \<Rightarrow> f64" where
  "hours_of seconds = f64_div (f64_of_int (max seconds 0)) SECONDS_PER_HOUR"

definition estimate_job_charges ::
  "'x services \<Rightarrow> string \<Rightarrow> json \<Rightarrow> int \<Rightarrow> ('x, (charge_breakdown list \<times> string) option) job_io" where
  "estimate_job_charges S zone spec deadline = charge_breakdown_for_duration S zone spec None (hours_of deadline)"

definition actual_job_charges ::
  "'x services \<Rightarrow> string \<Rightarrow> json \<Rightarrow> string option \<Rightarrow> int \<Rightarrow> ('x, (charge_breakdown list \<times> string) option) job_io" where
  "actual_job_charges S zone spec worker_plan duration_seconds =
     charge_breakdown_for_duration S zone spec worker_plan (hours_of duration_seconds)"

definition sum_and_convert ::
  "'x services \<Rightarrow> string \<Rightarrow> (charge_breakdown list \<times> string) option \<Rightarrow> ('x, f64 option) job_io" where
  "sum_and_convert S main_currency charges =
     (case charges of
        None \<Rightarrow> ret None
      | Some (cs, provider_currency) \<Rightarrow> convert S (f64_sum (map ch_total cs)) provider_currency main_currency)"

definition estimate_job_cost ::
  "'x services \<Rightarrow> string \<Rightarrow> json \<Rightarrow> int \<Rightarrow> string \<Rightarrow> ('x, f64 option) job_io" where
  "estimate_job_cost S zone spec deadline main_currency =
     bnd (estimate_job_charges S zone spec deadline) (sum_and_convert S main_currency)"

definition calculate_actual_cost ::
  "'x services \<Rightarrow> string \<Rightarrow> json \<Rightarrow> string option \<Rightarrow> int \<Rightarrow> string \<Rightarrow> ('x, f64 option) job_io" where
  "calculate_actual_cost S zone spec worker_plan duration_seconds main_currency =
     bnd (actual_job_charges S zone spec worker_plan duration_seconds) (sum_and_convert S main_currency)"

definition provider_currency_query :: "'x services \<Rightarrow> ('x, string option) job_io" where
  "provider_currency_query S =
     sql_query S (\<lambda>d. case provider_pricing d of [] \<Rightarrow> None | r # _ \<Rightarrow> Some (pr_currency r))"

section \<open>The budget\<close>

record budget_settings =
  main_currency :: string
  budget_daily_rate :: f64
  budget_rollover_cap_days :: nat

record settings_patch =
  sp_budget_daily_rate :: "f64 option"
  sp_budget_rollover_cap_days :: "nat option"
  sp_main_currency :: "string option"

record settings_patch_outcome =
  po_settings :: budget_settings
  po_balance :: f64
  po_currency_conversion :: "(string \<times> f64 \<times> string \<times> f64) option"

datatype budget_error =
    NotSeeded
  | CurrencyConversionUnavailable string string
  | Internal anyhow

fun budget_error_to_string :: "budget_error \<Rightarrow> string" where
  "budget_error_to_string NotSeeded = ''budget settings have not been initialized''"
| "budget_error_to_string (CurrencyConversionUnavailable f t) =
     ''cannot convert '' @ f @ '' to '' @ t @ '': no exchange rate cached for one of them''"
| "budget_error_to_string (Internal e) = e"

definition fetch_budget_row :: "'x services \<Rightarrow> ('x, budget_row option) job_io" where
  "fetch_budget_row S = sql_query S budget_state"

definition not_null :: "string \<Rightarrow> f64 \<Rightarrow> string + unit" where
  "not_null col x = (if x = NaN then Inl (''NOT NULL constraint failed: budget_state.'' @ col) else Inr ())"

definition update_budget :: "(budget_row \<Rightarrow> budget_row) \<Rightarrow> database \<Rightarrow> string + database" where
  "update_budget f d =
     (case budget_state d of
        None \<Rightarrow> Inr d
      | Some r \<Rightarrow>
          rbind (not_null ''balance'' (bs_balance (f r))) (\<lambda>_.
          rbind (not_null ''budget_daily_rate'' (bs_budget_daily_rate (f r))) (\<lambda>_.
            Inr (d\<lparr>budget_state := Some (f r)\<rparr>))))"

definition insert_budget_row :: "budget_row \<Rightarrow> database \<Rightarrow> string + database" where
  "insert_budget_row r d =
     (case budget_state d of
        Some _ \<Rightarrow> Inl (unique_violation ''budget_state.id'')
      | None \<Rightarrow>
          rbind (not_null ''budget_daily_rate'' (bs_budget_daily_rate r)) (\<lambda>_.
            Inr (d\<lparr>budget_state := Some r\<rparr>)))"

definition ensure_budget_seeded :: "'x services \<Rightarrow> budget_settings \<Rightarrow> ('x, unit) job_io" where
  "ensure_budget_seeded S seed =
     bnd (fetch_budget_row S) (\<lambda>row.
     if row \<noteq> None then ret ()
     else bnd (now_ts S) (\<lambda>now.
       sql_exec S (insert_budget_row
         \<lparr>bs_balance = Fin 0, bs_last_accrual_at = now, bs_main_currency = main_currency seed,
          bs_budget_daily_rate = budget_daily_rate seed,
          bs_budget_rollover_cap_days = budget_rollover_cap_days seed\<rparr>)))"

definition settings_of :: "budget_row \<Rightarrow> budget_settings" where
  "settings_of r = \<lparr>main_currency = bs_main_currency r, budget_daily_rate = bs_budget_daily_rate r,
                    budget_rollover_cap_days = bs_budget_rollover_cap_days r\<rparr>"

definition current_settings :: "'x services \<Rightarrow> ('x, budget_settings option) job_io" where
  "current_settings S = bnd (fetch_budget_row S) (\<lambda>row. ret (map_option settings_of row))"

definition effective_main_currency :: "'x services \<Rightarrow> string \<Rightarrow> ('x, string) job_io" where
  "effective_main_currency S fallback =
     bnd (current_settings S) (\<lambda>s. ret (case s of Some x \<Rightarrow> main_currency x | None \<Rightarrow> fallback))"

definition room_left_below_cap :: "budget_row \<Rightarrow> f64" where
  "room_left_below_cap row =
     f64_max (f64_sub (f64_mul (bs_budget_daily_rate row) (f64_of_int (int (bs_budget_rollover_cap_days row))))
                (bs_balance row)) (Fin 0)"

definition accrued_amount :: "budget_row \<Rightarrow> int \<Rightarrow> f64" where
  "accrued_amount row now =
     (let elapsed_days = f64_div (f64_of_int (max (now - bs_last_accrual_at row) 0)) (Fin 86400)
      in f64_min (f64_mul (bs_budget_daily_rate row) elapsed_days) (room_left_below_cap row))"

definition settle_accrual :: "'x services \<Rightarrow> ('x, (f64 \<times> budget_settings) option) job_io" where
  "settle_accrual S =
     bnd (fetch_budget_row S) (\<lambda>r.
     case r of
       None \<Rightarrow> ret None
     | Some row \<Rightarrow>
        bnd (now_ts S) (\<lambda>now.
        if f64_le (bs_budget_daily_rate row) (Fin 0)
        then seq (sql_exec S (update_budget (\<lambda>b. b\<lparr>bs_last_accrual_at := now\<rparr>)))
               (ret (Some (bs_balance row, settings_of row)))
        else (let new_balance = f64_add (bs_balance row) (accrued_amount row now)
              in seq (sql_exec S (update_budget (\<lambda>b. b\<lparr>bs_balance := new_balance, bs_last_accrual_at := now\<rparr>)))
                   (ret (Some (new_balance, settings_of row))))))"

definition committed_costs :: "database \<Rightarrow> f64 list" where
  "committed_costs d =
     [c. r \<leftarrow> jobs d, c \<leftarrow> (case j_estimated_cost r of Some c \<Rightarrow> [c] | None \<Rightarrow> []),
         j_status r \<noteq> TERMINAL_STATE, is_pre_completion_state (j_status r)]"

definition committed_budget :: "'x services \<Rightarrow> ('x, f64) job_io" where
  "committed_budget S = sql_query S (\<lambda>d. f64_sum (committed_costs d))"

definition available_budget :: "'x services \<Rightarrow> ('x, f64 option) job_io" where
  "available_budget S =
     bnd (settle_accrual S) (\<lambda>r.
     case r of
       None \<Rightarrow> ret None
     | Some (balance, settings) \<Rightarrow>
         if f64_le (budget_daily_rate settings) (Fin 0) then ret None
         else bnd (committed_budget S) (\<lambda>committed. ret (Some (f64_sub balance committed))))"

definition sufficient :: "f64 option \<Rightarrow> f64 option \<Rightarrow> bool" where
  "sufficient available cost =
     (case (available, cost) of (Some a, Some c) \<Rightarrow> f64_le c a | _ \<Rightarrow> True)"

definition check_budget ::
  "'x services \<Rightarrow> string \<Rightarrow> json \<Rightarrow> int \<Rightarrow> string \<Rightarrow> ('x, f64 option \<times> bool) job_io" where
  "check_budget S zone spec deadline currency =
     bnd (estimate_job_cost S zone spec deadline currency) (\<lambda>estimated_cost.
     bnd (available_budget S) (\<lambda>available. ret (estimated_cost, sufficient available estimated_cost)))"

definition apply_topup :: "'x services \<Rightarrow> f64 \<Rightarrow> ('x world, budget_error, f64 \<times> f64) io" where
  "apply_topup S amount =
     bnd (io_map_err Internal (settle_accrual S)) (\<lambda>r.
     case r of
       None \<Rightarrow> fail NotSeeded
     | Some (balance, _) \<Rightarrow>
        (let new_balance = f64_max (f64_add balance amount) (Fin 0);
             applied_delta = f64_sub new_balance balance
         in seq (io_map_err Internal (sql_exec S (update_budget (\<lambda>b. b\<lparr>bs_balance := new_balance\<rparr>))))
              (ret (new_balance, applied_delta))))"

definition convert_or_conflict ::
  "'x services \<Rightarrow> f64 \<Rightarrow> string \<Rightarrow> string \<Rightarrow> ('x world, budget_error, f64) io" where
  "convert_or_conflict S amount from_c to_c =
     bnd (io_map_err Internal (convert S amount from_c to_c))
       (\<lambda>r. of_result (ok_or (CurrencyConversionUnavailable from_c to_c) r))"

type_synonym conversion = "f64 \<times> budget_settings \<times> (string \<times> f64 \<times> string \<times> f64) option"

definition change_currency ::
  "'x services \<Rightarrow> settings_patch \<Rightarrow> f64 \<Rightarrow> budget_settings \<Rightarrow> ('x world, budget_error, conversion) io" where
  "change_currency S patch balance settings =
     (case sp_main_currency patch of
        None \<Rightarrow> ret (balance, settings, None)
      | Some target \<Rightarrow>
         if target = main_currency settings then ret (balance, settings, None)
         else bnd (convert_or_conflict S balance (main_currency settings) target) (\<lambda>converted.
              bnd (if sp_budget_daily_rate patch = None
                   then bnd (convert_or_conflict S (budget_daily_rate settings) (main_currency settings) target)
                          (\<lambda>r. ret (Some r))
                   else ret None) (\<lambda>new_rate.
                ret (converted,
                     settings\<lparr>budget_daily_rate := unwrap_or (budget_daily_rate settings) new_rate,
                              main_currency := target\<rparr>,
                     Some (main_currency settings, balance, target, converted)))))"

definition patched :: "settings_patch \<Rightarrow> budget_settings \<Rightarrow> budget_settings" where
  "patched patch s =
     s\<lparr>budget_daily_rate := unwrap_or (budget_daily_rate s) (sp_budget_daily_rate patch),
       budget_rollover_cap_days := unwrap_or (budget_rollover_cap_days s) (sp_budget_rollover_cap_days patch)\<rparr>"

definition patch_settings ::
  "'x services \<Rightarrow> settings_patch \<Rightarrow> ('x world, budget_error, settings_patch_outcome) io" where
  "patch_settings S patch =
     bnd (io_map_err Internal (settle_accrual S)) (\<lambda>r.
     case r of
       None \<Rightarrow> fail NotSeeded
     | Some (settled_balance, settings) \<Rightarrow>
        bnd (change_currency S patch settled_balance settings) (\<lambda>(balance, settings1, conversion).
        let final = patched patch settings1
        in seq (io_map_err Internal (sql_exec S (update_budget (\<lambda>b. b\<lparr>bs_balance := balance,
                  bs_main_currency := main_currency final, bs_budget_daily_rate := budget_daily_rate final,
                  bs_budget_rollover_cap_days := budget_rollover_cap_days final\<rparr>))))
             (ret \<lparr>po_settings = final, po_balance = balance, po_currency_conversion = conversion\<rparr>)))"

section \<open>Lemmas\<close>

text \<open>Every double is one that rounding leaves alone.\<close>

fun is_f64 :: "f64 \<Rightarrow> bool" where
  "is_f64 (Fin q) = (rnd q = Fin q)"
| "is_f64 _ = True"

definition nonneg :: "f64 \<Rightarrow> bool" where
  "nonneg x \<longleftrightarrow> f64_le (Fin 0) x"

lemma nonneg_cases: "nonneg x \<Longrightarrow> (\<And>q. x = Fin q \<Longrightarrow> 0 \<le> q \<Longrightarrow> P) \<Longrightarrow> (x = PInf \<Longrightarrow> P) \<Longrightarrow> P"
  by (cases x) (auto simp: nonneg_def)

lemma nonneg_rnd: "0 \<le> q \<Longrightarrow> nonneg (rnd q)"
  unfolding nonneg_def using rnd_mono [of 0 q] by simp

lemma nonneg_of_int: "0 \<le> i \<Longrightarrow> nonneg (f64_of_int i)"
  by (simp add: f64_of_int_def nonneg_rnd)

lemma nonneg_div: "nonneg x \<Longrightarrow> 0 < c \<Longrightarrow> nonneg (f64_div x (Fin c))"
  by (erule nonneg_cases) (auto simp: f64_div_def f64_sign_def signed_inf_def intro: nonneg_rnd, simp add: nonneg_def)

lemma nonneg_mul: "0 < r \<Longrightarrow> nonneg x \<Longrightarrow> nonneg (f64_mul (Fin r) x)"
  by (erule nonneg_cases) (auto simp: f64_mul_def f64_sign_def signed_inf_def intro: nonneg_rnd, simp add: nonneg_def)

lemma nonneg_max0: "nonneg (f64_max x (Fin 0))"
  by (cases x) (auto simp: f64_max_def nonneg_def)

lemma nonneg_min: "nonneg x \<Longrightarrow> nonneg y \<Longrightarrow> nonneg (f64_min x y)"
  by (auto simp: f64_min_def)

lemma f64_min_le: "x \<noteq> NaN \<Longrightarrow> y \<noteq> NaN \<Longrightarrow> f64_le (f64_min x y) y"
  by (cases x; cases y) (auto simp: f64_min_def)

lemma f64_add_nonneg: "is_f64 x \<Longrightarrow> x \<noteq> NaN \<Longrightarrow> x \<noteq> NInf \<Longrightarrow> nonneg a \<Longrightarrow> f64_le x (f64_add x a)"
proof (erule nonneg_cases)
  fix q
  assume x: "is_f64 x" "x \<noteq> NaN" "x \<noteq> NInf" and a: "a = Fin q" "0 \<le> q"
  show ?thesis
  proof (cases x)
    case (Fin b)
    with x have "rnd b = Fin b" by simp
    with a Fin show ?thesis using rnd_mono [of b "b + q"] by simp
  qed (use x a in auto)
qed (cases x, auto)

lemma f64_add_zero: "is_f64 x \<Longrightarrow> f64_add x (Fin 0) = x"
  by (cases x) auto

lemma accrued_nonneg:
  assumes "bs_budget_daily_rate row = Fin r" and "0 < r"
  shows "nonneg (accrued_amount row now)"
  unfolding accrued_amount_def Let_def room_left_below_cap_def assms(1)
  by (intro nonneg_min nonneg_mul nonneg_div nonneg_of_int nonneg_max0) (use assms in auto)

lemma nonneg_not_NaN: "nonneg x \<Longrightarrow> x \<noteq> NaN"
  by (auto simp: nonneg_def)

lemma accrued_le_room:
  assumes "bs_budget_daily_rate row = Fin r" and "0 < r"
  shows "f64_le (accrued_amount row now) (room_left_below_cap row)"
  unfolding accrued_amount_def Let_def
proof (rule f64_min_le)
  show "f64_mul (bs_budget_daily_rate row) (f64_div (f64_of_int (max (now - bs_last_accrual_at row) 0)) (Fin 86400)) \<noteq> NaN"
    by (rule nonneg_not_NaN, subst assms(1))
       (intro nonneg_mul nonneg_div nonneg_of_int, use assms in auto)
  show "room_left_below_cap row \<noteq> NaN"
    unfolding room_left_below_cap_def by (rule nonneg_not_NaN [OF nonneg_max0])
qed

lemma accrued_none_above_cap:
  assumes "bs_budget_daily_rate row = Fin r" and "0 < r" and "room_left_below_cap row = Fin 0"
  shows "accrued_amount row now = Fin 0"
  using accrued_nonneg [OF assms(1,2), of now] accrued_le_room [OF assms(1,2), of now] assms(3)
  by (cases "accrued_amount row now") (auto simp: nonneg_def)

text \<open>What one settlement does, given that it returned.\<close>

lemma settle_accrual_run:
  assumes "settle_accrual S w = (Inr r, w')"
  obtains (unseeded) "budget_state (db w) = None" and "r = None" and "db w' = db w"
  | (disabled) row now where "budget_state (db w) = Some row" and "f64_le (bs_budget_daily_rate row) (Fin 0)"
      and "r = Some (bs_balance row, settings_of row)"
      and "db w' = (db w)\<lparr>budget_state := Some (row\<lparr>bs_last_accrual_at := now\<rparr>)\<rparr>"
      and "now = timestamp (fst (utc_now S (snd (db_fault S (ext w)))))"
  | (accrued) row now new where "budget_state (db w) = Some row"
      and "\<not> f64_le (bs_budget_daily_rate row) (Fin 0)"
      and "new = f64_add (bs_balance row) (accrued_amount row now)"
      and "r = Some (new, settings_of row)" and "new \<noteq> NaN"
      and "db w' = (db w)\<lparr>budget_state := Some (row\<lparr>bs_balance := new, bs_last_accrual_at := now\<rparr>)\<rparr>"
      and "now = timestamp (fst (utc_now S (snd (db_fault S (ext w)))))"
proof (cases "budget_state (db w)")
  case None
  with assms show ?thesis
    by (intro unseeded) (auto simp: settle_accrual_def fetch_budget_row_def bnd_def sql_query_def lift_ext_eq
          split: option.splits)
next
  case (Some row)
  let ?now = "timestamp (fst (utc_now S (snd (db_fault S (ext w)))))"
  show ?thesis
  proof (cases "f64_le (bs_budget_daily_rate row) (Fin 0)")
    case True
    with assms Some show ?thesis
      by (intro disabled [of row ?now])
         (auto simp: settle_accrual_def fetch_budget_row_def bnd_def seq_def sql_query_def sql_exec_def lift_ext_eq
            now_ts_eq update_budget_def not_null_def rbind_def split: option.splits sum.splits if_splits)
  next
    case False
    with assms Some show ?thesis
      by (intro accrued [of row "f64_add (bs_balance row) (accrued_amount row ?now)" ?now])
         (auto simp: settle_accrual_def fetch_budget_row_def bnd_def seq_def sql_query_def sql_exec_def lift_ext_eq
            now_ts_eq update_budget_def not_null_def rbind_def Let_def split: option.splits sum.splits if_splits)
  qed
qed

text \<open>Prices, charges and rates are only read.\<close>

context db_frame
begin

lemma keeps_cached_price [intro!]: "keeps on_world (cached_price S zone key)"
  by (auto simp: cached_price_def)

lemma keeps_optional_charge [intro!]: "keeps on_world (optional_charge S zone sku key hours scale)"
  by (auto simp: optional_charge_def)

lemma keeps_charges [intro!]: "keeps on_world (charge_breakdown_for_duration S zone spec plan hours)"
  by (auto simp: charge_breakdown_for_duration_def charged_plan_def bundle_charges_def volume_charges_def Let_def
      split: option.split prod.split)

lemma keeps_convert [intro!]: "keeps on_world (convert S amount a b)"
  by (auto simp: convert_def cached_rate_def split: option.split)

lemma keeps_estimate [intro!]: "keeps on_world (estimate_job_cost S zone spec deadline currency)"
  by (auto simp: estimate_job_cost_def estimate_job_charges_def sum_and_convert_def split: option.split)

lemma keeps_actual_cost [intro!]: "keeps on_world (calculate_actual_cost S zone spec plan seconds currency)"
  by (auto simp: calculate_actual_cost_def actual_job_charges_def sum_and_convert_def split: option.split)

lemma keeps_effective_main_currency [intro!]: "keeps on_world (effective_main_currency S fallback)"
  by (auto simp: effective_main_currency_def current_settings_def fetch_budget_row_def)

end

end
