(* ===== verification/Ssh.thy ===== *)
theory Ssh
  imports World
begin

text \<open>
  Commands on a worker VM, \<open>src/src/ssh.rs\<close>. The session itself (key decoding, connection with its
  timeout, authentication, channel) is the library's and a parameter: \<open>ssh_session host port key command
  stdin\<close> is the text of the \<open>SshError\<close>, or the messages the channel delivers until it closes.
\<close>

record worker_ssh_config =
  ssh_private_key :: string
  ssh_port :: nat

definition SSH_EXTENDED_DATA_STDERR :: nat where
  "SSH_EXTENDED_DATA_STDERR = 1"

definition SSH_PORT :: nat where
  "SSH_PORT = 22"

record exec_output =
  stdout :: string
  stderr :: string
  exit_status :: "nat option"

fun collect_msg :: "exec_output \<Rightarrow> channel_msg \<Rightarrow> exec_output" where
  "collect_msg out (Data d) = out\<lparr>stdout := stdout out @ d\<rparr>"
| "collect_msg out (ExtendedData d kind) =
     (if kind = SSH_EXTENDED_DATA_STDERR then out\<lparr>stderr := stderr out @ d\<rparr> else out)"
| "collect_msg out (ExitStatus c) = out\<lparr>exit_status := Some c\<rparr>"
| "collect_msg out OtherMsg = out"

definition collect_output :: "channel_msg list \<Rightarrow> exec_output" where
  "collect_output msgs = foldl collect_msg \<lparr>stdout = [], stderr = [], exit_status = None\<rparr> msgs"

definition ssh_call ::
  "'x services \<Rightarrow> string \<Rightarrow> nat \<Rightarrow> string \<Rightarrow> string \<Rightarrow> string option \<Rightarrow> ('x world, string, exec_output) io" where
  "ssh_call S host port key command stdin =
     bnd (lift_ext (ssh_session S host port key command stdin)) (\<lambda>msgs. ret (collect_output msgs))"

definition exec_once ::
  "'x services \<Rightarrow> string \<Rightarrow> nat \<Rightarrow> string \<Rightarrow> string \<Rightarrow> ('x world, string, exec_output) io" where
  "exec_once S host port key command = ssh_call S host port key command None"

definition exec_with_stdin ::
  "'x services \<Rightarrow> string \<Rightarrow> nat \<Rightarrow> string \<Rightarrow> string \<Rightarrow> string \<Rightarrow> ('x world, string, exec_output) io" where
  "exec_with_stdin S host port key command stdin = ssh_call S host port key command (Some stdin)"

datatype output_stream = Stdout | Stderr

fun stream_chunk :: "channel_msg \<Rightarrow> (output_stream \<times> string) option" where
  "stream_chunk (Data d) = Some (Stdout, d)"
| "stream_chunk (ExtendedData d kind) =
     (if kind = SSH_EXTENDED_DATA_STDERR then Some (Stderr, d) else None)"
| "stream_chunk _ = None"

text \<open>The chunks \<open>exec_stream\<close> forwards while its receiver is there.\<close>

definition exec_stream ::
  "'x services \<Rightarrow> string \<Rightarrow> nat \<Rightarrow> string \<Rightarrow> string \<Rightarrow> ('x world, string, (output_stream \<times> string) list) io" where
  "exec_stream S host port key command =
     bnd (lift_ext (ssh_session S host port key command None)) (\<lambda>msgs. ret (List.map_filter stream_chunk msgs))"

section \<open>Lemmas\<close>

lemma db_lift_ext [simp]: "db (snd (lift_ext f w)) = db w"
  by (simp add: lift_ext_eq)

lemma db_ssh_call [simp]: "db (snd (ssh_call S host port key command stdin w)) = db w"
proof (cases rule: bnd_cases [of "lift_ext (ssh_session S host port key command stdin)" w "\<lambda>msgs. ret (collect_output msgs)"])
  case (err e w')
  then show ?thesis by (simp add: ssh_call_def) (metis db_lift_ext snd_conv)
next
  case (val a w')
  then show ?thesis by (simp add: ssh_call_def) (metis db_lift_ext snd_conv)
qed

lemma db_exec_once [simp]: "db (snd (exec_once S host port key command w)) = db w"
  by (simp add: exec_once_def)

lemma db_exec_with_stdin [simp]: "db (snd (exec_with_stdin S host port key command stdin w)) = db w"
  by (simp add: exec_with_stdin_def)

text \<open>
  One-shot collection and streaming see the same output: each stream's text is the concatenation of its
  chunks.
\<close>

lemma collect_msgs:
  "stdout (foldl collect_msg out msgs) = stdout out @ concat [d. (k, d) \<leftarrow> List.map_filter stream_chunk msgs, k = Stdout]"
  "stderr (foldl collect_msg out msgs) = stderr out @ concat [d. (k, d) \<leftarrow> List.map_filter stream_chunk msgs, k = Stderr]"
proof (induction msgs arbitrary: out)
  case Nil
  case 1 show ?case by (simp add: List.map_filter_def)
  case 2 show ?case by (simp add: List.map_filter_def)
next
  case (Cons m msgs)
  case 1 show ?case using Cons.IH(1) [of "collect_msg out m"] by (cases m) (auto simp: List.map_filter_def)
  case 2 show ?case using Cons.IH(2) [of "collect_msg out m"] by (cases m) (auto simp: List.map_filter_def)
qed

end
