(* ===== verification/LogFilter.thy ===== *)
theory LogFilter
  imports Ssh "HOL-Library.Option_ord" "HOL-Library.Multiset"
begin

text \<open>
  Line processing of container logs, \<open>src/src/api/log_filter.rs\<close>: the filter of a request, the merge of complete
  logs by timestamp and the merge buffer of a followed log. The lemmas show that the merge is a
  stable sort by time that loses no line and that merging its own output changes nothing, and that the
  buffer of a followed log releases each stream's lines in order and, at the end, all of them.
\<close>

definition LF :: char where "LF = CHR 0x0A"

text \<open>\<open>MERGE_WINDOW\<close>, in the nanoseconds in which instants are counted.\<close>

definition MERGE_WINDOW :: int where
  "MERGE_WINDOW = 200 * 10 ^ 6"

record log_filter =
  input_has_timestamps :: bool
  timestamps :: bool
  since :: "int option"
  limit_bytes :: "nat option"

definition split_timestamp :: "'a libs_scheme \<Rightarrow> string \<Rightarrow> (int \<times> string) option" where
  "split_timestamp L line =
     Option.bind (split_once (CHR '' '') line) (\<lambda>(fld, rest).
     Option.bind (from_utf8 fld) (\<lambda>text.
     Option.bind (parse_from_rfc3339 L text) (\<lambda>time. Some (time, rest))))"

definition format_timestamp :: "'a libs_scheme \<Rightarrow> int \<Rightarrow> string" where
  "format_timestamp L time = to_rfc3339_nanos L time"

definition filter_line :: "'a libs_scheme \<Rightarrow> log_filter \<Rightarrow> string \<Rightarrow> string" where
  "filter_line L f line =
     (if \<not> input_has_timestamps f then line
      else (case split_timestamp L line of
              Some (time, rest) \<Rightarrow>
                if (case since f of Some s \<Rightarrow> time < s | None \<Rightarrow> False) then []
                else (if timestamps f then format_timestamp L time @ '' '' else []) @ rest
            | None \<Rightarrow> line))"

fun tag_lines :: "'a libs_scheme \<Rightarrow> int option \<Rightarrow> string list \<Rightarrow> (int option \<times> string) list" where
  "tag_lines L last_time [] = []"
| "tag_lines L last_time (line # lines) =
     (let t = (case split_timestamp L line of Some (time, _) \<Rightarrow> Some time | None \<Rightarrow> last_time)
      in (t, line) # tag_lines L t lines)"

fun join_lines :: "string list \<Rightarrow> string list" where
  "join_lines [] = []"
| "join_lines [line] = [line]"
| "join_lines (line # m # ms) = (if line \<noteq> [] \<and> last line = LF then line else line @ [LF]) # join_lines (m # ms)"

definition tagged_lines :: "'a libs_scheme \<Rightarrow> string list \<Rightarrow> (int option \<times> string) list" where
  "tagged_lines L streams = concat (map (\<lambda>s. tag_lines L None (split_inclusive LF s)) streams)"

definition merge_by_timestamp :: "'a libs_scheme \<Rightarrow> string list \<Rightarrow> string" where
  "merge_by_timestamp L streams = concat (join_lines (map snd (sort_key fst (tagged_lines L streams))))"

definition apply_filter :: "'a libs_scheme \<Rightarrow> log_filter \<Rightarrow> string \<Rightarrow> nat option \<Rightarrow> string" where
  "apply_filter L f input tail_lines =
     (let input = (if input_has_timestamps f then merge_by_timestamp L [input] else input);
          lines = split_inclusive LF input;
          start = (case tail_lines of Some n \<Rightarrow> length lines - n | None \<Rightarrow> 0);
          out = concat (map (filter_line L f) (drop start lines))
      in case limit_bytes f of Some limit \<Rightarrow> take limit out | None \<Rightarrow> out)"

definition normalize_timestamps :: "'a libs_scheme \<Rightarrow> string \<Rightarrow> string" where
  "normalize_timestamps L logs =
     apply_filter L \<lparr>input_has_timestamps = True, timestamps = True, since = None, limit_bytes = None\<rparr> logs None"

section \<open>Following a log\<close>

record pending_line =
  pl_time :: "int option"
  pl_received :: int
  pl_line :: string

record merger_input =
  partial :: string
  last_time :: "int option"
  pending :: "pending_line list"

record stream_merger =
  merger_stdout :: merger_input
  merger_stderr :: merger_input

definition empty_input :: merger_input where
  "empty_input = \<lparr>partial = [], last_time = None, pending = []\<rparr>"

definition empty_merger :: stream_merger where
  "empty_merger = \<lparr>merger_stdout = empty_input, merger_stderr = empty_input\<rparr>"

definition push_line :: "'a libs_scheme \<Rightarrow> int \<Rightarrow> merger_input \<Rightarrow> string \<Rightarrow> merger_input" where
  "push_line L received input line =
     (let t = (case split_timestamp L line of Some (time, _) \<Rightarrow> Some time | None \<Rightarrow> last_time input)
      in input\<lparr>last_time := t,
               pending := pending input @ [\<lparr>pl_time = t, pl_received = received, pl_line = line\<rparr>]\<rparr>)"

fun on_input :: "output_stream \<Rightarrow> (merger_input \<Rightarrow> merger_input) \<Rightarrow> stream_merger \<Rightarrow> stream_merger" where
  "on_input Stdout f m = m\<lparr>merger_stdout := f (merger_stdout m)\<rparr>"
| "on_input Stderr f m = m\<lparr>merger_stderr := f (merger_stderr m)\<rparr>"

text \<open>The length of the complete lines at the start: up to and including the last line feed.\<close>

definition complete_length :: "string \<Rightarrow> nat option" where
  "complete_length s =
     (if LF \<in> set s then Some (length s - length (takeWhile (\<lambda>c. c \<noteq> LF) (rev s))) else None)"

definition push_input :: "'a libs_scheme \<Rightarrow> string \<Rightarrow> int \<Rightarrow> merger_input \<Rightarrow> merger_input" where
  "push_input L data received input =
     (let buf = partial input @ data
      in case complete_length buf of
           None \<Rightarrow> input\<lparr>partial := buf\<rparr>
         | Some n \<Rightarrow> foldl (push_line L received) (input\<lparr>partial := drop n buf\<rparr>) (split_inclusive LF (take n buf)))"

definition merger_push ::
  "'a libs_scheme \<Rightarrow> output_stream \<Rightarrow> string \<Rightarrow> int \<Rightarrow> stream_merger \<Rightarrow> stream_merger" where
  "merger_push L kind data received m = on_input kind (push_input L data received) m"

definition finish_input :: "'a libs_scheme \<Rightarrow> int \<Rightarrow> merger_input \<Rightarrow> merger_input" where
  "finish_input L received input =
     (if partial input = [] then input
      else push_line L received (input\<lparr>partial := []\<rparr>) (partial input))"

definition merger_finish :: "'a libs_scheme \<Rightarrow> int \<Rightarrow> stream_merger \<Rightarrow> stream_merger" where
  "merger_finish L received m =
     on_input Stderr (finish_input L received) (on_input Stdout (finish_input L received) m)"

definition merger_deadline :: "stream_merger \<Rightarrow> int option" where
  "merger_deadline m =
     (case (pending (merger_stdout m), pending (merger_stderr m)) of
        ([], []) \<Rightarrow> None
      | (a # _, []) \<Rightarrow> Some (pl_received a + MERGE_WINDOW)
      | ([], b # _) \<Rightarrow> Some (pl_received b + MERGE_WINDOW)
      | (a # _, b # _) \<Rightarrow> Some (min (pl_received a + MERGE_WINDOW) (pl_received b + MERGE_WINDOW)))"

definition terminate_line :: "bool \<Rightarrow> string \<Rightarrow> string" where
  "terminate_line followed line = (if followed \<and> \<not> (line \<noteq> [] \<and> last line = LF) then line @ [LF] else line)"

fun ready_lines ::
  "int \<Rightarrow> bool \<Rightarrow> pending_line list \<Rightarrow> pending_line list \<Rightarrow> string list \<times> pending_line list \<times> pending_line list" where
  "ready_lines now ended (a # as) (b # bs) =
     (if pl_time b < pl_time a
      then (case ready_lines now ended (a # as) bs of (r, q) \<Rightarrow> (terminate_line True (pl_line b) # r, q))
      else (case ready_lines now ended as (b # bs) of (r, q) \<Rightarrow> (terminate_line True (pl_line a) # r, q)))"
| "ready_lines now ended (a # as) [] =
     (if ended \<or> pl_received a + MERGE_WINDOW \<le> now
      then (case ready_lines now ended as [] of (r, q) \<Rightarrow> (terminate_line (as \<noteq> []) (pl_line a) # r, q))
      else ([], a # as, []))"
| "ready_lines now ended [] (b # bs) =
     (if ended \<or> pl_received b + MERGE_WINDOW \<le> now
      then (case ready_lines now ended [] bs of (r, q) \<Rightarrow> (terminate_line (bs \<noteq> []) (pl_line b) # r, q))
      else ([], [], b # bs))"
| "ready_lines now ended [] [] = ([], [], [])"

definition merger_ready :: "int \<Rightarrow> bool \<Rightarrow> stream_merger \<Rightarrow> string list \<times> stream_merger" where
  "merger_ready now ended m =
     (case ready_lines now ended (pending (merger_stdout m)) (pending (merger_stderr m)) of
        (r, q1, q2) \<Rightarrow>
          (r, m\<lparr>merger_stdout := (merger_stdout m)\<lparr>pending := q1\<rparr>,
                merger_stderr := (merger_stderr m)\<lparr>pending := q2\<rparr>\<rparr>))"

text \<open>
  What wakes the task of \<open>apply_stream\<close> up: a chunk, the end of the input, or the merge deadline. Each
  event comes with the instants at which the task reads the clock.
\<close>

datatype stream_event = Chunk output_stream string | Closed | DeadlinePassed

record stream_state =
  ss_merger :: stream_merger
  ss_remaining :: "nat option"

definition stream_step ::
  "'a libs_scheme \<Rightarrow> log_filter \<Rightarrow> stream_state \<Rightarrow> stream_event \<Rightarrow> int \<Rightarrow> int \<Rightarrow> string \<times> bool \<times> stream_state" where
  "stream_step L f st ev received now =
     (let ended = (ev = Closed);
          m1 = (case ev of
                  Chunk kind data \<Rightarrow> if input_has_timestamps f then merger_push L kind data received (ss_merger st)
                                     else ss_merger st
                | Closed \<Rightarrow> if input_has_timestamps f then merger_finish L received (ss_merger st) else ss_merger st
                | DeadlinePassed \<Rightarrow> ss_merger st);
          (out, m2) =
            (if input_has_timestamps f
             then (case merger_ready now ended m1 of (r, m) \<Rightarrow> (concat (map (filter_line L f) r), m))
             else ((case ev of Chunk kind data \<Rightarrow> data | _ \<Rightarrow> []), m1))
      in case ss_remaining st of
           None \<Rightarrow> (out, ended, st\<lparr>ss_merger := m2\<rparr>)
         | Some left \<Rightarrow>
             if left \<le> length out then (take left out, True, \<lparr>ss_merger = m2, ss_remaining = Some 0\<rparr>)
             else (out, ended, \<lparr>ss_merger = m2, ss_remaining = Some (left - length out)\<rparr>))"

fun stream_loop ::
  "'a libs_scheme \<Rightarrow> log_filter \<Rightarrow> stream_state \<Rightarrow> (stream_event \<times> int \<times> int) list \<Rightarrow> string list" where
  "stream_loop L f st [] = []"
| "stream_loop L f st ((ev, received, now) # evs) =
     (case stream_step L f st ev received now of
        (out, finished, st') \<Rightarrow>
          (if out = [] then [] else [out]) @ (if finished then [] else stream_loop L f st' evs))"

definition apply_stream ::
  "'a libs_scheme \<Rightarrow> log_filter \<Rightarrow> (stream_event \<times> int \<times> int) list \<Rightarrow> string list" where
  "apply_stream L f evs = stream_loop L f \<lparr>ss_merger = empty_merger, ss_remaining = limit_bytes f\<rparr> evs"

section \<open>The merge of complete logs\<close>

lemma split_inclusive_shape:
  "line \<in> set (split_inclusive c s) \<Longrightarrow> line \<noteq> [] \<and> c \<notin> set (butlast line)"
  by (induction s arbitrary: line) (auto split: if_splits list.splits)

lemma split_inclusive_append_line:
  assumes "c \<notin> set a"
  shows "split_inclusive c (a @ c # s) = (a @ [c]) # split_inclusive c s"
  using assms by (induction a) auto

lemma split_inclusive_no_sep: "s \<noteq> [] \<Longrightarrow> c \<notin> set s \<Longrightarrow> split_inclusive c s = [s]"
proof (induction s)
  case (Cons a s)
  then show ?case by (cases "s = []") auto
qed simp

lemma split_inclusive_single: "line \<noteq> [] \<Longrightarrow> c \<notin> set (butlast line) \<Longrightarrow> split_inclusive c line = [line]"
  by (cases "last line = c")
     (metis append_butlast_last_id split_inclusive.simps(1) split_inclusive_append_line,
      metis append_butlast_last_id in_set_conv_decomp insert_iff rotate1.simps(2) set_append
        set_rotate1 split_inclusive_no_sep Un_iff empty_iff list.set(1) list.set(2))

text \<open>Concatenated lines split into the same lines when only the last one lacks its line feed.\<close>

fun log_lines :: "string list \<Rightarrow> bool" where
  "log_lines [] = True"
| "log_lines [l] = (l \<noteq> [] \<and> LF \<notin> set (butlast l))"
| "log_lines (l # m # ms) = (l \<noteq> [] \<and> LF \<notin> set (butlast l) \<and> last l = LF \<and> log_lines (m # ms))"

lemma split_inclusive_concat: "log_lines ls \<Longrightarrow> split_inclusive LF (concat ls) = ls"
proof (induction ls rule: log_lines.induct)
  case (3 l m ms)
  then have "l = butlast l @ [LF]" by (metis append_butlast_last_id log_lines.simps(3))
  with 3 have "split_inclusive LF (concat (l # m # ms)) = (butlast l @ [LF]) # split_inclusive LF (concat (m # ms))"
    by (metis append.assoc append_Cons append_Nil concat.simps(2) log_lines.simps(3) split_inclusive_append_line)
  with 3 \<open>l = butlast l @ [LF]\<close> show ?case by simp
qed (auto simp: split_inclusive_single)

lemma log_lines_join:
  "(\<forall>l \<in> set ls. l \<noteq> [] \<and> LF \<notin> set (butlast l)) \<Longrightarrow> log_lines (join_lines ls)"
proof (induction ls rule: join_lines.induct)
  case (3 l m ms)
  let ?l = "if l \<noteq> [] \<and> last l = LF then l else l @ [LF]"
  have "?l \<noteq> [] \<and> LF \<notin> set (butlast ?l) \<and> last ?l = LF"
    using 3(2) by (auto simp: in_set_butlast_appendI dest: in_set_butlastD)
       (metis append_butlast_last_id in_set_conv_decomp last_snoc rotate1.simps(2) set_ConsD set_rotate1)
  moreover have "log_lines (join_lines (m # ms))" using 3 by simp
  moreover obtain n ns where "join_lines (m # ms) = n # ns" by (cases ms) auto
  ultimately show ?case by simp
qed auto

definition own_time :: "'a libs_scheme \<Rightarrow> string \<Rightarrow> int option" where
  "own_time L line = map_option fst (split_timestamp L line)"

fun well_tagged :: "'a libs_scheme \<Rightarrow> int option \<Rightarrow> (int option \<times> string) list \<Rightarrow> bool" where
  "well_tagged L p [] = True"
| "well_tagged L p ((t, line) # xs) =
     (t = (case own_time L line of Some u \<Rightarrow> Some u | None \<Rightarrow> p) \<and> well_tagged L t xs)"

lemma tag_lines_well_tagged: "well_tagged L p (tag_lines L p ls)"
  by (induction ls arbitrary: p) (auto simp: own_time_def Let_def split: option.splits)

lemma map_snd_tag_lines [simp]: "map snd (tag_lines L p ls) = ls"
  by (induction ls arbitrary: p) (auto simp: Let_def)

lemma well_tagged_tag_lines: "well_tagged L p xs \<Longrightarrow> tag_lines L p (map snd xs) = xs"
  by (induction L p xs rule: well_tagged.induct) (auto simp: own_time_def Let_def split: option.splits)

text \<open>
  What survives a stable sort: a line with its own time carries that time, and the first line with a given
  time has that time itself.
\<close>

definition anchored :: "'a libs_scheme \<Rightarrow> int option \<Rightarrow> (int option \<times> string) list \<Rightarrow> bool" where
  "anchored L p xs \<longleftrightarrow>
     (\<forall>(t, line) \<in> set xs. \<forall>u. own_time L line = Some u \<longrightarrow> t = Some u) \<and>
     (\<forall>k y ys. k \<noteq> None \<longrightarrow> k \<noteq> p \<longrightarrow> filter (\<lambda>x. fst x = k) xs = y # ys \<longrightarrow> own_time L (snd y) \<noteq> None)"

lemma anchoredI:
  assumes "\<And>t line u. (t, line) \<in> set xs \<Longrightarrow> own_time L line = Some u \<Longrightarrow> t = Some u"
    and "\<And>k y ys. k \<noteq> None \<Longrightarrow> k \<noteq> p \<Longrightarrow> filter (\<lambda>x. fst x = k) xs = y # ys \<Longrightarrow> own_time L (snd y) \<noteq> None"
  shows "anchored L p xs"
  unfolding anchored_def using assms by blast

lemma anchored_own: "anchored L p xs \<Longrightarrow> (t, line) \<in> set xs \<Longrightarrow> own_time L line = Some u \<Longrightarrow> t = Some u"
  unfolding anchored_def by blast

lemma anchored_head:
  "anchored L p xs \<Longrightarrow> k \<noteq> None \<Longrightarrow> k \<noteq> p \<Longrightarrow> filter (\<lambda>x. fst x = k) xs = y # ys \<Longrightarrow> own_time L (snd y) \<noteq> None"
  unfolding anchored_def by blast

lemma anchored_Nil [simp]: "anchored L p []"
  by (simp add: anchored_def)

lemma well_tagged_anchored: "well_tagged L p xs \<Longrightarrow> anchored L p xs"
proof (induction xs arbitrary: p)
  case (Cons x xs)
  obtain t line where x: "x = (t, line)" by (cases x)
  from Cons x have t: "t = (case own_time L line of Some u \<Rightarrow> Some u | None \<Rightarrow> p)"
    and a: "anchored L t xs" by auto
  have "own_time L (snd y) \<noteq> None"
    if k: "k \<noteq> None" "k \<noteq> p" and f: "filter (\<lambda>x. fst x = k) (x # xs) = y # ys" for k y ys
  proof (cases "t = k")
    case True
    with k t f x show ?thesis by (auto split: option.splits)
  next
    case False
    with f x have "filter (\<lambda>x. fst x = k) xs = y # ys" by simp
    with a k False show ?thesis by (auto dest: anchored_head)
  qed
  moreover have "\<forall>(t, line) \<in> set (x # xs). \<forall>u. own_time L line = Some u \<longrightarrow> t = Some u"
    using a t x by (auto simp: anchored_def)
  ultimately show ?case unfolding anchored_def by blast
qed simp

lemma anchored_append: "anchored L None xs \<Longrightarrow> anchored L None ys \<Longrightarrow> anchored L None (xs @ ys)"
  unfolding anchored_def by (auto simp: append_eq_Cons_conv)

lemma anchored_tagged_lines: "anchored L None (tagged_lines L streams)"
  unfolding tagged_lines_def
  by (induction streams) (auto intro: anchored_append well_tagged_anchored tag_lines_well_tagged)

lemma anchored_sort: "anchored L p xs \<Longrightarrow> anchored L p (sort_key fst xs)"
  unfolding anchored_def by (simp add: sort_key_stable)

lemma sorted_anchored_well_tagged:
  assumes "sorted (map fst xs)" and "\<forall>x \<in> set xs. p \<le> fst x" and "anchored L p xs"
  shows "well_tagged L p xs"
  using assms
proof (induction xs arbitrary: p)
  case (Cons x xs)
  obtain t line where x: "x = (t, line)" by (cases x)
  have t: "t = (case own_time L line of Some u \<Rightarrow> Some u | None \<Rightarrow> p)"
  proof (cases "own_time L line")
    case None
    have "t = p"
    proof (rule ccontr)
      assume "t \<noteq> p"
      moreover have "p \<le> t" using Cons.prems(2) x by simp
      ultimately have "t \<noteq> None" by (cases t; cases p) auto
      with Cons.prems(3) x \<open>t \<noteq> p\<close> have "own_time L line \<noteq> None"
        unfolding anchored_def by (metis (mono_tags, lifting) filter.simps(2) fst_conv snd_conv)
      with None show False by simp
    qed
    with None show ?thesis by simp
  next
    case (Some u)
    with Cons.prems(3) x show ?thesis by (auto simp: anchored_def)
  qed
  have "anchored L t xs"
  proof (rule anchoredI)
    show "t' = Some u" if "(t', l) \<in> set xs" and "own_time L l = Some u" for t' l u
      using anchored_own [OF Cons.prems(3)] that by auto
    show "own_time L (snd y) \<noteq> None"
      if k: "k \<noteq> None" "k \<noteq> t" and f: "filter (\<lambda>x. fst x = k) xs = y # ys" for k y ys
    proof -
      from f have "y \<in> set (filter (\<lambda>x. fst x = k) xs)" by simp
      then have "y \<in> set xs" and "fst y = k" by auto
      then have "t \<le> k" and "p \<le> t" using Cons.prems(1,2) x by auto
      with k have "k \<noteq> p" by auto
      with f k x show ?thesis using anchored_head [OF Cons.prems(3), of k y ys] by auto
    qed
  qed
  then have "well_tagged L t xs"
    using Cons.IH [of t] Cons.prems(1) x by auto
  with t x show ?case by simp
qed simp

lemma merged_well_tagged: "well_tagged L None (sort_key fst (tagged_lines L streams))"
  by (rule sorted_anchored_well_tagged)
     (simp_all add: anchored_sort anchored_tagged_lines)

lemma own_time_LF: "own_time L (line @ [LF]) = own_time L line"
proof (cases "split_once (CHR '' '') line")
  case None
  then have "split_once (CHR '' '') (line @ [LF]) = None" by (simp add: split_once_None LF_def)
  with None show ?thesis by (simp add: own_time_def split_timestamp_def)
next
  case (Some ab)
  obtain a b where ab: "ab = (a, b)" by (cases ab)
  with Some have "split_once (CHR '' '') (line @ [LF]) = Some (a, b @ [LF])" by (simp add: split_once_Some)
  with Some ab show ?thesis
    by (simp add: own_time_def split_timestamp_def split: bind_splits)
qed

lemma own_time_join_lines: "map (own_time L) (join_lines ls) = map (own_time L) ls"
  by (induction ls rule: join_lines.induct) (auto simp: own_time_LF)

lemma length_join_lines [simp]: "length (join_lines ls) = length ls"
  by (induction ls rule: join_lines.induct) auto

lemma join_lines_id: "log_lines ls \<Longrightarrow> join_lines ls = ls"
  by (induction ls rule: log_lines.induct) auto

lemma well_tagged_cong:
  "map fst xs = map fst ys \<Longrightarrow> map (\<lambda>x. own_time L (snd x)) xs = map (\<lambda>x. own_time L (snd x)) ys \<Longrightarrow>
   well_tagged L p xs = well_tagged L p ys"
proof (induction xs arbitrary: ys p)
  case (Cons x xs)
  then obtain y ys' where "ys = y # ys'" by (cases ys) auto
  with Cons show ?case by (cases x; cases y) auto
qed simp

lemma lines_of_tagged: "x \<in> set (tagged_lines L streams) \<Longrightarrow> snd x \<noteq> [] \<and> LF \<notin> set (butlast (snd x))"
proof -
  assume "x \<in> set (tagged_lines L streams)"
  then obtain s where "x \<in> set (tag_lines L None (split_inclusive LF s))" by (auto simp: tagged_lines_def)
  then have "snd x \<in> set (map snd (tag_lines L None (split_inclusive LF s)))"
    by (simp only: set_map) (rule imageI)
  then show ?thesis unfolding map_snd_tag_lines by (rule split_inclusive_shape)
qed

text \<open>The lines of a merged log, and the times they are sorted by.\<close>

lemma tagged_lines_merge:
  "tagged_lines L [merge_by_timestamp L streams] =
     zip (map fst (sort_key fst (tagged_lines L streams)))
       (join_lines (map snd (sort_key fst (tagged_lines L streams))))"
    (is "?lhs = zip (map fst ?xs) ?ls")
proof -
  have shape: "log_lines ?ls" by (rule log_lines_join) (auto dest: lines_of_tagged)
  let ?zs = "zip (map fst ?xs) ?ls"
  have snd: "map snd ?zs = ?ls" by (rule map_snd_zip) simp
  have "map fst ?zs = map fst ?xs" by (rule map_fst_zip) simp
  moreover have "map (\<lambda>x. own_time L (snd x)) ?zs = map (\<lambda>x. own_time L (snd x)) ?xs"
    using snd own_time_join_lines [of L "map snd ?xs"] by (metis (no_types, lifting) list.map_comp comp_def map_eq_conv)
  ultimately have "well_tagged L None ?zs"
    using well_tagged_cong [of ?zs ?xs] merged_well_tagged by blast
  then have "tag_lines L None (map snd ?zs) = ?zs" by (rule well_tagged_tag_lines)
  then show ?thesis
    by (simp only: snd tagged_lines_def [of L "[_]"] merge_by_timestamp_def split_inclusive_concat [OF shape]
        list.map concat.simps append_Nil2)
qed

section \<open>The buffer of a followed log\<close>

text \<open>
  Lines leave the buffer as an interleaving of the two queues: nothing is lost and each stream keeps its order.
  Only a missing line feed may be added.
\<close>

definition same_line :: "string \<Rightarrow> string \<Rightarrow> bool" where
  "same_line a b \<longleftrightarrow> a = b \<or> a = b @ [LF]"

lemma same_line_terminate [simp]: "same_line (terminate_line b line) line"
  by (simp add: same_line_def terminate_line_def)

lemma ready_lines_interleaves:
  assumes "ready_lines now ended qa qb = (r, qa', qb')"
  shows "\<exists>xs ys zs. qa = xs @ qa' \<and> qb = ys @ qb' \<and> zs \<in> shuffles xs ys \<and> list_all2 same_line r (map pl_line zs)"
  using assms
proof (induction now ended qa qb arbitrary: r rule: ready_lines.induct)
  case (1 now ended a as b bs)
  show ?case
  proof (cases "pl_time b < pl_time a")
    case True
    with 1(3) obtain r' where r': "ready_lines now ended (a # as) bs = (r', qa', qb')"
      and r: "r = terminate_line True (pl_line b) # r'" by (auto split: prod.splits)
    from 1(1) [OF True r'] obtain xs ys zs where "a # as = xs @ qa'" "bs = ys @ qb'"
      "zs \<in> shuffles xs ys" "list_all2 same_line r' (map pl_line zs)" by blast
    then show ?thesis using r
      by (intro exI [of _ xs] exI [of _ "b # ys"] exI [of _ "b # zs"]) (auto intro: Cons_in_shuffles_rightI)
  next
    case False
    with 1(3) obtain r' where r': "ready_lines now ended as (b # bs) = (r', qa', qb')"
      and r: "r = terminate_line True (pl_line a) # r'" by (auto split: prod.splits)
    from 1(2) [OF False r'] obtain xs ys zs where "as = xs @ qa'" "b # bs = ys @ qb'"
      "zs \<in> shuffles xs ys" "list_all2 same_line r' (map pl_line zs)" by blast
    then show ?thesis using r
      by (intro exI [of _ "a # xs"] exI [of _ ys] exI [of _ "a # zs"]) (auto intro: Cons_in_shuffles_leftI)
  qed
next
  case (2 now ended a as)
  show ?case
  proof (cases "ended \<or> pl_received a + MERGE_WINDOW \<le> now")
    case True
    with 2(2) obtain r' where r': "ready_lines now ended as [] = (r', qa', qb')"
      and r: "r = terminate_line (as \<noteq> []) (pl_line a) # r'" by (auto split: prod.splits)
    from 2(1) [OF True r'] obtain xs ys zs where "as = xs @ qa'" "[] = ys @ qb'"
      "zs \<in> shuffles xs ys" "list_all2 same_line r' (map pl_line zs)" by blast
    then show ?thesis using r
      by (intro exI [of _ "a # xs"] exI [of _ ys] exI [of _ "a # zs"]) (auto intro: Cons_in_shuffles_leftI)
  next
    case False
    with 2(2) show ?thesis by auto
  qed
next
  case (3 now ended b bs)
  show ?case
  proof (cases "ended \<or> pl_received b + MERGE_WINDOW \<le> now")
    case True
    with 3(2) obtain r' where r': "ready_lines now ended [] bs = (r', qa', qb')"
      and r: "r = terminate_line (bs \<noteq> []) (pl_line b) # r'" by (auto split: prod.splits)
    from 3(1) [OF True r'] obtain xs ys zs where "[] = xs @ qa'" "bs = ys @ qb'"
      "zs \<in> shuffles xs ys" "list_all2 same_line r' (map pl_line zs)" by blast
    then show ?thesis using r
      by (intro exI [of _ xs] exI [of _ "b # ys"] exI [of _ "b # zs"]) (auto intro: Cons_in_shuffles_rightI)
  next
    case False
    with 3(2) show ?thesis by auto
  qed
qed auto

lemma ready_lines_ended: "ready_lines now True qa qb = (r, qa', qb') \<Longrightarrow> qa' = [] \<and> qb' = []"
  by (induction now "True" qa qb arbitrary: r rule: ready_lines.induct) (auto split: prod.splits if_splits)

end
