(* ===== verification/Jobs.thy ===== *)
theory Jobs
  imports Pricing LogFilter
begin

text \<open>
  The job loop, \<open>src/src/reconcile/job.rs\<close>: one handler per state with real work, and \<open>advance_all_until\<close>,
  which moves every job that is not archived by at most one state. Cloud calls, SSH sessions, the
  clock and SQL statements are effects on the world in the order the source makes them, and every
  \<open>?\<close> is an early return that keeps what was done before. Arguments that only feed log lines are left
  out. The template of the worker script is part of the context.
\<close>

record 'x job_context =
  provider :: "'x cloud_provider"
  dry_run :: bool
  resource_prefix :: string
  ctx_zone :: string
  worker_template_uuid :: string
  worker_ssh_public_keys :: "string list"
  own_public_ip :: "string option"
  worker_ssh_private_key :: string
  worker_ssh_port :: nat
  ctx_main_currency :: string
  ctx_plan_filter :: plan_filter
  cloud_init_template :: string

text \<open>The columns \<open>advance_all_until\<close> reads of a job before it starts.\<close>

type_synonym job_view = job_row

definition retry_later :: "'x services \<Rightarrow> string \<Rightarrow> string \<Rightarrow> ('x, bool) job_io" where
  "retry_later S job_id error = seq (record_failed_attempt S job_id error) (ret False)"

definition retry_after :: "'x services \<Rightarrow> string \<Rightarrow> provider_error \<Rightarrow> ('x, bool) job_io" where
  "retry_after S job_id err = retry_later S job_id (provider_error_to_string err)"

definition cloud :: "('x \<Rightarrow> (provider_error + 'a) \<times> 'x) \<Rightarrow> ('x, provider_error + 'a) job_io" where
  "cloud f = attempt (provider_call f)"

text \<open>\<open>if let Ok(existing) = ... { existing.into_iter().find(..) }\<close>: a failed listing finds nothing.\<close>

definition find_listed :: "('a \<Rightarrow> bool) \<Rightarrow> provider_error + 'a list \<Rightarrow> 'a option" where
  "find_listed p r = (case r of Inl _ \<Rightarrow> None | Inr xs \<Rightarrow> find p xs)"

section \<open>Volume and VM creation\<close>

definition create_and_record_volume ::
  "'x services \<Rightarrow> 'x job_context \<Rightarrow> string \<Rightarrow> nat \<Rightarrow> storage_tier \<Rightarrow> string \<Rightarrow> ('x, bool) job_io" where
  "create_and_record_volume S C job_id size_gb tier title =
     bnd (cloud (create_volume (provider C)
            \<lparr>cv_size_gb = size_gb, cv_tier = upcloud_tier tier, cv_title = title, cv_zone = ctx_zone C\<rparr>)) (\<lambda>r.
     case r of
       Inr v \<Rightarrow> seq (insert_job_volume S job_id size_gb tier (vol_id v) (vol_title v)) (ret True)
     | Inl err \<Rightarrow> retry_after S job_id err)"

definition handle_volume_pending ::
  "'x services \<Rightarrow> 'x job_context \<Rightarrow> string \<Rightarrow> string \<Rightarrow> string \<Rightarrow> string \<Rightarrow> ('x, bool) job_io" where
  "handle_volume_pending S C job_id namespace name spec_str =
     (case find_ephemeral_volume (parse_spec S spec_str) of
        None \<Rightarrow> ret True
      | Some volume \<Rightarrow>
         (case requested_storage_gb volume of
            None \<Rightarrow> ret True
          | Some size_gb \<Rightarrow>
             if dry_run C then ret True
             else (let tier = requested_tier volume; title = volume_title (resource_prefix C) namespace name
                   in bnd (cloud (list_volumes (provider C) (ctx_zone C))) (\<lambda>listed.
                      case find_listed (\<lambda>v. vol_title v = title) listed of
                        Some found \<Rightarrow>
                          seq (insert_job_volume S job_id size_gb tier (vol_id found) (vol_title found)) (ret True)
                      | None \<Rightarrow> create_and_record_volume S C job_id size_gb tier title))))"

text \<open>
  The configuration files of the container, or a recorded failure: a new error message also becomes an
  event.
\<close>

definition container_config_result ::
  "'x services \<Rightarrow> string \<Rightarrow> string \<Rightarrow> json \<Rightarrow> ('x world, string, container_config) io" where
  "container_config_result S namespace name spec =
     bnd (of_result (first_container spec)) (\<lambda>container.
     bnd (resolve_env S \<lparr>pod_name = name, pod_namespace = namespace\<rparr> container) (\<lambda>env.
       of_result (container_config_of container env)))"

definition resolve_container_config ::
  "'x services \<Rightarrow> string \<Rightarrow> string \<Rightarrow> string \<Rightarrow> json \<Rightarrow> ('x, container_config option) job_io" where
  "resolve_container_config S job_id namespace name spec =
     bnd (attempt (container_config_result S namespace name spec)) (\<lambda>result.
     case result of
       Inr config \<Rightarrow> ret (Some config)
     | Inl err \<Rightarrow>
        (let msg = ''CreateContainerConfigError: '' @ err
         in bnd (sql_fetch_one S (\<lambda>d. map_option j_last_error (find_job job_id d))) (\<lambda>previous.
            seq (when_io (previous \<noteq> Some msg)
                   (record_event S (Some job_id) ''CreateContainerConfigError'' err ''Warning''))
            (seq (record_failed_attempt S job_id msg) (ret None)))))"

definition no_plan_message :: "bool \<Rightarrow> nat \<Rightarrow> nat \<Rightarrow> string" where
  "no_plan_message cached cpu_cores memory_gb =
     (if cached
      then ''no available server plan is big enough for '' @ show_nat cpu_cores @ ''/'' @ show_nat memory_gb
           @ '' CPU/GB requested''
      else ''no server plans cached yet -- waiting for the plan catalog sync'')"

definition no_ssh_keys_message :: string where
  "no_ssh_keys_message =
     ''upcloud.worker_ssh_public_keys is empty -- refusing to create a worker VM with no ''
     @ ''way to log in (UpCloud's cloud-init templates don't support the create_password fallback)''"

definition server_request ::
  "'x job_context \<Rightarrow> string \<Rightarrow> server_plan \<Rightarrow> string \<Rightarrow> create_server_request" where
  "server_request C title plan user_data =
     \<lparr>cs_title = title, cs_hostname = title, cs_zone = ctx_zone C, cs_plan = sp_name plan,
      cs_template_uuid = worker_template_uuid C, cs_boot_disk_size_gb = WORKER_BOOT_DISK_GB,
      cs_boot_disk_tier = boot_disk_tier plan, cs_ssh_public_keys = worker_ssh_public_keys C,
      cs_user_data = user_data\<rparr>"

definition create_and_record_vm ::
  "'x services \<Rightarrow> 'x job_context \<Rightarrow> string \<Rightarrow> string \<Rightarrow> server_plan \<Rightarrow> string \<Rightarrow> ('x, bool) job_io" where
  "create_and_record_vm S C job_id title plan user_data =
     bnd (cloud (create_server (provider C) (server_request C title plan user_data))) (\<lambda>r.
     case r of
       Inr srv \<Rightarrow> seq (set_worker_vm S job_id (srv_id srv) title (sp_name plan)) (ret True)
     | Inl err \<Rightarrow> retry_after S job_id err)"

text \<open>\<open>VMPending\<close> once a plan was found and the container's configuration can be built.\<close>

definition launch_vm ::
  "'x services \<Rightarrow> 'x job_context \<Rightarrow> string \<Rightarrow> string \<Rightarrow> string \<Rightarrow> json \<Rightarrow> server_plan \<Rightarrow> ('x, bool) job_io" where
  "launch_vm S C job_id namespace name spec plan =
     (if dry_run C then ret True
      else if worker_ssh_public_keys C = [] then retry_later S job_id no_ssh_keys_message
      else (case generate S (cloud_init_template C) spec of
              Inl err \<Rightarrow> retry_later S job_id (''cloud-init generation failed: '' @ err)
            | Inr user_data \<Rightarrow>
               (let title = worker_title (resource_prefix C) namespace name
                in bnd (cloud (list_servers (provider C) (ctx_zone C))) (\<lambda>listed.
                   case find_listed (\<lambda>s. srv_title s = title) listed of
                     Some found \<Rightarrow> seq (set_worker_vm S job_id (srv_id found) title (sp_name plan)) (ret True)
                   | None \<Rightarrow> create_and_record_vm S C job_id title plan user_data))))"

definition handle_vm_pending ::
  "'x services \<Rightarrow> 'x job_context \<Rightarrow> string \<Rightarrow> string \<Rightarrow> string \<Rightarrow> string \<Rightarrow> ('x, bool) job_io" where
  "handle_vm_pending S C job_id namespace name spec_str =
     (let spec = parse_spec S spec_str;
          (cpu_millicores, memory_mb) = extract_resource_requests spec;
          (cpu_cores, memory_gb) = whole_units_for_requests cpu_millicores memory_mb
      in bnd (plan_for_resource_requests S (ctx_zone C) cpu_millicores memory_mb) (\<lambda>plan.
         case plan of
           None \<Rightarrow> bnd (has_cached_plans S) (\<lambda>cached.
                    retry_later S job_id (no_plan_message cached cpu_cores memory_gb))
         | Some p \<Rightarrow>
             bnd (resolve_container_config S job_id namespace name spec) (\<lambda>config.
             case config of
               None \<Rightarrow> ret False
             | Some _ \<Rightarrow> launch_vm S C job_id namespace name spec p)))"

section \<open>Firewall\<close>

definition UPCLOUD_DNS_RESOLVERS :: "(firewall_family \<times> string) list" where
  "UPCLOUD_DNS_RESOLVERS =
     [(Ipv4, ''94.237.127.9''), (Ipv4, ''94.237.40.9''), (Ipv6, ''2a04:3540:53::1''), (Ipv6, ''2a04:3544:53::1'')]"

definition dns_reply_rules :: "firewall_rule list" where
  "dns_reply_rules =
     [\<lparr>fw_direction = In, fw_action = Accept, fw_family = family, fw_protocol = Some protocol,
       fw_source_address = Some address, fw_source_port_start = Some ''53'', fw_source_port_end = Some ''53'',
       fw_destination_port_start = None, fw_destination_port_end = None\<rparr>.
      (family, address) \<leftarrow> UPCLOUD_DNS_RESOLVERS, protocol \<leftarrow> [''udp'', ''tcp'']]"

definition is_dns_reply_rule :: "firewall_rule \<Rightarrow> bool" where
  "is_dns_reply_rule rule \<longleftrightarrow>
     fw_direction rule = In \<and> fw_action rule = Accept \<and> fw_source_port_start rule = Some ''53''"

definition accept_outbound :: "firewall_family \<Rightarrow> firewall_rule" where
  "accept_outbound family =
     \<lparr>fw_direction = Out, fw_action = Accept, fw_family = family, fw_protocol = None,
      fw_source_address = None, fw_source_port_start = None, fw_source_port_end = None,
      fw_destination_port_start = None, fw_destination_port_end = None\<rparr>"

definition accept_ssh_from :: "string \<Rightarrow> firewall_rule" where
  "accept_ssh_from own_ip =
     \<lparr>fw_direction = In, fw_action = Accept, fw_family = Ipv4, fw_protocol = Some ''tcp'',
      fw_source_address = Some own_ip, fw_source_port_start = None, fw_source_port_end = None,
      fw_destination_port_start = Some ''22'', fw_destination_port_end = Some ''22''\<rparr>"

definition worker_rules :: "'x job_context \<Rightarrow> firewall_rule list" where
  "worker_rules C =
     [accept_outbound Ipv4, accept_outbound Ipv6]
     @ (case own_public_ip C of Some own_ip \<Rightarrow> [accept_ssh_from own_ip] | None \<Rightarrow> [])
     @ dns_reply_rules"

definition handle_firewall_applying :: "'x services \<Rightarrow> 'x job_context \<Rightarrow> string \<Rightarrow> ('x, bool) job_io" where
  "handle_firewall_applying S C job_id =
     bnd (worker_vm_id S job_id) (\<lambda>vm.
     case vm of
       None \<Rightarrow> ret True
     | Some vm_id \<Rightarrow>
        if dry_run C then ret True
        else bnd (cloud (create_firewall_rules (provider C) vm_id (worker_rules C))) (\<lambda>r.
          case r of Inr _ \<Rightarrow> ret True | Inl err \<Rightarrow> retry_after S job_id err))"

definition rules_visible :: "firewall_rule list \<Rightarrow> bool" where
  "rules_visible rules \<longleftrightarrow>
     list_ex (\<lambda>r. fw_direction r = Out \<and> fw_action r = Accept) rules \<and> list_ex is_dns_reply_rule rules"

definition handle_firewall_verified :: "'x services \<Rightarrow> 'x job_context \<Rightarrow> string \<Rightarrow> ('x, bool) job_io" where
  "handle_firewall_verified S C job_id =
     bnd (worker_vm_id S job_id) (\<lambda>vm.
     case vm of
       None \<Rightarrow> ret True
     | Some vm_id \<Rightarrow>
        if dry_run C then ret True
        else bnd (cloud (list_firewall_rules (provider C) vm_id)) (\<lambda>r.
          case r of Inr rules \<Rightarrow> ret (rules_visible rules) | Inl _ \<Rightarrow> ret False))"

section \<open>Boot and attachment\<close>

definition handle_vm_creating :: "'x services \<Rightarrow> 'x job_context \<Rightarrow> string \<Rightarrow> ('x, bool) job_io" where
  "handle_vm_creating S C job_id =
     bnd (worker_vm_id S job_id) (\<lambda>vm.
     case vm of
       None \<Rightarrow> ret True
     | Some vm_id \<Rightarrow>
        if dry_run C then ret True
        else bnd (cloud (get_server (provider C) vm_id)) (\<lambda>r.
          case r of
            Inr srv \<Rightarrow>
              if is_started srv
              then seq (case srv_public_ipv4 srv of Some ip \<Rightarrow> set_worker_ssh_ip S job_id ip | None \<Rightarrow> ret ()) (ret True)
              else ret False
          | Inl _ \<Rightarrow> ret False))"

definition handle_volume_attaching :: "'x services \<Rightarrow> 'x job_context \<Rightarrow> string \<Rightarrow> ('x, bool) job_io" where
  "handle_volume_attaching S C job_id =
     bnd (job_volume_id S job_id) (\<lambda>vol.
     case vol of
       None \<Rightarrow> ret True
     | Some volume_id \<Rightarrow>
        if dry_run C then ret True
        else bnd (worker_vm_id S job_id) (\<lambda>vm.
          case vm of
            None \<Rightarrow> ret True
          | Some vm_id \<Rightarrow>
              bnd (cloud (attach_volume (provider C) vm_id volume_id)) (\<lambda>r.
                case r of Inr _ \<Rightarrow> ret True | Inl err \<Rightarrow> retry_after S job_id err)))"

section \<open>The container\<close>

definition on_worker :: "'x services \<Rightarrow> 'x job_context \<Rightarrow> string \<Rightarrow> string \<Rightarrow> ('x, string + exec_output) job_io" where
  "on_worker S C ip command =
     attempt (exec_once S ip (worker_ssh_port C) (worker_ssh_private_key C) command)"

definition show_exit_status :: "nat option \<Rightarrow> string" where
  "show_exit_status st = (case st of None \<Rightarrow> ''None'' | Some n \<Rightarrow> ''Some('' @ show_nat n @ '')'')"

fun upload_all ::
  "'x services \<Rightarrow> 'x job_context \<Rightarrow> string \<Rightarrow> string \<Rightarrow> (string \<times> string) list \<Rightarrow> ('x, bool) job_io" where
  "upload_all S C job_id ip [] = ret True"
| "upload_all S C job_id ip ((command, contents) # rest) =
     bnd (attempt (exec_with_stdin S ip (worker_ssh_port C) (worker_ssh_private_key C) command contents)) (\<lambda>r.
     case r of
       Inr out \<Rightarrow>
         if exit_status out = Some 0 then upload_all S C job_id ip rest
         else retry_later S job_id (''writing the container config on worker '' @ ip @ '' failed (exit status ''
                @ show_exit_status (exit_status out) @ '')'')
     | Inl _ \<Rightarrow> ret False)"

definition uploads :: "container_config \<Rightarrow> (string \<times> string) list" where
  "uploads config =
     [(UPLOAD_ENV_COMMAND, env_file config), (UPLOAD_SECRET_ENV_COMMAND, secret_env config),
      (UPLOAD_COMMAND_COMMAND, config_command config), (UPLOAD_ARGS_COMMAND, config_args config),
      (READY_COMMAND, [])]"

definition no_ssh_ip_message :: string where
  "no_ssh_ip_message = ''no worker_ssh_ip recorded, cannot deliver the container config''"

definition no_private_key_message :: string where
  "no_private_key_message =
     ''upcloud.worker_ssh_private_key is empty -- cannot deliver the container's env ''
     @ ''and args to the worker, so its container can never start''"

definition handle_container_configuring ::
  "'x services \<Rightarrow> 'x job_context \<Rightarrow> string \<Rightarrow> string \<Rightarrow> string \<Rightarrow> string \<Rightarrow> ('x, bool) job_io" where
  "handle_container_configuring S C job_id namespace name spec_str =
     bnd (resolve_container_config S job_id namespace name (parse_spec S spec_str)) (\<lambda>config.
     case config of
       None \<Rightarrow> ret False
     | Some cfg \<Rightarrow>
        if dry_run C then ret True
        else bnd (worker_ssh_ip S job_id) (\<lambda>ip.
          case ip of
            None \<Rightarrow> retry_later S job_id no_ssh_ip_message
          | Some addr \<Rightarrow>
              if worker_ssh_private_key C = [] then retry_later S job_id no_private_key_message
              else upload_all S C job_id addr (uploads cfg)))"

definition output_text :: "exec_output \<Rightarrow> string" where
  "output_text out = trim (from_utf8_lossy (stdout out))"

definition has_container_id :: "'x services \<Rightarrow> 'x job_context \<Rightarrow> string \<Rightarrow> ('x, bool) job_io" where
  "has_container_id S C ip =
     bnd (on_worker S C ip ''cat /tmp/container-id.txt'') (\<lambda>r.
       ret (case r of Inr out \<Rightarrow> exit_status out = Some 0 \<and> output_text out \<noteq> [] | Inl _ \<Rightarrow> True))"

definition record_worker_status :: "'x services \<Rightarrow> 'x job_context \<Rightarrow> string \<Rightarrow> string \<Rightarrow> ('x, unit) job_io" where
  "record_worker_status S C job_id ip =
     bnd (on_worker S C ip WORKER_STATUS_COMMAND) (\<lambda>r.
     case r of
       Inl _ \<Rightarrow> ret ()
     | Inr out \<Rightarrow>
         if exit_status out \<noteq> Some 0 then ret ()
         else (let status = output_text out
               in if status = [] then ret ()
                  else record_event S (Some job_id) ''WorkerStatus''
                         (''worker status (/tmp/job-status.txt):'' @ [CHR 0x0A] @ status) ''Warning''))"

text \<open>The exit code is not there yet: give up only on a worker that answers and has started nothing.\<close>

definition never_started_message :: "string \<Rightarrow> string" where
  "never_started_message ip =
     ''ContainerNeverStarted: the worker started no container within '' @ show_int CONTAINER_START_TIMEOUT
     @ ''s (no /tmp/container-id.txt on '' @ ip @ '')''"

definition still_running ::
  "'x services \<Rightarrow> 'x job_context \<Rightarrow> string \<Rightarrow> string \<Rightarrow> int \<Rightarrow> int option \<Rightarrow> ('x, string option) job_io" where
  "still_running S C job_id ip created_at last_transition_time =
     bnd (now_ts S) (\<lambda>now.
     if now - unwrap_or created_at last_transition_time > CONTAINER_START_TIMEOUT
     then bnd (has_container_id S C ip) (\<lambda>started.
          if started then ret None
          else seq (record_worker_status S C job_id ip)
               (seq (force_failed S job_id (never_started_message ip) now) (ret None)))
     else ret None)"

text \<open>The logs, why they could not be fetched, and whether their lines start with timestamps.\<close>

definition fetch_logs ::
  "'x services \<Rightarrow> 'x job_context \<Rightarrow> string \<Rightarrow> string \<Rightarrow> ('x, string \<times> string option \<times> bool) job_io" where
  "fetch_logs S C ip container_id =
     (if container_id \<noteq> [] \<and> list_all is_ascii_hexdigit container_id
      then bnd (on_worker S C ip (''podman logs --timestamps '' @ container_id)) (\<lambda>r.
           ret (case r of
                  Inr out \<Rightarrow>
                    (from_utf8_lossy (normalize_timestamps S (merge_by_timestamp S [stdout out, stderr out])), None, True)
                | Inl err \<Rightarrow> ([], Some err, False)))
      else bnd (on_worker S C ip ''cat /tmp/start-error.txt'') (\<lambda>r.
           let start_error = (case r of
                 Inr out \<Rightarrow> if exit_status out = Some 0 then from_utf8_lossy (stdout out) else []
               | Inl _ \<Rightarrow> [])
           in ret (start_error,
                   if start_error = [] then Some ''no valid container ID on the worker'' else None, False)))"

definition empty_logs_message :: "int \<Rightarrow> string option \<Rightarrow> string" where
  "empty_logs_message exit_code logs_fetch_error =
     (case logs_fetch_error of
        Some err \<Rightarrow> ''container exited with code '' @ show_int exit_code
                    @ '', but its logs could not be fetched from the worker: '' @ err
      | None \<Rightarrow> ''container exited with code '' @ show_int exit_code
                 @ '' without writing anything to stdout or stderr'')"

definition actual_cost_of ::
  "'x services \<Rightarrow> 'x job_context \<Rightarrow> string \<Rightarrow> json \<Rightarrow> int \<Rightarrow> ('x, f64 option) job_io" where
  "actual_cost_of S C job_id spec duration_seconds =
     bnd (effective_main_currency S (ctx_main_currency C)) (\<lambda>currency.
     bnd (sql_fetch_one S (\<lambda>d. map_option j_worker_plan (find_job job_id d))) (\<lambda>plan.
     bnd (attempt (calculate_actual_cost S (ctx_zone C) spec plan duration_seconds currency)) (\<lambda>r.
       ret (case r of Inr cost \<Rightarrow> cost | Inl _ \<Rightarrow> None))))"

definition finish_container ::
  "'x services \<Rightarrow> 'x job_context \<Rightarrow> string \<Rightarrow> string \<Rightarrow> string \<Rightarrow> int \<Rightarrow> int \<Rightarrow> ('x, string option) job_io" where
  "finish_container S C job_id spec_str ip created_at exit_code =
     bnd (on_worker S C ip ''cat /tmp/container-id.txt'') (\<lambda>r.
     let container_id = (case r of Inr out \<Rightarrow> output_text out | Inl _ \<Rightarrow> [])
     in bnd (fetch_logs S C ip container_id) (\<lambda>(logs, logs_fetch_error, logs_timestamped).
        bnd (now_ts S) (\<lambda>now.
        bnd (actual_cost_of S C job_id (parse_spec S spec_str) (now - created_at)) (\<lambda>actual_cost.
        seq (record_completion S job_id exit_code logs logs_timestamped actual_cost)
        (seq (when_io (exit_code \<noteq> 0) (record_worker_status S C job_id ip))
        (seq (when_io (exit_code \<noteq> 0 \<and> trim logs = [])
               (record_event S (Some job_id) ''EmptyLogs'' (empty_logs_message exit_code logs_fetch_error) ''Warning''))
             (ret (Some (if exit_code = 0 then ''Succeeded'' else ''Failed'')))))))))"

definition handle_container_running ::
  "'x services \<Rightarrow> 'x job_context \<Rightarrow> string \<Rightarrow> string \<Rightarrow> int \<Rightarrow> int option \<Rightarrow> ('x, string option) job_io" where
  "handle_container_running S C job_id spec_str created_at last_transition_time =
     (if dry_run C then ret (Some ''Succeeded'')
      else bnd (worker_ssh_ip S job_id) (\<lambda>ip.
        case ip of
          None \<Rightarrow> ret (Some ''Succeeded'')
        | Some addr \<Rightarrow>
           if worker_ssh_private_key C = [] then ret (Some ''Succeeded'')
           else bnd (on_worker S C addr ''cat /tmp/exit-code'') (\<lambda>r.
             case r of
               Inl _ \<Rightarrow> ret None
             | Inr out \<Rightarrow>
                (case parse_i64 (output_text out) of
                   None \<Rightarrow> still_running S C job_id addr created_at last_transition_time
                 | Some exit_code \<Rightarrow> finish_container S C job_id spec_str addr created_at exit_code))))"

section \<open>Cleanup\<close>

definition handle_volume_detaching :: "'x services \<Rightarrow> 'x job_context \<Rightarrow> string \<Rightarrow> ('x, bool) job_io" where
  "handle_volume_detaching S C job_id =
     bnd (job_volume_id S job_id) (\<lambda>vol.
     case vol of
       None \<Rightarrow> ret True
     | Some volume_id \<Rightarrow>
        if dry_run C then ret True
        else bnd (worker_vm_id S job_id) (\<lambda>vm.
          seq (case vm of
                 Some vm_id \<Rightarrow> bnd (cloud (detach_volume (provider C) vm_id volume_id)) (\<lambda>_. ret ())
               | None \<Rightarrow> ret ())
          (bnd (cloud (delete_volume (provider C) volume_id)) (\<lambda>r.
             case r of
               Inr _ \<Rightarrow> seq (delete_job_volume S job_id) (ret True)
             | Inl err \<Rightarrow> retry_after S job_id err))))"

definition delete_stopped_vm :: "'x services \<Rightarrow> 'x job_context \<Rightarrow> string \<Rightarrow> string \<Rightarrow> ('x, bool) job_io" where
  "delete_stopped_vm S C job_id vm_id =
     bnd (cloud (delete_server (provider C) vm_id)) (\<lambda>r.
     case r of Inr _ \<Rightarrow> ret True | Inl err \<Rightarrow> retry_after S job_id err)"

definition stop_or_delete_vm ::
  "'x services \<Rightarrow> 'x job_context \<Rightarrow> string \<Rightarrow> string \<Rightarrow> provider_error + server \<Rightarrow> ('x, bool) job_io" where
  "stop_or_delete_vm S C job_id vm_id r =
     (case r of
        Inl (NotFound _) \<Rightarrow> delete_stopped_vm S C job_id vm_id
      | Inl err \<Rightarrow> retry_after S job_id err
      | Inr srv \<Rightarrow>
          if is_stopped srv then delete_stopped_vm S C job_id vm_id
          else if is_started srv
          then bnd (cloud (stop_server (provider C) vm_id)) (\<lambda>s.
                 case s of Inl err \<Rightarrow> retry_after S job_id err | Inr _ \<Rightarrow> ret False)
          else ret False)"

definition handle_vm_terminating :: "'x services \<Rightarrow> 'x job_context \<Rightarrow> string \<Rightarrow> ('x, bool) job_io" where
  "handle_vm_terminating S C job_id =
     bnd (worker_vm_id S job_id) (\<lambda>vm.
     case vm of
       None \<Rightarrow> ret True
     | Some vm_id \<Rightarrow>
        if dry_run C then ret True
        else bnd (cloud (get_server (provider C) vm_id)) (stop_or_delete_vm S C job_id vm_id))"

section \<open>The loop\<close>

definition then_some :: "'b \<Rightarrow> ('x, bool) job_io \<Rightarrow> ('x, 'b option) job_io" where
  "then_some next m = bnd m (\<lambda>b. ret (if b then Some next else None))"

text \<open>The \<open>match\<close> on the status: the state to move to, or none.\<close>

definition target_status :: "'x services \<Rightarrow> 'x job_context \<Rightarrow> job_view \<Rightarrow> string \<Rightarrow> ('x, string option) job_io" where
  "target_status S C j next =
     (let jid = j_id j; ns = j_namespace j; name = j_name j; spec = j_spec j; status = j_status j
      in if status = ''VolumePending'' then then_some next (handle_volume_pending S C jid ns name spec)
         else if status = ''VMPending'' then then_some next (handle_vm_pending S C jid ns name spec)
         else if status = ''FirewallApplying'' then then_some next (handle_firewall_applying S C jid)
         else if status = ''FirewallVerified'' then then_some next (handle_firewall_verified S C jid)
         else if status = ''VMCreating'' then then_some next (handle_vm_creating S C jid)
         else if status = ''VolumeAttaching'' then then_some next (handle_volume_attaching S C jid)
         else if status = ''ContainerConfiguring''
         then then_some next (handle_container_configuring S C jid ns name spec)
         else if status = ''ContainerRunning''
         then handle_container_running S C jid spec (j_created_at j) (j_last_transition_time j)
         else if status = ''VolumeDetaching'' then then_some next (handle_volume_detaching S C jid)
         else if status = ''VMTerminating'' then then_some next (handle_vm_terminating S C jid)
         else ret (Some next))"

definition deadline_message :: "int \<Rightarrow> string \<Rightarrow> string" where
  "deadline_message deadline status =
     ''DeadlineExceeded: activeDeadlineSeconds ('' @ show_int deadline @ ''s) exceeded while in state '' @ status"

definition timeout_message :: "string \<Rightarrow> string" where
  "timeout_message status =
     ''StateTimeout: stuck in '' @ status @ '' for over '' @ show_int RETRY_ESCALATION_THRESHOLD @ ''s''"

text \<open>Why a job short of completion is given up, if it is.\<close>

definition give_up_reason :: "'a libs_scheme \<Rightarrow> int \<Rightarrow> job_view \<Rightarrow> string option" where
  "give_up_reason L now j =
     (if \<not> is_pre_completion_state (j_status j) then None
      else (case active_deadline_seconds (parse_spec L (j_spec j)) of
              Some deadline \<Rightarrow>
                if now - j_created_at j > deadline then Some (deadline_message deadline (j_status j))
                else if j_status j \<noteq> ''ContainerRunning''
                  \<and> now - unwrap_or (j_created_at j) (j_last_transition_time j) > RETRY_ESCALATION_THRESHOLD
                then Some (timeout_message (j_status j)) else None
            | None \<Rightarrow>
                if j_status j \<noteq> ''ContainerRunning''
                  \<and> now - unwrap_or (j_created_at j) (j_last_transition_time j) > RETRY_ESCALATION_THRESHOLD
                then Some (timeout_message (j_status j)) else None))"

definition set_status :: "string \<Rightarrow> string \<Rightarrow> int \<Rightarrow> database \<Rightarrow> string + database" where
  "set_status job_id status now =
     update_jobs job_id (\<lambda>r. r\<lparr>j_status := status, j_last_transition_time := Some now, j_updated_at := now,
       j_version := j_version r + 1\<rparr>)"

definition move_to :: "'x services \<Rightarrow> job_view \<Rightarrow> int \<Rightarrow> string \<Rightarrow> ('x, unit) job_io" where
  "move_to S j now target =
     seq (sql_exec S (set_status (j_id j) target now))
       (record_event S (Some (j_id j)) target
          (''Transitioned from '' @ j_status j @ '' to '' @ target)
          (if target = ''Failed'' then ''Warning'' else ''Normal''))"

text \<open>One job of the loop: whether it advanced.\<close>

definition advance_job :: "'x services \<Rightarrow> 'x job_context \<Rightarrow> int \<Rightarrow> job_view \<Rightarrow> ('x, bool) job_io" where
  "advance_job S C now j =
     (case next_state (j_status j) of
        None \<Rightarrow> ret False
      | Some next \<Rightarrow>
         (case give_up_reason S now j of
            Some reason \<Rightarrow> seq (force_failed S (j_id j) reason now) (ret True)
          | None \<Rightarrow>
             bnd (target_status S C j next) (\<lambda>target.
             case target of
               None \<Rightarrow> ret False
             | Some t \<Rightarrow> seq (move_to S j now t) (ret True))))"

definition is_requested :: "('x \<Rightarrow> bool \<times> 'x) \<Rightarrow> ('x, bool) job_io" where
  "is_requested shutdown = (\<lambda>w. case lift_ext shutdown w of (b, w') \<Rightarrow> (Inr b, w'))"

fun advance_rows ::
  "'x services \<Rightarrow> 'x job_context \<Rightarrow> ('x \<Rightarrow> bool \<times> 'x) \<Rightarrow> int \<Rightarrow> job_view list \<Rightarrow> nat \<Rightarrow> ('x, nat) job_io" where
  "advance_rows S C shutdown now [] advanced = ret advanced"
| "advance_rows S C shutdown now (j # js) advanced =
     bnd (is_requested shutdown) (\<lambda>stop.
     if stop then ret advanced
     else bnd (advance_job S C now j) (\<lambda>b.
       advance_rows S C shutdown now js (if b then advanced + 1 else advanced)))"

definition live_jobs :: "database \<Rightarrow> job_row list" where
  "live_jobs d = filter (\<lambda>r. j_status r \<noteq> TERMINAL_STATE) (jobs d)"

definition advance_all_until ::
  "'x services \<Rightarrow> 'x job_context \<Rightarrow> ('x \<Rightarrow> bool \<times> 'x) \<Rightarrow> ('x, nat) job_io" where
  "advance_all_until S C shutdown =
     bnd (sql_query S live_jobs) (\<lambda>rows.
     bnd (now_ts S) (\<lambda>now. advance_rows S C shutdown now rows 0))"

definition never :: "'x \<Rightarrow> bool \<times> 'x" where
  "never x = (False, x)"

definition advance_all :: "'x services \<Rightarrow> 'x job_context \<Rightarrow> ('x, nat) job_io" where
  "advance_all S C = advance_all_until S C never"

text \<open>Cloud calls and SSH sessions reach the outside world only, and Secrets are only read.\<close>

context db_frame
begin

lemma keeps_cloud [intro!]: "keeps on_world (cloud f)"
  unfolding cloud_def by (intro keeps_attempt keeps_provider_call)

lemma keeps_on_worker [intro!]: "keeps on_world (on_worker S C ip cmd)"
  unfolding on_worker_def by (intro keeps_attempt keeps_same_db) simp

lemma keeps_exec_with_stdin [intro!]: "keeps on_world (exec_with_stdin S ip port key cmd input)"
  by (rule keeps_same_db) simp

lemma keeps_load_secrets [intro!]: "keeps on_world (load_secrets S ns names store)"
  by (induction names arbitrary: store) (auto split: option.split)

lemma keeps_resolve_env [intro!]: "keeps on_world (resolve_env S pod container)"
  by (auto simp: resolve_env_def)

end

end
