(* ===== verification/JobLaws.thy ===== *)
theory JobLaws
  imports Jobs
begin

text \<open>
  What the job loop may do to the database. \<open>job_frame\<close> is the contract between the handlers of one job
  and the tables: a relation that every single statement of a handler respects. The handlers are
  gone through once, inside the locale; each interpretation then gives the fact for one relation.
\<close>

text \<open>The columns of a job that no handler writes.\<close>

definition core :: "job_row \<Rightarrow> string \<times> string \<times> string \<times> string option \<times> string \<times> string \<times> int \<times> int \<times> f64 option" where
  "core r = (j_id r, j_name r, j_namespace r, j_cronjob_name r, j_spec r, j_status r, j_created_at r, j_version r,
             j_estimated_cost r)"

locale job_frame = db_frame Q for Q :: "database \<Rightarrow> database \<Rightarrow> bool" +
  fixes jid :: string
  assumes Q_event: "Q d (d\<lparr>events := events d @ [e]\<rparr>)"
    and Q_volume_insert: "jv_job_id v = jid \<Longrightarrow> Q d (d\<lparr>job_volumes := job_volumes d @ [v]\<rparr>)"
    and Q_volume_delete: "Q d (d\<lparr>job_volumes := filter (\<lambda>v. jv_job_id v \<noteq> jid) (job_volumes d)\<rparr>)"
    and Q_job: "(\<And>r. core (f r) = core r) \<Longrightarrow> Q d (d\<lparr>jobs := update_where (\<lambda>r. j_id r = jid) f (jobs d)\<rparr>)"
begin

lemma keeps_update_job:
  "(\<And>r. core (f r) = core r) \<Longrightarrow> keeps on_world (sql_exec S (update_jobs jid f))"
  by (rule keeps_sql_exec) (auto simp: update_jobs_def intro: Q_job)

lemma keeps_record_event [intro!]: "keeps on_world (record_event S job reason msg ty)"
  unfolding record_event_def
  by (intro keeps_bnd keeps_new_uuid keeps_now_ts keeps_sql_exec)
     (auto simp: insert_event_row_def split: if_splits intro: Q_event)

lemma keeps_insert_job_volume [intro!]: "keeps on_world (insert_job_volume S jid gb tier vid vname)"
  unfolding insert_job_volume_def
  by (intro keeps_bnd keeps_new_uuid keeps_now_ts keeps_sql_exec)
     (auto simp: insert_job_volume_row_def split: if_splits intro: Q_volume_insert)

lemma keeps_delete_job_volume [intro!]: "keeps on_world (delete_job_volume S jid)"
  unfolding delete_job_volume_def by (intro keeps_sql_exec) (auto intro: Q_volume_delete)

lemma keeps_set_worker_vm [intro!]: "keeps on_world (set_worker_vm S jid vm name plan)"
  unfolding set_worker_vm_def by (rule keeps_update_job) (simp add: core_def)

lemma keeps_set_worker_ssh_ip [intro!]: "keeps on_world (set_worker_ssh_ip S jid ip)"
  unfolding set_worker_ssh_ip_def by (rule keeps_update_job) (simp add: core_def)

lemma keeps_record_completion [intro!]: "keeps on_world (record_completion S jid code logs ts cost)"
  unfolding record_completion_def
  by (intro keeps_bnd keeps_now_ts keeps_update_job) (simp add: core_def)

lemma keeps_record_failed_attempt [intro!]: "keeps on_world (record_failed_attempt S jid err)"
  unfolding record_failed_attempt_def
  by (intro keeps_bnd keeps_seq keeps_now_ts keeps_update_job keeps_sql_fetch_one keeps_ret) (simp add: core_def)

lemma keeps_retry_later [intro!]: "keeps on_world (retry_later S jid err)"
  unfolding retry_later_def by (intro keeps_seq keeps_record_failed_attempt keeps_ret)

lemma keeps_retry_after [intro!]: "keeps on_world (retry_after S jid err)"
  unfolding retry_after_def by (rule keeps_retry_later)

lemma keeps_worker_vm_id [intro!]: "keeps on_world (worker_vm_id S jid)"
  unfolding worker_vm_id_def by (rule keeps_sql_fetch_one)

lemma keeps_worker_ssh_ip [intro!]: "keeps on_world (worker_ssh_ip S jid)"
  unfolding worker_ssh_ip_def by (rule keeps_sql_fetch_one)

lemma keeps_job_volume_id [intro!]: "keeps on_world (job_volume_id S jid)"
  unfolding job_volume_id_def by (rule keeps_sql_query)

lemma keeps_resolve_container_config [intro!]: "keeps on_world (resolve_container_config S jid ns name spec)"
  by (auto simp: resolve_container_config_def container_config_result_def Let_def split: sum.split)

lemma keeps_handle_volume_pending [intro!]: "keeps on_world (handle_volume_pending S C jid ns name spec)"
  by (auto simp: handle_volume_pending_def create_and_record_volume_def Let_def split: option.split sum.split)

lemma keeps_launch_vm [intro!]: "keeps on_world (launch_vm S C jid ns name spec plan)"
  by (auto simp: launch_vm_def create_and_record_vm_def Let_def split: option.split sum.split)

lemma keeps_handle_vm_pending [intro!]: "keeps on_world (handle_vm_pending S C jid ns name spec)"
  by (auto simp: handle_vm_pending_def Let_def split: option.split prod.split)

lemma keeps_handle_firewall_applying [intro!]: "keeps on_world (handle_firewall_applying S C jid)"
  by (auto simp: handle_firewall_applying_def split: option.split sum.split)

lemma keeps_handle_firewall_verified [intro!]: "keeps on_world (handle_firewall_verified S C jid)"
  by (auto simp: handle_firewall_verified_def split: option.split sum.split)

lemma keeps_handle_vm_creating [intro!]: "keeps on_world (handle_vm_creating S C jid)"
  by (auto simp: handle_vm_creating_def split: option.split sum.split)

lemma keeps_handle_volume_attaching [intro!]: "keeps on_world (handle_volume_attaching S C jid)"
  by (auto simp: handle_volume_attaching_def split: option.split sum.split)

lemma keeps_upload_all [intro!]: "keeps on_world (upload_all S C jid ip us)"
proof (induction us)
  case Nil
  show ?case by (simp only: upload_all.simps keeps_ret)
next
  case (Cons u us)
  then show ?case by (cases u) (auto split: sum.split)
qed

lemma keeps_handle_container_configuring [intro!]:
  "keeps on_world (handle_container_configuring S C jid ns name spec)"
  by (auto simp: handle_container_configuring_def split: option.split)

lemma keeps_has_container_id [intro!]: "keeps on_world (has_container_id S C ip)"
  by (auto simp: has_container_id_def)

lemma keeps_record_worker_status [intro!]: "keeps on_world (record_worker_status S C job ip)"
  by (auto simp: record_worker_status_def Let_def split: sum.split)

lemma keeps_fetch_logs [intro!]: "keeps on_world (fetch_logs S C ip cid)"
  by (auto simp: fetch_logs_def Let_def)

lemma keeps_actual_cost_of [intro!]: "keeps on_world (actual_cost_of S C job spec secs)"
  by (auto simp: actual_cost_of_def)

lemma keeps_finish_container [intro!]: "keeps on_world (finish_container S C jid spec ip created code)"
  by (auto simp: finish_container_def Let_def)

lemma keeps_handle_volume_detaching [intro!]: "keeps on_world (handle_volume_detaching S C jid)"
  by (auto simp: handle_volume_detaching_def split: option.split sum.split)

lemma keeps_handle_vm_terminating [intro!]: "keeps on_world (handle_vm_terminating S C jid)"
  by (auto simp: handle_vm_terminating_def stop_or_delete_vm_def delete_stopped_vm_def
        split: option.split sum.split provider_error.split)

end

text \<open>
  Relations that also survive the two ways a status is written: \<open>force_failed\<close> and the final update of the
  loop. For these the whole tick is covered.
\<close>

locale tick_frame = db_frame Q for Q :: "database \<Rightarrow> database \<Rightarrow> bool" +
  assumes tick_event: "Q d (d\<lparr>events := events d @ [e]\<rparr>)"
    and tick_volume_insert: "Q d (d\<lparr>job_volumes := job_volumes d @ [v]\<rparr>)"
    and tick_volume_delete: "Q d (d\<lparr>job_volumes := filter (\<lambda>v. jv_job_id v \<noteq> jid) (job_volumes d)\<rparr>)"
    and tick_job: "(\<And>r. core (f r) = core r) \<Longrightarrow> Q d (d\<lparr>jobs := update_where (\<lambda>r. j_id r = jid) f (jobs d)\<rparr>)"
    and tick_status: "Q d (d\<lparr>jobs := update_where (\<lambda>r. j_id r = jid)
          (\<lambda>r. r\<lparr>j_status := st, j_last_transition_time := tt, j_updated_at := u, j_version := j_version r + 1\<rparr>) (jobs d)\<rparr>)"

sublocale tick_frame \<subseteq> job_frame Q jid for jid
  by unfold_locales (auto intro: tick_event tick_volume_insert tick_volume_delete tick_job)

context tick_frame
begin

lemma keeps_set_status [intro!]: "keeps on_world (sql_exec S (set_status jid st now))"
  by (rule keeps_sql_exec) (auto simp: set_status_def update_jobs_def intro: tick_status)

lemma tick_forced:
  "Q d (d\<lparr>jobs := update_where (\<lambda>r. j_id r = jid) (\<lambda>r. r\<lparr>j_status := ''Failed'', j_last_error := e,
      j_last_transition_time := tt, j_updated_at := u, j_version := j_version r + 1\<rparr>) (jobs d)\<rparr>)"
proof -
  let ?p = "\<lambda>r. j_id r = jid"
  let ?f = "\<lambda>r. r\<lparr>j_status := ''Failed'', j_last_transition_time := tt, j_updated_at := u, j_version := j_version r + 1\<rparr>"
  let ?g = "\<lambda>r. r\<lparr>j_last_error := e\<rparr>"
  let ?h = "\<lambda>r. r\<lparr>j_status := ''Failed'', j_last_error := e, j_last_transition_time := tt, j_updated_at := u,
              j_version := j_version r + 1\<rparr>"
  have eq: "update_where ?p ?h (jobs d) = update_where ?p ?g (update_where ?p ?f (jobs d))"
    by (auto simp: update_where_def)
  have "Q (d\<lparr>jobs := update_where ?p ?f (jobs d)\<rparr>) (d\<lparr>jobs := update_where ?p ?g (update_where ?p ?f (jobs d))\<rparr>)"
    using tick_job [of ?g "d\<lparr>jobs := update_where ?p ?f (jobs d)\<rparr>" jid] by (simp add: core_def)
  then show ?thesis unfolding eq by (rule Q_trans [OF tick_status])
qed

lemma keeps_force_failed [intro!]: "keeps on_world (force_failed S jid reason now)"
  unfolding force_failed_def
  by (intro keeps_seq keeps_record_event keeps_sql_exec) (auto simp: update_jobs_def intro: tick_forced)

lemma keeps_handle_container_running [intro!]:
  "keeps on_world (handle_container_running S C jid spec created ltt)"
  by (auto simp: handle_container_running_def still_running_def split: option.split sum.split)

lemma keeps_target_status [intro!]: "keeps on_world (target_status S C j next)"
  by (auto simp: target_status_def then_some_def Let_def)

lemma keeps_move_to [intro!]: "keeps on_world (move_to S j now t)"
  by (auto simp: move_to_def)

lemma keeps_advance_job [intro!]: "keeps on_world (advance_job S C now j)"
  by (auto simp: advance_job_def split: option.split)

lemma keeps_is_requested [intro!]: "keeps on_world (is_requested sd)"
  by (rule keeps_same_db) (simp add: is_requested_def lift_ext_eq)

lemma keeps_advance_rows [intro!]: "keeps on_world (advance_rows S C sd now js n)"
  by (induction js arbitrary: n) auto

lemma keeps_advance_all_until [intro!]: "keeps on_world (advance_all_until S C sd)"
  by (auto simp: advance_all_until_def)

lemma advance_all_until_rel: "Q (db w) (db (snd (advance_all_until S C sd w)))"
  using keepsD [OF keeps_advance_all_until, of w S C sd] by (simp add: on_world_def)

end

section \<open>The tables a tick leaves alone\<close>

definition outside_kept :: "database \<Rightarrow> database \<Rightarrow> bool" where
  "outside_kept a b \<longleftrightarrow>
     secrets b = secrets a \<and> cronjobs b = cronjobs a \<and> worker_metrics b = worker_metrics a \<and> provider_pricing b = provider_pricing a
     \<and> provider_plans b = provider_plans a \<and> exchange_rates b = exchange_rates a \<and> budget_state b = budget_state a
     \<and> map j_id (jobs b) = map j_id (jobs a) \<and> (\<exists>es. events b = events a @ es)"

interpretation outside: tick_frame outside_kept
proof unfold_locales
  fix d :: database and f :: "job_row \<Rightarrow> job_row" and jid
  assume "\<And>r. core (f r) = core r"
  then have "j_id (f r) = j_id r" for r by (simp add: core_def)
  then show "outside_kept d (d\<lparr>jobs := update_where (\<lambda>r. j_id r = jid) f (jobs d)\<rparr>)"
    by (simp add: outside_kept_def map_update_where_same)
qed (auto simp: outside_kept_def map_update_where_same)

end
