(* ===== verification/JobSteps.thy ===== *)
theory JobSteps
  imports JobLaws
begin

text \<open>
  The state machine the job loop implements. \<open>edge\<close> is the specification: along the pipeline, or to
  \<open>Failed\<close> from a state before completion. The lemmas show that a tick moves each job along at most one
  edge, counts the move in its version, writes no other job, and therefore moves a job at most
  17 times before it is archived and left alone.
\<close>

definition edge :: "string \<Rightarrow> string \<Rightarrow> bool" where
  "edge s t \<longleftrightarrow> next_state s = Some t \<or> (is_pre_completion_state s \<and> t = ''Failed'')"

definition moved :: "string \<Rightarrow> job_row \<Rightarrow> job_row \<Rightarrow> bool" where
  "moved t r r' \<longleftrightarrow> core r' = core (r\<lparr>j_status := t, j_version := j_version r + 1\<rparr>)"

definition touches :: "string \<Rightarrow> database \<Rightarrow> database \<Rightarrow> bool" where
  "touches jid a b \<longleftrightarrow> list_all2 (\<lambda>r r'. if j_id r = jid then core r' = core r else r' = r) (jobs a) (jobs b)"

definition steps_of :: "string \<Rightarrow> string set \<Rightarrow> database \<Rightarrow> database \<Rightarrow> bool" where
  "steps_of jid T a b \<longleftrightarrow>
     list_all2 (\<lambda>r r'. if j_id r = jid then core r' = core r \<or> (\<exists>t \<in> T. moved t r r') else r' = r) (jobs a) (jobs b)"

definition on_db :: "(database \<Rightarrow> database \<Rightarrow> bool) \<Rightarrow> 'x world \<Rightarrow> 'x world \<Rightarrow> bool" where
  "on_db Q v w \<longleftrightarrow> Q (db v) (db w)"

lemma core_id: "core r' = core r \<Longrightarrow> j_id r' = j_id r"
  by (simp add: core_def)

lemma moved_id: "moved t r r' \<Longrightarrow> j_id r' = j_id r"
  by (simp add: moved_def core_def)

lemma list_all2_comp:
  "list_all2 P xs ys \<Longrightarrow> list_all2 Q ys zs \<Longrightarrow> (\<And>x y z. P x y \<Longrightarrow> Q y z \<Longrightarrow> R x z) \<Longrightarrow> list_all2 R xs zs"
  by (rule list_all2_trans [of P Q R]) auto

lemma list_all2_update:
  "(\<And>r. r \<in> set rows \<Longrightarrow> P r (if p r then f r else r)) \<Longrightarrow> list_all2 P rows (update_where p f rows)"
  by (simp add: update_where_def list_all2_conv_all_nth)

interpretation touch: job_frame "touches jid" jid for jid
proof unfold_locales
  fix a b c :: database
  assume "touches jid a b" and "touches jid b c"
  then show "touches jid a c"
    unfolding touches_def by (rule list_all2_comp) (auto split: if_splits dest: core_id)
qed (auto simp: touches_def list_all2_same intro!: list_all2_update)

lemma touch_on_db: "touch.on_world jid = on_db (touches jid)"
  by (auto simp: touch.on_world_def on_db_def fun_eq_iff)

lemma touches_steps: "touches jid a b \<Longrightarrow> steps_of jid T a b"
  unfolding touches_def steps_of_def by (erule list_all2_mono) (auto split: if_splits)

lemma steps_mono: "steps_of jid T a b \<Longrightarrow> T \<subseteq> U \<Longrightarrow> steps_of jid U a b"
  unfolding steps_of_def by (erule list_all2_mono) (auto split: if_splits)

lemma touches_then_steps: "touches jid a b \<Longrightarrow> steps_of jid T b c \<Longrightarrow> steps_of jid T a c"
  unfolding touches_def steps_of_def
  by (erule list_all2_comp, assumption) (auto split: if_splits dest: core_id simp: moved_def core_def)

lemma steps_then_touches: "steps_of jid T a b \<Longrightarrow> touches jid b c \<Longrightarrow> steps_of jid T a c"
  unfolding touches_def steps_of_def
  by (erule list_all2_comp, assumption) (auto split: if_splits dest: core_id moved_id simp: moved_def)

section \<open>Sequencing different relations\<close>

lemma keeps_bnd_via:
  assumes "keeps R m" and "\<And>a. keeps R' (k a)"
    and "\<And>u v. R u v \<Longrightarrow> R'' u v" and "\<And>u v w. R u v \<Longrightarrow> R' v w \<Longrightarrow> R'' u w"
  shows "keeps R'' (bnd m k)"
proof (rule keepsI)
  fix w
  show "R'' w (snd (bnd m k w))"
  proof (cases rule: bnd_cases [of m w k])
    case (err e w')
    with keepsD [OF assms(1), of w] assms(3) show ?thesis by simp
  next
    case (val a w')
    with keepsD [OF assms(1), of w] keepsD [OF assms(2), of w' a] assms(4) show ?thesis by simp
  qed
qed

lemma keeps_weaken: "keeps R m \<Longrightarrow> (\<And>u v. R u v \<Longrightarrow> R' u v) \<Longrightarrow> keeps R' m"
  by (simp add: keeps_def)

text \<open>\<open>gives R T m\<close>: whenever \<open>m\<close> returns a target it is in \<open>T\<close>, and then only \<open>R\<close> has happened.\<close>

definition gives :: "('w \<Rightarrow> 'w \<Rightarrow> bool) \<Rightarrow> 'a set \<Rightarrow> ('w, 'e, 'a option) io \<Rightarrow> bool" where
  "gives R T m \<longleftrightarrow> (\<forall>w t w'. m w = (Inr (Some t), w') \<longrightarrow> R w w' \<and> t \<in> T)"

lemma gives_ret_None [intro!]: "gives R T (ret None)"
  by (simp add: gives_def)

lemma gives_fail [intro!]: "gives R T (fail e)"
  by (simp add: gives_def)

context frame
begin

lemma gives_ret_Some [intro!]: "t \<in> T \<Longrightarrow> gives R T (ret (Some t))"
  by (simp add: gives_def R_refl)

lemma gives_bnd [intro!]:
  assumes "keeps R m" and "\<And>a. gives R T (k a)"
  shows "gives R T (bnd m k)"
  unfolding gives_def
proof (intro allI impI)
  fix w t w'
  assume run: "bnd m k w = (Inr (Some t), w')"
  then show "R w w' \<and> t \<in> T"
  proof (cases rule: bnd_cases [of m w k])
    case (val a v)
    have "R w v" using keepsD [OF assms(1), of w] val by simp
    moreover from val run have "k a v = (Inr (Some t), w')" by simp
    then have "R v w' \<and> t \<in> T" using assms(2) [of a] by (auto simp: gives_def)
    ultimately show ?thesis by (auto intro: R_trans)
  qed auto
qed

lemma gives_seq [intro!]: "keeps R m \<Longrightarrow> gives R T n \<Longrightarrow> gives R T (seq m n)"
  unfolding seq_def by (rule gives_bnd)

end

lemma gives_never: "(\<And>w t w'. m w \<noteq> (Inr (Some t), w')) \<Longrightarrow> gives R T m"
  by (auto simp: gives_def)

section \<open>One job\<close>

lemma forced_steps:
  "steps_of jid {''Failed''} d (d\<lparr>jobs := update_where (\<lambda>r. j_id r = jid) (\<lambda>r. r\<lparr>j_status := ''Failed'',
      j_last_error := e, j_last_transition_time := tt, j_updated_at := u, j_version := j_version r + 1\<rparr>) (jobs d)\<rparr>)"
  unfolding steps_of_def by (simp, rule list_all2_update) (auto simp: moved_def core_def)

lemma status_steps: "set_status jid t now d = Inr d' \<Longrightarrow> steps_of jid {t} d d'"
  unfolding steps_of_def set_status_def update_jobs_def
  by (auto intro!: list_all2_update simp: moved_def core_def)

lemma keeps_exec_steps:
  assumes "\<And>d d'. f d = Inr d' \<Longrightarrow> steps_of jid T d d'"
  shows "keeps (on_db (steps_of jid T)) (sql_exec S f)"
proof (rule keepsI)
  fix w
  show "on_db (steps_of jid T) w (snd (sql_exec S f w))"
    by (cases rule: sql_exec_cases [of S f w])
       (auto simp: on_db_def intro: assms touches_steps touch.Q_refl)
qed

lemma keeps_steps_then_event:
  assumes "keeps (on_db (steps_of jid T)) m"
  shows "keeps (on_db (steps_of jid T)) (seq m (record_event S job reason msg ty))"
  unfolding seq_def
  by (rule keeps_bnd_via [OF assms touch.keeps_record_event [of jid, unfolded touch_on_db]])
     (auto simp: on_db_def intro: steps_then_touches)

lemma keeps_steps_force_failed: "keeps (on_db (steps_of jid {''Failed''})) (force_failed S jid reason now)"
  unfolding force_failed_def
  by (intro keeps_steps_then_event keeps_exec_steps) (auto simp: update_jobs_def intro: forced_steps)

lemma keeps_steps_move_to: "keeps (on_db (steps_of (j_id j) {t})) (move_to S j now t)"
  unfolding move_to_def by (intro keeps_steps_then_event keeps_exec_steps) (auto intro: status_steps)

text \<open>A handler that ends the job writes its status last.\<close>

lemma keeps_steps_bnd:
  assumes "keeps (touch.on_world jid) m" and "\<And>a. keeps (on_db (steps_of jid T)) (k a)"
  shows "keeps (on_db (steps_of jid T)) (bnd m k)"
  using assms unfolding touch_on_db
  by (rule keeps_bnd_via) (auto simp: on_db_def intro: touches_steps touches_then_steps)

lemma keeps_steps_touch: "keeps (touch.on_world jid) m \<Longrightarrow> keeps (on_db (steps_of jid T)) m"
  by (erule keeps_weaken) (auto simp: touch_on_db on_db_def intro: touches_steps)

lemma keeps_steps_ret [intro!]: "keeps (on_db (steps_of jid T)) (ret a)"
  by (rule keeps_steps_touch) auto

lemma keeps_steps_finish [intro!]: "keeps (on_db (steps_of jid T)) (finish_container S C jid spec ip created code)"
  by (rule keeps_steps_touch) auto

lemma keeps_steps_still_running:
  "keeps (on_db (steps_of jid {''Failed''})) (still_running S C jid ip created ltt)"
proof -
  have "keeps (on_db (steps_of jid {''Failed''})) (seq (force_failed S jid reason now) (ret None))" for reason now
    unfolding seq_def
    by (rule keeps_bnd_via [OF keeps_steps_force_failed touch.keeps_ret [of jid, unfolded touch_on_db]])
       (auto simp: on_db_def intro: steps_then_touches)
  then show ?thesis
    unfolding still_running_def seq_def [of "record_worker_status S C jid ip"]
    by (auto intro!: keeps_steps_bnd intro: keeps_steps_touch)
qed

lemma keeps_steps_handle_container_running:
  "keeps (on_db (steps_of jid {''Failed''})) (handle_container_running S C jid spec created ltt)"
  unfolding handle_container_running_def
  by (auto intro!: keeps_steps_bnd keeps_steps_still_running intro: keeps_steps_touch split: option.split sum.split)

lemma still_running_no_target: "still_running S C jid ip created ltt w \<noteq> (Inr (Some t), w')"
  by (auto simp: still_running_def bnd_def seq_def split: prod.splits sum.splits if_splits)

lemma gives_handle_container_running:
  "gives (touch.on_world jid) {''Succeeded'', ''Failed''} (handle_container_running S C jid spec created ltt)"
  unfolding handle_container_running_def finish_container_def Let_def
  by (auto split: option.split sum.split prod.split intro!: gives_never [OF still_running_no_target])

lemma gives_then_some: "keeps (touch.on_world jid) m \<Longrightarrow> gives (touch.on_world jid) {t} (then_some t m)"
  unfolding then_some_def by auto

lemma gives_target_status:
  assumes "next_state (j_status j) = Some nxt"
  shows "gives (touch.on_world (j_id j)) {t. edge (j_status j) t} (target_status S C j nxt)"
proof -
  have mono: "gives R T m \<Longrightarrow> T \<subseteq> U \<Longrightarrow> gives R U m" for R T U and m :: "('w, 'e, string option) io"
    by (auto simp: gives_def)
  have e: "edge (j_status j) nxt" using assms by (simp add: edge_def)
  show ?thesis
  proof (cases "j_status j = ''ContainerRunning''")
    case True
    with assms have "{''Succeeded'', ''Failed''} \<subseteq> {t. edge (j_status j) t}" by (auto simp: edge_def)
    with True show ?thesis
      by (simp add: target_status_def mono [OF gives_handle_container_running])
  next
    case False
    have "gives (touch.on_world (j_id j)) {nxt} (target_status S C j nxt)"
      using False by (auto simp: target_status_def Let_def intro!: gives_then_some)
    then show ?thesis using e by (auto intro: mono)
  qed
qed

lemma keeps_steps_target_status:
  assumes "next_state (j_status j) = Some nxt"
  shows "keeps (on_db (steps_of (j_id j) {t. edge (j_status j) t})) (target_status S C j nxt)"
proof (cases "j_status j = ''ContainerRunning''")
  case True
  have "keeps (on_db (steps_of (j_id j) {''Failed''})) (target_status S C j nxt)"
    using True by (simp add: target_status_def keeps_steps_handle_container_running)
  then show ?thesis
    by (rule keeps_weaken) (auto simp: on_db_def edge_def True elim: steps_mono)
next
  case False
  then show ?thesis
    by (intro keeps_steps_touch) (auto simp: target_status_def then_some_def Let_def)
qed

lemma keeps_steps_advance_job:
  "keeps (on_db (steps_of (j_id j) {t. edge (j_status j) t})) (advance_job S C now j)"
proof (cases "next_state (j_status j)")
  case None
  then show ?thesis by (auto simp: advance_job_def intro: keeps_steps_touch)
next
  case (Some nxt)
  let ?R = "on_db (steps_of (j_id j) {t. edge (j_status j) t})"
  show ?thesis
  proof (cases "give_up_reason S now j")
    case None
    have "?R w (snd (bnd (target_status S C j nxt) (\<lambda>target.
        case target of None \<Rightarrow> ret False | Some t \<Rightarrow> seq (move_to S j now t) (ret True)) w))" (is "?R w (snd (bnd _ ?k w))") for w
    proof (cases rule: bnd_cases [of "target_status S C j nxt" w ?k])
      case (err e w')
      with keepsD [OF keeps_steps_target_status [OF Some], of w S C] show ?thesis by simp
    next
      case (val target w')
      show ?thesis
      proof (cases target)
        case None
        with val keepsD [OF keeps_steps_target_status [OF Some], of w S C] show ?thesis by simp
      next
        case (Some t)
        with val gives_target_status [OF \<open>next_state (j_status j) = Some nxt\<close>, of S C]
        have "touches (j_id j) (db w) (db w')" and t: "edge (j_status j) t"
          by (auto simp: gives_def touch_on_db on_db_def)
        moreover have "keeps (on_db (steps_of (j_id j) {t})) (seq (move_to S j now t) (ret True))"
          unfolding seq_def
          by (rule keeps_bnd_via [OF keeps_steps_move_to touch.keeps_ret [of "j_id j", unfolded touch_on_db]])
             (auto simp: on_db_def intro: steps_then_touches)
        ultimately have "steps_of (j_id j) {t} (db w) (db (snd (seq (move_to S j now t) (ret True) w')))"
          by (auto simp: keeps_def on_db_def intro: touches_then_steps)
        with val Some t show ?thesis by (auto simp: on_db_def elim: steps_mono)
      qed
    qed
    with None Some show ?thesis by (auto simp: advance_job_def keeps_def)
  next
    case (Some reason)
    then have "edge (j_status j) ''Failed''"
      by (auto simp: give_up_reason_def edge_def split: if_splits)
    moreover have "keeps (on_db (steps_of (j_id j) {''Failed''})) (seq (force_failed S (j_id j) reason now) (ret True))"
      unfolding seq_def
      by (rule keeps_bnd_via [OF keeps_steps_force_failed touch.keeps_ret [of "j_id j", unfolded touch_on_db]])
         (auto simp: on_db_def intro: steps_then_touches)
    ultimately have "keeps ?R (seq (force_failed S (j_id j) reason now) (ret True))"
      by (elim keeps_weaken) (auto simp: on_db_def elim: steps_mono)
    with Some \<open>next_state (j_status j) = Some nxt\<close> show ?thesis by (simp add: advance_job_def)
  qed
qed

section \<open>One tick\<close>

definition stepped :: "job_row list \<Rightarrow> job_row \<Rightarrow> job_row \<Rightarrow> bool" where
  "stepped js r r' \<longleftrightarrow>
     (if j_id r \<in> j_id ` set js
      then core r' = core r \<or> (\<exists>j \<in> set js. j_id j = j_id r \<and> (\<exists>t. edge (j_status j) t \<and> moved t r r'))
      else r' = r)"

definition rows_stepped :: "job_row list \<Rightarrow> database \<Rightarrow> database \<Rightarrow> bool" where
  "rows_stepped js a b \<longleftrightarrow> list_all2 (stepped js) (jobs a) (jobs b)"

lemma rows_stepped_refl: "rows_stepped js a a"
  by (simp add: rows_stepped_def stepped_def list_all2_same)

lemma steps_then_rows:
  assumes "steps_of (j_id j) {t. edge (j_status j) t} a b" and "rows_stepped js b c"
    and "j_id j \<notin> j_id ` set js"
  shows "rows_stepped (j # js) a c"
  using assms(1,2) unfolding steps_of_def rows_stepped_def
proof (rule list_all2_comp)
  fix r r' r''
  assume 1: "if j_id r = j_id j then core r' = core r \<or> (\<exists>t \<in> {t. edge (j_status j) t}. moved t r r') else r' = r"
    and 2: "stepped js r' r''"
  show "stepped (j # js) r r''"
  proof (cases "j_id r = j_id j")
    case True
    with 1 have "j_id r' = j_id j" by (auto dest: core_id moved_id)
    with 2 assms(3) have "r'' = r'" by (simp add: stepped_def)
    with 1 True show ?thesis by (auto simp: stepped_def)
  next
    case False
    with 1 2 show ?thesis by (auto simp: stepped_def)
  qed
qed

lemma db_is_requested: "is_requested sd w = (Inr b, w') \<Longrightarrow> db w' = db w"
  by (auto simp: is_requested_def lift_ext_eq)

lemma advance_rows_steps:
  "distinct (map j_id js) \<Longrightarrow> keeps (on_db (rows_stepped js)) (advance_rows S C sd now js n)"
proof (induction js arbitrary: n)
  case Nil
  show ?case by (simp add: keeps_def on_db_def rows_stepped_refl)
next
  case (Cons j js)
  have step: "on_db (rows_stepped (j # js)) w (snd (bnd (advance_job S C now j)
      (\<lambda>b. advance_rows S C sd now js (if b then n + 1 else n)) w))" (is "on_db _ w (snd (bnd _ ?k w))") for w
  proof (cases rule: bnd_cases [of "advance_job S C now j" w ?k])
    case (err e w')
    with keepsD [OF keeps_steps_advance_job [of j S C now], of w]
    have "steps_of (j_id j) {t. edge (j_status j) t} (db w) (db w')" by (simp add: on_db_def)
    from steps_then_rows [OF this rows_stepped_refl] Cons.prems err show ?thesis by (auto simp: on_db_def)
  next
    case (val b w')
    with keepsD [OF keeps_steps_advance_job [of j S C now], of w]
    have "steps_of (j_id j) {t. edge (j_status j) t} (db w) (db w')" by (simp add: on_db_def)
    moreover from Cons keepsD [of _ "?k b" w'] have "rows_stepped js (db w') (db (snd (?k b w')))"
      by (simp add: on_db_def keeps_def)
    ultimately show ?thesis using Cons.prems val by (auto simp: on_db_def intro: steps_then_rows)
  qed
  show ?case
  proof (rule keepsI)
    fix w
    obtain stop w1 where r: "is_requested sd w = (Inr stop, w1)" and d: "db w1 = db w"
      by (auto simp: is_requested_def lift_ext_eq)
    with step [of w1] show "on_db (rows_stepped (j # js)) w (snd (advance_rows S C sd now (j # js) n w))"
      by (auto simp: bnd_Inr on_db_def rows_stepped_refl)
  qed
qed

text \<open>What one tick may do to one row.\<close>

definition job_tick :: "job_row \<Rightarrow> job_row \<Rightarrow> bool" where
  "job_tick r r' \<longleftrightarrow>
     (if j_status r = TERMINAL_STATE then r' = r
      else core r' = core r \<or> (\<exists>t. edge (j_status r) t \<and> moved t r r'))"

lemma tick_rows:
  assumes "distinct (map j_id (jobs (db w)))"
  shows "list_all2 job_tick (jobs (db w)) (jobs (db (snd (advance_all_until S C sd w))))"
proof -
  let ?rows = "live_jobs (db w)"
  have d: "distinct (map j_id ?rows)" using assms by (simp add: live_jobs_def distinct_map_filter)
  have "rows_stepped ?rows (db w) (db (snd (advance_all_until S C sd w)))"
  proof (cases rule: sql_query_cases [of S live_jobs w])
    case (fault msg)
    then show ?thesis by (simp add: advance_all_until_def bnd_Inl rows_stepped_refl)
  next
    case result
    let ?w1 = "w\<lparr>ext := snd (db_fault S (ext w))\<rparr>"
    from result show ?thesis
      using keepsD [OF advance_rows_steps [OF d], of _ S C sd]
      by (simp add: advance_all_until_def bnd_Inr now_ts_eq on_db_def)
         (metis db_ext_update)
  qed
  then show ?thesis
    unfolding rows_stepped_def
  proof (rule list.rel_mono_strong)
    fix r r'
    assume r: "r \<in> set (jobs (db w))" and s: "stepped ?rows r r'"
    show "job_tick r r'"
    proof (cases "j_status r = TERMINAL_STATE")
      case True
      have "j_id r \<notin> j_id ` set ?rows"
      proof
        assume "j_id r \<in> j_id ` set ?rows"
        then obtain q where "q \<in> set (jobs (db w))" "j_status q \<noteq> TERMINAL_STATE" "j_id q = j_id r"
          by (auto simp: live_jobs_def)
        with r assms True show False by (metis distinct_map inj_on_def)
      qed
      with s True show ?thesis by (simp add: stepped_def job_tick_def)
    next
      case False
      have "j = r" if "j \<in> set ?rows" "j_id j = j_id r" for j
        using that r assms by (auto simp: live_jobs_def distinct_map inj_on_def)
      with s False r show ?thesis by (auto simp: stepped_def job_tick_def live_jobs_def split: if_splits)
    qed
  qed
qed

section \<open>Many ticks\<close>

text \<open>
  The reconciliation loop seen from the jobs: ticks with any contexts, and between two ticks the outside world may
  change as it likes.
\<close>

inductive ticks :: "'x services \<Rightarrow> 'x job_context \<Rightarrow> 'x world \<Rightarrow> 'x world \<Rightarrow> bool" for S C where
  start: "ticks S C w w"
| tick: "ticks S C w v \<Longrightarrow> db u = db v \<Longrightarrow> ticks S C w (snd (advance_all_until S C sd u))"

inductive_cases ticksE: "ticks S C w v"

definition progress :: "job_row \<Rightarrow> job_row \<Rightarrow> bool" where
  "progress r r' \<longleftrightarrow>
     j_id r' = j_id r \<and> j_name r' = j_name r \<and> j_namespace r' = j_namespace r \<and> j_spec r' = j_spec r
     \<and> j_created_at r' = j_created_at r
     \<and> j_version r \<le> j_version r' \<and> j_version r' - j_version r \<le> int (rank (j_status r')) - int (rank (j_status r))
     \<and> (j_version r' = j_version r \<longrightarrow> j_status r' = j_status r)"

lemma edge_rank: "edge s t \<Longrightarrow> rank s < rank t"
  by (auto simp: edge_def is_pre_completion_rank dest: next_state_rank)

lemma edge_from_terminal: "\<not> edge TERMINAL_STATE t"
  by (simp add: edge_def TERMINAL_STATE_def)

lemma job_tick_progress: "job_tick r r' \<Longrightarrow> progress r r'"
  by (auto simp: job_tick_def progress_def core_def moved_def dest!: edge_rank split: if_splits)

lemma progress_refl: "progress r r"
  by (simp add: progress_def)

lemma progress_trans: "progress a b \<Longrightarrow> progress b c \<Longrightarrow> progress a c"
  by (auto simp: progress_def)

lemma tick_ids: "map j_id (jobs (db (snd (advance_all_until S C sd w)))) = map j_id (jobs (db w))"
  using outside.advance_all_until_rel [of w S C sd] by (simp add: outside_kept_def)

lemma ticks_ids: "ticks S C w v \<Longrightarrow> map j_id (jobs (db v)) = map j_id (jobs (db w))"
  by (induction rule: ticks.induct) (auto simp: tick_ids)

lemma ticks_progress:
  "ticks S C w v \<Longrightarrow> distinct (map j_id (jobs (db w))) \<Longrightarrow> list_all2 progress (jobs (db w)) (jobs (db v))"
proof (induction rule: ticks.induct)
  case (start w)
  show ?case by (simp add: list_all2_same progress_refl)
next
  case (tick w v u sd)
  then have "distinct (map j_id (jobs (db u)))" by (simp add: ticks_ids)
  from tick_rows [OF this, of S C sd]
  have "list_all2 progress (jobs (db v)) (jobs (db (snd (advance_all_until S C sd u))))"
    using tick by (auto elim!: list_all2_mono intro: job_tick_progress)
  with tick show ?case by (blast intro: list_all2_comp progress_trans)
qed

lemma rank_le: "rank s \<le> 17"
proof (cases "recognised s")
  case True
  then show ?thesis by (cases rule: recognised_cases) simp_all
next
  case False
  then have "position (\<lambda>x. x = s) STATE_SEQUENCE = None" by (auto simp: position_None recognised_def)
  with False show ?thesis by (simp add: rank_def recognised_def unwrap_or_def)
qed

lemma progress_bound: "progress r r' \<Longrightarrow> j_version r' - j_version r \<le> 17 - int (rank (j_status r))"
  using rank_le [of "j_status r'"] by (auto simp: progress_def)

lemma progress_version: "progress r r' \<Longrightarrow> j_id r' = j_id r \<and> j_version r \<le> j_version r'"
  by (simp add: progress_def)

section \<open>Failed runs and their events\<close>

lemma list_all2_right: "list_all2 P xs ys \<Longrightarrow> y \<in> set ys \<Longrightarrow> \<exists>x \<in> set xs. P x y"
  by (induction xs ys rule: list_all2_induct) auto

definition has_failed_event :: "database \<Rightarrow> string \<Rightarrow> bool" where
  "has_failed_event d jid \<longleftrightarrow> (\<exists>e \<in> set (events d). ev_job_id e = Some jid \<and> ev_reason e = ''Failed'')"

definition recorded :: "database \<Rightarrow> database \<Rightarrow> bool" where
  "recorded a b \<longleftrightarrow>
     (\<exists>es. events b = events a @ es \<and>
        list_all2 (\<lambda>r r'. j_id r' = j_id r
          \<and> (j_status r' = ''Failed'' \<longrightarrow>
                j_status r = ''Failed'' \<or> (\<exists>e \<in> set es. ev_job_id e = Some (j_id r) \<and> ev_reason e = ''Failed'')))
          (jobs a) (jobs b))"

lemma recorded_trans:
  assumes "recorded a b" and "recorded b c"
  shows "recorded a c"
proof -
  from assms obtain es fs where es: "events b = events a @ es" and fs: "events c = events b @ fs"
    and ab: "list_all2 (\<lambda>r r'. j_id r' = j_id r \<and> (j_status r' = ''Failed'' \<longrightarrow>
      j_status r = ''Failed'' \<or> (\<exists>e \<in> set es. ev_job_id e = Some (j_id r) \<and> ev_reason e = ''Failed''))) (jobs a) (jobs b)"
    and bc: "list_all2 (\<lambda>r r'. j_id r' = j_id r \<and> (j_status r' = ''Failed'' \<longrightarrow>
      j_status r = ''Failed'' \<or> (\<exists>e \<in> set fs. ev_job_id e = Some (j_id r) \<and> ev_reason e = ''Failed''))) (jobs b) (jobs c)"
    unfolding recorded_def by blast
  show ?thesis
    unfolding recorded_def
    by (intro exI [of _ "es @ fs"] conjI list_all2_trans [OF _ ab bc]) (auto simp: es fs)
qed

interpretation recd: job_frame recorded jid for jid
proof unfold_locales
  fix a b c
  assume "recorded a b" and "recorded b c"
  then show "recorded a c" by (rule recorded_trans)
next
  fix d :: database and f :: "job_row \<Rightarrow> job_row"
  assume "\<And>r. core (f r) = core r"
  then have "j_id (f r) = j_id r" "j_status (f r) = j_status r" for r by (auto simp: core_def)
  then show "recorded d (d\<lparr>jobs := update_where (\<lambda>r. j_id r = jid) f (jobs d)\<rparr>)"
    by (auto simp: recorded_def intro!: list_all2_update split: if_splits)
qed (auto simp: recorded_def list_all2_same)

text \<open>\<open>succeeds R m\<close>: whenever \<open>m\<close> returns without an error, \<open>R\<close> has happened.\<close>

definition succeeds :: "('w \<Rightarrow> 'w \<Rightarrow> bool) \<Rightarrow> ('w, 'e, 'a) io \<Rightarrow> bool" where
  "succeeds R m \<longleftrightarrow> (\<forall>w a w'. m w = (Inr a, w') \<longrightarrow> R w w')"

lemma succeeds_keeps: "keeps R m \<Longrightarrow> succeeds R m"
  by (auto simp: succeeds_def keeps_def) (metis snd_conv)

context frame
begin

lemma succeeds_bnd [intro!]:
  assumes "succeeds R m" and "\<And>a. succeeds R (k a)"
  shows "succeeds R (bnd m k)"
  unfolding succeeds_def
proof (intro allI impI)
  fix w b w'
  assume run: "bnd m k w = (Inr b, w')"
  then show "R w w'"
  proof (cases rule: bnd_cases [of m w k])
    case (val a v)
    with assms(1) have "R w v" by (auto simp: succeeds_def)
    moreover from val run have "k a v = (Inr b, w')" by simp
    with assms(2) have "R v w'" by (auto simp: succeeds_def)
    ultimately show ?thesis by (rule R_trans)
  qed auto
qed

lemma succeeds_seq [intro!]: "succeeds R m \<Longrightarrow> succeeds R n \<Longrightarrow> succeeds R (seq m n)"
  unfolding seq_def by (rule succeeds_bnd)

lemma succeeds_ret [intro!]: "succeeds R (ret a)"
  by (rule succeeds_keeps) auto

end

text \<open>A status update followed by its event, when both statements go through.\<close>

lemma status_and_event:
  assumes run: "seq (sql_exec S (update_jobs jid f)) (record_event S (Some jid) t msg ty) w = (Inr u, w')"
    and f: "\<And>r. j_id (f r) = j_id r \<and> j_status (f r) = t"
  obtains e where "events (db w') = events (db w) @ [e]" and "ev_job_id e = Some jid" and "ev_reason e = t"
    and "ev_message e = msg" and "ev_type e = ty"
    and "jobs (db w') = update_where (\<lambda>r. j_id r = jid) f (jobs (db w))"
  using run
  by (auto simp: seq_def bnd_def sql_exec_def update_jobs_def record_event_def new_uuid_eq now_ts_eq lift_ext_eq
        insert_event_row_def split: option.splits sum.splits if_splits)

lemma status_and_event_recorded:
  assumes "seq (sql_exec S (update_jobs jid f)) (record_event S (Some jid) t msg ty) w = (Inr u, w')"
    and f: "\<And>r. j_id (f r) = j_id r \<and> j_status (f r) = t"
  shows "recorded (db w) (db w')"
proof (rule status_and_event [OF assms])
  fix e
  assume "events (db w') = events (db w) @ [e]" "ev_job_id e = Some jid" "ev_reason e = t"
    "jobs (db w') = update_where (\<lambda>r. j_id r = jid) f (jobs (db w))"
  then show ?thesis
    using f by (auto simp: recorded_def intro!: list_all2_update split: if_splits)
qed

lemma recd_on_db: "recd.on_world = on_db recorded"
  by (auto simp: recd.on_world_def on_db_def fun_eq_iff)

lemmas succeeds_reads [intro!] =
  recd.keeps_now_ts [THEN succeeds_keeps] recd.keeps_on_worker [THEN succeeds_keeps]
  recd.keeps_has_container_id [THEN succeeds_keeps] recd.keeps_record_worker_status [THEN succeeds_keeps]
  recd.keeps_finish_container [THEN succeeds_keeps] recd.keeps_worker_ssh_ip [THEN succeeds_keeps]
  recd.keeps_sql_query [THEN succeeds_keeps]

lemma succeeds_force_failed [intro!]: "succeeds recd.on_world (force_failed S jid reason now)"
  unfolding force_failed_def recd_on_db succeeds_def on_db_def
  by (intro allI impI, erule status_and_event_recorded) simp

lemma succeeds_move_to [intro!]: "succeeds recd.on_world (move_to S j now t)"
  unfolding move_to_def recd_on_db succeeds_def on_db_def set_status_def
  by (intro allI impI, erule status_and_event_recorded) simp

lemma succeeds_target_status [intro!]: "succeeds recd.on_world (target_status S C j nxt)"
proof (cases "j_status j = ''ContainerRunning''")
  case True
  have "succeeds recd.on_world (handle_container_running S C jid spec created ltt)" for jid spec created ltt
    unfolding handle_container_running_def still_running_def
    by (auto split: option.split sum.split)
  with True show ?thesis by (simp add: target_status_def)
next
  case False
  then show ?thesis
    by (intro succeeds_keeps) (auto simp: target_status_def then_some_def Let_def)
qed

lemma succeeds_advance_all_until: "succeeds recd.on_world (advance_all_until S C sd)"
proof -
  have "succeeds recd.on_world (advance_job S C now j)" for now j
    by (auto simp: advance_job_def split: option.split)
  moreover have "succeeds recd.on_world (is_requested sd)"
    by (intro succeeds_keeps recd.keeps_same_db) (simp add: is_requested_def lift_ext_eq)
  ultimately have "succeeds recd.on_world (advance_rows S C sd now js n)" for now js n
    by (induction js arbitrary: n) auto
  then show ?thesis by (auto simp: advance_all_until_def)
qed

text \<open>What \<open>force_failed\<close> leaves behind when both its statements went through.\<close>

lemma force_failed_effect:
  assumes "force_failed S jid reason now w = (Inr u, w')"
  shows "find_job jid (db w') = map_option (\<lambda>r. r\<lparr>j_status := ''Failed'', j_last_error := Some reason,
            j_last_transition_time := Some now, j_updated_at := now, j_version := j_version r + 1\<rparr>) (find_job jid (db w))
         \<and> has_failed_event (db w') jid"
  using assms unfolding force_failed_def
  by (rule status_and_event) (auto simp: find_job_def find_job_update_same has_failed_event_def)

section \<open>Following the pipeline\<close>

fun follow :: "nat \<Rightarrow> string \<Rightarrow> string option" where
  "follow 0 s = Some s"
| "follow (Suc n) s = Option.bind (next_state s) (follow n)"

section \<open>Dry run\<close>

lemma dry_run_handlers:
  assumes "dry_run C"
  shows "handle_volume_pending S (C\<lparr>provider := P\<rparr>) jid ns name spec = handle_volume_pending S C jid ns name spec"
    and "handle_vm_pending S (C\<lparr>provider := P\<rparr>) jid ns name spec = handle_vm_pending S C jid ns name spec"
    and "handle_firewall_applying S (C\<lparr>provider := P\<rparr>) jid = handle_firewall_applying S C jid"
    and "handle_firewall_verified S (C\<lparr>provider := P\<rparr>) jid = handle_firewall_verified S C jid"
    and "handle_vm_creating S (C\<lparr>provider := P\<rparr>) jid = handle_vm_creating S C jid"
    and "handle_volume_attaching S (C\<lparr>provider := P\<rparr>) jid = handle_volume_attaching S C jid"
    and "handle_container_configuring S (C\<lparr>provider := P\<rparr>) jid ns name spec
           = handle_container_configuring S C jid ns name spec"
    and "handle_container_running S (C\<lparr>provider := P\<rparr>) jid spec created ltt
           = handle_container_running S C jid spec created ltt"
    and "handle_volume_detaching S (C\<lparr>provider := P\<rparr>) jid = handle_volume_detaching S C jid"
    and "handle_vm_terminating S (C\<lparr>provider := P\<rparr>) jid = handle_vm_terminating S C jid"
  using assms
  by (simp_all add: handle_volume_pending_def handle_vm_pending_def launch_vm_def handle_firewall_applying_def
        handle_firewall_verified_def handle_vm_creating_def handle_volume_attaching_def handle_container_configuring_def
        handle_container_running_def handle_volume_detaching_def handle_vm_terminating_def cong: option.case_cong)

lemma dry_run_provider:
  assumes "dry_run C"
  shows "advance_all_until S (C\<lparr>provider := P\<rparr>) sd = advance_all_until S C sd"
proof -
  have "target_status S (C\<lparr>provider := P\<rparr>) j nxt = target_status S C j nxt" for j nxt
    by (simp only: target_status_def dry_run_handlers [OF assms])
  then have "advance_job S (C\<lparr>provider := P\<rparr>) now j = advance_job S C now j" for now j
    by (simp add: advance_job_def split: option.split)
  then have "advance_rows S (C\<lparr>provider := P\<rparr>) sd now js n = advance_rows S C sd now js n" for now js n
    by (induction js arbitrary: n) (simp_all cong: if_cong)
  then show ?thesis by (simp add: advance_all_until_def)
qed

section \<open>Results a handler does not depend on\<close>

lemma bnd_cloud_cong:
  assumes "\<And>r. P r \<Longrightarrow> k r = k' r" and "\<And>x. P (fst (f x))"
  shows "bnd (cloud f) k = bnd (cloud f) k'"
  using assms by (auto simp: fun_eq_iff bnd_def cloud_def attempt_def provider_call_def lift_ext_eq)

lemma listed_found:
  assumes "\<exists>xs. r = Inr xs \<and> t \<in> title ` set xs"
  shows "find_listed (\<lambda>x. title x = t) r \<noteq> None"
proof -
  from assms obtain xs where r: "r = Inr xs" and t: "t \<in> title ` set xs" by blast
  from t have "find (\<lambda>x. title x = t) xs \<noteq> None" unfolding find_None_iff by auto
  with r show ?thesis by (simp add: find_listed_def)
qed

lemma handle_vm_pending_cong:
  assumes "ctx_zone C' = ctx_zone C" and "\<And>p spec. launch_vm S C' jid ns name spec p = launch_vm S C jid ns name spec p"
  shows "handle_vm_pending S C' jid ns name text = handle_vm_pending S C jid ns name text"
  by (simp add: handle_vm_pending_def assms)

section \<open>Cleanup\<close>

lemma cloud_eq: "cloud f w = (Inr (fst (f (ext w))), w\<lparr>ext := snd (f (ext w))\<rparr>)"
  by (simp add: cloud_def attempt_def provider_call_def lift_ext_eq)

definition recorded_volume :: "database \<Rightarrow> string \<Rightarrow> string option" where
  "recorded_volume d jid = Option.bind (find (\<lambda>v. jv_job_id v = jid) (job_volumes d)) jv_provider_volume_id"

lemma recorded_volume_none: "\<forall>v \<in> set (job_volumes d). jv_job_id v \<noteq> jid \<Longrightarrow> recorded_volume d jid = None"
proof -
  assume "\<forall>v \<in> set (job_volumes d). jv_job_id v \<noteq> jid"
  then have "find (\<lambda>v. jv_job_id v = jid) (job_volumes d) = None" by (auto simp: find_None_iff)
  then show ?thesis by (simp add: recorded_volume_def)
qed

lemma delete_job_volume_effect:
  "delete_job_volume S jid w = (Inr u, w') \<Longrightarrow> job_volumes (db w') = filter (\<lambda>v. jv_job_id v \<noteq> jid) (job_volumes (db w))"
  by (auto simp: delete_job_volume_def sql_exec_def lift_ext_eq split: option.splits)

lemma retry_after_False: "retry_after S jid err w \<noteq> (Inr True, w')"
  by (auto simp: retry_after_def retry_later_def seq_def bnd_def split: prod.splits sum.splits)

lemma detached_and_deleted:
  assumes run: "handle_volume_detaching S C jid w = (Inr True, w')" and "\<not> dry_run C"
    and vid: "recorded_volume (db w) jid = Some vid"
  shows "(\<forall>v \<in> set (job_volumes (db w')). jv_job_id v \<noteq> jid) \<and> (\<exists>x u. fst (delete_volume (provider C) vid x) = Inr u)"
proof -
  let ?tail = "bnd (cloud (delete_volume (provider C) vid)) (\<lambda>r.
      case r of Inr _ \<Rightarrow> seq (delete_job_volume S jid) (ret True) | Inl err \<Rightarrow> retry_after S jid err)"
  from run obtain v w0 where v: "job_volume_id S jid w = (Inr v, w0)"
    and k: "(case v of None \<Rightarrow> ret True | Some volume_id \<Rightarrow>
        if dry_run C then ret True
        else bnd (worker_vm_id S jid) (\<lambda>vm.
          seq (case vm of
                 Some vm_id \<Rightarrow> bnd (cloud (detach_volume (provider C) vm_id volume_id)) (\<lambda>_. ret ())
               | None \<Rightarrow> ret ())
          (bnd (cloud (delete_volume (provider C) volume_id)) (\<lambda>r.
             case r of
               Inr _ \<Rightarrow> seq (delete_job_volume S jid) (ret True)
             | Inl err \<Rightarrow> retry_after S jid err)))) w0 = (Inr True, w')"
    unfolding handle_volume_detaching_def bnd_returns by blast
  from v vid have "v = Some vid"
    by (auto simp: job_volume_id_def recorded_volume_def sql_query_def lift_ext_eq split: option.splits)
  with k \<open>\<not> dry_run C\<close> obtain w1 where t: "?tail w1 = (Inr True, w')"
    by (auto simp: bnd_returns [of "worker_vm_id S jid"] seq_returns)
  let ?r = "fst (delete_volume (provider C) vid (ext w1))"
  from t obtain u where r: "?r = Inr u"
    by (cases ?r) (auto simp: bnd_returns cloud_eq retry_after_False)
  with t obtain w2 v where "delete_job_volume S jid w2 = (Inr v, w')"
    by (auto simp: bnd_returns cloud_eq seq_returns)
  then have "job_volumes (db w') = filter (\<lambda>v. jv_job_id v \<noteq> jid) (job_volumes (db w2))" by (rule delete_job_volume_effect)
  with r show ?thesis by auto
qed

lemma delete_stopped_vm_True:
  assumes "delete_stopped_vm S C jid vm w = (Inr True, w')"
  shows "\<exists>x u. fst (delete_server (provider C) vm x) = Inr u"
  using assms
  by (cases "fst (delete_server (provider C) vm (ext w))")
     (auto simp: delete_stopped_vm_def bnd_returns cloud_eq retry_after_False)

lemma delete_stopped_vm_True':
  "delete_stopped_vm S C jid vm w = (Inr True, w') \<Longrightarrow> \<exists>x. fst (delete_server (provider C) vm x) = Inr ()"
  using delete_stopped_vm_True by fastforce

lemma stop_False:
  "bnd (cloud f) (\<lambda>s. case s of Inl err \<Rightarrow> retry_after S jid err | Inr _ \<Rightarrow> ret False) w \<noteq> (Inr True, w')"
  by (cases "fst (f (ext w))") (auto simp: bnd_returns cloud_eq retry_after_False)

lemma stop_or_delete_vm_True:
  assumes "stop_or_delete_vm S C jid vm r w = (Inr True, w')"
  shows "(\<exists>x u. fst (delete_server (provider C) vm x) = Inr u)
         \<and> ((\<exists>srv. r = Inr srv \<and> is_stopped srv) \<or> (\<exists>m. r = Inl (NotFound m)))"
  using assms
  by (auto simp: stop_or_delete_vm_def retry_after_False stop_False split: sum.splits provider_error.splits if_splits
        dest: delete_stopped_vm_True')

section \<open>The end of a container\<close>

definition same_jobs :: "database \<Rightarrow> database \<Rightarrow> bool" where
  "same_jobs a b \<longleftrightarrow> jobs b = jobs a"

interpretation rows: db_frame same_jobs
  by unfold_locales (auto simp: same_jobs_def)

lemma rows_on_db: "rows.on_world = on_db same_jobs"
  by (auto simp: rows.on_world_def on_db_def fun_eq_iff)

lemma keeps_rows_record_event [intro!]: "keeps rows.on_world (record_event S job reason msg ty)"
  unfolding record_event_def
  by (intro rows.keeps_bnd rows.keeps_new_uuid rows.keeps_now_ts rows.keeps_sql_exec)
     (auto simp: insert_event_row_def same_jobs_def split: if_splits)

lemma keeps_rows_record_worker_status [intro!]: "keeps rows.on_world (record_worker_status S C job ip)"
proof -
  have "keeps rows.on_world (on_worker S C ip cmd)" for cmd
    unfolding on_worker_def by (intro rows.keeps_attempt rows.keeps_same_db) simp
  then show ?thesis by (auto simp: record_worker_status_def Let_def split: sum.split)
qed

lemma record_completion_effect:
  "record_completion S jid code logs ts cost w = (Inr u, w') \<Longrightarrow>
   \<exists>f. jobs (db w') = update_where (\<lambda>r. j_id r = jid) f (jobs (db w))
       \<and> (\<forall>r. core (f r) = core r \<and> j_exit_code (f r) = Some code \<and> j_cached_logs (f r) = Some logs)"
  by (auto simp: record_completion_def now_ts_eq bnd_def sql_exec_def lift_ext_eq update_jobs_def core_def
        split: option.splits intro!: exI)

lemma finish_container_effect:
  assumes "finish_container S C jid spec ip created code w = (Inr (Some t), w')"
  shows "(t = ''Succeeded'' \<longleftrightarrow> code = 0) \<and> (t = ''Failed'' \<longleftrightarrow> code \<noteq> 0)
         \<and> (\<forall>r \<in> set (jobs (db w')). j_id r = jid \<longrightarrow> j_exit_code r = Some code \<and> j_cached_logs r \<noteq> None)"
proof -
  from assms obtain logs ts cost u w1 w2 v where c: "record_completion S jid code logs ts cost w1 = (Inr u, w2)"
    and rest: "seq (when_io (code \<noteq> 0) (record_worker_status S C jid ip))
        (seq (when_io (code \<noteq> 0 \<and> trim logs = [])
               (record_event S (Some jid) ''EmptyLogs'' (empty_logs_message code v) ''Warning''))
             (ret (Some (if code = 0 then ''Succeeded'' else ''Failed'')))) w2 = (Inr (Some t), w')"
      (is "?rest w2 = _")
    by (auto simp: finish_container_def Let_def bnd_returns seq_returns split: prod.splits)
  have "keeps rows.on_world ?rest" by auto
  from keepsD [OF this, of w2] have "jobs (db w') = jobs (db w2)"
    by (simp only: rest snd_conv rows_on_db on_db_def same_jobs_def)
  moreover from record_completion_effect [OF c] obtain f
    where "jobs (db w2) = update_where (\<lambda>r. j_id r = jid) f (jobs (db w1))"
      and f: "core (f r) = core r" "j_exit_code (f r) = Some code" "j_cached_logs (f r) = Some logs" for r by blast
  ultimately have "\<forall>r \<in> set (jobs (db w')). j_id r = jid \<longrightarrow> j_exit_code r = Some code \<and> j_cached_logs r \<noteq> None"
    by (auto simp: set_update_where f)
  moreover from rest have "t = (if code = 0 then ''Succeeded'' else ''Failed'')" by (auto simp: seq_returns)
  ultimately show ?thesis by auto
qed

end
