(* ===== verification/Demo.thy ===== *)
theory Demo
  imports Jobs
begin

text \<open>
  A small concrete instance of the parameters, for evaluating the theorems: a clock that stands still, a
  counter as the source of UUIDs, a database that never fails, and a cloud with one server.
\<close>

definition demo_spec :: json where
  "demo_spec =
     JObj [(''activeDeadlineSeconds'', JPos 3600),
           (''template'', JObj [(''spec'', JObj [(''containers'', JArr [JObj [(''image'', JStr ''busybox'')]])])])]"

definition demo_services :: "nat services" where
  "demo_services =
     \<lparr>from_str = (\<lambda>s. if s = ''spec'' then Inr demo_spec else Inl ''invalid''),
      to_string = (\<lambda>_. ''json''), b64_encode = (\<lambda>s. s), b64_decode = Some,
      parse_from_rfc3339 = parse_i64, to_rfc3339_nanos = show_int,
      cron_from_str = (\<lambda>_. None), min_utc = 0, max_utc = 10 ^ 18,
      rfc3339_secs = (\<lambda>t. Some (show_int t)), rfc3339_offset = (\<lambda>t. Some (show_int t)), display_f64 = show_fixed 2,
      patch_from_slice = (\<lambda>_. Inl ''invalid''), json_patch = (\<lambda>v p. Inr v),
      utc_now = (\<lambda>n. (1000 * 10 ^ 9, n)), uuid_v4 = (\<lambda>n. (show_nat n, n + 1)),
      db_fault = (\<lambda>n. (None, n)), notify_one = (\<lambda>n. n),
      ssh_session = (\<lambda>host port key command stdin n. (Inr [Data ''0'', ExitStatus 0], n))\<rparr>"

definition demo_server :: server where
  "demo_server = \<lparr>srv_id = ''vm-1'', srv_title = ''ks-worker-default-job'', srv_state = ''stopped'',
                  srv_public_ipv4 = Some ''192.0.2.7'', srv_public_ipv6 = None\<rparr>"

definition demo_volume :: volume where
  "demo_volume = \<lparr>vol_id = ''vol-1'', vol_size_gb = 1, vol_tier = ''standard'', vol_title = ''ks-vol-default-job'',
                  vol_zone = ''de-fra1''\<rparr>"

definition demo_provider :: "nat cloud_provider" where
  "demo_provider =
     \<lparr>provider_name = ''demo'', invoice_issuer_name = ''demo'',
      create_volume = (\<lambda>r n. (Inr demo_volume, n)), delete_volume = (\<lambda>v n. (Inr (), n)),
      list_volumes = (\<lambda>z n. (Inr [], n)), attach_volume = (\<lambda>s v n. (Inr (), n)),
      detach_volume = (\<lambda>s v n. (Inr (), n)), create_server = (\<lambda>r n. (Inr demo_server, n)),
      get_server = (\<lambda>s n. (Inr demo_server, n)), stop_server = (\<lambda>s n. (Inr demo_server, n)),
      delete_server = (\<lambda>s n. (Inr (), n)), list_servers = (\<lambda>z n. (Inr [], n)),
      create_firewall_rules = (\<lambda>s rs n. (Inr (), n)), list_firewall_rules = (\<lambda>s n. (Inr [], n)),
      get_zone_prices = (\<lambda>z n. (Inr [], n)), list_plans = (\<lambda>n. (Inr [], n))\<rparr>"

definition demo_context :: "nat job_context" where
  "demo_context =
     \<lparr>provider = demo_provider, dry_run = False, resource_prefix = ''ks'', ctx_zone = ''de-fra1'',
      worker_template_uuid = ''tpl'', worker_ssh_public_keys = [''ssh-ed25519 AAAA''],
      own_public_ip = Some ''192.0.2.1'', worker_ssh_private_key = ''key'', worker_ssh_port = 22,
      ctx_main_currency = ''EUR'', ctx_plan_filter = \<lparr>allow_prefixes = [], deny_prefixes = []\<rparr>,
      cloud_init_template = ''IMAGE=__KUBESHIM_IMAGE_B64__''\<rparr>"

definition demo_job :: "string \<Rightarrow> int \<Rightarrow> job_row" where
  "demo_job status created =
     \<lparr>j_id = ''job-1'', j_name = ''job'', j_namespace = ''default'', j_cronjob_name = None, j_spec = ''spec'',
      j_status = status, j_retry_count = 0, j_last_error = None, j_worker_vm_id = Some ''vm-1'',
      j_worker_vm_name = None, j_worker_ssh_ip = Some ''192.0.2.7'', j_exit_code = None, j_created_at = created,
      j_updated_at = created, j_last_transition_time = None, j_version = 1, j_cached_logs = None,
      j_estimated_cost = None, j_actual_cost = None, j_completed_at = None, j_worker_plan = None,
      j_cached_logs_timestamped = False\<rparr>"

definition demo_job_volume :: job_volume_row where
  "demo_job_volume = \<lparr>jv_id = ''jv-1'', jv_job_id = ''job-1'', jv_size_gb = 1,
     jv_storage_class_name = STORAGE_CLASS_STANDARD, jv_provider_volume_id = Some ''vol-1'',
     jv_provider_volume_name = Some ''ks-vol-default-job'', jv_created_at = 900\<rparr>"

definition demo_db :: "string \<Rightarrow> int \<Rightarrow> database" where
  "demo_db status created =
     \<lparr>secrets = [], cronjobs = [], jobs = [demo_job status created], job_volumes = [demo_job_volume], events = [], worker_metrics = [],
      provider_pricing = [], provider_plans = [], exchange_rates = [], budget_state = None\<rparr>"

definition demo_world :: "string \<Rightarrow> int \<Rightarrow> nat world" where
  "demo_world status created = \<lparr>db = demo_db status created, ext = 0\<rparr>"

definition planned_world :: "nat world" where
  "planned_world = \<lparr>db = (demo_db ''ContainerRunning'' 900)\<lparr>jobs :=
     [(demo_job ''ContainerRunning'' 900)\<lparr>j_worker_plan := Some ''1xCPU-1GB''\<rparr>]\<rparr>, ext = 0\<rparr>"

lemmas demo_defs = demo_world_def demo_db_def demo_job_def demo_job_volume_def demo_context_def demo_provider_def
  demo_services_def demo_server_def demo_volume_def demo_spec_def

end
