(* ===== verification/JobProps.thy ===== *)
theory JobProps
  imports JobSteps Demo
begin

text \<open>
  The properties of the job loop (\<open>src/src/reconcile/job.rs\<close>), each with an evaluation on the instance of theory
  Demo where it has a hypothesis.
\<close>

lemmas run_simps = bnd_def seq_def attempt_def of_result_def lift_ext_eq sql_query_def sql_exec_def sql_fetch_one_def ok_or_def
  now_ts_eq new_uuid_eq timestamp_def nanos_per_second_def provider_call_def cloud_def update_jobs_def update_where_def
  find_job_def insert_event_row_def record_event_def force_failed_def record_failed_attempt_def retry_after_def
  retry_later_def

lemmas tick_simps = advance_all_until_def live_jobs_def TERMINAL_STATE_def is_requested_def never_def advance_job_def
  give_up_reason_def is_pre_completion_rank recognised_def STATE_SEQUENCE_def parse_spec_def active_deadline_seconds_def

section \<open>Transitions\<close>

text \<open>
  C1. In one tick every job either keeps its state and version, or moves along one edge of the state machine
  (\<open>next_state\<close>, or \<open>Failed\<close> from a state before completion) and its version grows by exactly one; its id, name,
  namespace, owner, spec, creation time and estimate never change, and an archived job is not touched at all. This
  holds whatever the cloud, SSH and the database do, and also when the tick ends with an error or a shutdown.
\<close>

theorem tick_moves_along_edges:
  assumes "distinct (map j_id (jobs (db w)))"
  shows "list_all2 (\<lambda>r r'.
           if j_status r = TERMINAL_STATE then r' = r
           else core r' = core r \<or> (\<exists>t. edge (j_status r) t \<and> moved t r r'))
         (jobs (db w)) (jobs (db (snd (advance_all_until S C shutdown w))))"
  using tick_rows [OF assms, of S C shutdown] unfolding job_tick_def .

theorem tick_moves_along_edges_witness:
  "distinct (map j_id (jobs (db (demo_world ''Succeeded'' 900)))) \<and>
   list_all2 (\<lambda>r r'.
     if j_status r = TERMINAL_STATE then r' = r
     else core r' = core r \<or> (\<exists>t. edge (j_status r) t \<and> moved t r r'))
   (jobs (db (demo_world ''Succeeded'' 900)))
   (jobs (db (snd (advance_all_until demo_services demo_context never (demo_world ''Succeeded'' 900)))))"
proof -
  have "distinct (map j_id (jobs (db (demo_world ''Succeeded'' 900))))"
    by (simp add: demo_world_def demo_db_def)
  with tick_moves_along_edges [OF this, of demo_services demo_context never] show ?thesis by blast
qed

text \<open>
  C2. Over any number of ticks a job makes at most \<open>17 - rank\<close> moves from its present state: a created job reaches the
  end of the pipeline after at most 17 transitions and never runs in circles. Its version counts the
  moves.
\<close>

theorem transitions_bounded:
  assumes "ticks S C w v" and "distinct (map j_id (jobs (db w)))"
  shows "list_all2 (\<lambda>r r'. j_id r' = j_id r \<and> j_version r \<le> j_version r'
           \<and> j_version r' - j_version r \<le> 17 - int (rank (j_status r)))
         (jobs (db w)) (jobs (db v))"
  by (rule list_all2_mono [OF ticks_progress [OF assms]])
     (auto simp: progress_bound dest: progress_version)

theorem transitions_bounded_witness:
  "list_all2 (\<lambda>r r'. j_id r' = j_id r \<and> j_version r \<le> j_version r'
      \<and> j_version r' - j_version r \<le> 17 - int (rank (j_status r)))
    (jobs (db (demo_world ''Failed'' 900)))
    (jobs (db (snd (advance_all_until demo_services demo_context never (demo_world ''Failed'' 900)))))"
proof (rule transitions_bounded)
  show "ticks demo_services demo_context (demo_world ''Failed'' 900)
      (snd (advance_all_until demo_services demo_context never (demo_world ''Failed'' 900)))"
    by (rule ticks.tick [OF ticks.start refl])
  show "distinct (map j_id (jobs (db (demo_world ''Failed'' 900))))"
    by (simp add: demo_world_def demo_db_def)
qed

text \<open>
  Every recognised state leads to \<open>Archived\<close>: following \<open>next_state\<close> from it ends there after exactly \<open>17 - rank\<close>
  steps, and \<open>Archived\<close> has no successor. In particular \<open>Failed\<close> rejoins the cleanup states.
\<close>

theorem pipeline_ends_archived:
  assumes "recognised s"
  shows "follow (17 - rank s) s = Some TERMINAL_STATE \<and> next_state TERMINAL_STATE = None"
  using assms by (cases rule: recognised_cases) (simp_all add: TERMINAL_STATE_def eval_nat_numeral)

theorem pipeline_ends_archived_witness: "follow (17 - rank ''Failed'') ''Failed'' = Some TERMINAL_STATE"
  using pipeline_ends_archived [of "''Failed''"] by (simp add: recognised_def)

text \<open>
  A tick writes jobs, job volumes and events only: Secrets, CronJobs, worker metrics, prices, plans, exchange rates and the budget
  row are as before, no job row appears or disappears, and events are only appended. So a finished job's actual
  cost is never taken off the budget balance.
\<close>

theorem tick_keeps_other_tables:
  "let d' = db (snd (advance_all_until S C shutdown w))
   in secrets d' = secrets (db w) \<and> cronjobs d' = cronjobs (db w) \<and> worker_metrics d' = worker_metrics (db w)
    \<and> provider_pricing d' = provider_pricing (db w) \<and> provider_plans d' = provider_plans (db w)
    \<and> exchange_rates d' = exchange_rates (db w) \<and> budget_state d' = budget_state (db w)
    \<and> map j_id (jobs d') = map j_id (jobs (db w)) \<and> (\<exists>es. events d' = events (db w) @ es)"
  using outside.advance_all_until_rel [of w S C shutdown] by (simp add: outside_kept_def Let_def)

text \<open>
  C7. In dry-run mode the loop never talks to the cloud: its result and the world it leaves are the same for every
  provider.
\<close>

theorem dry_run_ignores_provider:
  assumes "dry_run C"
  shows "advance_all_until S (C\<lparr>provider := P\<rparr>) shutdown w = advance_all_until S C shutdown w"
  by (simp add: dry_run_provider [OF assms])

theorem dry_run_ignores_provider_witness:
  "advance_all_until demo_services (demo_context\<lparr>dry_run := True, provider := demo_provider\<lparr>provider_name := ''other''\<rparr>\<rparr>) never (demo_world ''VMPending'' 900)
   = advance_all_until demo_services (demo_context\<lparr>dry_run := True\<rparr>) never (demo_world ''VMPending'' 900)"
  using dry_run_ignores_provider [of "demo_context\<lparr>dry_run := True\<rparr>" demo_services
    "demo_provider\<lparr>provider_name := ''other''\<rparr>" never] by simp

section \<open>Failure\<close>

text \<open>
  C3. A tick that returns without a database error only appends events, and every job that has become \<open>Failed\<close> in it
  has a \<open>Failed\<close> event among the appended ones, whichever way it failed: by its deadline, in a handler, or by the
  exit code of its container. So if every failed job had such an event before the tick, every failed job has one after it, and
  the outcome of a run can still be read off the events (\<open>RUN_FAILED_SQL\<close>) in the cleanup states.
\<close>

theorem failed_runs_recorded:
  assumes run: "advance_all_until S C shutdown w = (Inr n, w')"
  shows "\<exists>es. events (db w') = events (db w) @ es
    \<and> list_all2 (\<lambda>r r'. j_id r' = j_id r
        \<and> (j_status r' = ''Failed'' \<and> j_status r \<noteq> ''Failed'' \<longrightarrow>
             (\<exists>e \<in> set es. ev_job_id e = Some (j_id r') \<and> ev_reason e = ''Failed'')))
        (jobs (db w)) (jobs (db w'))
    \<and> ((\<forall>r \<in> set (jobs (db w)). j_status r = ''Failed'' \<longrightarrow> has_failed_event (db w) (j_id r)) \<longrightarrow>
       (\<forall>r \<in> set (jobs (db w')). j_status r = ''Failed'' \<longrightarrow> has_failed_event (db w') (j_id r) \<and> run_failed (db w') r))"
proof -
  from succeeds_advance_all_until [of S C shutdown] run have "recorded (db w) (db w')"
    by (auto simp: succeeds_def recd_on_db on_db_def)
  then obtain es where es: "events (db w') = events (db w) @ es"
    and rows: "list_all2 (\<lambda>r r'. j_id r' = j_id r \<and> (j_status r' = ''Failed'' \<longrightarrow> j_status r = ''Failed''
      \<or> (\<exists>e \<in> set es. ev_job_id e = Some (j_id r) \<and> ev_reason e = ''Failed''))) (jobs (db w)) (jobs (db w'))"
    unfolding recorded_def by blast
  have "has_failed_event (db w') (j_id r) \<and> run_failed (db w') r"
    if "\<forall>r \<in> set (jobs (db w)). j_status r = ''Failed'' \<longrightarrow> has_failed_event (db w) (j_id r)"
      and "r \<in> set (jobs (db w'))" and "j_status r = ''Failed''" for r
    using that list_all2_right [OF rows that(2)] es
    by (fastforce simp: has_failed_event_def run_failed_def list_ex_iff)
  moreover have "list_all2 (\<lambda>r r'. j_id r' = j_id r \<and> (j_status r' = ''Failed'' \<and> j_status r \<noteq> ''Failed'' \<longrightarrow>
      (\<exists>e \<in> set es. ev_job_id e = Some (j_id r') \<and> ev_reason e = ''Failed''))) (jobs (db w)) (jobs (db w'))"
    using rows by (rule list_all2_mono) auto
  ultimately show ?thesis using es by blast
qed

theorem failed_runs_recorded_witness:
  "\<exists>e \<in> set (events (db (snd (advance_all_until demo_services demo_context never (demo_world ''VMPending'' (-5000)))))).
     ev_job_id e = Some ''job-1'' \<and> ev_reason e = ''Failed''"
proof -
  let ?w = "demo_world ''VMPending'' (-5000)"
  let ?run = "advance_all_until demo_services demo_context never ?w"
  have r: "case ?run of (r, w') \<Rightarrow> r = Inr 1 \<and> (case jobs (db w') of [j] \<Rightarrow> j_status j = ''Failed'' | _ \<Rightarrow> False)"
    by (simp add: demo_defs run_simps tick_simps)
  then have run: "?run = (Inr 1, snd ?run)" by (auto split: prod.splits)
  from r obtain j where j: "jobs (db (snd ?run)) = [j]" "j_status j = ''Failed''" by (auto split: prod.splits list.splits)
  have "jobs (db ?w) = [demo_job ''VMPending'' (-5000)]" by (simp add: demo_defs)
  with failed_runs_recorded [OF run] j show ?thesis by (auto simp: demo_job_def)
qed

text \<open>
  C6. A job before completion whose \<open>activeDeadlineSeconds\<close> have passed is failed by the next tick that reaches it,
  whatever the cloud and its worker do: if the database works, its status is \<open>Failed\<close>, \<open>last_error\<close> names the
  deadline, its version has grown by one and a \<open>Failed\<close> warning event is stored.
\<close>

theorem deadline_enforced:
  assumes "is_pre_completion_state (j_status j)"
    and "active_deadline_seconds (parse_spec S (j_spec j)) = Some deadline" and "deadline < now - j_created_at j"
    and run: "advance_job S C now j w = (Inr advanced, w')" and "find_job (j_id j) (db w) = Some r"
  shows "advanced
    \<and> find_job (j_id j) (db w') = Some (r\<lparr>j_status := ''Failed'',
        j_last_error := Some (deadline_message deadline (j_status j)), j_last_transition_time := Some now,
        j_updated_at := now, j_version := j_version r + 1\<rparr>)
    \<and> has_failed_event (db w') (j_id j)"
proof -
  have "give_up_reason S now j = Some (deadline_message deadline (j_status j))"
    using assms by (simp add: give_up_reason_def)
  moreover obtain nxt where "next_state (j_status j) = Some nxt"
    using assms(1) next_state_None [of "j_status j"] by (auto simp: is_pre_completion_rank)
  ultimately have "advanced" and
    f: "force_failed S (j_id j) (deadline_message deadline (j_status j)) now w = (Inr (), w')"
    using run by (auto simp: advance_job_def seq_def bnd_def split: prod.splits sum.splits)
  then show ?thesis using force_failed_effect [OF f] assms(5) by simp
qed

theorem deadline_enforced_witness:
  "has_failed_event (db (snd (advance_job demo_services demo_context 1000 (demo_job ''VMPending'' (-5000))
      (demo_world ''VMPending'' (-5000))))) ''job-1''"
proof -
  let ?j = "demo_job ''VMPending'' (-5000)" and ?w = "demo_world ''VMPending'' (-5000)"
  let ?run = "advance_job demo_services demo_context 1000 ?j ?w"
  have "fst ?run = Inr True" by (simp add: demo_defs run_simps tick_simps)
  then have run: "?run = (Inr True, snd ?run)" by (metis prod.collapse)
  have "is_pre_completion_state (j_status ?j)" by (simp add: demo_job_def tick_simps)
  moreover have "active_deadline_seconds (parse_spec demo_services (j_spec ?j)) = Some 3600"
    by (simp add: demo_defs tick_simps)
  moreover have "3600 < 1000 - j_created_at ?j" by (simp add: demo_job_def)
  moreover have "find_job (j_id ?j) (db ?w) = Some ?j" by (simp add: demo_defs find_job_def)
  ultimately have "has_failed_event (db (snd ?run)) (j_id ?j)"
    using deadline_enforced [OF _ _ _ run] by blast
  then show ?thesis by (simp add: demo_job_def)
qed

section \<open>Cloud resources\<close>

text \<open>
  No worker VM is created that nobody could log in to: with no SSH public key configured, what \<open>VMPending\<close> does is the
  same for every implementation of \<open>create_server\<close>.
\<close>

theorem no_vm_without_ssh_keys:
  assumes "worker_ssh_public_keys C = []"
  shows "handle_vm_pending S (C\<lparr>provider := (provider C)\<lparr>create_server := f\<rparr>\<rparr>) jid ns name spec
         = handle_vm_pending S C jid ns name spec"
  by (rule handle_vm_pending_cong) (simp_all add: launch_vm_def assms)

theorem no_vm_without_ssh_keys_witness:
  "handle_vm_pending demo_services (demo_context\<lparr>worker_ssh_public_keys := [],
      provider := demo_provider\<lparr>create_server := \<lambda>r n. (Inl (Request ''called''), n)\<rparr>\<rparr>) ''job-1'' ''default'' ''job'' ''spec''
   = handle_vm_pending demo_services (demo_context\<lparr>worker_ssh_public_keys := []\<rparr>) ''job-1'' ''default'' ''job'' ''spec''"
  using no_vm_without_ssh_keys [of "demo_context\<lparr>worker_ssh_public_keys := []\<rparr>" demo_services
      "\<lambda>r n. (Inl (Request ''called''), n)"]
  by (simp add: demo_context_def)

text \<open>
  A retry after a crash does not launch a second VM: whenever the provider lists a server with the title this job's
  worker has, \<open>VMPending\<close> does not depend on \<open>create_server\<close>; and likewise \<open>VolumePending\<close> does not depend on
  \<open>create_volume\<close> when a volume with the job's title is listed.
\<close>

theorem existing_resources_reused:
  assumes "\<And>x. \<exists>ss. fst (list_servers (provider C) (ctx_zone C) x) = Inr ss
             \<and> worker_title (resource_prefix C) ns name \<in> srv_title ` set ss"
    and "\<And>x. \<exists>vs. fst (list_volumes (provider C) (ctx_zone C) x) = Inr vs
             \<and> volume_title (resource_prefix C) ns name \<in> vol_title ` set vs"
  shows "handle_vm_pending S (C\<lparr>provider := (provider C)\<lparr>create_server := f, create_volume := g\<rparr>\<rparr>) jid ns name spec
           = handle_vm_pending S C jid ns name spec
       \<and> handle_volume_pending S (C\<lparr>provider := (provider C)\<lparr>create_server := f, create_volume := g\<rparr>\<rparr>) jid ns name spec
           = handle_volume_pending S C jid ns name spec"
proof
  have s: "bnd (cloud (list_servers (provider C) (ctx_zone C))) k = bnd (cloud (list_servers (provider C) (ctx_zone C))) k'"
    if "\<And>r. find_listed (\<lambda>s. srv_title s = worker_title (resource_prefix C) ns name) r \<noteq> None \<Longrightarrow> k r = k' r" for k k'
    by (rule bnd_cloud_cong [OF that]) (assumption, rule listed_found [OF assms(1)])
  have v: "bnd (cloud (list_volumes (provider C) (ctx_zone C))) k = bnd (cloud (list_volumes (provider C) (ctx_zone C))) k'"
    if "\<And>r. find_listed (\<lambda>s. vol_title s = volume_title (resource_prefix C) ns name) r \<noteq> None \<Longrightarrow> k r = k' r" for k k'
    by (rule bnd_cloud_cong [OF that]) (assumption, rule listed_found [OF assms(2)])
  show "handle_vm_pending S (C\<lparr>provider := (provider C)\<lparr>create_server := f, create_volume := g\<rparr>\<rparr>) jid ns name spec
      = handle_vm_pending S C jid ns name spec"
    by (rule handle_vm_pending_cong) (auto simp: launch_vm_def Let_def intro!: s split: option.split sum.split)
  show "handle_volume_pending S (C\<lparr>provider := (provider C)\<lparr>create_server := f, create_volume := g\<rparr>\<rparr>) jid ns name spec
      = handle_volume_pending S C jid ns name spec"
    unfolding handle_volume_pending_def Let_def
    by (auto intro!: v split: option.split)
qed

theorem existing_resources_reused_witness:
  "handle_vm_pending demo_services (demo_context\<lparr>provider := demo_provider\<lparr>
        list_servers := \<lambda>z n. (Inr [demo_server], n), list_volumes := \<lambda>z n. (Inr [demo_volume], n),
        create_server := \<lambda>r n. (Inl (Request ''called''), n), create_volume := \<lambda>r n. (Inl (Request ''called''), n)\<rparr>\<rparr>)
      ''job-1'' ''default'' ''job'' ''spec''
   = handle_vm_pending demo_services (demo_context\<lparr>provider := demo_provider\<lparr>
        list_servers := \<lambda>z n. (Inr [demo_server], n), list_volumes := \<lambda>z n. (Inr [demo_volume], n)\<rparr>\<rparr>)
      ''job-1'' ''default'' ''job'' ''spec''"
  using existing_resources_reused [of "demo_context\<lparr>provider := demo_provider\<lparr>
        list_servers := \<lambda>z n. (Inr [demo_server], n), list_volumes := \<lambda>z n. (Inr [demo_volume], n)\<rparr>\<rparr>" "''default''" "''job''"
      demo_services "\<lambda>r n. (Inl (Request ''called''), n)" "\<lambda>r n. (Inl (Request ''called''), n)" "''job-1''" "''spec''"]
  by (simp add: demo_context_def demo_server_def demo_volume_def worker_title_def volume_title_def)

text \<open>
  The worker's firewall lets in nothing but SSH from the shim's own address and packets from port 53 of the cloud's DNS
  resolvers: an inbound accept rule that \<open>FirewallApplying\<close> requests has one of these two shapes, and without a known own
  address there is no rule for port 22. What it requests is what \<open>FirewallVerified\<close> waits for.
\<close>

theorem firewall_inbound_rules:
  "(\<forall>r \<in> set (worker_rules C). fw_direction r = In \<longrightarrow>
      fw_action r = Accept \<and>
      ((\<exists>ip. own_public_ip C = Some ip \<and> fw_source_address r = Some ip \<and> fw_protocol r = Some ''tcp''
          \<and> fw_destination_port_start r = Some ''22'' \<and> fw_destination_port_end r = Some ''22'')
       \<or> ((fw_family r, the (fw_source_address r)) \<in> set UPCLOUD_DNS_RESOLVERS \<and> fw_source_address r \<noteq> None
          \<and> fw_source_port_start r = Some ''53'' \<and> fw_source_port_end r = Some ''53'')))
   \<and> (own_public_ip C = None \<longrightarrow> (\<forall>r \<in> set (worker_rules C). fw_destination_port_start r = None))
   \<and> rules_visible (worker_rules C)"
  by (auto simp: worker_rules_def accept_outbound_def accept_ssh_from_def dns_reply_rules_def UPCLOUD_DNS_RESOLVERS_def
        rules_visible_def is_dns_reply_rule_def split: option.split)

theorem firewall_inbound_rules_witness:
  "rules_visible (worker_rules demo_context)"
  using firewall_inbound_rules [of demo_context] by blast

text \<open>
  A volume is deleted before its row is: when \<open>VolumeDetaching\<close> lets a job go on (and dry-run is off), the job has no
  volume recorded any more, and if there was one the provider has confirmed its deletion.
\<close>

theorem volume_gone_after_detaching:
  assumes "handle_volume_detaching S C jid w = (Inr True, w')" and "\<not> dry_run C"
  shows "recorded_volume (db w') jid = None
       \<and> (\<forall>vid. recorded_volume (db w) jid = Some vid \<longrightarrow>
            (\<forall>v \<in> set (job_volumes (db w')). jv_job_id v \<noteq> jid)
            \<and> (\<exists>x u. fst (delete_volume (provider C) vid x) = Inr u))"
proof (cases "recorded_volume (db w) jid")
  case None
  have "db w' = db w"
    using assms(1) None by (auto simp: handle_volume_detaching_def recorded_volume_def job_volume_id_def bnd_def
        sql_query_def lift_ext_eq split: option.splits)
  with None show ?thesis by simp
next
  case (Some vid)
  from detached_and_deleted [OF assms Some]
  have "(\<forall>v \<in> set (job_volumes (db w')). jv_job_id v \<noteq> jid) \<and> (\<exists>x u. fst (delete_volume (provider C) vid x) = Inr u)" .
  moreover from this have "recorded_volume (db w') jid = None" by (simp add: recorded_volume_none)
  ultimately show ?thesis using Some by auto
qed

theorem volume_gone_after_detaching_witness:
  "recorded_volume (db (demo_world ''VolumeDetaching'' 900)) ''job-1'' = Some ''vol-1'' \<and>
   recorded_volume (db (snd (handle_volume_detaching demo_services demo_context ''job-1'' (demo_world ''VolumeDetaching'' 900)))) ''job-1'' = None"
proof -
  let ?run = "handle_volume_detaching demo_services demo_context ''job-1'' (demo_world ''VolumeDetaching'' 900)"
  have "fst ?run = Inr True"
    by (simp add: demo_defs run_simps handle_volume_detaching_def job_volume_id_def worker_vm_id_def delete_job_volume_def)
  then have "?run = (Inr True, snd ?run)" by (metis prod.collapse)
  moreover have "\<not> dry_run demo_context" by (simp add: demo_context_def)
  ultimately have "recorded_volume (db (snd ?run)) ''job-1'' = None" using volume_gone_after_detaching by blast
  then show ?thesis by (simp add: recorded_volume_def demo_defs)
qed

text \<open>
  C8. A run is archived only when its VM is known to be gone: outside dry-run, \<open>VMTerminating\<close> lets a job go on only if no worker
  VM was recorded or the provider confirmed its deletion, and it asks for the deletion only of a VM that it has seen stopped or
  that the provider no longer knows.
\<close>

theorem vm_deleted_before_archived:
  assumes "handle_vm_terminating S C jid w = (Inr True, w')" and "\<not> dry_run C"
    and "find_job jid (db w) = Some r" and "j_worker_vm_id r = Some vm"
  shows "(\<exists>x u. fst (delete_server (provider C) vm x) = Inr u) \<and>
         (\<exists>x. (\<exists>srv. fst (get_server (provider C) vm x) = Inr srv \<and> is_stopped srv)
            \<or> (\<exists>m. fst (get_server (provider C) vm x) = Inl (NotFound m)))"
proof -
  from assms obtain w1 where k: "bnd (cloud (get_server (provider C) vm)) (stop_or_delete_vm S C jid vm) w1 = (Inr True, w')"
    by (auto simp: handle_vm_terminating_def worker_vm_id_def bnd_returns sql_fetch_one_def sql_query_def lift_ext_eq
        of_result_def ok_or_def split: option.splits)
  let ?r = "fst (get_server (provider C) vm (ext w1))"
  from k obtain w2 where f: "stop_or_delete_vm S C jid vm ?r w2 = (Inr True, w')" by (auto simp: bnd_returns cloud_eq)
  from stop_or_delete_vm_True [OF f] show ?thesis by blast
qed

theorem vm_deleted_before_archived_witness:
  "fst (handle_vm_terminating demo_services demo_context ''job-1'' (demo_world ''VMTerminating'' 900)) = Inr True \<and>
   (\<exists>x u. fst (delete_server demo_provider ''vm-1'' x) = Inr u)"
proof -
  let ?run = "handle_vm_terminating demo_services demo_context ''job-1'' (demo_world ''VMTerminating'' 900)"
  have ok: "fst ?run = Inr True"
    by (simp add: demo_defs run_simps handle_vm_terminating_def stop_or_delete_vm_def delete_stopped_vm_def worker_vm_id_def
        is_stopped_def)
  then have run: "?run = (Inr True, snd ?run)" by (metis prod.collapse)
  have "\<not> dry_run demo_context" and p: "provider demo_context = demo_provider" by (simp_all add: demo_context_def)
  moreover have "find_job ''job-1'' (db (demo_world ''VMTerminating'' 900)) = Some (demo_job ''VMTerminating'' 900)"
    by (simp add: demo_defs find_job_def)
  moreover have "j_worker_vm_id (demo_job ''VMTerminating'' 900) = Some ''vm-1''" by (simp add: demo_job_def)
  ultimately show ?thesis using vm_deleted_before_archived [OF run] ok by auto
qed

text \<open>
  C9. A worker VM that is already gone blocks its job: if the provider answers both \<open>get_server\<close> and \<open>delete_server\<close> with
  \<open>NotFound\<close>, no call of \<open>VMTerminating\<close> ever lets the job go on to \<open>Archived\<close> (and no timeout applies in this state), although
  the handler treats \<open>NotFound\<close> from \<open>get_server\<close> as a VM that needs no stopping.
\<close>

theorem missing_vm_never_archived:
  assumes "\<And>x. \<exists>m. fst (get_server (provider C) vm x) = Inl (NotFound m)"
    and "\<And>x. \<exists>m. fst (delete_server (provider C) vm x) = Inl (NotFound m)"
    and "\<not> dry_run C" and "find_job jid (db w) = Some r" and "j_worker_vm_id r = Some vm"
  shows "fst (handle_vm_terminating S C jid w) \<noteq> Inr True \<and> give_up_reason S now (r\<lparr>j_status := ''VMTerminating''\<rparr>) = None"
proof
  show "fst (handle_vm_terminating S C jid w) \<noteq> Inr True"
  proof
    assume "fst (handle_vm_terminating S C jid w) = Inr True"
    then have "handle_vm_terminating S C jid w = (Inr True, snd (handle_vm_terminating S C jid w))" by (metis prod.collapse)
    then obtain w1 where "bnd (cloud (get_server (provider C) vm)) (stop_or_delete_vm S C jid vm) w1
        = (Inr True, snd (handle_vm_terminating S C jid w))"
      using assms(3-5)
      by (auto simp: handle_vm_terminating_def worker_vm_id_def bnd_returns sql_fetch_one_def sql_query_def lift_ext_eq
          of_result_def ok_or_def split: option.splits)
    then obtain w2 where "stop_or_delete_vm S C jid vm (fst (get_server (provider C) vm (ext w1))) w2
        = (Inr True, snd (handle_vm_terminating S C jid w))" by (auto simp: bnd_returns cloud_eq)
    from stop_or_delete_vm_True [OF this] obtain x u where "fst (delete_server (provider C) vm x) = Inr u" by blast
    with assms(2) [of x] show False by auto
  qed
  show "give_up_reason S now (r\<lparr>j_status := ''VMTerminating''\<rparr>) = None" by (simp add: give_up_reason_def)
qed

theorem missing_vm_never_archived_witness:
  "fst (handle_vm_terminating demo_services (demo_context\<lparr>provider := demo_provider\<lparr>
      get_server := \<lambda>s n. (Inl (NotFound ''gone''), n), delete_server := \<lambda>s n. (Inl (NotFound ''gone''), n)\<rparr>\<rparr>)
      ''job-1'' (demo_world ''VMTerminating'' 900)) \<noteq> Inr True"
  using missing_vm_never_archived [of "demo_context\<lparr>provider := demo_provider\<lparr>
      get_server := \<lambda>s n. (Inl (NotFound ''gone''), n), delete_server := \<lambda>s n. (Inl (NotFound ''gone''), n)\<rparr>\<rparr>" "''vm-1''"
      "''job-1''" "demo_world ''VMTerminating'' 900" "demo_job ''VMTerminating'' 900" demo_services]
  by (simp add: demo_world_def demo_db_def demo_job_def demo_context_def find_job_def)

text \<open>
  The verdict of a run is the container's exit code: when \<open>ContainerRunning\<close> has read the code and returns a state, that state is
  \<open>Succeeded\<close> exactly for code 0 and \<open>Failed\<close> otherwise, and by then the code and the logs are stored in the job's row.
\<close>

theorem exit_code_decides:
  assumes "finish_container S C jid spec ip created code w = (Inr (Some t), w')"
  shows "(t = ''Succeeded'' \<longleftrightarrow> code = 0) \<and> (t = ''Failed'' \<longleftrightarrow> code \<noteq> 0)
         \<and> (\<forall>r \<in> set (jobs (db w')). j_id r = jid \<longrightarrow> j_exit_code r = Some code \<and> j_cached_logs r \<noteq> None)"
  using assms by (rule finish_container_effect)

theorem exit_code_decides_witness:
  "j_exit_code (hd (jobs (db (snd (finish_container (demo_services\<lparr>ssh_session := \<lambda>h p k c i n. (Inl ''down'', n)\<rparr>) demo_context
      ''job-1'' ''spec'' ''192.0.2.7'' 900 0 planned_world))))) = Some 0"
proof -
  let ?run = "finish_container (demo_services\<lparr>ssh_session := \<lambda>h p k c i n. (Inl ''down'', n)\<rparr>) demo_context
      ''job-1'' ''spec'' ''192.0.2.7'' 900 0 planned_world"
  have r: "fst ?run = Inr (Some ''Succeeded'') \<and> map j_id (jobs (db (snd ?run))) = [''job-1'']"
    by (simp add: planned_world_def demo_defs run_simps finish_container_def on_worker_def exec_once_def ssh_call_def fetch_logs_def
        actual_cost_of_def effective_main_currency_def current_settings_def fetch_budget_row_def calculate_actual_cost_def
        actual_job_charges_def charge_breakdown_for_duration_def charged_plan_def sum_and_convert_def record_completion_def
        cached_price_def price_row_def when_io_def Let_def)
  then have "?run = (Inr (Some ''Succeeded''), snd ?run)" by (metis prod.collapse)
  from exit_code_decides [OF this] r show ?thesis by (cases "jobs (db (snd ?run))") auto
qed

end
