(* ===== verification/ConfigProps.thy ===== *)
theory ConfigProps
  imports CloudInit Demo
begin

text \<open>
  What holds of the configuration a container is started with: its environment (\<open>container_env.rs\<close>), the files
  that carry it to the worker (\<open>cloud_init.rs\<close>) and the options it is run with (\<open>run_options.rs\<close>).
\<close>

section \<open>The pieces of parsed run options\<close>

lemma split_on_digits: "split_on (CHR '':'') (show_nat n @ CHR '':'' # s) = show_nat n # split_on (CHR '':'') s"
proof -
  have "CHR '':'' \<notin> set (show_nat n)"
    using show_nat_digits [of n] by (auto simp: list_all_iff is_ascii_digit_def)
  then show ?thesis by (rule split_on_append_sep)
qed

lemma show_nat_no_colon: "split_on (CHR '':'') (show_nat n) = [show_nat n]"
proof -
  have "CHR '':'' \<notin> set (show_nat n)"
    using show_nat_digits [of n] by (auto simp: list_all_iff is_ascii_digit_def)
  then show ?thesis by (rule split_on_absent)
qed

lemma select_user_uid:
  assumes "select_user cu pu cg pg = Inr (Some u)"
  shows "\<exists>uid. or_else cu pu = Some uid \<and> parse_nat (hd (split_on (CHR '':'') u)) = Some uid"
  using assms
  by (auto simp: select_user_def split_on_digits show_nat_no_colon split: option.splits)

lemma or_else_Some: "or_else a b = Some x \<Longrightarrow> a = Some x \<or> b = Some x"
  by (cases a) (auto simp: or_else_def)

lemma scratch_volume_fields:
  assumes "scratch_volume_option L spec = Inr vol"
  shows "\<exists>path opts. split_on (CHR '':'') vol = [DEFAULT_SCRATCH_MOUNT_PATH, path, opts] \<and> is_valid_mount_path path
          \<and> opts \<in> {''idmap'', ''ro,idmap''}"
proof (cases "scratch_mount spec")
  case None
  have "is_valid_mount_path ''/scratch''" by (simp add: is_valid_mount_path_def starts_with_def)
  with None assms show ?thesis by (auto simp: scratch_volume_option_def DEFAULT_SCRATCH_MOUNT_PATH_def)
next
  case (Some im)
  obtain i mount where im: "im = (i, mount)" by (cases im)
  from assms Some im obtain path opts where p: "is_valid_mount_path path" and o: "opts \<in> {''idmap'', ''ro,idmap''}"
    and v: "vol = ''/scratch'' @ CHR '':'' # path @ CHR '':'' # opts"
    by (auto simp: scratch_volume_option_def Let_def rbind_Inr DEFAULT_SCRATCH_MOUNT_PATH_def
        split: option.splits json.splits if_splits)
  from p have "CHR '':'' \<notin> set path" by (simp add: is_valid_mount_path_def)
  moreover have "split_on (CHR '':'') opts = [opts]" using o by auto
  ultimately have "split_on (CHR '':'') vol = [''/scratch'', path, opts]"
    unfolding v by (simp add: split_on_append_sep)
  with p o show ?thesis by (auto simp: DEFAULT_SCRATCH_MOUNT_PATH_def)
qed

lemma if_Inl_Inr: "(if c then Inl e else r) = Inr b \<longleftrightarrow> \<not> c \<and> r = Inr b"
  by simp

lemma parse_run_options_parts:
  assumes "parse_run_options L spec = Inr opts"
  obtains fg pu pg cu cg where
    "\<And>i. fg = Some i \<Longrightarrow> i \<le> MAX_ID" and "\<And>i. pu = Some i \<Longrightarrow> i \<le> MAX_ID" and "\<And>i. cu = Some i \<Longrightarrow> i \<le> MAX_ID"
    and "fs_group opts = fg" and "select_user cu pu cg pg = Inr (run_user opts)"
    and "\<not> (run_as_non_root opts \<and> or_else cu pu = Some 0)"
    and "scratch_volume_option L spec = Inr (scratch_volume opts)"
proof -
  let ?pod = "pointer spec [''template'', ''spec'', ''securityContext'']"
    and ?con = "pointer spec [''template'', ''spec'', ''containers'', ''0'', ''securityContext'']"
  from assms obtain fg pu pg cu cg user nr ro nn vol where ids: "id_field L ?pod ''fsGroup'' pod_sc_name = Inr fg"
    "id_field L ?pod ''runAsUser'' pod_sc_name = Inr pu" "id_field L ?con ''runAsUser'' container_sc_name = Inr cu"
    and user: "select_user cu pu cg pg = Inr user" and vol: "scratch_volume_option L spec = Inr vol"
    and nr: "\<not> (nr \<and> or_else cu pu = Some 0)"
    and opts: "opts = \<lparr>fs_group = fg, run_user = user, run_as_non_root = nr, read_only_root_filesystem = ro,
                 no_new_privileges = nn, scratch_volume = vol\<rparr>"
    unfolding parse_run_options_def Let_def by (simp only: rbind_Inr if_Inl_Inr sum.inject) blast
  show thesis
    by (rule that [of fg pu cu cg pg]) (use ids user vol nr in \<open>auto simp: opts dest: id_field_bound\<close>)
qed

lemma rbind_unit: "rbind r k = Inr b \<longleftrightarrow> r = Inr () \<and> k () = Inr b"
  by (auto simp: rbind_Inr)

lemma no_op_matches_False: "no_op_matches (NoOpBool False) v \<longleftrightarrow> v = JBool False"
  by (cases v) auto

lemma env_ok_Nil: "env_ok []"
  by (simp add: env_ok_def)

lemma resolved_env_ok:
  assumes "resolve_with_secrets L pod container store = Inr env"
  shows "env_ok env"
proof -
  from assms obtain env0 where valid: "validate_env L container = Inr ()"
    and from_refs: "try_fold (apply_env_from L pod store) [] (entries_of container ''envFrom'') = Inr env0"
    and entries: "try_fold (apply_env_entry L pod store) env0 (entries_of container ''env'') = Inr env"
    by (auto simp: resolve_with_secrets_def rbind_Inr)
  have "env_ok env0"
    by (rule try_fold_invariant [OF from_refs]) (simp_all add: env_ok_Nil env_ok_apply_env_from)
  then show ?thesis
    by (rule try_fold_invariant [OF entries])
       (auto intro: env_ok_apply_env_entry validated_env_names [OF valid])
qed

section \<open>Reading the files back\<close>

text \<open>
  \<open>podman run --env-file\<close>, as the comment on \<open>MAX_ENV_FILE_LINE\<close> describes it: a line ends at a line feed, a carriage return
  before it dropped; a line over 64 KiB makes the whole file unreadable; leading whitespace is stripped; a line that starts with \<open>#\<close>
  is a comment, and an empty one is skipped; everything after the first \<open>=\<close> is the value, literally. A line without
  \<open>=\<close> sets nothing of its own, so a file with one is refused here.
\<close>

definition is_env_space :: "char \<Rightarrow> bool" where
  "is_env_space c \<longleftrightarrow> c \<in> {CHR '' '', CHR 0x09, CHR 0x0A, CHR 0x0B, CHR 0x0C, CHR 0x0D}"

definition drop_carriage_return :: "string \<Rightarrow> string" where
  "drop_carriage_return l = (if l \<noteq> [] \<and> last l = CHR 0x0D then butlast l else l)"

fun read_env_lines :: "string list \<Rightarrow> env option" where
  "read_env_lines [] = Some []"
| "read_env_lines (l # ls) =
     (if 64 * 1024 < length l then None
      else (let line = dropWhile is_env_space (drop_carriage_return l)
            in if line = [] \<or> starts_with line ''#'' then read_env_lines ls
               else case split_once (CHR ''='') line of
                      None \<Rightarrow> None
                    | Some nv \<Rightarrow> map_option (Cons nv) (read_env_lines ls)))"

definition read_env_file :: "string \<Rightarrow> env option" where
  "read_env_file s = read_env_lines (butlast (split_on (CHR 0x0A) s))"

text \<open>What \<open>--secret\<close> can carry: a name without a comma, and at most 512 KiB.\<close>

definition fits_secret :: "string \<times> string \<Rightarrow> bool" where
  "fits_secret nv \<longleftrightarrow> CHR '','' \<notin> set (fst nv) \<and> length (snd nv) \<le> 512 * 1024"

lemma add_variable_fold:
  "try_fold add_variable (f0, s0) env = Inr (file', secret') \<Longrightarrow>
   file' = f0 @ concat (map (\<lambda>(n, v). env_line n v) (filter (\<lambda>(n, v). fits_env_file n v) env))
   \<and> secret' = s0 @ concat (map (\<lambda>x. x @ [CHR 0x00])
        (concat (map (\<lambda>(n, v). [n, v]) (filter (\<lambda>(n, v). \<not> fits_env_file n v) env))))
   \<and> (\<forall>(n, v) \<in> set env. \<not> starts_with n '' '' \<and> \<not> starts_with n ''#'' \<and> (\<not> fits_env_file n v \<longrightarrow> fits_secret (n, v)))"
proof (induction env arbitrary: f0 s0)
  case (Cons nv env)
  obtain n v where nv: "nv = (n, v)" by (cases nv)
  from Cons.prems obtain acc where a: "add_variable (f0, s0) (n, v) = Inr acc"
    and f: "try_fold add_variable acc env = Inr (file', secret')" by (auto simp: rbind_Inr nv)
  obtain f1 s1 where acc: "acc = (f1, s1)" by (cases acc)
  from a acc have "(fits_env_file n v \<and> f1 = f0 @ env_line n v \<and> s1 = s0)
      \<or> (\<not> fits_env_file n v \<and> f1 = f0 \<and> s1 = s0 @ n @ [CHR 0x00] @ v @ [CHR 0x00])"
    by (auto simp: add_variable_def Let_def split: if_splits)
  moreover from a have "\<not> starts_with n '' '' \<and> \<not> starts_with n ''#'' \<and> (\<not> fits_env_file n v \<longrightarrow> fits_secret (n, v))"
    by (auto simp: add_variable_def Let_def fits_secret_def MAX_SECRET_ENV_VALUE_def split: if_splits)
  ultimately show ?case using Cons.IH [OF f [unfolded acc]] by (auto simp: nv)
qed simp

text \<open>A name that is valid and does not start with a space has nothing to strip in front of it.\<close>

lemma valid_name_no_space:
  assumes "is_valid_env_name n" and "\<not> starts_with n '' ''"
  shows "dropWhile is_env_space (n @ s) = n @ s"
proof -
  from assms obtain c cs where n: "n = c # cs" and "c \<noteq> CHR '' ''" and "0x20 \<le> (of_char c :: nat)"
    by (cases n) (auto simp: is_valid_env_name_def starts_with_def)
  then have "\<not> is_env_space c" by (auto simp: is_env_space_def)
  then show ?thesis by (simp add: n)
qed

lemma read_env_line:
  assumes "is_valid_env_name n" and "\<not> starts_with n '' ''" and "\<not> starts_with n ''#''" and "fits_env_file n v"
  shows "read_env_lines ((n @ CHR ''='' # v) # ls) = map_option (Cons (n, v)) (read_env_lines ls)"
proof -
  let ?l = "n @ CHR ''='' # v"
  have len: "length ?l \<le> 64 * 1024"
    using assms(4) by (simp add: fits_env_file_def env_line_def MAX_ENV_FILE_LINE_def)
  have "last ?l \<noteq> CHR 0x0D"
    using assms(4) by (cases "v = []") (auto simp: fits_env_file_def dest: last_in_set)
  then have "dropWhile is_env_space (drop_carriage_return ?l) = ?l"
    using valid_name_no_space [OF assms(1,2)] by (simp add: drop_carriage_return_def)
  moreover have "?l \<noteq> []" "\<not> starts_with ?l ''#''"
    using assms(1,3) by (cases n; simp add: starts_with_def is_valid_env_name_def)+
  moreover have "split_once (CHR ''='') ?l = Some (n, v)"
    using valid_name_chars(1) [OF assms(1)] by (simp add: split_once_at)
  ultimately show ?thesis using len unfolding read_env_lines.simps Let_def by simp
qed

lemma read_env_file_lines:
  assumes "\<forall>(n, v) \<in> set env. is_valid_env_name n \<and> \<not> starts_with n '' '' \<and> \<not> starts_with n ''#'' \<and> fits_env_file n v"
  shows "read_env_file (concat (map (\<lambda>(n, v). env_line n v) env)) = Some env"
proof -
  let ?ls = "map (\<lambda>(n, v). n @ ''='' @ v) env"
  have "concat (map (\<lambda>(n, v). env_line n v) env) = concat (map (\<lambda>x. x @ [CHR 0x0A]) ?ls)"
    by (induction env) (auto simp: env_line_def)
  moreover have "\<forall>x \<in> set ?ls. CHR 0x0A \<notin> set x"
    using assms valid_name_chars(2) by (auto simp: fits_env_file_def)
  ultimately have "butlast (split_on (CHR 0x0A) (concat (map (\<lambda>(n, v). env_line n v) env))) = ?ls"
    by (simp only: split_on_concat_terminated butlast_snoc)
  moreover have "read_env_lines ?ls = Some env"
    using assms by (induction env) (auto simp: read_env_line simp del: read_env_lines.simps(2))
  ultimately show ?thesis by (simp add: read_env_file_def)
qed

section \<open>An example\<close>

definition demo_container :: json where
  "demo_container = JObj
     [(''command'', JArr [JStr ''echo'', JStr ''$(GREETING)'']),
      (''env'', JArr [JObj [(''name'', JStr ''GREETING''), (''value'', JStr ''hi $(TOKEN)'')]]),
      (''envFrom'', JArr [JObj [(''secretRef'', JObj [(''name'', JStr ''s'')])]])]"

definition demo_store :: secret_store where
  "demo_store = [''s'' \<mapsto> JObj [(''TOKEN'', JStr ''t'')]]"

definition demo_env :: env where
  "demo_env = [(''TOKEN'', ''t''), (''GREETING'', ''hi t'')]"

definition demo_secured :: json where
  "demo_secured = JObj [(''template'', JObj [(''spec'', JObj [(''containers'', JArr [JObj
     [(''securityContext'', JObj [(''runAsUser'', JPos 1000), (''runAsNonRoot'', JBool True)])]])])])]"

lemma demo_env_resolved:
  "resolve_with_secrets demo_services \<lparr>pod_name = ''job'', pod_namespace = ''default''\<rparr> demo_container demo_store = Inr demo_env"
proof -
  have e: "expand ''hi $(TOKEN)'' [(''TOKEN'', ''t'')] = ''hi t''"
    using expand_escape_append [of "''hi ''" "''$(TOKEN)''" "[(''TOKEN'', ''t'')]"] expand_reference [of "''TOKEN''" "[]" "[(''TOKEN'', ''t'')]"]
    by (simp add: escape_def lookup_var_def expand_no_dollar)
  show ?thesis
    by (simp add: resolve_with_secrets_def demo_container_def demo_store_def demo_env_def validate_env_def entries_of_def get_array_def
        enumerate_list_def validate_env_entry_def validate_env_name_def is_valid_env_name_def validate_env_from_source_def
        non_empty_str_def get_str_def index_str_def unwrap_or_def rbind_def map_err_def filter_opt_def apply_env_from_def
        secret_data_def apply_env_from_key_def decode_secret_value_def demo_services_def from_utf8_def utf8_valid.simps
        apply_env_entry_def env_entry_value_def entry_name_def e Let_def utf8_step_def byte_at_def)
qed

section \<open>Properties\<close>

text \<open>
  A resolved environment names each variable once, under a name Kubernetes accepts: printable ASCII, not empty, without an
  equals sign.
\<close>

theorem resolved_env_well_formed:
  assumes "resolve_with_secrets L pod container store = Inr env"
  shows "distinct (map fst env) \<and> (\<forall>n \<in> fst ` set env. is_valid_env_name n)"
  using resolved_env_ok [OF assms] by (simp add: env_ok_def)

theorem resolved_env_well_formed_witness:
  "distinct (map fst demo_env) \<and> list_all is_valid_env_name (map fst demo_env)"
  using resolved_env_well_formed [OF demo_env_resolved] by (auto simp: list_all_iff)

text \<open>
  No entry of \<open>env\<close> is lost: the resolved environment has its name, except where the entry refers to a key of a Secret, is marked
  optional, and the Secret or the key does not exist.
\<close>

theorem no_entry_lost:
  assumes "resolve_with_secrets L pod container store = Inr env" and "entry \<in> set (entries_of container ''env'')"
  shows "entry_name entry \<in> fst ` set env \<or>
    (\<exists>value_from secret_ref. get entry ''valueFrom'' = Some value_from \<and> get value_from ''secretKeyRef'' = Some secret_ref
       \<and> is_optional secret_ref
       \<and> (case store (unwrap_or [] (as_str (index_str secret_ref ''name''))) of
            None \<Rightarrow> True
          | Some data \<Rightarrow> get data (unwrap_or [] (as_str (index_str secret_ref ''key''))) = None))"
proof -
  from assms(1) obtain env0 where "try_fold (apply_env_entry L pod store) env0 (entries_of container ''env'') = Inr env"
    by (auto simp: resolve_with_secrets_def rbind_Inr)
  from try_fold_reaches [OF this assms(2)] obtain a a' ys where step: "apply_env_entry L pod store a entry = Inr a'"
    and rest: "try_fold (apply_env_entry L pod store) a' ys = Inr env" by blast
  have "fst ` set a' \<subseteq> fst ` set env"
    by (rule try_fold_mono [OF rest, where g = "\<lambda>e. fst ` set e"]) (rule apply_env_entry_keeps_names)
  with apply_env_entry_names [OF step] have "entry_name entry \<in> fst ` set env \<or> env_entry_value L pod store a entry = Inr Skip"
    by blast
  then show ?thesis by (auto simp: entry_Skip_iff)
qed

theorem no_entry_lost_witness: "''GREETING'' \<in> fst ` set demo_env"
  using no_entry_lost [OF demo_env_resolved, of "JObj [(''name'', JStr ''GREETING''), (''value'', JStr ''hi $(TOKEN)'')]"]
  by (simp add: demo_container_def entries_of_def get_array_def entry_name_def index_str_def unwrap_or_def)

text \<open>
  Expansion of \<open>$(VAR)\<close>: text whose dollar signs are doubled comes out as it was meant, a reference to a variable set earlier becomes
  its value and one to an unknown variable stays as written; the value itself is not expanded again.
\<close>

theorem expansion_of_escapes_and_references:
  assumes "CHR '')'' \<notin> set name"
  shows "expand (escape s @ ''$('' @ name @ '')'' @ t) env
       = s @ (case lookup_var env name of Some v \<Rightarrow> v | None \<Rightarrow> ''$('' @ name @ '')'') @ expand t env"
  unfolding expand_escape_append expand_reference [OF assms] ..

theorem expansion_of_escapes_and_references_witness:
  "expand ''a$$b $(X)'' [(''X'', ''$(Y)''), (''Y'', ''1'')] = ''a$b $(Y)''"
  using expansion_of_escapes_and_references [of "''X''" "''a$b ''" "[]" "[(''X'', ''$(Y)''), (''Y'', ''1'')]"]
  by (simp add: escape_def lookup_var_def expand_no_dollar)

text \<open>
  C15. The configuration files carry the environment and the command line without loss: podman can read the environment file, and its
  variables and the NUL-terminated pairs of the secrets file are together the resolved variables, each in one of them; what goes to
  the secrets file is within podman's limits for a secret; and the items of the command and argument files are the expanded entries of
  the spec. The variables' values must have no NUL byte.
\<close>

theorem config_files_read_back:
  assumes "resolve_with_secrets L pod container store = Inr env" and "container_config_of container env = Inr cfg"
    and "list_all (\<lambda>(n, v). CHR 0x00 \<notin> set v) env"
  shows "read_env_file (env_file cfg) = Some (filter (\<lambda>(n, v). fits_env_file n v) env)
       \<and> pairs (read_items (secret_env cfg)) = filter (\<lambda>(n, v). \<not> fits_env_file n v) env
       \<and> list_all fits_secret (pairs (read_items (secret_env cfg)))
       \<and> read_items (config_command cfg) = map (\<lambda>e. expand e env) (string_array container ''command'')
       \<and> read_items (config_args cfg) = map (\<lambda>e. expand e env) (string_array container ''args'')"
proof -
  let ?long = "filter (\<lambda>(n, v). \<not> fits_env_file n v) env"
  have names: "\<forall>n \<in> fst ` set env. is_valid_env_name n"
    using resolved_env_ok [OF assms(1)] by (simp add: env_ok_def)
  from assms(2) obtain f s where fold: "try_fold add_variable ([], []) env = Inr (f, s)"
    and cmd: "nul_terminated container env ''command'' = Inr (config_command cfg)"
    and args: "nul_terminated container env ''args'' = Inr (config_args cfg)"
    and cfg: "env_file cfg = f" "secret_env cfg = s"
    by (auto simp: container_config_of_def rbind_Inr)
  note parts = add_variable_fold [OF fold, simplified]
  have "read_env_file f = Some (filter (\<lambda>(n, v). fits_env_file n v) env)"
    unfolding conjunct1 [OF parts] by (rule read_env_file_lines) (use names parts in \<open>fastforce\<close>)
  moreover have "\<forall>x \<in> set (concat (map (\<lambda>(n, v). [n, v]) ?long)). CHR 0x00 \<notin> set x"
    using names valid_name_chars(3) assms(3) by (fastforce simp: list_all_iff)
  then have "pairs (read_items s) = ?long"
    unfolding conjunct1 [OF conjunct2 [OF parts]] by (simp only: read_items_def split_on_concat_terminated butlast_snoc pairs_flatten)
  moreover have "list_all fits_secret ?long" using parts by (auto simp: list_all_iff)
  ultimately show ?thesis
    using nul_terminated_reads_back [OF cmd] nul_terminated_reads_back [OF args] by (simp add: cfg)
qed

theorem config_files_read_back_witness:
  "\<exists>cfg. container_config_of demo_container demo_env = Inr cfg \<and> read_env_file (env_file cfg) = Some demo_env
         \<and> read_items (config_command cfg) = [''echo'', ''hi t'']"
proof -
  have e: "expand ''$(GREETING)'' demo_env = ''hi t''" "expand ''echo'' demo_env = ''echo''"
    using expand_reference [of "''GREETING''" "[]" demo_env] by (simp_all add: demo_env_def lookup_var_def expand_no_dollar)
  have fits: "fits_env_file ''TOKEN'' ''t''" "fits_env_file ''GREETING'' ''hi t''"
    by (simp_all add: fits_env_file_def env_line_def MAX_ENV_FILE_LINE_def)
  have "\<exists>cfg. container_config_of demo_container demo_env = Inr cfg"
    by (simp add: container_config_of_def nul_terminated_def string_array_def demo_container_def get_array_def add_entry_def e
        rbind_def Let_def List.map_filter_def)
       (simp add: demo_env_def add_variable_def fits starts_with_def rbind_def)
  then obtain cfg where cfg: "container_config_of demo_container demo_env = Inr cfg" ..
  have "list_all (\<lambda>(n, v). CHR 0x00 \<notin> set v) demo_env" by (simp add: demo_env_def)
  from config_files_read_back [OF demo_env_resolved cfg this] cfg fits e show ?thesis
    by (simp add: demo_env_def string_array_def demo_container_def get_array_def List.map_filter_def)
qed

text \<open>
  A spec that passes the admission check of the security options can be parsed again when the worker is set up, with ids that fit the
  system, never user 0 under \<open>runAsNonRoot\<close>, a volume option of exactly three fields whose mount path is absolute and free
  of dot segments, and a container security context that has only supported fields or ones with their default value.
\<close>

theorem admitted_run_options:
  assumes "validate_run_options L spec = Inr ()"
  shows "\<exists>opts. parse_run_options L spec = Inr opts
      \<and> (\<forall>g. fs_group opts = Some g \<longrightarrow> g \<le> MAX_ID)
      \<and> (\<forall>u. run_user opts = Some u \<longrightarrow>
           (\<exists>uid. parse_nat (hd (split_on (CHR '':'') u)) = Some uid \<and> uid \<le> MAX_ID \<and> (run_as_non_root opts \<longrightarrow> uid \<noteq> 0)))
      \<and> (\<exists>path mode. split_on (CHR '':'') (scratch_volume opts) = [DEFAULT_SCRATCH_MOUNT_PATH, path, mode]
           \<and> is_valid_mount_path path)
      \<and> (\<forall>m. pointer spec [''template'', ''spec'', ''containers'', ''0'', ''securityContext''] = Some (JObj m) \<longrightarrow>
           (\<forall>(key, v) \<in> set m. key \<in> set CONTAINER_SECURITY_CONTEXT_FIELDS
              \<or> key = ''privileged'' \<and> v \<in> {JNull, JBool False}))"
proof -
  from assms obtain opts where parsed: "parse_run_options L spec = Inr opts"
    and sect: "check_section L (pointer spec [''template'', ''spec'', ''containers'', ''0'', ''securityContext''])
        CONTAINER_SECURITY_CONTEXT_FIELDS CONTAINER_SECURITY_CONTEXT_NO_OP_VALUES container_sc_name = Inr ()"
    unfolding validate_run_options_def
    by (simp only: rbind_unit rbind_Inr [of "parse_run_options L spec"]) (elim conjE exE, rule)
  from parsed show ?thesis
  proof (rule parse_run_options_parts)
    fix fg pu pg cu cg
    assume bounds: "\<And>i. fg = Some i \<Longrightarrow> i \<le> MAX_ID" "\<And>i. pu = Some i \<Longrightarrow> i \<le> MAX_ID" "\<And>i. cu = Some i \<Longrightarrow> i \<le> MAX_ID"
      and fg: "fs_group opts = fg" and user: "select_user cu pu cg pg = Inr (run_user opts)"
      and root: "\<not> (run_as_non_root opts \<and> or_else cu pu = Some 0)"
      and vol: "scratch_volume_option L spec = Inr (scratch_volume opts)"
    have "\<exists>uid. parse_nat (hd (split_on (CHR '':'') u)) = Some uid \<and> uid \<le> MAX_ID \<and> (run_as_non_root opts \<longrightarrow> uid \<noteq> 0)"
      if "run_user opts = Some u" for u
    proof -
      from that user have "select_user cu pu cg pg = Inr (Some u)" by simp
      from select_user_uid [OF this] obtain uid where "or_else cu pu = Some uid"
        and "parse_nat (hd (split_on (CHR '':'') u)) = Some uid" by blast
      with root bounds show ?thesis by (auto dest: or_else_Some)
    qed
    moreover have "\<forall>(key, v) \<in> set m. key \<in> set CONTAINER_SECURITY_CONTEXT_FIELDS
              \<or> key = ''privileged'' \<and> v \<in> {JNull, JBool False}"
      if "pointer spec [''template'', ''spec'', ''containers'', ''0'', ''securityContext''] = Some (JObj m)" for m
      using sect unfolding that check_section_def option.case reject_unknown_fields_Inr
      by (fastforce simp: CONTAINER_SECURITY_CONTEXT_NO_OP_VALUES_def no_op_matches_False split: if_splits)
    ultimately show ?thesis
      using parsed scratch_volume_fields [OF vol] fg bounds(1) by blast
  qed
qed

theorem admitted_run_options_witness:
  "\<exists>opts. parse_run_options demo_services demo_secured = Inr opts \<and> run_user opts = Some ''1000''
         \<and> (\<exists>path mode. split_on (CHR '':'') (scratch_volume opts) = [DEFAULT_SCRATCH_MOUNT_PATH, path, mode]
              \<and> is_valid_mount_path path)"
proof -
  have user: "show_nat 1000 = ''1000''" by code_simp
  have "validate_run_options demo_services demo_secured = Inr ()" and
    "\<And>opts. parse_run_options demo_services demo_secured = Inr opts \<Longrightarrow> run_user opts = Some ''1000''"
    by (auto simp: validate_run_options_def demo_secured_def check_section_def reject_unknown_fields_def scratch_mount_def
        parse_run_options_def id_field_def bool_field_def select_user_def scratch_volume_option_def rbind_def Let_def
        or_else_def unwrap_or_def ok_or_def filter_opt_def reject_field_def MAX_ID_def user
        CONTAINER_SECURITY_CONTEXT_FIELDS_def)
  with admitted_run_options [of demo_services demo_secured] show ?thesis by blast
qed

end
