(* ===== verification/LogProps.thy ===== *)
theory LogProps
  imports LogFilter Demo
begin

text \<open>
  What holds of the logs a client reads (\<open>api/log_filter.rs\<close>): the merge of complete logs is a stable sort by time, a followed log
  loses no line, and a byte limit cuts the text and changes nothing else.
\<close>

section \<open>Lemmas on the merge\<close>

lemma filter_zip_fst:
  assumes "length ls = length xs"
  shows "map snd (filter (\<lambda>x. fst x = k) (zip (map fst xs) ls))
       = map snd (filter (\<lambda>(x, l). fst x = k) (zip xs ls))"
  using assms by (induction ls xs rule: list_induct2) auto

lemma same_line_join_lines: "list_all2 same_line (join_lines ls) ls"
  by (induction ls rule: join_lines.induct) (auto simp: same_line_def list_all2_Cons1)

lemma same_line_filtered:
  assumes "list_all2 same_line ls (map snd xs)"
  shows "list_all2 same_line (map snd (filter (\<lambda>x. fst x = k) (zip (map fst xs) ls))) (map snd (filter (\<lambda>x. fst x = k) xs))"
  using assms
proof (induction xs arbitrary: ls)
  case (Cons x xs)
  then show ?case by (cases ls) auto
qed simp

section \<open>Lemmas on the buffer of a followed log\<close>

lemma split_inclusive_append:
  assumes "a = [] \<or> last a = LF"
  shows "split_inclusive LF (a @ b) = split_inclusive LF a @ split_inclusive LF b"
  using assms
proof (induction a rule: length_induct)
  case (1 a)
  show ?case
  proof (cases "LF \<in> set a")
    case False
    with 1(2) have "a = []" by (metis last_in_set)
    then show ?thesis by simp
  next
    case True
    then obtain p s where a: "a = p @ LF # s" and p: "LF \<notin> set p" by (meson split_list_first)
    from a 1(2) have "s = [] \<or> last s = LF" by (cases s) auto
    with 1(1) a have "split_inclusive LF (s @ b) = split_inclusive LF s @ split_inclusive LF b" by auto
    with p show ?thesis by (simp add: a split_inclusive_append_line)
  qed
qed

lemma complete_length_None: "complete_length s = None \<longleftrightarrow> LF \<notin> set s"
  by (simp add: complete_length_def)

lemma complete_length_Some:
  assumes "complete_length s = Some n"
  shows "take n s \<noteq> [] \<and> last (take n s) = LF \<and> LF \<notin> set (drop n s)"
proof -
  from assms have lf: "LF \<in> set s" and n: "n = length s - length (takeWhile (\<lambda>c. c \<noteq> LF) (rev s))"
    by (auto simp: complete_length_def split: if_splits)
  from lf obtain a b where s: "s = a @ LF # b" and b: "LF \<notin> set b" by (meson split_list_last)
  have "takeWhile (\<lambda>c. c \<noteq> LF) (rev s) = rev b"
    unfolding s using b by (simp add: takeWhile_append takeWhile_eq_all_conv)
  with n s have "n = Suc (length a)" by simp
  with s b show ?thesis by simp
qed

lemma push_lines:
  "map pl_line (pending (foldl (push_line L t) i ls)) = map pl_line (pending i) @ ls
   \<and> partial (foldl (push_line L t) i ls) = partial i"
  by (induction ls arbitrary: i) (auto simp: push_line_def Let_def)

text \<open>
  \<open>buffer_holds sent rel i\<close>: the text \<open>sent\<close> of a stream is in the lines \<open>rel\<close> released so far, the pending lines of its buffer
  \<open>i\<close> and the line there that is not complete yet.
\<close>

definition lines_so_far :: "string list \<Rightarrow> merger_input \<Rightarrow> string list" where
  "lines_so_far rel i = rel @ map pl_line (pending i)"

definition buffer_holds :: "string \<Rightarrow> string list \<Rightarrow> merger_input \<Rightarrow> bool" where
  "buffer_holds sent rel i \<longleftrightarrow>
     (\<exists>whole. sent = whole @ partial i \<and> (whole = [] \<or> last whole = LF) \<and> LF \<notin> set (partial i)
        \<and> split_inclusive LF whole = lines_so_far rel i)"

lemma buffer_holds_empty: "buffer_holds [] [] empty_input"
  by (simp add: buffer_holds_def lines_so_far_def empty_input_def)

lemma buffer_holds_push:
  assumes "buffer_holds sent rel i"
  shows "buffer_holds (sent @ data) rel (push_input L data t i)"
proof -
  from assms obtain whole where w: "sent = whole @ partial i" "whole = [] \<or> last whole = LF" "LF \<notin> set (partial i)"
    "split_inclusive LF whole = lines_so_far rel i" by (auto simp: buffer_holds_def)
  let ?buf = "partial i @ data"
  show ?thesis
  proof (cases "complete_length ?buf")
    case None
    then have "push_input L data t i = i\<lparr>partial := ?buf\<rparr>" by (simp add: push_input_def Let_def)
    moreover have "LF \<notin> set ?buf" using None by (simp only: complete_length_None not_False_eq_True)
    ultimately show ?thesis using w by (auto simp: buffer_holds_def lines_so_far_def intro!: exI [of _ whole])
  next
    case (Some n)
    note c = complete_length_Some [OF Some]
    let ?i = "push_input L data t i"
    have i: "?i = foldl (push_line L t) (i\<lparr>partial := drop n ?buf\<rparr>) (split_inclusive LF (take n ?buf))"
      using Some by (simp add: push_input_def Let_def)
    have p: "partial ?i = drop n ?buf" and q: "map pl_line (pending ?i) = map pl_line (pending i) @ split_inclusive LF (take n ?buf)"
      unfolding i push_lines [THEN conjunct1] push_lines [THEN conjunct2] by simp_all
    have "split_inclusive LF (whole @ take n ?buf) = lines_so_far rel ?i"
      using split_inclusive_append [OF w(2)] w(4) q by (simp add: lines_so_far_def)
    moreover have "sent @ data = (whole @ take n ?buf) @ partial ?i"
      using w(1) p by (metis append.assoc append_take_drop_id)
    moreover have "last (whole @ take n ?buf) = LF" using c by (metis last_appendR)
    ultimately show ?thesis using c p unfolding buffer_holds_def by metis
  qed
qed

lemma finish_input_lines:
  assumes "buffer_holds sent rel i"
  shows "lines_so_far rel (finish_input L t i) = split_inclusive LF sent"
proof -
  from assms obtain whole where w: "sent = whole @ partial i" "whole = [] \<or> last whole = LF" "LF \<notin> set (partial i)"
    "split_inclusive LF whole = lines_so_far rel i" by (auto simp: buffer_holds_def)
  show ?thesis
  proof (cases "partial i = []")
    case True
    with w show ?thesis by (simp add: finish_input_def)
  next
    case False
    with w have "split_inclusive LF sent = lines_so_far rel i @ [partial i]"
      by (simp add: split_inclusive_append split_inclusive_no_sep)
    with False show ?thesis by (simp add: finish_input_def lines_so_far_def push_line_def Let_def)
  qed
qed

lemma map_shuffles: "zs \<in> shuffles xs ys \<Longrightarrow> map f zs \<in> shuffles (map f xs) (map f ys)"
  by (induction xs ys arbitrary: zs rule: shuffles.induct) auto

lemma shuffles_append:
  "zs \<in> shuffles xs ys \<Longrightarrow> zs' \<in> shuffles xs' ys' \<Longrightarrow> zs @ zs' \<in> shuffles (xs @ xs') (ys @ ys')"
proof (induction xs ys arbitrary: zs rule: shuffles.induct)
  case (1 ys)
  then show ?case by (induction ys arbitrary: zs) (auto intro: Cons_in_shuffles_rightI)
next
  case (2 xs)
  then show ?case by (induction xs arbitrary: zs) (auto intro: Cons_in_shuffles_leftI)
next
  case (3 x xs y ys)
  then show ?case by auto
qed

lemma merger_ready_step:
  assumes "merger_ready now ended m = (r, m')"
    and "buffer_holds so ro (merger_stdout m)" and "buffer_holds se re (merger_stderr m)"
  obtains xs ys zs where "zs \<in> shuffles xs ys" and "list_all2 same_line r zs"
    and "buffer_holds so (ro @ xs) (merger_stdout m')" and "buffer_holds se (re @ ys) (merger_stderr m')"
    and "lines_so_far (ro @ xs) (merger_stdout m') = lines_so_far ro (merger_stdout m)"
    and "lines_so_far (re @ ys) (merger_stderr m') = lines_so_far re (merger_stderr m)"
    and "ended \<Longrightarrow> pending (merger_stdout m') = [] \<and> pending (merger_stderr m') = []"
proof -
  obtain q1 q2 where rl: "ready_lines now ended (pending (merger_stdout m)) (pending (merger_stderr m)) = (r, q1, q2)"
    and m': "m' = m\<lparr>merger_stdout := (merger_stdout m)\<lparr>pending := q1\<rparr>, merger_stderr := (merger_stderr m)\<lparr>pending := q2\<rparr>\<rparr>"
    using assms(1) by (auto simp: merger_ready_def split: prod.splits)
  from ready_lines_interleaves [OF rl] obtain xs ys zs where q: "pending (merger_stdout m) = xs @ q1"
    "pending (merger_stderr m) = ys @ q2" and zs: "zs \<in> shuffles xs ys" "list_all2 same_line r (map pl_line zs)" by blast
  show thesis
  proof (rule that [of "map pl_line zs" "map pl_line xs" "map pl_line ys"])
    show "map pl_line zs \<in> shuffles (map pl_line xs) (map pl_line ys)" by (rule map_shuffles [OF zs(1)])
    show "ended \<Longrightarrow> pending (merger_stdout m') = [] \<and> pending (merger_stderr m') = []"
      using ready_lines_ended [of now] rl m' by auto
  qed (use zs q assms(2,3) m' in \<open>simp_all add: buffer_holds_def lines_so_far_def\<close>)
qed

definition sent_on :: "output_stream \<Rightarrow> (stream_event \<times> int \<times> int) list \<Rightarrow> string" where
  "sent_on kind evs = concat (map (\<lambda>(ev, _). case ev of Chunk k data \<Rightarrow> if k = kind then data else [] | _ \<Rightarrow> []) evs)"

lemma on_input_other:
  "k \<noteq> Stdout \<Longrightarrow> merger_stdout (on_input k g m) = merger_stdout m"
  "k \<noteq> Stderr \<Longrightarrow> merger_stderr (on_input k g m) = merger_stderr m"
  by (cases k; simp)+

text \<open>One event of a followed log without a byte limit, seen from its buffer.\<close>

lemma stream_step_unlimited:
  assumes "input_has_timestamps f" and "ss_remaining st = None" and "ev \<noteq> Closed"
    and "buffer_holds so ro (merger_stdout (ss_merger st))" and "buffer_holds se re (merger_stderr (ss_merger st))"
  obtains r xs ys zs st' where "stream_step L f st ev received now = (concat (map (filter_line L f) r), False, st')"
    and "ss_remaining st' = None" and "zs \<in> shuffles xs ys" and "list_all2 same_line r zs"
    and "buffer_holds (so @ sent_on Stdout [(ev, received, now)]) (ro @ xs) (merger_stdout (ss_merger st'))"
    and "buffer_holds (se @ sent_on Stderr [(ev, received, now)]) (re @ ys) (merger_stderr (ss_merger st'))"
proof -
  let ?m = "case ev of Chunk kind data \<Rightarrow> merger_push L kind data received (ss_merger st) | _ \<Rightarrow> ss_merger st"
  obtain r m' where r: "merger_ready now False ?m = (r, m')" by (cases "merger_ready now False ?m")
  have "buffer_holds (so @ sent_on Stdout [(ev, received, now)]) ro (merger_stdout ?m)"
    and "buffer_holds (se @ sent_on Stderr [(ev, received, now)]) re (merger_stderr ?m)"
    using assms(4,5) buffer_holds_push
    by (auto simp: sent_on_def merger_push_def on_input_other split: stream_event.split)
  from merger_ready_step [OF r this] obtain xs ys zs where "zs \<in> shuffles xs ys" "list_all2 same_line r zs"
    "buffer_holds (so @ sent_on Stdout [(ev, received, now)]) (ro @ xs) (merger_stdout m')"
    "buffer_holds (se @ sent_on Stderr [(ev, received, now)]) (re @ ys) (merger_stderr m')" by blast
  moreover have "stream_step L f st ev received now = (concat (map (filter_line L f) r), False, st\<lparr>ss_merger := m'\<rparr>)"
    using r assms(1-3) by (cases ev) (simp_all add: stream_step_def)
  ultimately show thesis using assms(2) by (intro that [of r "st\<lparr>ss_merger := m'\<rparr>" zs xs ys]) simp_all
qed

lemma stream_closed:
  assumes "input_has_timestamps f" and "ss_remaining st = None"
    and "buffer_holds so ro (merger_stdout (ss_merger st))" and "buffer_holds se re (merger_stderr (ss_merger st))"
  obtains r xs ys zs where "concat (stream_loop L f st [(Closed, received, now)]) = concat (map (filter_line L f) r)"
    and "zs \<in> shuffles xs ys" and "list_all2 same_line r zs"
    and "ro @ xs = split_inclusive LF so" and "re @ ys = split_inclusive LF se"
proof -
  let ?m = "merger_finish L received (ss_merger st)"
  obtain r m' where r: "merger_ready now True ?m = (r, m')" by (cases "merger_ready now True ?m")
  obtain q1 q2 where rl: "ready_lines now True (pending (merger_stdout ?m)) (pending (merger_stderr ?m)) = (r, q1, q2)"
    using r by (auto simp: merger_ready_def split: prod.splits)
  with ready_lines_ended [OF rl] ready_lines_interleaves [OF rl] obtain zs
    where zs: "zs \<in> shuffles (pending (merger_stdout ?m)) (pending (merger_stderr ?m))" "list_all2 same_line r (map pl_line zs)"
    by auto
  have lines: "lines_so_far ro (merger_stdout ?m) = split_inclusive LF so" "lines_so_far re (merger_stderr ?m) = split_inclusive LF se"
    using finish_input_lines [OF assms(3)] finish_input_lines [OF assms(4)] by (simp_all add: merger_finish_def)
  have "stream_step L f st Closed received now = (concat (map (filter_line L f) r), True, st\<lparr>ss_merger := m'\<rparr>)"
    using r assms(1,2) by (simp add: stream_step_def)
  then have "concat (stream_loop L f st [(Closed, received, now)]) = concat (map (filter_line L f) r)" by simp
  from that [OF this map_shuffles [OF zs(1)] zs(2)] lines show thesis by (simp add: lines_so_far_def)
qed

lemma sent_on_Cons: "sent_on k (ev # evs) = sent_on k [ev] @ sent_on k evs"
  by (simp add: sent_on_def)

lemma followed_lines:
  assumes "input_has_timestamps f" and "ss_remaining st = None" and "\<forall>(ev, _) \<in> set evs. ev \<noteq> Closed"
    and "buffer_holds so ro (merger_stdout (ss_merger st))" and "buffer_holds se re (merger_stderr (ss_merger st))"
  shows "\<exists>r xs ys zs. concat (stream_loop L f st (evs @ [(Closed, received, now)])) = concat (map (filter_line L f) r)
      \<and> zs \<in> shuffles xs ys \<and> list_all2 same_line r zs
      \<and> ro @ xs = split_inclusive LF (so @ sent_on Stdout evs) \<and> re @ ys = split_inclusive LF (se @ sent_on Stderr evs)"
  using assms
proof (induction evs arbitrary: st so se ro re)
  case Nil
  obtain r xs ys zs where "concat (stream_loop L f st [(Closed, received, now)]) = concat (map (filter_line L f) r)"
    "zs \<in> shuffles xs ys" "list_all2 same_line r zs" "ro @ xs = split_inclusive LF so" "re @ ys = split_inclusive LF se"
    using stream_closed [OF Nil(1,2,4,5)] .
  then show ?case by (auto simp: sent_on_def)
next
  case (Cons e evs)
  obtain ev t u where e: "e = (ev, t, u)" by (cases e)
  from Cons.prems(3) e have "ev \<noteq> Closed" by auto
  from stream_step_unlimited [OF Cons.prems(1,2) this Cons.prems(4,5)]
  obtain r xs ys zs st' where step: "stream_step L f st ev t u = (concat (map (filter_line L f) r), False, st')"
    and st': "ss_remaining st' = None" and zs: "zs \<in> shuffles xs ys" "list_all2 same_line r zs"
    and held: "buffer_holds (so @ sent_on Stdout [(ev, t, u)]) (ro @ xs) (merger_stdout (ss_merger st'))"
      "buffer_holds (se @ sent_on Stderr [(ev, t, u)]) (re @ ys) (merger_stderr (ss_merger st'))" .
  from Cons.IH [OF Cons.prems(1) st' _ held] Cons.prems(3) obtain r' xs' ys' zs'
    where ih: "concat (stream_loop L f st' (evs @ [(Closed, received, now)])) = concat (map (filter_line L f) r')"
      "zs' \<in> shuffles xs' ys'" "list_all2 same_line r' zs'"
      "(ro @ xs) @ xs' = split_inclusive LF ((so @ sent_on Stdout [(ev, t, u)]) @ sent_on Stdout evs)"
      "(re @ ys) @ ys' = split_inclusive LF ((se @ sent_on Stderr [(ev, t, u)]) @ sent_on Stderr evs)" by auto
  have "concat (stream_loop L f st ((e # evs) @ [(Closed, received, now)])) = concat (map (filter_line L f) (r @ r'))"
    using step ih(1) by (simp add: e)
  moreover have "zs @ zs' \<in> shuffles (xs @ xs') (ys @ ys')" by (rule shuffles_append [OF zs(1) ih(2)])
  moreover have "list_all2 same_line (r @ r') (zs @ zs')" using zs(2) ih(3) by (rule list_all2_appendI)
  moreover have "ro @ xs @ xs' = split_inclusive LF (so @ sent_on Stdout (e # evs))"
    using ih(4) by (simp add: e sent_on_Cons [of Stdout "(ev, t, u)" evs])
  moreover have "re @ ys @ ys' = split_inclusive LF (se @ sent_on Stderr (e # evs))"
    using ih(5) by (simp add: e sent_on_Cons [of Stderr "(ev, t, u)" evs])
  ultimately show ?case by blast
qed

lemma filter_line_limit: "filter_line L (f\<lparr>limit_bytes := l\<rparr>) = filter_line L f"
  by (auto simp: fun_eq_iff filter_line_def split: option.split)

text \<open>A byte limit changes nothing about a step except that its output is cut when the limit is reached.\<close>

lemma stream_step_limited:
  assumes "stream_step L f \<lparr>ss_merger = m, ss_remaining = None\<rparr> ev t u = (out, fin, st')"
  obtains m' where "st' = \<lparr>ss_merger = m', ss_remaining = None\<rparr>"
    and "stream_step L (f\<lparr>limit_bytes := l\<rparr>) \<lparr>ss_merger = m, ss_remaining = Some n\<rparr> ev t u =
       (if n \<le> length out then (take n out, True, \<lparr>ss_merger = m', ss_remaining = Some 0\<rparr>)
        else (out, fin, \<lparr>ss_merger = m', ss_remaining = Some (n - length out)\<rparr>))"
  using assms
  by (cases ev; cases "input_has_timestamps f")
     (auto simp: stream_step_def Let_def filter_line_limit split: prod.splits if_splits)

lemma concat_stream_loop_Cons:
  "concat (stream_loop L f st ((ev, t, u) # evs)) =
     (case stream_step L f st ev t u of (out, fin, st') \<Rightarrow> out @ (if fin then [] else concat (stream_loop L f st' evs)))"
  by (auto split: prod.split)

lemma stream_loop_limited:
  "concat (stream_loop L (f\<lparr>limit_bytes := l\<rparr>) \<lparr>ss_merger = m, ss_remaining = Some n\<rparr> evs)
     = take n (concat (stream_loop L f \<lparr>ss_merger = m, ss_remaining = None\<rparr> evs))"
proof (induction evs arbitrary: m n)
  case (Cons e evs)
  obtain ev t u where e: "e = (ev, t, u)" by (cases e)
  obtain out fin st' where step: "stream_step L f \<lparr>ss_merger = m, ss_remaining = None\<rparr> ev t u = (out, fin, st')"
    by (cases "stream_step L f \<lparr>ss_merger = m, ss_remaining = None\<rparr> ev t u")
  from stream_step_limited [OF step, of l n] obtain m' where st': "st' = \<lparr>ss_merger = m', ss_remaining = None\<rparr>"
    and lim: "stream_step L (f\<lparr>limit_bytes := l\<rparr>) \<lparr>ss_merger = m, ss_remaining = Some n\<rparr> ev t u =
       (if n \<le> length out then (take n out, True, \<lparr>ss_merger = m', ss_remaining = Some 0\<rparr>)
        else (out, fin, \<lparr>ss_merger = m', ss_remaining = Some (n - length out)\<rparr>))" .
  show ?case
    by (cases "n \<le> length out"; cases fin) (simp_all add: e concat_stream_loop_Cons step lim st' Cons.IH del: stream_loop.simps)
qed simp

section \<open>Properties\<close>

text \<open>
  Merging complete logs is a stable sort by time: the merged log is in order of time, and for each time its lines are those of the
  input, in the input's order. Only a line feed may be added to a line that lacked one.
\<close>

theorem merge_is_stable_sort:
  "sorted (map fst (tagged_lines L [merge_by_timestamp L streams])) \<and>
   list_all2 same_line
     (map snd (filter (\<lambda>x. fst x = k) (tagged_lines L [merge_by_timestamp L streams])))
     (map snd (filter (\<lambda>x. fst x = k) (tagged_lines L streams)))"
proof -
  let ?xs = "sort_key fst (tagged_lines L streams)"
  have "filter (\<lambda>x. fst x = k) ?xs = filter (\<lambda>x. fst x = k) (tagged_lines L streams)"
    by (rule sort_key_stable)
  then show ?thesis
    using same_line_filtered [OF same_line_join_lines [of "map snd ?xs"], of k]
    by (simp add: tagged_lines_merge)
qed

text \<open>
  Merging a merged log changes nothing, so a log that was merged when it was stored reads the same when a request merges it again.
\<close>

theorem merge_idempotent: "merge_by_timestamp L [merge_by_timestamp L streams] = merge_by_timestamp L streams"
proof -
  let ?xs = "sort_key fst (tagged_lines L streams)"
  let ?zs = "zip (map fst ?xs) (join_lines (map snd ?xs))"
  have shape: "log_lines (join_lines (map snd ?xs))" by (rule log_lines_join) (auto dest: lines_of_tagged)
  have "sort_key fst ?zs = ?zs" by (simp add: sort_key_id_if_sorted)
  then show ?thesis
    using join_lines_id [OF shape] by (simp add: merge_by_timestamp_def [of L "[_]"] tagged_lines_merge)
       (simp add: merge_by_timestamp_def)
qed

text \<open>
  C16. A followed log is complete: when the command has ended, what the client received is the filtered lines of an interleaving of the lines of
  standard output and of standard error, whatever the chunks were and whenever they arrived. Only a line feed may be added to a line.
\<close>

theorem followed_log_complete:
  assumes "input_has_timestamps f" and "limit_bytes f = None" and "\<forall>(ev, _) \<in> set evs. ev \<noteq> Closed"
  shows "\<exists>r zs. concat (apply_stream L f (evs @ [(Closed, received, now)])) = concat (map (filter_line L f) r)
      \<and> list_all2 same_line r zs
      \<and> zs \<in> shuffles (split_inclusive LF (sent_on Stdout evs)) (split_inclusive LF (sent_on Stderr evs))"
proof -
  have "buffer_holds [] [] (merger_stdout (ss_merger \<lparr>ss_merger = empty_merger, ss_remaining = None\<rparr>))"
    "buffer_holds [] [] (merger_stderr (ss_merger \<lparr>ss_merger = empty_merger, ss_remaining = None\<rparr>))"
    by (simp_all add: empty_merger_def buffer_holds_empty)
  from followed_lines [OF assms(1) _ assms(3) this, of L received now] show ?thesis
    by (auto simp: apply_stream_def assms(2))
qed

theorem followed_log_complete_witness:
  "\<exists>r. concat (apply_stream demo_services \<lparr>input_has_timestamps = True, timestamps = False, since = None, limit_bytes = None\<rparr>
        [(Chunk Stderr ''2 b'', 0, 0), (Chunk Stdout (''1 a'' @ [LF]), 0, 0), (Closed, 9, 9)])
      = concat (map (filter_line demo_services \<lparr>input_has_timestamps = True, timestamps = False, since = None, limit_bytes = None\<rparr>) r)
      \<and> length r = 2"
proof -
  let ?f = "\<lparr>input_has_timestamps = True, timestamps = False, since = None, limit_bytes = None\<rparr>"
  obtain r zs where r: "concat (apply_stream demo_services ?f ([(Chunk Stderr ''2 b'', 0, 0), (Chunk Stdout (''1 a'' @ [LF]), 0, 0)]
        @ [(Closed, 9, 9)])) = concat (map (filter_line demo_services ?f) r)" and "list_all2 same_line r zs"
    and "zs \<in> shuffles (split_inclusive LF (''1 a'' @ [LF])) (split_inclusive LF ''2 b'')"
    using followed_log_complete [of ?f "[(Chunk Stderr ''2 b'', 0, 0), (Chunk Stdout (''1 a'' @ [LF]), 0, 0)]" demo_services 9 9]
    by (auto simp: sent_on_def)
  then have "length r = 2" by (auto dest!: list_all2_lengthD length_shuffles simp: LF_def)
  with r show ?thesis by auto
qed

text \<open>
  A byte limit on a followed log cuts the text and changes nothing else: the client gets the first bytes of what it would get without.
\<close>

theorem byte_limit_cuts:
  "concat (apply_stream L (f\<lparr>limit_bytes := Some n\<rparr>) evs) = take n (concat (apply_stream L (f\<lparr>limit_bytes := None\<rparr>) evs))"
  using stream_loop_limited [where L = L and f = "f\<lparr>limit_bytes := None\<rparr>" and l = "Some n" and m = empty_merger and n = n and evs = evs] by (simp add: apply_stream_def)

end
