(* ===== verification/CostProps.thy ===== *)
theory CostProps
  imports Pricing Demo
begin

text \<open>
  What holds of worker sizing (\<open>workload.rs\<close>) and of the rolling budget (\<open>pricing/mod.rs\<close>): the plan query's answer is the least fitting
  plan, accrual never takes anything away, a top-up never leaves a negative balance, the admission check decides as documented, and
  a refused change of settings changes none.
\<close>

section \<open>Functions that only read\<close>

lemma estimate_same_db: "estimate_job_cost S zone spec deadline currency w = (r, w') \<Longrightarrow> db w' = db w"
  by (rule same_dbD [OF same_db.keeps_estimate])

lemma convert_same_db: "convert S amount a b w = (r, w') \<Longrightarrow> db w' = db w"
  by (rule same_dbD [OF same_db.keeps_convert])

lemma sql_exec_budget:
  assumes "sql_exec S (update_budget f) w = (Inr (), w')" and "budget_state (db w) = Some row"
  shows "db w' = (db w)\<lparr>budget_state := Some (f row)\<rparr> \<and> bs_balance (f row) \<noteq> NaN"
  using assms by (auto simp: sql_exec_def lift_ext_eq update_budget_def not_null_def rbind_def split: option.splits sum.splits if_splits)

lemma committed_budget_run:
  "committed_budget S w = (Inr c, w') \<Longrightarrow> db w' = db w \<and> c = f64_sum (committed_costs (db w))"
  by (auto simp: committed_budget_def sql_query_def lift_ext_eq split: option.splits)

text \<open>
  The claim the unfinished runs lay on the balance: the estimates of the jobs in one of the thirteen states before completion. A job that has
  succeeded or failed claims nothing any more, while its cleanup still runs.
\<close>

definition unfinished_states :: "string list" where
  "unfinished_states =
     [''Created'', ''VolumePending'', ''VolumeCreating'', ''VolumeCreated'', ''VMPending'', ''FirewallApplying'', ''FirewallVerified'',
      ''VMCreating'', ''VMRunning'', ''VolumeAttaching'', ''VolumeAttached'', ''ContainerConfiguring'', ''ContainerRunning'']"

definition claimed :: "job_row list \<Rightarrow> f64" where
  "claimed rows =
     f64_sum (map (the \<circ> j_estimated_cost) (filter (\<lambda>r. j_estimated_cost r \<noteq> None \<and> j_status r \<in> set unfinished_states) rows))"

text \<open>
  What the budget allows, with the balance as settled: a cost is within it when there is no budget or no positive daily rate, when it is not
  known, or when the balance covers it after all claims.
\<close>

definition within_budget :: "job_row list \<Rightarrow> budget_row option \<Rightarrow> f64 option \<Rightarrow> bool" where
  "within_budget rows budget cost =
     (case (budget, cost) of
        (Some b, Some c) \<Rightarrow> f64_le (bs_budget_daily_rate b) (Fin 0) \<or> f64_le c (f64_sub (bs_balance b) (claimed rows))
      | _ \<Rightarrow> True)"

lemma pre_completion_iff_unfinished: "is_pre_completion_state s \<longleftrightarrow> s \<in> set unfinished_states"
proof (cases "recognised s")
  case True
  then show ?thesis
    by (cases rule: recognised_cases)
       (simp_all add: is_pre_completion_state_def succeeded_index_def STATE_SEQUENCE_def unfinished_states_def)
next
  case False
  then show ?thesis by (auto simp: is_pre_completion_rank) (auto simp: recognised_def STATE_SEQUENCE_def unfinished_states_def)
qed

lemma committed_is_claimed: "f64_sum (committed_costs d) = claimed (jobs d)"
proof -
  have rows: "[c. r \<leftarrow> rs, c \<leftarrow> (case j_estimated_cost r of Some c \<Rightarrow> [c] | None \<Rightarrow> []),
        j_status r \<noteq> TERMINAL_STATE, j_status r \<in> set unfinished_states] =
      map (the \<circ> j_estimated_cost) (filter (\<lambda>r. j_estimated_cost r \<noteq> None \<and> j_status r \<in> set unfinished_states) rs)" for rs
    by (induction rs) (auto simp: TERMINAL_STATE_def unfinished_states_def)
  have "committed_costs d =
      map (the \<circ> j_estimated_cost) (filter (\<lambda>r. j_estimated_cost r \<noteq> None \<and> j_status r \<in> set unfinished_states) (jobs d))"
    unfolding committed_costs_def pre_completion_iff_unfinished
    by (rule rows)
  then show ?thesis by (simp add: claimed_def)
qed

lemma available_budget_effect:
  assumes "available_budget S w = (Inr available, w')"
  shows "case budget_state (db w) of
       None \<Rightarrow> available = None \<and> db w' = db w
     | Some row \<Rightarrow> \<exists>now.
         if f64_le (bs_budget_daily_rate row) (Fin 0)
         then available = None \<and> db w' = (db w)\<lparr>budget_state := Some (row\<lparr>bs_last_accrual_at := now\<rparr>)\<rparr>
         else (let balance = f64_add (bs_balance row) (accrued_amount row now)
               in available = Some (f64_sub balance (claimed (jobs (db w))))
                  \<and> db w' = (db w)\<lparr>budget_state := Some (row\<lparr>bs_balance := balance, bs_last_accrual_at := now\<rparr>)\<rparr>)"
proof -
  from assms obtain r w1 where settle: "settle_accrual S w = (Inr r, w1)"
    and k: "(case r of None \<Rightarrow> ret None
         | Some (balance, settings) \<Rightarrow>
             if f64_le (budget_daily_rate settings) (Fin 0) then ret None
             else bnd (committed_budget S) (\<lambda>committed. ret (Some (f64_sub balance committed)))) w1 = (Inr available, w')"
    by (auto simp: available_budget_def bnd_returns)
  from settle show ?thesis
  proof (cases rule: settle_accrual_run)
    case unseeded
    with k show ?thesis by auto
  next
    case (disabled row now)
    with k show ?thesis by (auto simp: settings_of_def)
  next
    case (accrued row now new)
    with k obtain c where "committed_budget S w1 = (Inr c, w')" and "available = Some (f64_sub new c)"
      by (auto simp: settings_of_def bnd_returns)
    with accrued show ?thesis by (auto simp: Let_def committed_is_claimed claimed_def dest!: committed_budget_run)
  qed
qed

lemma check_budget_effect:
  assumes "check_budget S zone spec deadline currency w = (Inr (cost, sufficient_budget), w')"
  shows "(\<exists>w1. estimate_job_cost S zone spec deadline currency w = (Inr cost, w1)) \<and>
    (case budget_state (db w) of
       None \<Rightarrow> sufficient_budget \<and> db w' = db w
     | Some row \<Rightarrow> \<exists>now.
         if f64_le (bs_budget_daily_rate row) (Fin 0)
         then sufficient_budget \<and> db w' = (db w)\<lparr>budget_state := Some (row\<lparr>bs_last_accrual_at := now\<rparr>)\<rparr>
         else (let balance = f64_add (bs_balance row) (accrued_amount row now)
               in (sufficient_budget \<longleftrightarrow> cost = None \<or> f64_le (the cost) (f64_sub balance (claimed (jobs (db w)))))
                  \<and> db w' = (db w)\<lparr>budget_state := Some (row\<lparr>bs_balance := balance, bs_last_accrual_at := now\<rparr>)\<rparr>))"
proof -
  from assms obtain w1 available where e: "estimate_job_cost S zone spec deadline currency w = (Inr cost, w1)"
    and a: "available_budget S w1 = (Inr available, w')" and s: "sufficient_budget = sufficient available cost"
    by (auto simp: check_budget_def bnd_returns)
  have same: "db w1 = db w" by (rule estimate_same_db [OF e])
  note effect = available_budget_effect [OF a, unfolded same]
  have "available = None \<Longrightarrow> sufficient_budget" by (simp add: s sufficient_def)
  moreover have "available = Some x \<Longrightarrow> sufficient_budget \<longleftrightarrow> cost = None \<or> f64_le (the cost) x" for x
    by (cases cost) (simp_all add: s sufficient_def)
  ultimately show ?thesis
    using effect exI [of "\<lambda>w1. estimate_job_cost S zone spec deadline currency w = (Inr cost, w1)", OF e]
    by (cases "budget_state (db w)") (simp_all add: Let_def split: if_splits, blast+)
qed

lemma check_budget_settled:
  assumes "check_budget S zone spec deadline currency w = (Inr (cost, enough), w')"
  shows "(enough \<longleftrightarrow> within_budget (jobs (db w)) (budget_state (db w')) cost) \<and> (\<exists>w1. estimate_job_cost S zone spec deadline currency w = (Inr cost, w1))"
proof (cases "budget_state (db w)")
  case None
  with check_budget_effect [OF assms] show ?thesis by (auto simp: within_budget_def)
next
  case (Some row)
  note effect = check_budget_effect [OF assms, unfolded Some option.case]
  then obtain now where e: "if f64_le (bs_budget_daily_rate row) (Fin 0)
         then enough \<and> db w' = (db w)\<lparr>budget_state := Some (row\<lparr>bs_last_accrual_at := now\<rparr>)\<rparr>
         else (let balance = f64_add (bs_balance row) (accrued_amount row now)
               in (enough \<longleftrightarrow> cost = None \<or> f64_le (the cost) (f64_sub balance (claimed (jobs (db w)))))
                  \<and> db w' = (db w)\<lparr>budget_state := Some (row\<lparr>bs_balance := balance, bs_last_accrual_at := now\<rparr>)\<rparr>)"
    by blast
  have "enough \<longleftrightarrow> within_budget (jobs (db w)) (budget_state (db w')) cost"
    using e by (cases cost; cases "f64_le (bs_budget_daily_rate row) (Fin 0)") (simp_all add: within_budget_def Let_def)
  with effect show ?thesis by blast
qed

text \<open>
  What the budget guard checked of a run that was let through on the tables \<open>d\<close>, leaving \<open>d'\<close>: a deadline given, the cost is the estimate for that
  deadline in the budget's currency, and it is within the budget.
\<close>

definition currency_of :: "string \<Rightarrow> database \<Rightarrow> string" where
  "currency_of fallback d = (case budget_state d of Some b \<Rightarrow> bs_main_currency b | None \<Rightarrow> fallback)"

definition cost_covered :: "'x services \<Rightarrow> string \<Rightarrow> string \<Rightarrow> json \<Rightarrow> int \<Rightarrow> f64 option \<Rightarrow> database \<Rightarrow> database \<Rightarrow> bool" where
  "cost_covered S zone fallback spec deadline cost d d' \<longleftrightarrow>
     within_budget (jobs d) (budget_state d') cost
     \<and> (\<exists>v v'. db v = d \<and> estimate_job_cost S zone spec deadline (currency_of fallback d) v = (Inr cost, v'))"

lemma effective_main_currency_run:
  assumes "effective_main_currency S fallback w = (Inr currency, w')"
  shows "db w' = db w \<and> currency = currency_of fallback (db w)"
  using assms
  by (auto simp: effective_main_currency_def current_settings_def fetch_budget_row_def bnd_returns sql_query_def lift_ext_eq currency_of_def settings_of_def
      split: option.splits)

lemma check_budget_covered:
  assumes "effective_main_currency S fallback w = (Inr currency, v)"
    and "check_budget S zone spec deadline currency v = (Inr (cost, True), w')"
  shows "cost_covered S zone fallback spec deadline cost (db w) (db w')"
proof -
  from effective_main_currency_run [OF assms(1)] have v: "db v = db w" and c: "currency = currency_of fallback (db w)" by simp_all
  from check_budget_settled [OF assms(2)] show ?thesis
    unfolding cost_covered_def v [symmetric] c [unfolded v [symmetric], symmetric] by blast
qed

lemma not_Internal:
  "io_map_err Internal m w \<noteq> (Inl (CurrencyConversionUnavailable a b), w')"
  "io_map_err Internal m w \<noteq> (Inl NotSeeded, w')"
  by (auto simp: io_map_err_def map_err_def split: prod.splits sum.splits)

lemma convert_or_conflict_same_db: "convert_or_conflict S amount x y w = (r, w') \<Longrightarrow> db w' = db w"
  by (auto simp: convert_or_conflict_def bnd_def io_map_err_def of_result_def split: prod.splits sum.splits dest!: convert_same_db)

lemma convert_or_conflict_refused:
  "convert_or_conflict S amount x y w = (Inl (CurrencyConversionUnavailable a b), w') \<Longrightarrow> a = x \<and> b = y \<and> db w' = db w"
  by (frule convert_or_conflict_same_db) (auto simp: convert_or_conflict_def bnd_fails not_Internal of_result_def ok_or_def split: option.splits)

lemma change_currency_refused:
  assumes "change_currency S patch balance settings w = (Inl (CurrencyConversionUnavailable a b), w')"
  shows "db w' = db w \<and> sp_main_currency patch = Some b \<and> a = main_currency settings"
  using assms
  by (auto simp: change_currency_def bnd_fails bnd_returns split: option.splits if_splits
      dest!: convert_or_conflict_refused dest: convert_or_conflict_same_db)

section \<open>An example\<close>

definition demo_plan :: "string \<Rightarrow> nat \<Rightarrow> plan_row" where
  "demo_plan name cores = \<lparr>pl_name = name, pl_cpu_cores = cores, pl_memory_mb = 4096, pl_storage_gb = 20, pl_storage_tier = None,
                          pl_fetched_at = 0\<rparr>"

definition plans_world :: "plan_row list \<Rightarrow> nat world" where
  "plans_world plans = \<lparr>db = (demo_db ''Pending'' 900)\<lparr>provider_plans := plans\<rparr>, ext = 0\<rparr>"

text \<open>A budget of 2 a day that may pile up for 10 days, with a balance above that cap.\<close>

definition demo_budget :: "f64 \<Rightarrow> budget_row" where
  "demo_budget balance = \<lparr>bs_balance = balance, bs_last_accrual_at = 0, bs_main_currency = ''EUR'', bs_budget_daily_rate = Fin 2,
                         bs_budget_rollover_cap_days = 10\<rparr>"

definition budget_world :: "f64 \<Rightarrow> nat world" where
  "budget_world balance = \<lparr>db = (demo_db ''Pending'' 900)\<lparr>budget_state := Some (demo_budget balance)\<rparr>, ext = 0\<rparr>"

lemma accrued_500_at: "accrued_amount ((demo_budget (Fin 500))\<lparr>bs_last_accrual_at := t\<rparr>) now = Fin 0"
proof (rule accrued_none_above_cap [where r = 2])
  have "rnd 10 = Fin 10" "rnd 20 = Fin 20" "rnd (- 480) = Fin (- 480)"
    using rnd_of_int [of 10] rnd_of_int [of 20] rnd_of_int [of "- 480"] by simp_all
  then show "room_left_below_cap ((demo_budget (Fin 500))\<lparr>bs_last_accrual_at := t\<rparr>) = Fin 0"
    by (simp add: room_left_below_cap_def demo_budget_def f64_of_int_def f64_mul_def f64_sub_def f64_max_def)
qed (simp_all add: demo_budget_def)

lemma accrued_500: "accrued_amount (demo_budget (Fin 500)) now = Fin 0"
  using accrued_500_at [of 0 now] by (simp add: demo_budget_def)

lemma rnd_500: "rnd 500 = Fin 500"
  using rnd_of_int [of 500] by simp

lemmas budget_run_simps = settle_accrual_def fetch_budget_row_def io_defs sql_query_def sql_exec_def lift_ext_eq now_ts_eq update_budget_def
  not_null_def budget_world_def settings_of_def demo_db_def demo_services_def rbind_def map_err_def Let_def

lemma demo_settled:
  "\<exists>w'. settle_accrual demo_services (budget_world (Fin 500)) = (Inr (Some (Fin 500, settings_of (demo_budget (Fin 500)))), w')
      \<and> budget_state (db w') = Some ((demo_budget (Fin 500))\<lparr>bs_last_accrual_at := 1000\<rparr>)"
proof -
  let ?b = "demo_budget (Fin 500)"
  have p: "\<not> f64_le (bs_budget_daily_rate ?b) (Fin 0)" "bs_balance ?b = Fin 500" "?b\<lparr>bs_balance := Fin 500\<rparr> = ?b"
    "bs_budget_daily_rate ?b \<noteq> NaN"
    by (simp_all add: demo_budget_def)
  show ?thesis
    by (simp add: budget_run_simps p accrued_500 rnd_500 timestamp_def nanos_per_second_def)
qed

text \<open>
  The same budget with a running job and a finished one, and one plan that costs \<open>price\<close> hundredths an hour.
\<close>

definition claims_world :: "rat \<Rightarrow> nat world" where
  "claims_world price = \<lparr>db = (demo_db ''Pending'' 900)\<lparr>budget_state := Some (demo_budget (Fin 500)),
     provider_plans := [(demo_plan ''only'' 1)\<lparr>pl_storage_gb := 100\<rparr>],
     provider_pricing := [\<lparr>pr_zone = ''de-fra1'', pr_price_key = ''server_plan_only'', pr_amount = Fin 1, pr_price = Fin price,
                           pr_currency = ''EUR'', pr_fetched_at = 0\<rparr>],
     jobs := [(demo_job ''ContainerRunning'' 900)\<lparr>j_estimated_cost := Some (Fin 100)\<rparr>,
              (demo_job ''Succeeded'' 900)\<lparr>j_estimated_cost := Some (Fin 300)\<rparr>]\<rparr>, ext = 0\<rparr>"

lemma demo_budget_at:
  "budget_state ((demo_db st c)\<lparr>budget_state := x\<rparr>) = x" "bs_balance (demo_budget b) = b"
  "\<not> f64_le (bs_budget_daily_rate (demo_budget b)) (Fin 0)" "accrued_amount (demo_budget (Fin 500)) now = Fin 0"
  by (simp_all add: demo_budget_def accrued_500 [unfolded demo_budget_def])

text \<open>Services whose database never fails and whose clock stands still, and a spec that asks for nothing in particular.\<close>

definition quiet :: "nat services \<Rightarrow> bool" where
  "quiet S \<longleftrightarrow> db_fault S = (\<lambda>n. (None, n)) \<and> utc_now S = (\<lambda>n. (1000 * 10 ^ 9, n))"

definition modest :: "json \<Rightarrow> bool" where
  "modest spec \<longleftrightarrow> extract_resource_requests spec = (None, None) \<and> find_ephemeral_volume spec = None"

lemma quiet_demo: "quiet demo_services"
  by (simp add: quiet_def demo_services_def)

lemma modest_JNull: "modest JNull"
  by (simp add: modest_def extract_resource_requests_def find_ephemeral_volume_def Let_def)

lemma quiet_query: "quiet S \<Longrightarrow> sql_query S f w = (Inr (f (db w)), w)"
  by (simp add: sql_query_def lift_ext_eq quiet_def)

lemma claims_estimate:
  assumes "quiet S" and "modest spec" and "price = 45000 \<or> price = 35000"
  shows "estimate_job_cost S ''de-fra1'' spec 3600 ''EUR'' (claims_world price) = (Inr (Some (Fin (price / 100))), claims_world price)"
proof -
  let ?w = "claims_world price"
  have units: "extract_resource_requests spec = (None, None)" "whole_units_for_requests None None = (1, 1)"
    using assms(2) by (simp_all add: modest_def whole_units_for_requests_def unwrap_or_def div_ceil_def)
  have plan: "charged_plan S ''de-fra1'' spec None ?w = (Inr (Some (''only'', 100)), ?w)"
    by (simp add: charged_plan_def units plan_for_resource_requests_def cheapest_fitting_server_plan_def bnd_def ret_def quiet_query [OF assms(1)])
       (simp add: claims_world_def fitting_plans_def demo_plan_def server_plan_of_def)
  have price: "cached_price S ''de-fra1'' ''server_plan_only'' ?w = (Inr (Some (Fin 1, Fin price, ''EUR'')), ?w)"
    by (simp add: cached_price_def quiet_query [OF assms(1)] claims_world_def price_row_def)
  have charges: "bundle_charges S ''de-fra1'' 100 h = ret []" "volume_charges S ''de-fra1'' spec h = ret []" for h
    using assms(2) by (simp_all add: bundle_charges_def plan_bundles_disk_and_ip_def WORKER_BOOT_DISK_GB_def volume_charges_def modest_def)
  have "hours_of 3600 = Fin 1" by (simp add: hours_of_def SECONDS_PER_HOUR_def f64_of_int_def f64_div_def)
  moreover have "unit_cost (Fin price) (Fin 1) = Fin (price / 100)"
    using assms(3) by (auto simp: unit_cost_def f64_div_def)
  moreover have "f64_sum [f64_mul (Fin (price / 100)) (Fin 1)] = Fin (price / 100)"
    using assms(3) by (auto simp: f64_sum_def f64_mul_def)
  ultimately show ?thesis
    by (simp add: estimate_job_cost_def estimate_job_charges_def charge_breakdown_for_duration_def sum_and_convert_def
        bnd_def plan price charges Let_def charge_def convert_def ret_def)
qed

lemma claims_check:
  assumes "quiet S" and "modest spec" and "price = 45000 \<or> price = 35000"
  shows "\<exists>enough. check_budget S ''de-fra1'' spec 3600 ''EUR'' (claims_world price)
    = (Inr (Some (Fin (price / 100)), enough),
       claims_world price\<lparr>db := (db (claims_world price))\<lparr>budget_state := Some ((demo_budget (Fin 500))\<lparr>bs_last_accrual_at := 1000\<rparr>)\<rparr>\<rparr>)"
proof -
  let ?b = "demo_budget (Fin 500)" and ?w = "claims_world price"
  have p: "\<not> f64_le (bs_budget_daily_rate ?b) (Fin 0)" "bs_balance ?b = Fin 500" "bs_budget_daily_rate ?b \<noteq> NaN" "budget_state (db ?w) = Some ?b"
    "?b\<lparr>bs_balance := Fin 500\<rparr> = ?b" "ext ?w = 0"
    by (simp_all add: demo_budget_def claims_world_def)
  have now: "timestamp 1000000000000 = 1000" by (simp add: timestamp_def nanos_per_second_def)
  have "settle_accrual S ?w = (Inr (Some (Fin 500, settings_of ?b)),
      ?w\<lparr>db := (db ?w)\<lparr>budget_state := Some (?b\<lparr>bs_last_accrual_at := 1000\<rparr>)\<rparr>\<rparr>)"
    using assms(1)
    by (simp add: settle_accrual_def fetch_budget_row_def quiet_query io_defs sql_exec_def lift_ext_eq now_ts_eq quiet_def
        Let_def p accrued_500 rnd_500 update_budget_def not_null_def rbind_def now)
  then have "\<exists>a. available_budget S ?w = (Inr a, ?w\<lparr>db := (db ?w)\<lparr>budget_state := Some (?b\<lparr>bs_last_accrual_at := 1000\<rparr>)\<rparr>\<rparr>)"
    by (auto simp: available_budget_def committed_budget_def quiet_query [OF assms(1)] bnd_def ret_def)
  then show ?thesis by (auto simp: check_budget_def bnd_def claims_estimate [OF assms] ret_def)
qed

lemma claims_claimed:
  "budget_state (db (claims_world price)) = Some (demo_budget (Fin 500))"
  "claimed (jobs (db (claims_world price))) = Fin 100"
  by (simp_all add: claims_world_def claimed_def unfinished_states_def f64_sum_def demo_db_def demo_job_def)

lemma apply_topup_run:
  assumes "apply_topup S amount w = (Inr (balance, delta), w')"
  shows "nonneg balance \<and>
    (\<exists>row row'. budget_state (db w) = Some row \<and> db w' = (db w)\<lparr>budget_state := Some row'\<rparr>
        \<and> bs_balance row' = balance \<and> settings_of row' = settings_of row)"
proof -
  from assms obtain r w1 where s: "settle_accrual S w = (Inr r, w1)"
    and k: "(case r of None \<Rightarrow> fail NotSeeded
       | Some (balance, _) \<Rightarrow>
          (let new_balance = f64_max (f64_add balance amount) (Fin 0); applied_delta = f64_sub new_balance balance
           in seq (io_map_err Internal (sql_exec S (update_budget (\<lambda>b. b\<lparr>bs_balance := new_balance\<rparr>))))
                (ret (new_balance, applied_delta)))) w1 = (Inr (balance, delta), w')"
    by (auto simp: apply_topup_def bnd_returns io_map_err_def split: prod.splits sum.splits)
  then obtain old st where r: "r = Some (old, st)" by (cases r) auto
  let ?new = "f64_max (f64_add old amount) (Fin 0)"
  from k r have b: "balance = ?new" and e: "sql_exec S (update_budget (\<lambda>b. b\<lparr>bs_balance := ?new\<rparr>)) w1 = (Inr (), w')"
    by (auto simp: Let_def seq_def bnd_returns io_map_err_def split: prod.splits sum.splits)
  from s r obtain row row1 where "budget_state (db w) = Some row" and "db w1 = (db w)\<lparr>budget_state := Some row1\<rparr>"
    and "settings_of row1 = settings_of row" by (cases rule: settle_accrual_run) (auto simp: settings_of_def)
  with sql_exec_budget [OF e, of row1] b nonneg_max0 show ?thesis by (auto simp: settings_of_def)
qed

section \<open>Properties\<close>

text \<open>
  C14. The plan query finds a plan exactly when one has enough whole cores and gigabytes of memory, and what it finds has at least the requested millicores
  and megabytes (one core and one gigabyte when nothing was requested) and comes first in the order of the query: known price before unknown,
  then cheapest, then fewest cores, least memory, name.
\<close>

theorem chosen_plan_fits_and_is_least:
  assumes "plan_for_resource_requests S zone cpu_millicores memory_mb w = (Inr r, w')"
    and "whole_units_for_requests cpu_millicores memory_mb = (cores, gb)"
  shows "(r = None \<longleftrightarrow> (\<forall>p \<in> set (provider_plans (db w)). \<not> (cores \<le> pl_cpu_cores p \<and> gb * 1024 \<le> pl_memory_mb p)))
    \<and> (\<forall>plan. r = Some plan \<longrightarrow>
         unwrap_or 1000 cpu_millicores \<le> sp_cpu_cores plan * 1000 \<and> unwrap_or 1024 memory_mb \<le> sp_memory_mb plan
         \<and> (\<exists>p \<in> set (provider_plans (db w)). plan = server_plan_of p
              \<and> (\<forall>q \<in> set (provider_plans (db w)). cores \<le> pl_cpu_cores q \<and> gb * 1024 \<le> pl_memory_mb q \<longrightarrow> plan_le (db w) zone p q)))"
proof -
  let ?fit = "fitting_plans (db w) cores gb"
  from assms have r: "r = map_option server_plan_of (first_min (plan_le (db w) zone) ?fit)"
    by (auto simp: plan_for_resource_requests_def cheapest_fitting_server_plan_def sql_query_def lift_ext_eq split: option.splits)
  have "r = None \<longleftrightarrow> ?fit = []" by (simp add: r first_min_None)
  also have "\<dots> \<longleftrightarrow> (\<forall>p \<in> set (provider_plans (db w)). \<not> (cores \<le> pl_cpu_cores p \<and> gb * 1024 \<le> pl_memory_mb p))"
    by (auto simp: fitting_plans_def filter_empty_conv)
  finally have found: "r = None \<longleftrightarrow> \<dots>" .
  have "unwrap_or 1000 cpu_millicores \<le> cores * 1000" "unwrap_or 1024 memory_mb \<le> gb * 1024"
    using assms(2) div_ceil_ge [of 1000] div_ceil_ge [of 1024] by (auto simp: whole_units_for_requests_def)
  moreover have "p \<in> set (provider_plans (db w)) \<and> cores \<le> pl_cpu_cores p \<and> gb * 1024 \<le> pl_memory_mb p
      \<and> (\<forall>q \<in> set (provider_plans (db w)). cores \<le> pl_cpu_cores q \<and> gb * 1024 \<le> pl_memory_mb q \<longrightarrow> plan_le (db w) zone p q)"
    if "first_min (plan_le (db w) zone) ?fit = Some p" for p
    using first_min_in [OF that] plans.first_min_least [OF that] by (auto simp: fitting_plans_iff)
  ultimately show ?thesis using found by (fastforce simp: r server_plan_of_def)
qed

theorem chosen_plan_fits_and_is_least_witness:
  "\<exists>p. fst (plan_for_resource_requests demo_services ''de-fra1'' (Some 1500) None (plans_world [demo_plan ''small'' 1, demo_plan ''big'' 4])) = Inr (Some p)
     \<and> 1500 \<le> sp_cpu_cores p * 1000"
proof -
  let ?w = "plans_world [demo_plan ''small'' 1, demo_plan ''big'' 4]"
  have units: "whole_units_for_requests (Some 1500) None = (2, 1)"
    by (simp add: whole_units_for_requests_def unwrap_or_def div_ceil_def)
  obtain r w' where run: "plan_for_resource_requests demo_services ''de-fra1'' (Some 1500) None ?w = (Inr r, w')"
    by (simp add: plan_for_resource_requests_def cheapest_fitting_server_plan_def sql_query_def lift_ext_eq demo_services_def units)
  note fact = chosen_plan_fits_and_is_least [OF run units]
  then have "r \<noteq> None" by (simp add: plans_world_def demo_plan_def)
  with fact run show ?thesis by (auto simp: unwrap_or_def)
qed

text \<open>
  C11. Settling the budget never takes anything away. With a positive daily rate the balance grows by an amount between zero and the room left below the
  rollover cap, so a balance that a top-up put above the cap stays; with a rate of zero it stays. In both cases the clock is set to now, what is returned is
  what is stored, and nothing else in the database changes.
\<close>

theorem accrual_never_takes_away:
  assumes "settle_accrual S w = (Inr r, w')" and "budget_state (db w) = Some row"
    and "is_f64 (bs_balance row)" and "bs_balance row \<notin> {NaN, NInf}"
    and "bs_budget_daily_rate row = Fin rate"
  shows "\<exists>balance amount now. r = Some (balance, settings_of row)
      \<and> db w' = (db w)\<lparr>budget_state := Some (row\<lparr>bs_balance := balance, bs_last_accrual_at := now\<rparr>)\<rparr>
      \<and> balance = f64_add (bs_balance row) amount
      \<and> f64_le (bs_balance row) balance \<and> nonneg amount \<and> f64_le amount (room_left_below_cap row)
      \<and> (rate \<le> 0 \<longrightarrow> balance = bs_balance row)"
  using assms(1)
proof (cases rule: settle_accrual_run)
  case unseeded
  with assms(2) show ?thesis by simp
next
  case (disabled row' now)
  with assms(2) have "row' = row" by simp
  moreover have "f64_le (bs_balance row) (bs_balance row)" using assms(4) by (cases "bs_balance row") auto
  moreover have "nonneg (Fin 0)" "f64_le (Fin 0) (room_left_below_cap row)"
    using nonneg_max0 by (simp_all add: nonneg_def room_left_below_cap_def)
  ultimately show ?thesis using disabled f64_add_zero [OF assms(3)]
    by (intro exI [of _ "bs_balance row"] exI [of _ "Fin 0"] exI [of _ now]) simp
next
  case (accrued row' now new)
  with assms(2) have row': "row' = row" by simp
  with accrued assms(5) have pos: "0 < rate" by simp
  show ?thesis
    using accrued row' pos accrued_nonneg [OF assms(5) pos, of now] accrued_le_room [OF assms(5) pos, of now]
      f64_add_nonneg [OF assms(3)] assms(4)
    by (intro exI [of _ new] exI [of _ "accrued_amount row now"] exI [of _ now]) simp
qed

theorem accrual_never_takes_away_witness:
  "\<exists>balance. fst (settle_accrual demo_services (budget_world (Fin 500))) = Inr (Some (balance, settings_of (demo_budget (Fin 500))))
     \<and> f64_le (Fin 500) balance"
proof -
  let ?w = "budget_world (Fin 500)"
  have b: "is_f64 (Fin 500)" by (simp add: rnd_500)
  have s: "budget_state (db ?w) = Some (demo_budget (Fin 500))" by (simp add: budget_world_def demo_db_def)
  obtain r w' where run: "settle_accrual demo_services ?w = (Inr r, w')"
    using demo_settled by blast
  from accrual_never_takes_away [OF run s] b run show ?thesis by (auto simp: demo_budget_def)
qed

text \<open>
  C12. A top-up, also a negative one, never leaves a negative balance; the balance it returns is the one stored, and the settings and all other tables
  stay as they were.
\<close>

theorem topup_never_negative:
  assumes "apply_topup S amount w = (Inr (balance, delta), w')"
  shows "nonneg balance \<and>
    (\<exists>row row'. budget_state (db w) = Some row \<and> db w' = (db w)\<lparr>budget_state := Some row'\<rparr>
        \<and> bs_balance row' = balance \<and> settings_of row' = settings_of row)"
  using apply_topup_run [OF assms] by blast

theorem topup_never_negative_witness:
  "\<exists>balance delta w'. apply_topup demo_services (Fin (- 900)) (budget_world (Fin 500)) = (Inr (balance, delta), w') \<and> nonneg balance"
proof -
  obtain balance delta w' where "apply_topup demo_services (Fin (- 900)) (budget_world (Fin 500)) = (Inr (balance, delta), w')"
    using demo_settled
    by (auto simp: apply_topup_def bnd_def io_map_err_def seq_def ret_def sql_exec_def lift_ext_eq demo_services_def update_budget_def
        rbind_def not_null_def f64_max_def demo_budget_def Let_def map_err_def split: sum.splits)
  with topup_never_negative [OF this] show ?thesis by blast
qed

text \<open>
  C10. The admission check, in terms of the database it is called on. The balance is the stored one plus what has accrued since (nothing at a daily
  rate of zero or less), and from it the estimates of all jobs in a state before completion are taken. A job with an estimate is refused exactly
  when a budget with a positive daily rate is set up and the estimate exceeds what is left; without a budget, a rate or an estimate a
  job is admitted. All the check writes is the accrual.
\<close>

theorem admission_check_decides:
  assumes "check_budget S zone spec deadline currency w = (Inr (cost, sufficient_budget), w')"
  shows "(\<exists>w1. estimate_job_cost S zone spec deadline currency w = (Inr cost, w1)) \<and>
    (case budget_state (db w) of
       None \<Rightarrow> sufficient_budget \<and> db w' = db w
     | Some row \<Rightarrow> \<exists>now.
         if f64_le (bs_budget_daily_rate row) (Fin 0)
         then sufficient_budget \<and> db w' = (db w)\<lparr>budget_state := Some (row\<lparr>bs_last_accrual_at := now\<rparr>)\<rparr>
         else (let balance = f64_add (bs_balance row) (accrued_amount row now)
               in (sufficient_budget \<longleftrightarrow> cost = None \<or> f64_le (the cost) (f64_sub balance (claimed (jobs (db w)))))
                  \<and> db w' = (db w)\<lparr>budget_state := Some (row\<lparr>bs_balance := balance, bs_last_accrual_at := now\<rparr>)\<rparr>))"
  using assms by (rule check_budget_effect)

text \<open>
  On a balance of 500 with a running job estimated at 100 and a finished one at 300, a job of 450 is refused and a job of 350 is admitted.
\<close>

theorem admission_check_decides_witness:
  "(\<exists>w'. check_budget demo_services ''de-fra1'' JNull 3600 ''EUR'' (claims_world 45000) = (Inr (Some (Fin 450), False), w'))
   \<and> (\<exists>w'. check_budget demo_services ''de-fra1'' JNull 3600 ''EUR'' (claims_world 35000) = (Inr (Some (Fin 350), True), w'))"
proof -
  obtain ok v ok' v' where r: "check_budget demo_services ''de-fra1'' JNull 3600 ''EUR'' (claims_world 45000) = (Inr (Some (Fin 450), ok), v)"
      "check_budget demo_services ''de-fra1'' JNull 3600 ''EUR'' (claims_world 35000) = (Inr (Some (Fin 350), ok'), v')"
    using claims_check [OF quiet_demo modest_JNull, of 45000] claims_check [OF quiet_demo modest_JNull, of 35000] by auto
  have "\<not> ok" "ok'"
    using admission_check_decides [OF r(1)] admission_check_decides [OF r(2)]
    by (auto simp: claims_claimed demo_budget_at Let_def f64_sub_def rnd_500)
  with r show ?thesis by simp
qed

text \<open>
  A change of settings that is refused for want of an exchange rate changes no setting: all that happened is the accrual it settled first.
\<close>

theorem refused_patch_changes_no_setting:
  assumes "patch_settings S patch w = (Inl (CurrencyConversionUnavailable a b), w')"
  shows "\<exists>row row'. budget_state (db w) = Some row \<and> db w' = (db w)\<lparr>budget_state := Some row'\<rparr> \<and> settings_of row' = settings_of row
      \<and> sp_main_currency patch = Some b \<and> a = bs_main_currency row"
proof -
  from assms obtain balance settings w1 where settle: "settle_accrual S w = (Inr (Some (balance, settings)), w1)"
    and change: "change_currency S patch balance settings w1 = (Inl (CurrencyConversionUnavailable a b), w')"
    by (auto simp: patch_settings_def bnd_fails not_Internal io_map_err_returns seq_def Let_def split: option.splits)
  from settle obtain row row1 where "budget_state (db w) = Some row" and "db w1 = (db w)\<lparr>budget_state := Some row1\<rparr>"
    and "settings_of row1 = settings_of row" and "settings = settings_of row"
    by (cases rule: settle_accrual_run) (auto simp: settings_of_def)
  with change_currency_refused [OF change] show ?thesis by (auto simp: settings_of_def)
qed

theorem refused_patch_changes_no_setting_witness:
  "settings_of (the (budget_state (db (snd (patch_settings demo_services
      \<lparr>sp_budget_daily_rate = None, sp_budget_rollover_cap_days = Some 9, sp_main_currency = Some ''USD''\<rparr> (budget_world (Fin 500)))))))
   = settings_of (demo_budget (Fin 500))"
proof -
  let ?p = "\<lparr>sp_budget_daily_rate = None, sp_budget_rollover_cap_days = Some 9, sp_main_currency = Some ''USD''\<rparr>"
  let ?run = "patch_settings demo_services ?p (budget_world (Fin 500))"
  have "fst ?run = Inl (CurrencyConversionUnavailable ''EUR'' ''USD'')"
  proof -
    obtain w1 where settled: "settle_accrual demo_services (budget_world (Fin 500)) = (Inr (Some (Fin 500, settings_of (demo_budget (Fin 500)))), w1)"
      and rates: "exchange_rates (db w1) = []"
      using demo_settled by (auto simp: budget_run_simps accrued_500 split: if_splits sum.splits)
    then show ?thesis
      by (simp add: patch_settings_def bnd_def io_map_err_def settings_of_def demo_budget_def change_currency_def convert_or_conflict_def
        convert_def cached_rate_def rate_of_def sql_query_def lift_ext_eq demo_services_def ret_def of_result_def ok_or_def map_err_def)
  qed
  then have "?run = (Inl (CurrencyConversionUnavailable ''EUR'' ''USD''), snd ?run)" by (metis prod.collapse)
  from refused_patch_changes_no_setting [OF this] show ?thesis
    by (auto simp: budget_world_def demo_db_def)
qed

end
