(* ===== verification/Interleaving.thy ===== *)
theory Interleaving
  imports CostProps
begin

text \<open>
  Requests that overlap. A handler awaits each of its statements, and another one may run in between; \<open>proc\<close> is a function cut into the steps that
  happen at once, \<open>run\<close> its steps one after the other, and \<open>par\<close> the ways two of them can interleave. The top-up (\<open>src/src/pricing/mod.rs\<close>) is given in this form, proved
  to be the function of theory Pricing when it runs alone, and shown to lose another one that runs between its statements.
\<close>

section \<open>Functions in steps\<close>

datatype ('w, 'e, 'a) proc = Done "'e + 'a" | Step "'w \<Rightarrow> ('w, 'e, 'a) proc \<times> 'w"

primrec run :: "('w, 'e, 'a) proc \<Rightarrow> ('w, 'e, 'a) io" where
  "run (Done r) = (\<lambda>w. (r, w))"
| "run (Step f) = (\<lambda>w. case map_prod run id (f w) of (m, w') \<Rightarrow> m w')"

primrec pbind :: "('w, 'e, 'a) proc \<Rightarrow> ('a \<Rightarrow> ('w, 'e, 'b) proc) \<Rightarrow> ('w, 'e, 'b) proc" where
  "pbind (Done r) k = (case r of Inl e \<Rightarrow> Done (Inl e) | Inr a \<Rightarrow> k a)"
| "pbind (Step f) k = Step (\<lambda>w. map_prod (\<lambda>p. pbind p k) id (f w))"

definition atom :: "('w, 'e, 'a) io \<Rightarrow> ('w, 'e, 'a) proc" where
  "atom m = Step (\<lambda>w. case m w of (r, w') \<Rightarrow> (Done r, w'))"

lemma run_atom [simp]: "run (atom m) = m"
  by (auto simp: atom_def fun_eq_iff split: prod.split)

lemma run_Step: "f w = (p, w') \<Longrightarrow> run (Step f) w = run p w'"
  by simp

lemma in_range: "f w = y \<Longrightarrow> y \<in> range f"
  by (metis rangeI)

lemma run_pbind [simp]: "run (pbind p k) = bnd (run p) (\<lambda>a. run (k a))"
proof (induction p)
  case (Done r)
  then show ?case by (cases r) (auto simp: bnd_def)
next
  case (Step f)
  show ?case
  proof
    fix w
    obtain p w' where f: "f w = (p, w')" by (cases "f w")
    then have "run (pbind p k) = bnd (run p) (\<lambda>a. run (k a))" by (intro Step [of "f w"]) (auto intro: in_range)
    with f show "run (pbind (Step f) k) w = bnd (run (Step f)) (\<lambda>a. run (k a)) w" by (simp add: bnd_def)
  qed
qed

text \<open>Two functions side by side: each step is one of either, and the end is when both are done.\<close>

inductive par :: "'w \<Rightarrow> ('w, 'e, 'a) proc \<Rightarrow> ('w, 'f, 'b) proc \<Rightarrow> 'w \<Rightarrow> 'e + 'a \<Rightarrow> 'f + 'b \<Rightarrow> bool" where
  both_done: "par w (Done r) (Done s) w r s"
| left: "f w = (p, v) \<Longrightarrow> par v p q w' r s \<Longrightarrow> par w (Step f) q w' r s"
| right: "f w = (q, v) \<Longrightarrow> par v p q w' r s \<Longrightarrow> par w p (Step f) w' r s"

lemma par_left:
  "run p w = (Inr a, v) \<Longrightarrow> par v (k a) q w' r s \<Longrightarrow> par w (pbind p k) q w' r s"
proof (induction p arbitrary: w)
  case (Step f)
  obtain p u where f: "f w = (p, u)" by (cases "f w")
  with Step.prems(1) have "run p u = (Inr a, v)" by simp
  then have "par u (pbind p k) q w' r s" using Step.IH [OF in_range [of f w, OF f]] Step.prems(2) by simp
  then show ?case using f by (auto intro: left)
qed simp

lemma par_right_all: "run q w = (s, v) \<Longrightarrow> par v p (Done s) w' r s' \<Longrightarrow> par w p q w' r s'"
proof (induction q arbitrary: w)
  case (Step f)
  obtain q u where f: "f w = (q, u)" by (cases "f w")
  with Step.prems(1) have "run q u = (s, v)" by simp
  then have "par u p q w' r s'" using Step.IH [OF in_range [of f w, OF f]] Step.prems(2) by simp
  then show ?case using f by (auto intro: right)
qed simp

lemma par_left_all: "run p w = (r, v) \<Longrightarrow> par w p (Done s) v r s"
proof (induction p arbitrary: w)
  case (Step f)
  obtain p u where f: "f w = (p, u)" by (cases "f w")
  with Step.prems have "run p u = (r, v)" by simp
  then have "par u p (Done s) v r s" using Step.IH [OF in_range [of f w, OF f]] by simp
  then show ?case using f by (auto intro: left)
qed (auto intro: both_done)

section \<open>Top-ups\<close>

definition settle_accrual_p :: "'x services \<Rightarrow> ('x world, budget_error, (f64 \<times> budget_settings) option) proc" where
  "settle_accrual_p S =
     pbind (atom (io_map_err Internal (fetch_budget_row S))) (\<lambda>r.
     case r of
       None \<Rightarrow> Done (Inr None)
     | Some row \<Rightarrow>
        pbind (atom (now_ts S)) (\<lambda>now.
        if f64_le (bs_budget_daily_rate row) (Fin 0)
        then pbind (atom (io_map_err Internal (sql_exec S (update_budget (\<lambda>b. b\<lparr>bs_last_accrual_at := now\<rparr>)))))
               (\<lambda>_. Done (Inr (Some (bs_balance row, settings_of row))))
        else (let new_balance = f64_add (bs_balance row) (accrued_amount row now)
              in pbind (atom (io_map_err Internal (sql_exec S (update_budget (\<lambda>b. b\<lparr>bs_balance := new_balance, bs_last_accrual_at := now\<rparr>)))))
                   (\<lambda>_. Done (Inr (Some (new_balance, settings_of row)))))))"

definition apply_topup_p :: "'x services \<Rightarrow> f64 \<Rightarrow> ('x world, budget_error, f64 \<times> f64) proc" where
  "apply_topup_p S amount =
     pbind (settle_accrual_p S) (\<lambda>r.
     case r of
       None \<Rightarrow> Done (Inl NotSeeded)
     | Some (balance, _) \<Rightarrow>
        (let new_balance = f64_max (f64_add balance amount) (Fin 0);
             applied_delta = f64_sub new_balance balance
         in pbind (atom (io_map_err Internal (sql_exec S (update_budget (\<lambda>b. b\<lparr>bs_balance := new_balance\<rparr>)))))
              (\<lambda>_. Done (Inr (new_balance, applied_delta)))))"

lemma io_map_err_bnd: "io_map_err f (bnd m k) = bnd (io_map_err f m) (\<lambda>a. io_map_err f (k a))"
  by (auto simp: io_map_err_def bnd_def map_err_def fun_eq_iff split: prod.split sum.split)

lemma io_map_err_ret: "io_map_err f (Pair (Inr a)) = Pair (Inr a)"
  by (simp add: io_map_err_def map_err_def)

lemma io_map_err_now: "io_map_err f (now_ts S) = now_ts S"
  by (simp add: fun_eq_iff io_map_err_def now_ts_eq map_err_def)

lemma bnd_cong_all: "(\<And>a. k a = l a) \<Longrightarrow> bnd m k = bnd m l"
  by presburger

lemma run_settle [simp]: "run (settle_accrual_p S) = io_map_err Internal (settle_accrual S)"
  unfolding settle_accrual_p_def settle_accrual_def run_pbind io_map_err_bnd run_atom
  by (intro bnd_cong_all) (auto simp: io_map_err_bnd io_map_err_ret io_map_err_now seq_def ret_def Let_def split: option.split intro!: bnd_cong_all)

lemma run_topup: "run (apply_topup_p S amount) = apply_topup S amount"
  unfolding apply_topup_p_def apply_topup_def run_pbind run_settle
  by (intro bnd_cong_all) (auto simp: seq_def fail_def ret_def Let_def split: option.split)

text \<open>The top-ups of the example.\<close>

lemma demo_rnd: "rnd 1000 = Fin 1000" "rnd 500 = Fin 500" "rnd 800 = Fin 800" "rnd 300 = Fin 300"
  using rnd_of_int [of 1000] rnd_of_int [of 500] rnd_of_int [of 800] rnd_of_int [of 300] by simp_all

lemma demo_topup:
  assumes "budget_state (db w) = Some ((demo_budget (Fin 500))\<lparr>bs_last_accrual_at := t\<rparr>)"
  shows "\<exists>w'. apply_topup demo_services (Fin 500) w = (Inr (Fin 1000, Fin 500), w')
      \<and> budget_state (db w') \<noteq> None \<and> bs_budget_daily_rate (the (budget_state (db w'))) = Fin 2"
proof -
  have p: "bs_budget_daily_rate (demo_budget (Fin 500)) = Fin 2" "bs_balance (demo_budget (Fin 500)) = Fin 500" by (simp_all add: demo_budget_def)
  show ?thesis
    by (simp add: apply_topup_def budget_run_simps assms p accrued_500_at demo_rnd f64_max_def f64_sub_def)
qed

text \<open>
  C13. A top-up that runs between the settlement and the write of another one is lost: both callers are told that their amount was added, yet the stored
  balance is the settled one with only the first amount. (Alone, each is the function of theory Pricing.)
\<close>

theorem concurrent_topup_lost:
  assumes "settle_accrual S w = (Inr (Some (balance, st)), w1)"
    and "apply_topup S y w1 = (Inr (balance_y, delta_y), w2)"
    and "sql_exec S (update_budget (\<lambda>b. b\<lparr>bs_balance := f64_max (f64_add balance x) (Fin 0)\<rparr>)) w2 = (Inr (), w3)"
  shows "run (apply_topup_p S x) = apply_topup S x \<and> run (apply_topup_p S y) = apply_topup S y
    \<and> par w (apply_topup_p S x) (apply_topup_p S y) w3
        (Inr (f64_max (f64_add balance x) (Fin 0), f64_sub (f64_max (f64_add balance x) (Fin 0)) balance)) (Inr (balance_y, delta_y))
    \<and> (\<exists>row. budget_state (db w3) = Some row \<and> bs_balance row = f64_max (f64_add balance x) (Fin 0))"
proof -
  have "par w (apply_topup_p S x) (apply_topup_p S y) w3
        (Inr (f64_max (f64_add balance x) (Fin 0), f64_sub (f64_max (f64_add balance x) (Fin 0)) balance)) (Inr (balance_y, delta_y))"
    unfolding apply_topup_p_def [of S x]
    by (rule par_left [where a = "Some (balance, st)" and v = w1], simp add: io_map_err_def map_err_def assms(1),
        rule par_right_all [where q = "apply_topup_p S y", OF _ par_left_all])
       (auto simp: run_topup assms(2,3) Let_def bnd_def io_map_err_def map_err_def)
  moreover have "\<exists>row. budget_state (db w2) = Some row" using apply_topup_run [OF assms(2)] by auto
  ultimately show ?thesis using run_topup sql_exec_budget [OF assms(3)] by fastforce
qed

theorem concurrent_topup_lost_witness:
  "\<exists>w1 w2 w3. settle_accrual demo_services (budget_world (Fin 500)) = (Inr (Some (Fin 500, settings_of (demo_budget (Fin 500)))), w1)
    \<and> apply_topup demo_services (Fin 500) w1 = (Inr (Fin 1000, Fin 500), w2)
    \<and> par (budget_world (Fin 500)) (apply_topup_p demo_services (Fin 300)) (apply_topup_p demo_services (Fin 500)) w3
        (Inr (Fin 800, Fin 300)) (Inr (Fin 1000, Fin 500))
    \<and> (\<exists>row. budget_state (db w3) = Some row \<and> bs_balance row = Fin 800)"
proof -
  obtain w1 where s: "settle_accrual demo_services (budget_world (Fin 500)) = (Inr (Some (Fin 500, settings_of (demo_budget (Fin 500)))), w1)"
    and b: "budget_state (db w1) = Some ((demo_budget (Fin 500))\<lparr>bs_last_accrual_at := 1000\<rparr>)" using demo_settled by blast
  obtain w2 where t: "apply_topup demo_services (Fin 500) w1 = (Inr (Fin 1000, Fin 500), w2)"
    and r: "budget_state (db w2) \<noteq> None" "bs_budget_daily_rate (the (budget_state (db w2))) = Fin 2" using demo_topup [OF b] by blast
  have e: "f64_max (f64_add (Fin 500) (Fin 300)) (Fin 0) = Fin 800" "f64_sub (Fin 800) (Fin 500) = Fin 300" by (simp_all add: demo_rnd f64_max_def f64_sub_def)
  obtain w3 where u: "sql_exec demo_services (update_budget (\<lambda>b. b\<lparr>bs_balance := f64_max (f64_add (Fin 500) (Fin 300)) (Fin 0)\<rparr>)) w2 = (Inr (), w3)"
    using r unfolding e by (auto simp: budget_run_simps)
  show ?thesis using concurrent_topup_lost [OF s t u] s t unfolding e by blast
qed

end
