(* ===== verification/Schedule.thy ===== *)
theory Schedule
  imports Jobs
begin

text \<open>
  The CronJob scheduler, \<open>src/src/reconcile/schedule.rs\<close>: the translation of a POSIX schedule into what the \<open>cron\<close> crate reads, the
  decision whether a run is due, and the creation of due runs. The crate itself is a parameter: \<open>cron_from_str\<close> gives,
  for a text it accepts, the first instant after a given one.
\<close>

section \<open>Day-of-week fields\<close>

definition DAY_NAMES :: "string list" where
  "DAY_NAMES = [''SUN'', ''MON'', ''TUE'', ''WED'', ''THU'', ''FRI'', ''SAT'']"

definition day_number :: "string \<Rightarrow> nat option" where
  "day_number s =
     (case parse_usize s of
        Some n \<Rightarrow> if n \<le> 7 then Some (n mod 7) else None
      | None \<Rightarrow> position (\<lambda>name. eq_ignore_ascii_case name s) DAY_NAMES)"

text \<open>An item's base and step; \<open>None\<close> where the source returns the field unchanged.\<close>

definition item_step :: "string \<Rightarrow> (string \<times> nat) option" where
  "item_step item =
     (case split_once (CHR ''/'') item of
        Some (base, step) \<Rightarrow>
          (case parse_usize step of Some n \<Rightarrow> if n > 0 then Some (base, n) else None | None \<Rightarrow> None)
      | None \<Rightarrow> Some (item, 1))"

definition item_range :: "string \<Rightarrow> string \<Rightarrow> nat \<Rightarrow> (nat \<times> nat) option" where
  "item_range item base step =
     (if base = ''*'' then Some (0, 6)
      else (case split_once (CHR ''-'') base of
              Some (a, b) \<Rightarrow>
                (case (day_number a, day_number b) of (Some m, Some n) \<Rightarrow> Some (m, n) | _ \<Rightarrow> None)
            | None \<Rightarrow>
                (case day_number base of
                   Some n \<Rightarrow> if step > 1 \<or> CHR ''/'' \<in> set item then Some (n, 6) else Some (n, n)
                 | None \<Rightarrow> None)))"

text \<open>The offsets of \<open>(0..=length).step_by(step)\<close>.\<close>

definition offsets :: "nat \<Rightarrow> nat \<Rightarrow> nat list" where
  "offsets len step = filter (\<lambda>i. i mod step = 0) [0..<len + 1]"

definition mark_item :: "bool list \<Rightarrow> string \<Rightarrow> bool list option" where
  "mark_item days item =
     Option.bind (item_step item) (\<lambda>(base, step).
     Option.bind (item_range item base step) (\<lambda>(first, final).
       Some (foldl (\<lambda>ds i. ds[(first + i) mod 7 := True]) days (offsets ((final + 7 - first) mod 7) step))))"

fun mark_items :: "bool list \<Rightarrow> string list \<Rightarrow> bool list option" where
  "mark_items days [] = Some days"
| "mark_items days (item # items) = Option.bind (mark_item days item) (\<lambda>ds. mark_items ds items)"

definition names_of_days :: "bool list \<Rightarrow> string" where
  "names_of_days days = join '','' (map fst (filter snd (zip DAY_NAMES days)))"

definition day_of_week_to_names :: "string \<Rightarrow> string" where
  "day_of_week_to_names fld =
     (if fld = ''*'' \<or> fld = ''?'' then fld
      else (case mark_items (replicate 7 False) (split_on (CHR '','') fld) of
              Some days \<Rightarrow> names_of_days days
            | None \<Rightarrow> fld))"

section \<open>Schedules\<close>

definition to_six_field :: "string \<Rightarrow> string" where
  "to_six_field schedule =
     (let s = trim schedule
      in if starts_with s ''@'' then s
         else (let fields = split_whitespace s
               in if length fields \<noteq> 5 then ''0 '' @ s
                  else ''0 '' @ join '' '' (fields[4 := day_of_week_to_names (fields ! 4)])))"

definition is_restricted :: "string \<Rightarrow> bool" where
  "is_restricted fld =
     (\<not> list_ex (\<lambda>item. case unwrap_or (item, ''1'') (split_once (CHR ''/'') item) of
                   (base, step) \<Rightarrow> (base = ''*'' \<or> base = ''?'') \<and> step = ''1'')
         (split_on (CHR '','') fld))"

record cron_schedule =
  parts :: "(int \<Rightarrow> int option) list"

definition next_after :: "cron_schedule \<Rightarrow> int \<Rightarrow> int option" where
  "next_after s t =
     (case List.map_filter (\<lambda>part. part t) (parts s) of [] \<Rightarrow> None | x # xs \<Rightarrow> Some (foldl min x xs))"

text \<open>The texts a schedule is split into: two when both day fields restrict.\<close>

definition schedule_parts :: "string \<Rightarrow> string list" where
  "schedule_parts schedule =
     (case split_whitespace schedule of
        [minute, hour, day_of_month, month, day_of_week] \<Rightarrow>
          if \<not> starts_with schedule ''@'' \<and> is_restricted day_of_month \<and> is_restricted day_of_week
          then [join '' '' [minute, hour, day_of_month, month, ''*''], join '' '' [minute, hour, ''*'', month, day_of_week]]
          else [schedule]
      | _ \<Rightarrow> [schedule])"

fun collect_some :: "'a option list \<Rightarrow> 'a list option" where
  "collect_some [] = Some []"
| "collect_some (x # xs) = Option.bind x (\<lambda>a. Option.bind (collect_some xs) (\<lambda>as. Some (a # as)))"

definition parse_schedule :: "'a libs_scheme \<Rightarrow> string \<Rightarrow> cron_schedule option" where
  "parse_schedule L schedule =
     map_option (\<lambda>ps. \<lparr>parts = ps\<rparr>)
       (collect_some (map (\<lambda>part. cron_from_str L (to_six_field part)) (schedule_parts (trim schedule))))"

section \<open>Due runs\<close>

definition i64_max :: int where "i64_max = 2 ^ 63 - 1"

definition saturating_add :: "int \<Rightarrow> int \<Rightarrow> int" where
  "saturating_add a b = max (- (2 ^ 63)) (min i64_max (a + b))"

text \<open>\<open>Duration::try_seconds\<close>: a duration is at most \<open>i64::MAX\<close> milliseconds either way; here in nanoseconds.\<close>

definition try_seconds :: "int \<Rightarrow> int option" where
  "try_seconds s = (if \<bar>s\<bar> \<le> i64_max div 1000 then Some (s * nanos_per_second) else None)"

definition checked_sub_signed :: "'a libs_scheme \<Rightarrow> int \<Rightarrow> int \<Rightarrow> int option" where
  "checked_sub_signed L t d = (if min_utc L \<le> t - d \<and> t - d \<le> max_utc L then Some (t - d) else None)"

definition window_start :: "'a libs_scheme \<Rightarrow> int \<Rightarrow> int \<Rightarrow> int option \<Rightarrow> int" where
  "window_start L last_scheduled now starting_deadline =
     (case starting_deadline of
        Some deadline \<Rightarrow>
          (case Option.bind (try_seconds (saturating_add deadline 1)) (checked_sub_signed L now) of
             Some earliest \<Rightarrow> max last_scheduled earliest
           | None \<Rightarrow> last_scheduled)
      | None \<Rightarrow> last_scheduled)"

definition is_due :: "'a libs_scheme \<Rightarrow> cron_schedule \<Rightarrow> int \<Rightarrow> int \<Rightarrow> int option \<Rightarrow> bool" where
  "is_due L schedule last_scheduled now starting_deadline =
     (case next_after schedule (window_start L last_scheduled now starting_deadline) of
        Some next_time \<Rightarrow> next_time \<le> now
      | None \<Rightarrow> False)"

definition runs_of :: "string \<Rightarrow> string \<Rightarrow> database \<Rightarrow> job_row list" where
  "runs_of cronjob_name namespace d =
     filter (\<lambda>r. j_cronjob_name r = Some cronjob_name \<and> j_namespace r = namespace) (jobs d)"

definition has_active_run :: "'x services \<Rightarrow> string \<Rightarrow> string \<Rightarrow> ('x, bool) job_io" where
  "has_active_run S cronjob_name namespace =
     bnd (sql_query S (\<lambda>d. map j_status (runs_of cronjob_name namespace d)))
       (\<lambda>statuses. ret (list_ex is_pre_completion_state statuses))"

definition max_option :: "int list \<Rightarrow> int option" where
  "max_option xs = (case xs of [] \<Rightarrow> None | y # ys \<Rightarrow> Some (foldl max y ys))"

definition from_timestamp :: "'a libs_scheme \<Rightarrow> int \<Rightarrow> int option" where
  "from_timestamp L secs =
     (if min_utc L \<le> secs * nanos_per_second \<and> secs * nanos_per_second \<le> max_utc L
      then Some (secs * nanos_per_second) else None)"

definition last_scheduled_time :: "'x services \<Rightarrow> string \<Rightarrow> string \<Rightarrow> int \<Rightarrow> ('x, int) job_io" where
  "last_scheduled_time S cronjob_name namespace cronjob_created_at =
     bnd (sql_query S (\<lambda>d. max_option (map j_created_at (runs_of cronjob_name namespace d)))) (\<lambda>row.
     case from_timestamp S (unwrap_or cronjob_created_at row) of
       Some t \<Rightarrow> ret t
     | None \<Rightarrow> now_nanos S)"

section \<open>Creating runs\<close>

definition budget_skip_message :: "string \<Rightarrow> string \<Rightarrow> f64 option \<Rightarrow> string \<Rightarrow> string" where
  "budget_skip_message namespace cronjob_name estimated_cost currency =
     ''CronJob '' @ namespace @ ''/'' @ cronjob_name @ '': skipping this run, estimated cost ('' @
     show_fixed 4 (unwrap_or (Fin 0) estimated_cost) @ '' '' @ currency @
     '') exceeds the current budget balance -- will retry next tick''"

text \<open>The outcome of the budget guard: \<open>None\<close> when the run is to be skipped.\<close>

definition guard_run :: "'x services \<Rightarrow> 'x job_context \<Rightarrow> string \<Rightarrow> string \<Rightarrow> json \<Rightarrow> ('x, f64 option option) job_io" where
  "guard_run S C cronjob_name namespace job_template_spec =
     (case active_deadline_seconds job_template_spec of
        None \<Rightarrow> ret (Some None)
      | Some deadline \<Rightarrow>
         bnd (effective_main_currency S (ctx_main_currency C)) (\<lambda>currency.
         bnd (check_budget S (ctx_zone C) job_template_spec deadline currency) (\<lambda>(estimated_cost, enough).
         if \<not> enough
         then seq (record_event S None ''BudgetSkip''
                     (budget_skip_message namespace cronjob_name estimated_cost currency) ''Warning'')
                  (ret None)
         else ret (Some estimated_cost))))"

definition new_job_row ::
  "string \<Rightarrow> string \<Rightarrow> string \<Rightarrow> string option \<Rightarrow> string \<Rightarrow> f64 option \<Rightarrow> int \<Rightarrow> job_row" where
  "new_job_row job_id name namespace cronjob_name spec estimated_cost now =
     \<lparr>j_id = job_id, j_name = name, j_namespace = namespace, j_cronjob_name = cronjob_name, j_spec = spec,
      j_status = ''Created'', j_retry_count = 0, j_last_error = None, j_worker_vm_id = None, j_worker_vm_name = None,
      j_worker_ssh_ip = None, j_exit_code = None, j_created_at = now, j_updated_at = now,
      j_last_transition_time = None, j_version = 1, j_cached_logs = None, j_estimated_cost = estimated_cost,
      j_actual_cost = None, j_completed_at = None, j_worker_plan = None, j_cached_logs_timestamped = False\<rparr>"

definition create_job_run ::
  "'x services \<Rightarrow> 'x job_context \<Rightarrow> string \<Rightarrow> string \<Rightarrow> string \<Rightarrow> int \<Rightarrow> ('x, bool) job_io" where
  "create_job_run S C cronjob_name namespace cronjob_spec_str now =
     (let job_template_spec = unwrap_or JNull (pointer (parse_spec S cronjob_spec_str) [''jobTemplate'', ''spec''])
      in bnd (guard_run S C cronjob_name namespace job_template_spec) (\<lambda>guard.
         case guard of
           None \<Rightarrow> ret False
         | Some estimated_cost \<Rightarrow>
             bnd (new_uuid S) (\<lambda>job_id.
             seq (sql_exec S (insert_job_row
                    (new_job_row job_id (cronjob_name @ ''-'' @ show_int (timestamp now)) namespace (Some cronjob_name)
                       (to_string S job_template_spec) (sql_real estimated_cost) (timestamp now))))
               (ret True))))"

definition schedule_one :: "'x services \<Rightarrow> 'x job_context \<Rightarrow> int \<Rightarrow> cronjob_row \<Rightarrow> ('x, bool) job_io" where
  "schedule_one S C now c =
     (if trim (cj_schedule c) = [] then ret False
      else (case parse_schedule S (cj_schedule c) of
              None \<Rightarrow> ret False
            | Some schedule \<Rightarrow>
               (let spec = parse_spec S (cj_spec c)
                in if Option.bind (get spec ''suspend'') as_bool = Some True then ret False
                   else bnd (last_scheduled_time S (cj_name c) (cj_namespace c) (cj_created_at c)) (\<lambda>last_scheduled.
                     if \<not> is_due S schedule last_scheduled now (Option.bind (get spec ''startingDeadlineSeconds'') as_i64)
                     then ret False
                     else bnd (if get_str spec ''concurrencyPolicy'' = Some ''Forbid''
                               then has_active_run S (cj_name c) (cj_namespace c) else ret False) (\<lambda>held_back.
                       if held_back then ret False
                       else create_job_run S C (cj_name c) (cj_namespace c) (cj_spec c) now)))))"

fun schedule_rows :: "'x services \<Rightarrow> 'x job_context \<Rightarrow> int \<Rightarrow> cronjob_row list \<Rightarrow> nat \<Rightarrow> ('x, nat) job_io" where
  "schedule_rows S C now [] scheduled = ret scheduled"
| "schedule_rows S C now (c # cs) scheduled =
     bnd (schedule_one S C now c) (\<lambda>b. schedule_rows S C now cs (if b then scheduled + 1 else scheduled))"

definition schedule_due_jobs :: "'x services \<Rightarrow> 'x job_context \<Rightarrow> ('x, nat) job_io" where
  "schedule_due_jobs S C =
     bnd (sql_query S cronjobs) (\<lambda>rows.
     bnd (now_nanos S) (\<lambda>now. schedule_rows S C now rows 0))"

end
