(* ===== verification/BudgetLaws.thy ===== *)
theory BudgetLaws
  imports Pricing
begin

text \<open>
  What the budget guard may do to the database. \<open>settle_frame\<close> is the contract between those who ask for an admission check (the scheduler and the
  creation of Jobs) and the tables: settling the accrual changes balance and clock. \<open>budget_frame\<close> is the one of those who also record an event.
\<close>

locale settle_frame = db_frame Q for Q :: "database \<Rightarrow> database \<Rightarrow> bool" +
  assumes Q_settle: "budget_state d = Some b \<Longrightarrow> settings_of b' = settings_of b \<Longrightarrow> Q d (d\<lparr>budget_state := Some b'\<rparr>)"
begin

lemma keeps_update_balance:
  assumes "\<And>b. settings_of (f b) = settings_of b"
  shows "keeps on_world (sql_exec S (update_budget f))"
  by (rule keeps_sql_exec)
     (auto simp: update_budget_def not_null_def rbind_def Q_refl split: option.splits sum.splits if_splits intro: Q_settle assms)

lemma keeps_settle_accrual [intro!]: "keeps on_world (settle_accrual S)"
  by (auto simp: settle_accrual_def fetch_budget_row_def Let_def settings_of_def intro!: keeps_update_balance split: option.split)

lemma keeps_available_budget [intro!]: "keeps on_world (available_budget S)"
  by (auto simp: available_budget_def committed_budget_def split: option.split)

lemma keeps_check_budget [intro!]: "keeps on_world (check_budget S zone spec deadline currency)"
  by (auto simp: check_budget_def)

end

locale budget_frame = settle_frame Q for Q :: "database \<Rightarrow> database \<Rightarrow> bool" +
  assumes Q_event: "Q d (d\<lparr>events := events d @ [e]\<rparr>)"
begin

lemma keeps_record_event [intro!]: "keeps on_world (record_event S job reason msg ty)"
  unfolding record_event_def
  by (intro keeps_bnd keeps_new_uuid keeps_now_ts keeps_sql_exec)
     (auto simp: insert_event_row_def split: if_splits intro: Q_event)

end

text \<open>The guard leaves every job as it is.\<close>

interpretation same_jobs: budget_frame "\<lambda>d d'. jobs d' = jobs d"
  by unfold_locales auto

lemma same_jobsD: "keeps same_jobs.on_world m \<Longrightarrow> m w = (r, w') \<Longrightarrow> jobs (db w') = jobs (db w)"
  by (simp add: keeps_def same_jobs.on_world_def) (metis snd_conv)

end
