(* ===== verification/ScheduleProps.thy ===== *)
theory ScheduleProps
  imports Schedule BudgetLaws CostProps
begin

text \<open>
  What holds of the scheduler: a run is due exactly when an instant was missed, a tick only adds rows, and neither suspended nor forbidden nor already created runs are created.
\<close>

section \<open>Due runs\<close>

text \<open>
  What the \<open>cron\<close> crate documents of \<open>Schedule::after(t).next()\<close>, for a schedule whose instants are the set \<open>F\<close>: the first of them after \<open>t\<close>.
\<close>

definition fires :: "(int \<Rightarrow> int option) \<Rightarrow> int set \<Rightarrow> bool" where
  "fires part F \<longleftrightarrow>
     (\<forall>t. case part t of
            Some u \<Rightarrow> u \<in> F \<and> t < u \<and> (\<forall>v \<in> F. t < v \<longrightarrow> u \<le> v)
          | None \<Rightarrow> \<forall>v \<in> F. v \<le> t)"

lemma firesD:
  "fires part F \<Longrightarrow> part t = Some u \<Longrightarrow> u \<in> F \<and> t < u \<and> (\<forall>v \<in> F. t < v \<longrightarrow> u \<le> v)"
  "fires part F \<Longrightarrow> part t = None \<Longrightarrow> v \<in> F \<Longrightarrow> v \<le> t"
  unfolding fires_def by (auto dest!: spec [of _ t])

lemma fires_window: "fires part F \<Longrightarrow> (\<exists>u. part t = Some u \<and> u \<le> now) \<longleftrightarrow> (\<exists>u \<in> F. t < u \<and> u \<le> now)"
proof (cases "part t")
  case (Some a)
  assume "fires part F"
  note f = firesD(1) [OF this Some]
  show ?thesis
  proof
    assume "\<exists>u \<in> F. t < u \<and> u \<le> now"
    then obtain u where "u \<in> F" "t < u" "u \<le> now" by blast
    with f have "a \<le> now" by fastforce
    with Some show "\<exists>u. part t = Some u \<and> u \<le> now" by simp
  qed (use f Some in auto)
qed (auto dest: firesD(2))

lemma foldl_min_le: "(\<exists>y \<in> set (x # xs). y \<le> now) \<longleftrightarrow> foldl min x xs \<le> (now :: int)"
proof (induction xs arbitrary: x)
  case (Cons a xs)
  have "(\<exists>y \<in> set (x # a # xs). y \<le> now) \<longleftrightarrow> min x a \<le> now \<or> (\<exists>y \<in> set xs. y \<le> now)"
    by (auto simp: min_le_iff_disj)
  also have "\<dots> \<longleftrightarrow> foldl min (min x a) xs \<le> now" using Cons.IH [of "min x a"] by auto
  finally show ?case by simp
qed simp

lemma next_after_le:
  "(\<exists>u. next_after s t = Some u \<and> u \<le> now) \<longleftrightarrow> (\<exists>part \<in> set (parts s). \<exists>u. part t = Some u \<and> u \<le> now)"
proof -
  let ?us = "List.map_filter (\<lambda>part. part t) (parts s)"
  have "(\<exists>u. next_after s t = Some u \<and> u \<le> now) \<longleftrightarrow> (\<exists>u \<in> set ?us. u \<le> now)"
    unfolding next_after_def using foldl_min_le [of _ _ now] by (cases ?us) auto
  also have "\<dots> \<longleftrightarrow> (\<exists>part \<in> set (parts s). \<exists>u. part t = Some u \<and> u \<le> now)"
    by (auto simp: List.map_filter_def intro: rev_bexI)
  finally show ?thesis .
qed

lemma any_fires:
  "list_all2 fires ps Fs \<Longrightarrow> (\<exists>part \<in> set ps. \<exists>u. part t = Some u \<and> u \<le> now) \<longleftrightarrow> (\<exists>u \<in> \<Union> (set Fs). t < u \<and> u \<le> now)"
proof (induction rule: list_all2_induct)
  case (Cons part ps F Fs)
  from fires_window [OF Cons(1), of t now] Cons(3) show ?case
    by (simp only: list.set(2) Union_insert bex_Un Set.bex_simps)
qed simp

definition instants :: "cron_schedule \<Rightarrow> int set list \<Rightarrow> bool" where
  "instants s Fs \<longleftrightarrow> list_all2 fires (parts s) Fs"

lemma due_in_window:
  assumes "instants s Fs"
  shows "is_due L s last_scheduled now deadline
     \<longleftrightarrow> (\<exists>t \<in> \<Union> (set Fs). window_start L last_scheduled now deadline < t \<and> t \<le> now)"
proof -
  let ?t = "window_start L last_scheduled now deadline"
  have "is_due L s last_scheduled now deadline \<longleftrightarrow> (\<exists>u. next_after s ?t = Some u \<and> u \<le> now)"
    by (auto simp: is_due_def split: option.split)
  also have "\<dots> \<longleftrightarrow> (\<exists>part \<in> set (parts s). \<exists>u. part ?t = Some u \<and> u \<le> now)" by (rule next_after_le)
  also have "\<dots> \<longleftrightarrow> (\<exists>t \<in> \<Union> (set Fs). ?t < t \<and> t \<le> now)"
    using assms unfolding instants_def by (rule any_fires)
  finally show ?thesis .
qed

lemma window_start_deadline:
  assumes "0 \<le> d" and "d < i64_max div 1000" and "min_utc L \<le> now - (d + 1) * nanos_per_second" and "now \<le> max_utc L"
  shows "window_start L last_scheduled now (Some d) = max last_scheduled (now - (d + 1) * nanos_per_second)"
proof -
  have "saturating_add d 1 = d + 1" using assms(1,2) by (simp add: saturating_add_def i64_max_def)
  moreover have "try_seconds (d + 1) = Some ((d + 1) * nanos_per_second)" using assms(1,2) by (simp add: try_seconds_def)
  moreover have "0 \<le> (d + 1) * nanos_per_second" using assms(1) by (simp add: nanos_per_second_def)
  ultimately show ?thesis using assms(3,4) by (simp add: window_start_def checked_sub_signed_def)
qed

text \<open>
  C18. A run is due exactly when an instant of the schedule was missed: one that is after the last run and not in the future and, with a starting deadline of
  \<open>d\<close> seconds, whose age in whole seconds is at most \<open>d\<close>. So every instant that is at most \<open>d\<close> seconds old counts, and none that is
  \<open>d + 1\<close> seconds old or more; but the documentation drops an instant once it is more than \<open>d\<close> seconds old, and one
  of an age between \<open>d\<close> and \<open>d + 1\<close> seconds is still run. A schedule with two parts fires at the instants of either.
\<close>

theorem due_iff_instant_missed:
  assumes "instants s Fs" and "0 \<le> d" and "d < i64_max div 1000"
    and "min_utc L \<le> now - (d + 1) * nanos_per_second" and "now \<le> max_utc L"
  shows "(is_due L s last_scheduled now None \<longleftrightarrow> (\<exists>t \<in> \<Union> (set Fs). last_scheduled < t \<and> t \<le> now))
    \<and> (is_due L s last_scheduled now (Some d)
        \<longleftrightarrow> (\<exists>t \<in> \<Union> (set Fs). last_scheduled < t \<and> t \<le> now \<and> (now - t) div nanos_per_second \<le> d))
    \<and> (\<forall>t \<in> \<Union> (set Fs). last_scheduled < t \<and> d * nanos_per_second < now - t \<and> now - t < (d + 1) * nanos_per_second
         \<longrightarrow> is_due L s last_scheduled now (Some d))"
proof -
  have age: "(now - t) div nanos_per_second \<le> d \<longleftrightarrow> now - t < (d + 1) * nanos_per_second" for t
    by (simp add: nanos_per_second_def) linarith
  have "now - t < (d + 1) * nanos_per_second \<longleftrightarrow> now - (d + 1) * nanos_per_second < t" for t by linarith
  then have iff: "is_due L s last_scheduled now (Some d)
        \<longleftrightarrow> (\<exists>t \<in> \<Union> (set Fs). last_scheduled < t \<and> t \<le> now \<and> (now - t) div nanos_per_second \<le> d)"
    unfolding due_in_window [OF assms(1)] window_start_deadline [OF assms(2-)] age by simp blast
  have "is_due L s last_scheduled now (Some d)"
    if "t \<in> \<Union> (set Fs)" "last_scheduled < t" "d * nanos_per_second < now - t" "now - t < (d + 1) * nanos_per_second" for t
  proof -
    have "0 \<le> d * nanos_per_second" using assms(2) by (simp add: nanos_per_second_def)
    with that(3) have "t \<le> now" by linarith
    with that show ?thesis unfolding iff age by blast
  qed
  then show ?thesis
    using iff unfolding due_in_window [OF assms(1), of L last_scheduled now None] by (simp add: window_start_def)
qed

text \<open>With a deadline of 40 seconds, an instant that is 40 and a half seconds old is still run.\<close>

theorem due_iff_instant_missed_witness:
  "is_due demo_services \<lparr>parts = [\<lambda>t. if t < 60 * nanos_per_second then Some (60 * nanos_per_second) else None]\<rparr>
     0 (100 * nanos_per_second + 500000000) (Some 40)"
proof -
  let ?s = "\<lparr>parts = [\<lambda>t. if t < 60 * nanos_per_second then Some (60 * nanos_per_second) else None]\<rparr>"
  have "instants ?s [{60 * nanos_per_second}]" by (simp add: instants_def fires_def)
  from due_iff_instant_missed [OF this, of 40 demo_services "100 * nanos_per_second + 500000000" 0] show ?thesis
    by (simp add: demo_services_def nanos_per_second_def i64_max_def)
qed

section \<open>Creating runs\<close>

text \<open>What scheduling may do to the tables: new runs of the CronJobs in \<open>cs\<close>, new events and the settled balance.\<close>

definition new_run :: "cronjob_row set \<Rightarrow> job_row \<Rightarrow> bool" where
  "new_run cs r \<longleftrightarrow> j_status r = ''Created'' \<and> j_version r = 1 \<and> j_worker_vm_id r = None
     \<and> (\<exists>c \<in> cs. j_cronjob_name r = Some (cj_name c) \<and> j_namespace r = cj_namespace c)"

definition only_adds :: "cronjob_row set \<Rightarrow> database \<Rightarrow> database \<Rightarrow> bool" where
  "only_adds cs d d' \<longleftrightarrow>
     (\<exists>new. jobs d' = jobs d @ new \<and> list_all (new_run cs) new) \<and> (\<exists>es. events d' = events d @ es)
     \<and> map_option settings_of (budget_state d') = map_option settings_of (budget_state d)
     \<and> secrets d' = secrets d \<and> cronjobs d' = cronjobs d \<and> job_volumes d' = job_volumes d \<and> worker_metrics d' = worker_metrics d
     \<and> provider_pricing d' = provider_pricing d \<and> provider_plans d' = provider_plans d \<and> exchange_rates d' = exchange_rates d"

lemma only_adds_trans:
  assumes "only_adds cs a b" and "only_adds cs b c"
  shows "only_adds cs a c"
proof -
  from assms obtain new new' es es' where "jobs c = jobs a @ new @ new'" and "list_all (new_run cs) (new @ new')"
    and "events c = events a @ es @ es'"
    by (auto simp: only_adds_def)
  with assms show ?thesis unfolding only_adds_def by metis
qed

interpretation added: budget_frame "only_adds cs" for cs
proof unfold_locales
  show "only_adds cs d d" for d by (simp add: only_adds_def)
  show "only_adds cs a b \<Longrightarrow> only_adds cs b c \<Longrightarrow> only_adds cs a c" for a b c by (rule only_adds_trans)
qed (simp_all add: only_adds_def)

context db_frame
begin

lemma keeps_last_scheduled_time [intro!]: "keeps on_world (last_scheduled_time S name ns created)"
  by (auto simp: last_scheduled_time_def split: option.split)

lemma keeps_has_active_run [intro!]: "keeps on_world (has_active_run S name ns)"
  by (auto simp: has_active_run_def)

end

context budget_frame
begin

lemma keeps_guard_run [intro!]: "keeps on_world (guard_run S C name ns spec)"
  by (auto simp: guard_run_def split: option.split)

end

lemma adds_insert_job_row:
  "new_run cs r \<Longrightarrow> keeps (added.on_world cs) (sql_exec S (insert_job_row r))"
  by (rule added.keeps_sql_exec) (auto simp: insert_job_row_def only_adds_def split: if_splits)

lemma adds_create_job_run:
  assumes "c \<in> cs"
  shows "keeps (added.on_world cs) (create_job_run S C (cj_name c) (cj_namespace c) spec now)"
  using assms
  by (auto simp: create_job_run_def Let_def new_run_def new_job_row_def split: option.split intro!: adds_insert_job_row bexI [of _ c])

lemma adds_schedule_one: "c \<in> cs \<Longrightarrow> keeps (added.on_world cs) (schedule_one S C now c)"
  by (auto simp: schedule_one_def Let_def split: option.split intro!: adds_create_job_run)

lemma adds_schedule_rows: "set rows \<subseteq> cs \<Longrightarrow> keeps (added.on_world cs) (schedule_rows S C now rows n)"
  by (induction rows arbitrary: n) (auto intro!: adds_schedule_one)

lemma insert_job_row_run:
  "sql_exec S (insert_job_row r) w = (Inr (), w') \<Longrightarrow> db w' = (db w)\<lparr>jobs := jobs (db w) @ [r]\<rparr>"
  by (auto simp: sql_exec_def lift_ext_eq insert_job_row_def split: option.splits sum.splits if_splits)

lemma guard_run_same_jobs: "guard_run S C name ns spec w = (r, w') \<Longrightarrow> jobs (db w') = jobs (db w)"
  by (rule same_jobsD [OF same_jobs.keeps_guard_run])

text \<open>The guard lets a run through when it names no deadline, or when its cost is covered.\<close>

lemma guard_run_passed:
  assumes "guard_run S C name ns spec w = (Inr (Some cost), w')" and "active_deadline_seconds spec = Some deadline"
  shows "cost_covered S (ctx_zone C) (ctx_main_currency C) spec deadline cost (db w) (db w')"
proof -
  from assms obtain currency v where c: "effective_main_currency S (ctx_main_currency C) w = (Inr currency, v)"
    and b: "check_budget S (ctx_zone C) spec deadline currency v = (Inr (cost, True), w')"
    by (auto simp: guard_run_def bnd_returns seq_returns split: if_splits)
  then show ?thesis by (rule check_budget_covered)
qed

lemma guard_run_no_deadline:
  "guard_run S C name ns spec w = (Inr (Some cost), w') \<Longrightarrow> active_deadline_seconds spec = None \<Longrightarrow> cost = None"
  by (simp add: guard_run_def)

definition job_template :: "'x services \<Rightarrow> string \<Rightarrow> json" where
  "job_template S spec = unwrap_or JNull (pointer (parse_spec S spec) [''jobTemplate'', ''spec''])"

definition run_covered :: "'x services \<Rightarrow> 'x job_context \<Rightarrow> json \<Rightarrow> f64 option \<Rightarrow> database \<Rightarrow> database \<Rightarrow> bool" where
  "run_covered S C spec cost d d' =
     (case active_deadline_seconds spec of
        None \<Rightarrow> cost = None
      | Some deadline \<Rightarrow> cost_covered S (ctx_zone C) (ctx_main_currency C) spec deadline cost d d')"

lemma create_job_run_result:
  assumes "create_job_run S C name ns spec now w = (Inr b, w')"
  shows "if b then \<exists>r cost. jobs (db w') = jobs (db w) @ [r] \<and> j_created_at r = timestamp now
                      \<and> j_cronjob_name r = Some name \<and> j_namespace r = ns
                      \<and> j_estimated_cost r = sql_real cost \<and> run_covered S C (job_template S spec) cost (db w) (db w')
         else jobs (db w') = jobs (db w)"
proof -
  let ?spec = "job_template S spec"
  obtain g w1 where g: "guard_run S C name ns ?spec w = (Inr g, w1)"
    and k: "(case g of None \<Rightarrow> ret False
         | Some cost \<Rightarrow> bnd (new_uuid S) (\<lambda>job_id.
             seq (sql_exec S (insert_job_row (new_job_row job_id (name @ ''-'' @ show_int (timestamp now)) ns (Some name)
                       (to_string S ?spec) (sql_real cost) (timestamp now)))) (ret True))) w1 = (Inr b, w')"
    using assms unfolding create_job_run_def Let_def bnd_returns job_template_def by blast
  show ?thesis
  proof (cases g)
    case None
    with k guard_run_same_jobs [OF g] show ?thesis by simp
  next
    case (Some cost)
    note passed = g [unfolded Some]
    have covered: "run_covered S C ?spec cost (db w) (db w1)"
      using guard_run_passed [OF passed] guard_run_no_deadline [OF passed] by (simp add: run_covered_def split: option.split)
    from k Some obtain jid where "b" and w': "db w' = (db w1)\<lparr>jobs := jobs (db w1) @ [new_job_row jid (name @ ''-'' @ show_int (timestamp now)) ns (Some name)
                       (to_string S ?spec) (sql_real cost) (timestamp now)]\<rparr>"
      by (auto simp: bnd_returns seq_returns new_uuid_eq dest!: insert_job_row_run)
    moreover have "run_covered S C ?spec cost (db w) (db w')"
      using covered by (simp add: run_covered_def cost_covered_def w' split: option.splits)
    ultimately show ?thesis
      using guard_run_same_jobs [OF g] by (auto simp: new_job_row_def)
  qed
qed

text \<open>One CronJob gets at most one run, and the result says whether it did.\<close>

lemma schedule_one_result:
  assumes "schedule_one S C now c w = (Inr b, w')"
  shows "if b then
           (\<exists>r cost schedule prev v. jobs (db w') = jobs (db w) @ [r] \<and> j_created_at r = timestamp now
              \<and> j_cronjob_name r = Some (cj_name c) \<and> j_namespace r = cj_namespace c
              \<and> j_estimated_cost r = sql_real cost \<and> run_covered S C (job_template S (cj_spec c)) cost (db w) (db w')
              \<and> parse_schedule S (cj_schedule c) = Some schedule
              \<and> last_scheduled_time S (cj_name c) (cj_namespace c) (cj_created_at c) w = (Inr prev, v)
              \<and> is_due S schedule prev now (Option.bind (get (parse_spec S (cj_spec c)) ''startingDeadlineSeconds'') as_i64)
              \<and> Option.bind (get (parse_spec S (cj_spec c)) ''suspend'') as_bool \<noteq> Some True
              \<and> (get_str (parse_spec S (cj_spec c)) ''concurrencyPolicy'' = Some ''Forbid''
                   \<longrightarrow> (\<forall>r \<in> set (runs_of (cj_name c) (cj_namespace c) (db w)). j_status r \<notin> set unfinished_states)))
         else jobs (db w') = jobs (db w)"
proof -
  let ?spec = "parse_spec S (cj_spec c)"
  let ?deadline = "Option.bind (get ?spec ''startingDeadlineSeconds'') as_i64"
  let ?forbid = "get_str ?spec ''concurrencyPolicy'' = Some ''Forbid''"
  consider (skipped) "b = False" "jobs (db w') = jobs (db w)"
    | (due) schedule prev v held w2 where "parse_schedule S (cj_schedule c) = Some schedule"
        and "Option.bind (get ?spec ''suspend'') as_bool \<noteq> Some True"
        and "last_scheduled_time S (cj_name c) (cj_namespace c) (cj_created_at c) w = (Inr prev, v)"
        and "is_due S schedule prev now ?deadline"
        and "(if ?forbid then has_active_run S (cj_name c) (cj_namespace c) else ret False) v = (Inr held, w2)"
        and "(if held then ret False else create_job_run S C (cj_name c) (cj_namespace c) (cj_spec c) now) w2 = (Inr b, w')"
  proof (cases "trim (cj_schedule c) = [] \<or> parse_schedule S (cj_schedule c) = None \<or> Option.bind (get ?spec ''suspend'') as_bool = Some True")
    case True
    with assms show ?thesis by (intro skipped) (auto simp: schedule_one_def Let_def split: option.splits if_splits)
  next
    case False
    then obtain schedule where p: "parse_schedule S (cj_schedule c) = Some schedule" by auto
    from False p assms obtain prev v where l: "last_scheduled_time S (cj_name c) (cj_namespace c) (cj_created_at c) w = (Inr prev, v)"
      and k: "(if \<not> is_due S schedule prev now ?deadline then ret False
          else bnd (if ?forbid then has_active_run S (cj_name c) (cj_namespace c) else ret False) (\<lambda>held_back.
                 if held_back then ret False else create_job_run S C (cj_name c) (cj_namespace c) (cj_spec c) now)) v = (Inr b, w')"
      by (auto simp: schedule_one_def Let_def bnd_returns)
    show ?thesis
    proof (cases "is_due S schedule prev now ?deadline")
      case True
      with k have "\<exists>held w2. (if ?forbid then has_active_run S (cj_name c) (cj_namespace c) else ret False) v = (Inr held, w2)
        \<and> (if held then ret False else create_job_run S C (cj_name c) (cj_namespace c) (cj_spec c) now) w2 = (Inr b, w')"
        by (simp only: not_True_eq_False if_False bnd_returns)
      with due p l True False show ?thesis by blast
    next
      case False
      with k same_dbD [OF same_db.keeps_last_scheduled_time l] show ?thesis by (intro skipped) auto
    qed
  qed
  then show ?thesis
  proof cases
    case skipped
    then show ?thesis by simp
  next
    case due
    have v: "db v = db w" by (rule same_dbD [OF same_db.keeps_last_scheduled_time due(3)])
    have w2: "db w2 = db v"
      using due(5) by (auto split: if_splits dest: same_dbD [OF same_db.keeps_has_active_run])
    have held: "?forbid \<Longrightarrow> held = (\<exists>r \<in> set (runs_of (cj_name c) (cj_namespace c) (db w)). j_status r \<in> set unfinished_states)"
      using due(5) v
      by (auto simp: has_active_run_def bnd_returns sql_query_def lift_ext_eq list_ex_iff pre_completion_iff_unfinished split: option.splits)
    show ?thesis
    proof (cases held)
      case True
      with due(6) v w2 show ?thesis by simp
    next
      case False
      with due(6) have "create_job_run S C (cj_name c) (cj_namespace c) (cj_spec c) now w2 = (Inr b, w')" by simp
      note result = create_job_run_result [OF this, unfolded w2 v]
      show ?thesis
      proof (cases b)
        case True
        with result obtain r cost where "jobs (db w') = jobs (db w) @ [r]" "j_created_at r = timestamp now" "j_cronjob_name r = Some (cj_name c)"
          "j_namespace r = cj_namespace c" "j_estimated_cost r = sql_real cost" "run_covered S C (job_template S (cj_spec c)) cost (db w) (db w')"
          by auto
        with True due(1-4) held False show ?thesis by simp blast
      qed (use result in simp)
    qed
  qed
qed

lemma schedule_rows_count:
  assumes "schedule_rows S C now cs n w = (Inr m, w')"
  shows "n \<le> m \<and> m \<le> n + length cs \<and> length (jobs (db w')) + n = length (jobs (db w)) + m"
  using assms
proof (induction cs arbitrary: n w)
  case (Cons c cs)
  from Cons.prems obtain b v where one: "schedule_one S C now c w = (Inr b, v)"
    and rest: "schedule_rows S C now cs (if b then n + 1 else n) v = (Inr m, w')" by (auto simp: bnd_returns)
  have "length (jobs (db v)) = length (jobs (db w)) + (if b then 1 else 0)"
    using schedule_one_result [OF one] by (auto split: if_splits)
  with Cons.IH [OF rest] show ?case by (auto split: if_splits)
qed simp

text \<open>
  Scheduling only adds: new runs of existing CronJobs, in state \<open>Created\<close> and without a worker, and new events; no job, no CronJob and no other row is changed or
  removed, and of the budget only the balance and its clock. A tick creates as many runs as it reports, at most one for each CronJob.
\<close>

theorem scheduling_only_adds:
  assumes "schedule_due_jobs S C w = (r, w')"
  shows "only_adds (set (cronjobs (db w))) (db w) (db w')
    \<and> (\<forall>n. r = Inr n \<longrightarrow> length (jobs (db w')) = length (jobs (db w)) + n \<and> n \<le> length (cronjobs (db w)))"
proof -
  consider (rows) now u where "db u = db w" and "schedule_rows S C now (cronjobs (db w)) 0 u = (r, w')"
    | (failed) e where "r = Inl e" and "db w' = db w"
    using assms
    by (auto simp: schedule_due_jobs_def bnd_def sql_query_def now_nanos_def lift_ext_eq split: option.splits) (metis db_ext_update)
  then show ?thesis
  proof cases
    case rows
    have "only_adds (set (cronjobs (db w))) (db u) (db w')"
      using keepsD [OF adds_schedule_rows [of "cronjobs (db w)" "set (cronjobs (db w))" S C now 0], of u] rows(2)
      by (simp add: added.on_world_def)
    with rows schedule_rows_count [of S C now "cronjobs (db w)" 0 u _ w'] show ?thesis by auto
  next
    case failed
    then show ?thesis by (simp add: only_adds_def)
  qed
qed

theorem scheduling_only_adds_witness:
  "only_adds {} (demo_db ''Pending'' 900) (db (snd (schedule_due_jobs demo_services demo_context (demo_world ''Pending'' 900))))"
  using scheduling_only_adds [of demo_services demo_context "demo_world ''Pending'' 900" "fst (schedule_due_jobs demo_services demo_context (demo_world ''Pending'' 900))"
      "snd (schedule_due_jobs demo_services demo_context (demo_world ''Pending'' 900))"]
  by (simp add: demo_world_def demo_db_def)

text \<open>
  C19. No run is created that the CronJob's spec or the budget rules out: when a run is created, the CronJob is not suspended and a run was due; under the policy
  \<open>Forbid\<close> none of its earlier runs was in a state before completion; and when its job template names a deadline, the cost recorded with the
  run is the estimate for that deadline, in the budget's currency, and the settled balance covers it after the claims of all
  unfinished jobs, if a budget with a positive daily rate is set up.
\<close>

theorem ruled_out_runs_not_created:
  assumes "schedule_one S C now c w = (Inr True, w')"
  shows "Option.bind (get (parse_spec S (cj_spec c)) ''suspend'') as_bool \<noteq> Some True
    \<and> (\<exists>schedule prev v. parse_schedule S (cj_schedule c) = Some schedule
         \<and> last_scheduled_time S (cj_name c) (cj_namespace c) (cj_created_at c) w = (Inr prev, v)
         \<and> is_due S schedule prev now (Option.bind (get (parse_spec S (cj_spec c)) ''startingDeadlineSeconds'') as_i64))
    \<and> (get_str (parse_spec S (cj_spec c)) ''concurrencyPolicy'' = Some ''Forbid''
         \<longrightarrow> (\<forall>r \<in> set (jobs (db w)). j_cronjob_name r = Some (cj_name c) \<and> j_namespace r = cj_namespace c \<longrightarrow> j_status r \<notin> set unfinished_states))
    \<and> (\<exists>r cost. jobs (db w') = jobs (db w) @ [r] \<and> j_estimated_cost r = sql_real cost
         \<and> (case active_deadline_seconds (job_template S (cj_spec c)) of
              None \<Rightarrow> cost = None
            | Some deadline \<Rightarrow>
                within_budget (jobs (db w)) (budget_state (db w')) cost
                \<and> (\<exists>v v'. db v = db w
                     \<and> estimate_job_cost S (ctx_zone C) (job_template S (cj_spec c)) deadline (currency_of (ctx_main_currency C) (db w)) v = (Inr cost, v'))))"
proof -
  from schedule_one_result [OF assms] obtain r cost schedule prev v where
    "jobs (db w') = jobs (db w) @ [r]" and "j_estimated_cost r = sql_real cost"
    and "run_covered S C (job_template S (cj_spec c)) cost (db w) (db w')"
    and "parse_schedule S (cj_schedule c) = Some schedule"
    and "last_scheduled_time S (cj_name c) (cj_namespace c) (cj_created_at c) w = (Inr prev, v)"
    and "is_due S schedule prev now (Option.bind (get (parse_spec S (cj_spec c)) ''startingDeadlineSeconds'') as_i64)"
    and "Option.bind (get (parse_spec S (cj_spec c)) ''suspend'') as_bool \<noteq> Some True"
    and "get_str (parse_spec S (cj_spec c)) ''concurrencyPolicy'' = Some ''Forbid''
           \<longrightarrow> (\<forall>r \<in> set (runs_of (cj_name c) (cj_namespace c) (db w)). j_status r \<notin> set unfinished_states)"
    by (simp only: if_True) blast
  then show ?thesis unfolding run_covered_def cost_covered_def runs_of_def set_filter by blast
qed

lemma max_option_ge: "x \<in> set xs \<Longrightarrow> \<exists>m. max_option xs = Some m \<and> x \<le> m \<and> m \<in> set xs"
proof (cases xs)
  case (Cons z zs)
  have "foldl max z zs = Max (set xs)"
    unfolding Cons Max.set_eq_fold foldl_conv_fold by (simp add: max.commute [of _ z] fun_eq_iff max.commute cong: fold_cong)
  moreover assume "x \<in> set xs"
  ultimately show ?thesis using Cons Max_ge [of "set xs" x] Max_in [of "set xs"] by (auto simp: max_option_def simp del: Max_insert)
qed simp

lemma window_start_ge: "prev \<le> window_start L prev now deadline"
  by (auto simp: window_start_def split: option.split)

lemma last_scheduled_bound:
  assumes "last_scheduled_time S name ns created w = (Inr prev, v)" and "r \<in> set (runs_of name ns (db w))"
    and "\<forall>r \<in> set (runs_of name ns (db w)). from_timestamp S (j_created_at r) \<noteq> None"
  shows "j_created_at r * nanos_per_second \<le> prev"
proof -
  from max_option_ge [of "j_created_at r" "map j_created_at (runs_of name ns (db w))"] assms(2) obtain m
    where m: "max_option (map j_created_at (runs_of name ns (db w))) = Some m" "j_created_at r \<le> m"
      "m \<in> j_created_at ` set (runs_of name ns (db w))" by auto
  with assms(3) obtain t where t: "from_timestamp S m = Some t" by auto
  then have "t = m * nanos_per_second" by (auto simp: from_timestamp_def split: if_splits)
  moreover have "prev = t"
    using assms(1) m t by (auto simp: last_scheduled_time_def bnd_returns sql_query_def lift_ext_eq unwrap_or_def split: option.splits)
  ultimately show ?thesis using m(2) by (simp add: nanos_per_second_def)
qed

text \<open>A CronJob that is due at 500 seconds, and the libraries that read it.\<close>

definition cron_services :: "json \<Rightarrow> nat services" where
  "cron_services template = demo_services\<lparr>
     from_str := \<lambda>s. Inr (JObj [(''concurrencyPolicy'', JStr ''Forbid''), (''jobTemplate'', JObj [(''spec'', template)])]),
     cron_from_str := \<lambda>s. Some (\<lambda>t. if t < 500 * nanos_per_second then Some (500 * nanos_per_second) else None)\<rparr>"

definition demo_cronjob :: cronjob_row where
  "demo_cronjob = \<lparr>cj_id = ''c'', cj_name = ''cron'', cj_namespace = ''default'', cj_spec = ''s'', cj_status = None, cj_schedule = ''@daily'', cj_created_at = 0,
     cj_updated_at = 0, cj_version = 1\<rparr>"

lemma demo_cronjob_parsed:
  "parse_schedule (cron_services template) (cj_schedule demo_cronjob) =
     Some \<lparr>parts = [\<lambda>t. if t < 500 * nanos_per_second then Some (500 * nanos_per_second) else None]\<rparr>"
proof -
  have t: "trim ''@daily'' = ''@daily''" by code_simp
  have w: "split_whitespace ''@daily'' = [''@daily'']" by code_simp
  show ?thesis
    by (simp add: parse_schedule_def demo_cronjob_def t schedule_parts_def w cron_services_def)
qed

lemma quiet_cron: "quiet (cron_services template)"
  by (simp add: quiet_def cron_services_def demo_services_def)

lemma cron_spec:
  "parse_spec (cron_services template) s = JObj [(''concurrencyPolicy'', JStr ''Forbid''), (''jobTemplate'', JObj [(''spec'', template)])]"
  "job_template (cron_services template) s = template"
  by (simp_all add: job_template_def parse_spec_def cron_services_def unwrap_or_def)

lemma demo_cronjob_run:
  assumes "runs_of ''cron'' ''default'' (db w) = []" and "500 * nanos_per_second \<le> now"
    and "fst (create_job_run (cron_services template) demo_context ''cron'' ''default'' ''s'' now w) = Inr True"
  shows "fst (schedule_one (cron_services template) demo_context now demo_cronjob w) = Inr True"
proof -
  let ?S = "cron_services template"
  have t: "trim (cj_schedule demo_cronjob) \<noteq> []" by code_simp
  have "from_timestamp ?S 0 = Some 0"
    by (simp add: from_timestamp_def cron_services_def demo_services_def)
  then have last: "last_scheduled_time ?S ''cron'' ''default'' 0 w = (Inr 0, w)"
    using assms(1) by (simp add: last_scheduled_time_def bnd_def quiet_query [OF quiet_cron] max_option_def unwrap_or_def)
  have idle: "has_active_run ?S ''cron'' ''default'' w = (Inr False, w)"
    using assms(1) by (simp add: has_active_run_def bnd_def quiet_query [OF quiet_cron])
  show ?thesis
    unfolding schedule_one_def demo_cronjob_parsed if_not_P [OF t] option.case cron_spec
    using assms(2,3)
    by (simp add: demo_cronjob_def is_due_def next_after_def List.map_filter_def window_start_def nanos_per_second_def get_str_def
        bnd_def idle last)
qed

lemma cron_stores:
  "new_uuid (cron_services template) w = (Inr (show_nat (ext w)), w\<lparr>ext := ext w + 1\<rparr>)"
  "sql_exec (cron_services template) f w = (case f (db w) of Inl e \<Rightarrow> (Inl e, w) | Inr d \<Rightarrow> (Inr (), w\<lparr>db := d\<rparr>))"
  by (simp_all add: sql_exec_def new_uuid_eq lift_ext_eq cron_services_def demo_services_def split: sum.split)

text \<open>A run without a deadline, and one that the budget of the example above covers.\<close>

lemma free_run:
  "fst (schedule_one (cron_services (JObj [])) demo_context (1000 * nanos_per_second) demo_cronjob (demo_world ''Pending'' 900)) = Inr True"
proof (rule demo_cronjob_run)
  show "runs_of ''cron'' ''default'' (db (demo_world ''Pending'' 900)) = []" by (simp add: runs_of_def demo_world_def demo_db_def demo_job_def)
  have fresh: "show_nat 0 \<noteq> ''job-1''" by code_simp
  show "fst (create_job_run (cron_services (JObj [])) demo_context ''cron'' ''default'' ''s'' (1000 * nanos_per_second) (demo_world ''Pending'' 900)) = Inr True"
    by (simp add: create_job_run_def cron_spec Let_def unwrap_or_def guard_run_def active_deadline_seconds_def bnd_def seq_def cron_stores insert_job_row_def
        new_job_row_def demo_world_def demo_db_def demo_job_def fresh)
qed (simp add: nanos_per_second_def)

abbreviation hour_template :: json where
  "hour_template \<equiv> JObj [(''activeDeadlineSeconds'', JPos 3600)]"

lemma hour_template_facts: "modest hour_template" "active_deadline_seconds hour_template = Some 3600"
  by (simp_all add: modest_def extract_resource_requests_def find_ephemeral_volume_def Let_def active_deadline_seconds_def)

lemma paid_run:
  "fst (schedule_one (cron_services hour_template) demo_context (1000 * nanos_per_second) demo_cronjob (claims_world 35000)) = Inr True"
proof (rule demo_cronjob_run)
  let ?S = "cron_services hour_template" and ?w = "claims_world 35000"
  show "runs_of ''cron'' ''default'' (db ?w) = []" by (simp add: runs_of_def claims_world_def demo_job_def)
  have currency: "effective_main_currency ?S ''EUR'' ?w = (Inr ''EUR'', ?w)"
    by (simp add: effective_main_currency_def current_settings_def fetch_budget_row_def bnd_def quiet_query [OF quiet_cron] ret_def claims_claimed
        settings_of_def demo_budget_def)
  from claims_check [OF quiet_cron hour_template_facts(1), of 35000 hour_template] obtain enough v where
    b: "check_budget ?S ''de-fra1'' hour_template 3600 ''EUR'' ?w = (Inr (Some (Fin 350), enough), v)"
    and v: "v = ?w\<lparr>db := (db ?w)\<lparr>budget_state := Some ((demo_budget (Fin 500))\<lparr>bs_last_accrual_at := 1000\<rparr>)\<rparr>\<rparr>" by auto
  from check_budget_settled [OF b] have "enough"
    by (simp add: within_budget_def claims_claimed v demo_budget_def f64_sub_def)
  with b currency have guard: "guard_run ?S demo_context ''cron'' ''default'' hour_template ?w = (Inr (Some (Some (Fin 350))), v)"
    by (simp add: guard_run_def hour_template_facts bnd_def demo_context_def)
  have fresh: "show_nat 0 \<noteq> ''job-1''" by code_simp
  show "fst (create_job_run ?S demo_context ''cron'' ''default'' ''s'' (1000 * nanos_per_second) ?w) = Inr True"
    by (simp add: create_job_run_def cron_spec Let_def unwrap_or_def bnd_def guard seq_def cron_stores insert_job_row_def new_job_row_def)
       (simp add: v claims_world_def demo_job_def fresh)
qed (simp add: nanos_per_second_def)

theorem ruled_out_runs_not_created_witness:
  "\<exists>r. jobs (db (snd (schedule_one (cron_services hour_template) demo_context (1000 * nanos_per_second) demo_cronjob (claims_world 35000))))
      = jobs (db (claims_world 35000)) @ [r]
    \<and> within_budget (jobs (db (claims_world 35000)))
        (budget_state (db (snd (schedule_one (cron_services hour_template) demo_context (1000 * nanos_per_second) demo_cronjob (claims_world 35000)))))
        (j_estimated_cost r)"
proof -
  let ?run = "schedule_one (cron_services hour_template) demo_context (1000 * nanos_per_second) demo_cronjob (claims_world 35000)"
  have "?run = (Inr True, snd ?run)" using paid_run by (metis prod.collapse)
  from ruled_out_runs_not_created [OF this] obtain r cost where "jobs (db (snd ?run)) = jobs (db (claims_world 35000)) @ [r]"
    and "j_estimated_cost r = sql_real cost" and "within_budget (jobs (db (claims_world 35000))) (budget_state (db (snd ?run))) cost"
    by (auto simp: cron_spec hour_template_facts)
  then show ?thesis by (auto simp: sql_real_def within_budget_def split: option.splits f64.splits)
qed

text \<open>
  C20. Missed instants are caught up by one run: creating a run adds a row with the time of its creation, and as long as a row of this CronJob from that time
  or later is in the table, whatever else has happened to the tables since, no other run is created until the schedule has an instant after the second of
  that creation, however often the scheduler looks. (The row is all that records the run: once it is deleted the instants before
  it count as missed again, see \<open>deleted_run_due_again\<close>.)
\<close>

theorem no_second_run:
  fixes w w1 :: "'x world"
  assumes "schedule_one S C now c w = (Inr True, w1)"
    and "parse_schedule S (cj_schedule c) = Some schedule" and "instants schedule Fs"
    and "\<forall>t \<in> \<Union> (set Fs). \<not> (timestamp now * nanos_per_second < t \<and> t \<le> later)"
  shows "(\<exists>r. jobs (db w1) = jobs (db w) @ [r] \<and> r \<in> set (runs_of (cj_name c) (cj_namespace c) (db w1)) \<and> j_created_at r = timestamp now)
    \<and> (\<forall>w2. (\<exists>r \<in> set (runs_of (cj_name c) (cj_namespace c) (db w2)). timestamp now \<le> j_created_at r)
          \<and> list_all (\<lambda>r. from_timestamp S (j_created_at r) \<noteq> None) (jobs (db w2))
          \<longrightarrow> fst (schedule_one S C later c w2) \<noteq> Inr True)"
proof (intro conjI allI impI notI)
  from schedule_one_result [OF assms(1)] show "\<exists>r. jobs (db w1) = jobs (db w) @ [r]
      \<and> r \<in> set (runs_of (cj_name c) (cj_namespace c) (db w1)) \<and> j_created_at r = timestamp now"
    by (auto simp: runs_of_def)
next
  fix w2 :: "'x world"
  assume kept: "(\<exists>r \<in> set (runs_of (cj_name c) (cj_namespace c) (db w2)). timestamp now \<le> j_created_at r)
      \<and> list_all (\<lambda>r. from_timestamp S (j_created_at r) \<noteq> None) (jobs (db w2))"
  assume "fst (schedule_one S C later c w2) = Inr True"
  then have "schedule_one S C later c w2 = (Inr True, snd (schedule_one S C later c w2))" by (metis prod.collapse)
  from schedule_one_result [OF this] assms(2) obtain prev v where l: "last_scheduled_time S (cj_name c) (cj_namespace c) (cj_created_at c) w2 = (Inr prev, v)"
    and due: "is_due S schedule prev later (Option.bind (get (parse_spec S (cj_spec c)) ''startingDeadlineSeconds'') as_i64)"
    by auto
  from kept obtain r where r: "r \<in> set (runs_of (cj_name c) (cj_namespace c) (db w2))" "timestamp now \<le> j_created_at r" by blast
  have "j_created_at r * nanos_per_second \<le> prev"
    using last_scheduled_bound [OF l r(1)] kept by (simp add: list_all_iff runs_of_def)
  moreover have "timestamp now * nanos_per_second \<le> j_created_at r * nanos_per_second" using r(2) by (simp add: nanos_per_second_def)
  moreover obtain t where "t \<in> \<Union> (set Fs)" "prev < t" "t \<le> later"
    using due due_in_window [OF assms(3)] window_start_ge [of prev S later] by (meson order.strict_trans1)
  ultimately show False using assms(4) by fastforce
qed

theorem no_second_run_witness:
  "fst (schedule_one (cron_services (JObj [])) demo_context (2000 * nanos_per_second) demo_cronjob
      (snd (schedule_one (cron_services (JObj [])) demo_context (1000 * nanos_per_second) demo_cronjob (demo_world ''Pending'' 900)))) \<noteq> Inr True"
proof -
  let ?run = "schedule_one (cron_services (JObj [])) demo_context (1000 * nanos_per_second) demo_cronjob (demo_world ''Pending'' 900)"
  have run: "?run = (Inr True, snd ?run)" using free_run by (metis prod.collapse)
  let ?s = "\<lparr>parts = [\<lambda>t. if t < 500 * nanos_per_second then Some (500 * nanos_per_second) else None]\<rparr>"
  have inst: "instants ?s [{500 * nanos_per_second}]" by (simp add: instants_def fires_def)
  have quiet: "\<forall>t \<in> \<Union> (set [{500 * nanos_per_second}]).
      \<not> (timestamp (1000 * nanos_per_second) * nanos_per_second < t \<and> t \<le> 2000 * nanos_per_second)"
    by (simp add: timestamp_def nanos_per_second_def)
  note fact = no_second_run [OF run demo_cronjob_parsed inst quiet]
  then obtain r where r: "jobs (db (snd ?run)) = jobs (demo_db ''Pending'' 900) @ [r]" "j_created_at r = timestamp (1000 * nanos_per_second)"
    "r \<in> set (runs_of (cj_name demo_cronjob) (cj_namespace demo_cronjob) (db (snd ?run)))"
    by (auto simp: demo_world_def)
  then have "list_all (\<lambda>r. from_timestamp (cron_services (JObj [])) (j_created_at r) \<noteq> None) (jobs (db (snd ?run)))"
    by (simp add: demo_db_def demo_job_def from_timestamp_def cron_services_def demo_services_def nanos_per_second_def timestamp_def)
  with r(2,3) show ?thesis by (intro conjunct2 [OF fact, rule_format] conjI bexI [of _ r]) simp_all
qed

text \<open>
  The row of a run is the only record that an instant was served. Once the run is deleted, so that the CronJob's runs are those from before it, and no starting
  deadline limits how far back the scheduler looks, the same instants are due again.
\<close>

theorem deleted_run_due_again:
  assumes "schedule_one S C now c w = (Inr True, w1)"
    and "parse_schedule S (cj_schedule c) = Some schedule" and "instants schedule Fs"
    and "Option.bind (get (parse_spec S (cj_spec c)) ''startingDeadlineSeconds'') as_i64 = None"
    and "runs_of (cj_name c) (cj_namespace c) (db w2) = runs_of (cj_name c) (cj_namespace c) (db w)"
    and "last_scheduled_time S (cj_name c) (cj_namespace c) (cj_created_at c) w2 = (Inr prev, v)"
    and "from_timestamp S (unwrap_or (cj_created_at c) (max_option (map j_created_at (runs_of (cj_name c) (cj_namespace c) (db w))))) \<noteq> None"
    and "now \<le> later"
  shows "is_due S schedule prev later None"
proof -
  from schedule_one_result [OF assms(1)] assms(2,4) obtain prev0 v0 where
    l: "last_scheduled_time S (cj_name c) (cj_namespace c) (cj_created_at c) w = (Inr prev0, v0)" and due: "is_due S schedule prev0 now None"
    by auto
  have "prev = prev0"
    using l assms(5-7) by (auto simp: last_scheduled_time_def bnd_returns sql_query_def lift_ext_eq split: option.splits)
  with due assms(8) show ?thesis
    unfolding due_in_window [OF assms(3)] by (fastforce simp: window_start_def)
qed

end
