(* ===== verification/DayOfWeek.thy ===== *)
theory DayOfWeek
  imports Schedule
begin

text \<open>
  The day-of-week field of a schedule (\<open>day_of_week_to_names\<close> in \<open>schedule.rs\<close>) against a description of POSIX cron fields that is independent of the
  translation: the days of the week, how each may be written, and what an item of the field stands for.
\<close>

section \<open>Fields as cron reads them\<close>

datatype weekday = Sunday | Monday | Tuesday | Wednesday | Thursday | Friday | Saturday

definition week :: "weekday list" where
  "week = [Sunday, Monday, Tuesday, Wednesday, Thursday, Friday, Saturday]"

fun weekday_name :: "weekday \<Rightarrow> string" where
  "weekday_name Sunday = ''SUN''" | "weekday_name Monday = ''MON''" | "weekday_name Tuesday = ''TUE''" | "weekday_name Wednesday = ''WED''"
| "weekday_name Thursday = ''THU''" | "weekday_name Friday = ''FRI''" | "weekday_name Saturday = ''SAT''"

text \<open>Days are numbered from Sunday, which may be 0 or 7.\<close>

fun weekday_numbers :: "weekday \<Rightarrow> string list" where
  "weekday_numbers Sunday = [''0'', ''7'']" | "weekday_numbers Monday = [''1'']" | "weekday_numbers Tuesday = [''2'']"
| "weekday_numbers Wednesday = [''3'']" | "weekday_numbers Thursday = [''4'']" | "weekday_numbers Friday = [''5'']"
| "weekday_numbers Saturday = [''6'']"

definition day_text :: "string \<Rightarrow> weekday \<Rightarrow> bool" where
  "day_text s d \<longleftrightarrow> s \<in> set (weekday_numbers d) \<or> eq_ignore_ascii_case s (weekday_name d)"

text \<open>The days from \<open>a\<close> to \<open>b\<close>, into the next week if need be, and every \<open>n\<close>-th of some days, beginning with the first.\<close>

definition days_between :: "weekday \<Rightarrow> weekday \<Rightarrow> weekday list" where
  "days_between a b = takeWhile (\<lambda>d. d \<noteq> b) (dropWhile (\<lambda>d. d \<noteq> a) (week @ week)) @ [b]"

definition every_nth :: "nat \<Rightarrow> weekday list \<Rightarrow> weekday list" where
  "every_nth n ds = map (nth ds) (filter (\<lambda>i. n dvd i) [0..<length ds])"

text \<open>The items of a field: all days, one day, a range of days, each also with a step; one day with a step reaches to the end of the week.\<close>

inductive item_means :: "string \<Rightarrow> weekday list \<Rightarrow> bool" where
  every: "item_means ''*'' week"
| every_step: "0 < n \<Longrightarrow> n < 2 ^ 64 \<Longrightarrow> item_means (''*/'' @ show_nat n) (every_nth n week)"
| day: "day_text s d \<Longrightarrow> item_means s [d]"
| day_step: "day_text s d \<Longrightarrow> 0 < n \<Longrightarrow> n < 2 ^ 64 \<Longrightarrow> item_means (s @ ''/'' @ show_nat n) (every_nth n (dropWhile (\<lambda>x. x \<noteq> d) week))"
| range: "day_text s a \<Longrightarrow> day_text t b \<Longrightarrow> item_means (s @ ''-'' @ t) (days_between a b)"
| range_step: "day_text s a \<Longrightarrow> day_text t b \<Longrightarrow> 0 < n \<Longrightarrow> n < 2 ^ 64
    \<Longrightarrow> item_means (s @ ''-'' @ t @ ''/'' @ show_nat n) (every_nth n (days_between a b))"

section \<open>What the translation marks\<close>

text \<open>The numbers that the translation marks for an item.\<close>

definition item_marks :: "string \<Rightarrow> nat set" where
  "item_marks item =
     (case item_step item of
        None \<Rightarrow> {}
      | Some (base, step) \<Rightarrow>
         (case item_range item base step of
            None \<Rightarrow> {}
          | Some (first, final) \<Rightarrow> {(first + k * step) mod 7 | k. k * step \<le> (final + 7 - first) mod 7}))"

definition understood :: "string \<Rightarrow> bool" where
  "understood item \<longleftrightarrow> (case item_step item of None \<Rightarrow> False | Some (base, step) \<Rightarrow> item_range item base step \<noteq> None)"

lemma set_offsets: "set (offsets len step) = {k * step | k. k * step \<le> len}"
proof -
  have "set (offsets len step) = {i. i \<le> len \<and> step dvd i}"
    by (auto simp: offsets_def dvd_eq_mod_eq_0 simp del: upt_Suc)
  then show ?thesis by (auto simp: mult.commute elim!: dvdE)
qed

lemma marked_days:
  assumes "length ds = 7"
  shows "length (foldl (\<lambda>ds i. ds[(f + i) mod 7 := True]) ds is) = 7
       \<and> (\<forall>d < 7. foldl (\<lambda>ds i. ds[(f + i) mod 7 := True]) ds is ! d \<longleftrightarrow> ds ! d \<or> d \<in> (\<lambda>i. (f + i) mod 7) ` set is)"
  using assms by (induction "is" arbitrary: ds) (auto simp: nth_list_update)

lemma mark_item_Some:
  assumes "mark_item ds item = Some ds'" and "length ds = 7"
  shows "length ds' = 7 \<and> understood item \<and> (\<forall>d < 7. ds' ! d \<longleftrightarrow> ds ! d \<or> d \<in> item_marks item)"
proof -
  from assms(1) obtain base step first final where i: "item_step item = Some (base, step)" "item_range item base step = Some (first, final)"
    and ds': "ds' = foldl (\<lambda>ds i. ds[(first + i) mod 7 := True]) ds (offsets ((final + 7 - first) mod 7) step)"
    by (auto simp: mark_item_def bind_eq_Some_conv)
  have "item_marks item = (\<lambda>i. (first + i) mod 7) ` set (offsets ((final + 7 - first) mod 7) step)"
    by (auto simp: item_marks_def i set_offsets)
  with marked_days [OF assms(2), of first] ds' show ?thesis by (simp add: understood_def i)
qed

lemma mark_item_None: "mark_item ds item = None \<longleftrightarrow> \<not> understood item"
  by (auto simp: mark_item_def understood_def split: option.splits bind_splits)

lemma mark_items_Some:
  assumes "mark_items ds items = Some ds'" and "length ds = 7"
  shows "length ds' = 7 \<and> list_all understood items \<and> (\<forall>d < 7. ds' ! d \<longleftrightarrow> ds ! d \<or> (\<exists>item \<in> set items. d \<in> item_marks item))"
  using assms
proof (induction items arbitrary: ds)
  case (Cons item items)
  from Cons.prems obtain ds1 where m: "mark_item ds item = Some ds1" "mark_items ds1 items = Some ds'"
    by (auto simp: bind_eq_Some_conv)
  from mark_item_Some [OF m(1) Cons.prems(2)] Cons.IH [OF m(2)] show ?case by auto
qed auto

lemma mark_items_total:
  assumes "list_all understood items"
  shows "\<exists>ds'. mark_items ds items = Some ds'"
  using assms
proof (induction items arbitrary: ds)
  case (Cons item items)
  then obtain ds1 where "mark_item ds item = Some ds1" using mark_item_None [of ds item] by (cases "mark_item ds item") auto
  with Cons show ?case by simp
qed simp

lemma unknown_items_kept:
  assumes "\<not> list_all understood (split_on (CHR '','') fld)"
  shows "day_of_week_to_names fld = fld"
proof -
  have "mark_items (replicate 7 False) (split_on (CHR '','') fld) = None"
    using assms mark_items_Some [of "replicate 7 False"] by (cases "mark_items (replicate 7 False) (split_on (CHR '','') fld)") auto
  then show ?thesis by (auto simp: day_of_week_to_names_def)
qed

section \<open>The marks are the days that are meant\<close>

fun day_index :: "weekday \<Rightarrow> nat" where
  "day_index Sunday = 0" | "day_index Monday = 1" | "day_index Tuesday = 2" | "day_index Wednesday = 3"
| "day_index Thursday = 4" | "day_index Friday = 5" | "day_index Saturday = 6"

lemma letter_not_below: "97 \<le> (of_char (to_ascii_lower c) :: nat) \<Longrightarrow> 65 \<le> (of_char c :: nat)"
  by (auto simp: to_ascii_lower_def split: if_splits)

lemma lower_names:
  "map to_ascii_lower ''SUN'' = ''sun''" "map to_ascii_lower ''MON'' = ''mon''" "map to_ascii_lower ''TUE'' = ''tue''"
  "map to_ascii_lower ''WED'' = ''wed''" "map to_ascii_lower ''THU'' = ''thu''" "map to_ascii_lower ''FRI'' = ''fri''"
  "map to_ascii_lower ''SAT'' = ''sat''"
  by code_simp+

lemma name_letters:
  assumes "eq_ignore_ascii_case s (weekday_name d)"
  shows "s \<noteq> []" and "\<forall>c \<in> set s. 65 \<le> (of_char c :: nat)"
proof -
  have "map to_ascii_lower (weekday_name d) \<noteq> [] \<and> list_all (\<lambda>c. 97 \<le> (of_char c :: nat)) (map to_ascii_lower (weekday_name d))"
    by (cases d) (simp_all only: weekday_name.simps lower_names, simp_all)
  with assms have "map to_ascii_lower s \<noteq> []" and "list_all (\<lambda>c. 97 \<le> (of_char c :: nat)) (map to_ascii_lower s)"
    unfolding eq_ignore_ascii_case_def by metis+
  then show "s \<noteq> []" and "\<forall>c \<in> set s. 65 \<le> (of_char c :: nat)"
    by (auto simp: list_all_iff intro: letter_not_below)
qed

lemma letters_no_number: "s \<noteq> [] \<Longrightarrow> \<forall>c \<in> set s. 65 \<le> (of_char c :: nat) \<Longrightarrow> parse_usize s = None"
  by (cases s) (auto simp: parse_usize_def parse_nat_def is_ascii_digit_def filter_opt_def)

lemma name_position:
  assumes "eq_ignore_ascii_case s (weekday_name d)"
  shows "position (\<lambda>name. eq_ignore_ascii_case name s) DAY_NAMES = Some (day_index d)"
proof -
  have "map to_ascii_lower s = map to_ascii_lower (weekday_name d)" using assms by (simp only: eq_ignore_ascii_case_def)
  then show ?thesis
    by (cases d) (simp_all only: weekday_name.simps lower_names eq_ignore_ascii_case_def DAY_NAMES_def position.simps, simp_all)
qed

lemma day_text_number:
  assumes "day_text s d"
  shows "day_number s = Some (day_index d)" and "\<forall>c \<in> {CHR ''/'', CHR ''-'', CHR '',''}. c \<notin> set s" and "s \<noteq> ''*''"
proof -
  consider (number) "s \<in> set (weekday_numbers d)" | (name) "eq_ignore_ascii_case s (weekday_name d)"
    using assms by (auto simp: day_text_def)
  then have "day_number s = Some (day_index d) \<and> (\<forall>c \<in> {CHR ''/'', CHR ''-'', CHR '',''}. c \<notin> set s) \<and> s \<noteq> ''*''"
  proof cases
    case number
    then show ?thesis
      by (cases d) (auto simp: day_number_def parse_usize_def parse_nat_def is_ascii_digit_def digit_value_def filter_opt_def)
  next
    case name
    have "\<forall>c \<in> {CHR ''/'', CHR ''-'', CHR '',''}. c \<notin> set s" "s \<noteq> ''*''" using name_letters(2) [OF name] by auto
    then show ?thesis
      using name_position [OF name] letters_no_number [OF name_letters [OF name]] by (simp add: day_number_def)
  qed
  then show "day_number s = Some (day_index d)" and "\<forall>c \<in> {CHR ''/'', CHR ''-'', CHR '',''}. c \<notin> set s" and "s \<noteq> ''*''" by blast+
qed

text \<open>Every range of the week is its days counted on from the first.\<close>

lemma days_between_counted:
  "map day_index (days_between a b) = map (\<lambda>i. (day_index a + i) mod 7) [0..<(day_index b + 7 - day_index a) mod 7 + 1]"
  by (cases a; cases b) (simp_all add: days_between_def week_def upt_rec)

lemma day_to_end: "dropWhile (\<lambda>x. x \<noteq> d) week = days_between d Saturday"
  by (cases d) (simp_all add: days_between_def week_def)

lemma whole_week: "week = days_between Sunday Saturday"
  by (simp add: days_between_def week_def)

lemma every_first: "every_nth (Suc 0) ds = ds"
  by (simp add: every_nth_def map_nth)

lemma one_day: "days_between d d = [d]"
  by (cases d) (simp_all add: days_between_def week_def)

lemma counted:
  assumes "map f xs = map g [0..<n]"
  shows "length xs = n \<and> (\<forall>i < n. f (xs ! i) = g i)"
proof -
  have len: "length xs = n" using assms by (metis length_map length_upt diff_zero)
  moreover have "f (xs ! i) = g i" if "i < n" for i
    using arg_cong [OF assms, of "\<lambda>ys. ys ! i"] that len by simp
  ultimately show ?thesis by blast
qed

lemma marked_range:
  assumes "item_step item = Some (base, n)" and "item_range item base n = Some (day_index a, day_index b)"
  shows "understood item \<and> item_marks item = day_index ` set (every_nth n (days_between a b))"
proof -
  let ?len = "(day_index b + 7 - day_index a) mod 7" and ?ds = "days_between a b"
  from counted [OF days_between_counted] have ds: "length ?ds = ?len + 1" "i < ?len + 1 \<Longrightarrow> day_index (?ds ! i) = (day_index a + i) mod 7" for i
    by blast+
  have "day_index ` set (every_nth n ?ds) = (\<lambda>i. day_index (?ds ! i)) ` {i. i < ?len + 1 \<and> n dvd i}"
    unfolding every_nth_def ds(1) set_map set_filter set_upt image_image by (rule arg_cong) auto
  also have "\<dots> = (\<lambda>i. (day_index a + i) mod 7) ` {i. i < ?len + 1 \<and> n dvd i}" by (rule image_cong) (simp_all add: ds(2))
  also have "{i. i < ?len + 1 \<and> n dvd i} = {k * n | k. k * n \<le> ?len}" by (auto simp: mult.commute elim!: dvdE)
  finally have "day_index ` set (every_nth n ?ds) = {(day_index a + k * n) mod 7 | k. k * n \<le> ?len}" by auto
  then show ?thesis by (simp add: understood_def item_marks_def assms)
qed

lemma item_meant:
  assumes "item_means item ds"
  shows "understood item \<and> item_marks item = day_index ` set ds"
  using assms
proof cases
  case every
  have "item_step item = Some (item, 1)" "item_range item item 1 = Some (day_index Sunday, day_index Saturday)"
    by (simp_all add: item_step_def item_range_def every split_once_None [THEN iffD2])
  from marked_range [OF this] show ?thesis by (simp add: every every_first whole_week [symmetric])
next
  case (every_step n)
  have "split_once (CHR ''/'') item = Some (''*'', show_nat n)" by (simp add: every_step split_once_Some)
  then have "item_step item = Some (''*'', n)" "item_range item ''*'' n = Some (day_index Sunday, day_index Saturday)"
    using every_step by (simp_all add: item_step_def item_range_def parse_usize_show)
  from marked_range [OF this] show ?thesis by (simp add: every_step whole_week [symmetric])
next
  case (day d)
  note d = day_text_number [OF day(2)]
  have "item_step item = Some (item, 1)" "item_range item item 1 = Some (day_index d, day_index d)"
    using d by (simp_all add: item_step_def item_range_def split_once_None [THEN iffD2])
  from marked_range [OF this] show ?thesis by (simp add: day every_first one_day)
next
  case (day_step s d n)
  note d = day_text_number [OF day_step(3)]
  have "split_once (CHR ''/'') item = Some (s, show_nat n)" using d by (simp add: day_step split_once_Some)
  then have "item_step item = Some (s, n)" "item_range item s n = Some (day_index d, day_index Saturday)"
    using d day_step by (simp_all add: item_step_def item_range_def parse_usize_show split_once_None [THEN iffD2])
  from marked_range [OF this] show ?thesis by (simp add: day_step day_to_end)
next
  case (range s a t b)
  note a = day_text_number [OF range(3)] and b = day_text_number [OF range(4)]
  have "split_once (CHR ''-'') item = Some (s, t)" using a by (simp add: range split_once_Some)
  moreover have "CHR ''/'' \<notin> set item" "item \<noteq> ''*''" using a b by (auto simp: range append_eq_Cons_conv)
  ultimately have "item_step item = Some (item, 1)" "item_range item item 1 = Some (day_index a, day_index b)"
    using a(1) b(1) by (simp_all add: item_step_def item_range_def split_once_None [THEN iffD2])
  from marked_range [OF this] show ?thesis by (simp add: range every_first)
next
  case (range_step s a t b n)
  note a = day_text_number [OF range_step(3)] and b = day_text_number [OF range_step(4)]
  have "split_once (CHR ''/'') item = Some (s @ ''-'' @ t, show_nat n)" using a b by (simp add: range_step split_once_Some)
  moreover have "split_once (CHR ''-'') (s @ ''-'' @ t) = Some (s, t)" using a by (simp add: split_once_Some)
  moreover have "s @ ''-'' @ t \<noteq> ''*''" by (cases s) auto
  ultimately have "item_step item = Some (s @ ''-'' @ t, n)" "item_range item (s @ ''-'' @ t) n = Some (day_index a, day_index b)"
    using a(1) b(1) range_step by (simp_all add: item_step_def item_range_def parse_usize_show)
  from marked_range [OF this] show ?thesis by (simp add: range_step)
qed

lemma items_meant:
  "list_all2 item_means items Ds \<Longrightarrow>
     list_all understood items \<and> (\<Union>item \<in> set items. item_marks item) = day_index ` (\<Union>ds \<in> set Ds. set ds)"
  by (induction rule: list_all2_induct) (auto dest!: item_meant)

lemma week_index: "week ! day_index d = d" "day_index d < 7" "i < 7 \<Longrightarrow> day_index (week ! i) = i"
proof -
  show "week ! day_index d = d" "day_index d < 7" by (cases d; simp add: week_def)+
  assume "i < 7"
  then have "i \<in> {0, 1, 2, 3, 4, 5, 6}" by auto
  then show "day_index (week ! i) = i" by (auto simp: week_def)
qed

lemma names_of_marked:
  assumes "length ds = 7" and "\<And>i. i < 7 \<Longrightarrow> ds ! i \<longleftrightarrow> i \<in> day_index ` D"
  shows "names_of_days ds = join '','' (map weekday_name (filter (\<lambda>d. d \<in> D) week))"
proof -
  have "ds = map (\<lambda>d. d \<in> D) week"
  proof (rule nth_equalityI)
    have len: "length week = 7" by (simp add: week_def)
    then show "length ds = length (map (\<lambda>d. d \<in> D) week)" using assms(1) by simp
    fix i
    assume "i < length ds"
    then have "i < 7" using assms(1) by simp
    moreover from this have "i \<in> day_index ` D \<longleftrightarrow> week ! i \<in> D" using week_index by (metis imageE imageI)
    ultimately show "ds ! i = map (\<lambda>d. d \<in> D) week ! i" using assms(2) len by simp
  qed
  moreover have names: "DAY_NAMES = map weekday_name week" by (simp add: DAY_NAMES_def week_def)
  moreover have "map fst (filter snd (zip (map f xs) (map g xs))) = map f (filter g xs)" for f :: "weekday \<Rightarrow> string" and g xs
    by (induction xs) auto
  ultimately show ?thesis unfolding names_of_days_def names by metis
qed

text \<open>
  C21. The day-of-week field keeps its meaning. A field is a list of items; each stands for all days, one day or a range of days, written by number (Sunday is 0 or
  7) or by name in any case, each also with a step, and a range may run past Saturday. The field is rewritten to the names of the days that any of its items
  stands for, in the order of the week.
\<close>

theorem day_of_week_translation:
  assumes "list_all2 item_means (split_on (CHR '','') fld) Ds" and "fld \<notin> {''*'', ''?''}"
  shows "day_of_week_to_names fld = join '','' (map weekday_name (filter (\<lambda>d. \<exists>ds \<in> set Ds. d \<in> set ds) week))"
proof -
  let ?items = "split_on (CHR '','') fld"
  note meant = items_meant [OF assms(1)]
  from mark_items_total [of ?items "replicate 7 False"] meant obtain ds where m: "mark_items (replicate 7 False) ?items = Some ds" by blast
  have "names_of_days ds = join '','' (map weekday_name (filter (\<lambda>d. d \<in> (\<Union>ds \<in> set Ds. set ds)) week))"
    by (rule names_of_marked) (use mark_items_Some [OF m] in \<open>simp_all add: conjunct2 [OF meant, symmetric]\<close>)
  then show ?thesis using assms(2) by (simp add: day_of_week_to_names_def m)
qed

theorem day_of_week_translation_witness:
  "day_of_week_to_names ''fri-1,*/3'' = ''SUN,MON,WED,FRI,SAT''"
proof -
  have "show_nat 3 = ''3''" "eq_ignore_ascii_case ''fri'' ''FRI''" by code_simp+
  then have "item_means ''fri-1'' (days_between Friday Monday)" "item_means ''*/3'' (every_nth 3 week)"
    using item_means.range [of "''fri''" Friday "''1''" Monday] item_means.every_step [of 3] by (simp_all add: day_text_def)
  then have means: "list_all2 item_means (split_on (CHR '','') ''fri-1,*/3'') [days_between Friday Monday, every_nth 3 week]" by simp
  have "every_nth 3 week = [Sunday, Wednesday, Saturday]" "days_between Friday Monday = [Friday, Saturday, Sunday, Monday]"
    by code_simp+
  then show ?thesis using day_of_week_translation [OF means] by (simp add: week_def)
qed

end
