(* ===== verification/OrphanScan.thy ===== *)
theory OrphanScan
  imports Jobs Demo
begin

text \<open>
  The periodic search for leaked cloud resources, \<open>src/src/reconcile/orphan_scan.rs\<close>, and the report on jobs found at start-up,
  \<open>src/src/reconcile/startup.rs\<close>. The lemmas show which deletions a scan can ask for: two providers that agree on them
  cannot be told apart by it.
\<close>

section \<open>The scan\<close>

text \<open>A provider call followed by \<open>?\<close>: the error becomes the text of an \<open>anyhow::Error\<close>.\<close>

definition try_cloud :: "('x \<Rightarrow> (provider_error + 'a) \<times> 'x) \<Rightarrow> ('x, 'a) job_io" where
  "try_cloud f = io_map_err provider_error_to_string (provider_call f)"

definition tracked_volumes :: "database \<Rightarrow> string list" where
  "tracked_volumes d = List.map_filter jv_provider_volume_id (job_volumes d)"

definition tracked_servers :: "database \<Rightarrow> string list" where
  "tracked_servers d = List.map_filter j_worker_vm_id (jobs d)"

definition count_ok :: "provider_error + unit \<Rightarrow> nat \<Rightarrow> nat" where
  "count_ok r cleaned = (case r of Inr _ \<Rightarrow> cleaned + 1 | Inl _ \<Rightarrow> cleaned)"

fun clean_volumes :: "'x job_context \<Rightarrow> string list \<Rightarrow> volume list \<Rightarrow> nat \<Rightarrow> ('x, nat) job_io" where
  "clean_volumes C tracked [] cleaned = ret cleaned"
| "clean_volumes C tracked (v # vs) cleaned =
     (if \<not> starts_with (vol_title v) (volume_prefix (resource_prefix C)) then clean_volumes C tracked vs cleaned
      else if vol_id v \<in> set tracked then clean_volumes C tracked vs cleaned
      else bnd (cloud (delete_volume (provider C) (vol_id v))) (\<lambda>r. clean_volumes C tracked vs (count_ok r cleaned)))"

definition scan_and_clean_volumes :: "'x services \<Rightarrow> 'x job_context \<Rightarrow> ('x, nat) job_io" where
  "scan_and_clean_volumes S C =
     bnd (try_cloud (list_volumes (provider C) (ctx_zone C))) (\<lambda>remote_volumes.
     bnd (sql_query S tracked_volumes) (\<lambda>tracked. clean_volumes C tracked remote_volumes 0))"

fun clean_servers :: "'x job_context \<Rightarrow> string list \<Rightarrow> server list \<Rightarrow> nat \<Rightarrow> ('x, nat) job_io" where
  "clean_servers C tracked [] cleaned = ret cleaned"
| "clean_servers C tracked (s # ss) cleaned =
     (if \<not> starts_with (srv_title s) (worker_prefix (resource_prefix C)) then clean_servers C tracked ss cleaned
      else if srv_id s \<in> set tracked then clean_servers C tracked ss cleaned
      else if \<not> is_stopped s then
        (if is_started s
         then bnd (cloud (stop_server (provider C) (srv_id s))) (\<lambda>_. clean_servers C tracked ss cleaned)
         else clean_servers C tracked ss cleaned)
      else bnd (cloud (delete_server (provider C) (srv_id s))) (\<lambda>r. clean_servers C tracked ss (count_ok r cleaned)))"

definition scan_and_clean_servers :: "'x services \<Rightarrow> 'x job_context \<Rightarrow> ('x, nat) job_io" where
  "scan_and_clean_servers S C =
     bnd (try_cloud (list_servers (provider C) (ctx_zone C))) (\<lambda>remote_servers.
     bnd (sql_query S tracked_servers) (\<lambda>tracked. clean_servers C tracked remote_servers 0))"

definition scan_and_clean :: "'x services \<Rightarrow> 'x job_context \<Rightarrow> ('x, nat) job_io" where
  "scan_and_clean S C =
     (if dry_run C then ret 0
      else bnd (scan_and_clean_volumes S C) (\<lambda>volumes_cleaned.
           bnd (scan_and_clean_servers S C) (\<lambda>servers_cleaned. ret (volumes_cleaned + servers_cleaned))))"

section \<open>Start-up\<close>

text \<open>What \<open>recover\<close> reports of one job: whether its deadline passed while nobody watched.\<close>

definition deadline_elapsed :: "'a libs_scheme \<Rightarrow> int \<Rightarrow> job_row \<Rightarrow> bool" where
  "deadline_elapsed L now j =
     (case Option.bind (get (parse_spec L (j_spec j)) ''activeDeadlineSeconds'') as_i64 of
        Some deadline \<Rightarrow> now - j_created_at j > deadline
      | None \<Rightarrow> False)"

record recovery_line =
  rl_namespace :: string
  rl_name :: string
  rl_status :: string
  rl_elapsed :: bool

definition recovery_lines :: "'a libs_scheme \<Rightarrow> int \<Rightarrow> job_row list \<Rightarrow> recovery_line list" where
  "recovery_lines L now rows =
     map (\<lambda>j. \<lparr>rl_namespace = j_namespace j, rl_name = j_name j, rl_status = j_status j,
              rl_elapsed = deadline_elapsed L now j\<rparr>) rows"

text \<open>\<open>recover\<close> returns the number of lines; the lines themselves go to the log.\<close>

definition recover :: "'x services \<Rightarrow> ('x, recovery_line list \<times> nat) job_io" where
  "recover S =
     bnd (sql_query S live_jobs) (\<lambda>rows.
     bnd (now_ts S) (\<lambda>now. ret (recovery_lines S now rows, length rows)))"

section \<open>Lemmas\<close>

text \<open>The ids a scan may act on: listed under one of this instance's titles, and in no row of the database.\<close>

definition orphan_volume :: "'x job_context \<Rightarrow> database \<Rightarrow> string \<Rightarrow> bool" where
  "orphan_volume C d v \<longleftrightarrow> v \<notin> set (tracked_volumes d)
     \<and> (\<exists>x vs vol. fst (list_volumes (provider C) (ctx_zone C) x) = Inr vs \<and> vol \<in> set vs \<and> vol_id vol = v
          \<and> starts_with (vol_title vol) (volume_prefix (resource_prefix C)))"

definition orphan_server :: "'x job_context \<Rightarrow> database \<Rightarrow> (server \<Rightarrow> bool) \<Rightarrow> string \<Rightarrow> bool" where
  "orphan_server C d p i \<longleftrightarrow> i \<notin> set (tracked_servers d)
     \<and> (\<exists>x ss s. fst (list_servers (provider C) (ctx_zone C) x) = Inr ss \<and> s \<in> set ss \<and> srv_id s = i \<and> p s
          \<and> starts_with (srv_title s) (worker_prefix (resource_prefix C)))"

lemma orphan_volumeI:
  "fst (list_volumes (provider C) (ctx_zone C) x) = Inr vs \<Longrightarrow> v \<in> set vs \<Longrightarrow> vol_id v \<notin> set (tracked_volumes d)
   \<Longrightarrow> starts_with (vol_title v) (volume_prefix (resource_prefix C)) \<Longrightarrow> orphan_volume C d (vol_id v)"
  unfolding orphan_volume_def by blast

lemma orphan_serverI:
  "fst (list_servers (provider C) (ctx_zone C) x) = Inr ss \<Longrightarrow> s \<in> set ss \<Longrightarrow> p s \<Longrightarrow> srv_id s \<notin> set (tracked_servers d)
   \<Longrightarrow> starts_with (srv_title s) (worker_prefix (resource_prefix C)) \<Longrightarrow> orphan_server C d p (srv_id s)"
  unfolding orphan_server_def by blast

lemma try_cloud_eq:
  "try_cloud f w = (case fst (f (ext w)) of Inl e \<Rightarrow> Inl (provider_error_to_string e) | Inr a \<Rightarrow> Inr a, w\<lparr>ext := snd (f (ext w))\<rparr>)"
  by (auto simp: try_cloud_def io_map_err_def provider_call_def lift_ext_eq map_err_def split: sum.split)

lemma clean_volumes_cong:
  assumes "\<And>v. v \<in> set vs \<Longrightarrow> starts_with (vol_title v) (volume_prefix (resource_prefix C)) \<Longrightarrow> vol_id v \<notin> set tracked
      \<Longrightarrow> delete_volume P (vol_id v) = delete_volume (provider C) (vol_id v)"
  shows "clean_volumes (C\<lparr>provider := P\<rparr>) tracked vs n = clean_volumes C tracked vs n"
  using assms by (induction vs arbitrary: n) auto

lemma clean_servers_cong:
  assumes "\<And>s. s \<in> set ss \<Longrightarrow> starts_with (srv_title s) (worker_prefix (resource_prefix C)) \<Longrightarrow> srv_id s \<notin> set tracked
      \<Longrightarrow> is_stopped s \<Longrightarrow> delete_server P (srv_id s) = delete_server (provider C) (srv_id s)"
    and "\<And>s. s \<in> set ss \<Longrightarrow> starts_with (srv_title s) (worker_prefix (resource_prefix C)) \<Longrightarrow> srv_id s \<notin> set tracked
      \<Longrightarrow> is_started s \<Longrightarrow> stop_server P (srv_id s) = stop_server (provider C) (srv_id s)"
  shows "clean_servers (C\<lparr>provider := P\<rparr>) tracked ss n = clean_servers C tracked ss n"
  using assms by (induction ss arbitrary: n) auto

lemma bnd_try_cloud_cong:
  assumes "f = g" and "\<And>a v. fst (g (ext w)) = Inr a \<Longrightarrow> db v = db w \<Longrightarrow> h a v = k a v"
  shows "bnd (try_cloud f) h w = bnd (try_cloud g) k w"
  using assms by (auto simp: bnd_def try_cloud_eq split: sum.split)

lemma bnd_sql_query_cong:
  assumes "\<And>v. db v = db w \<Longrightarrow> h (q (db w)) v = k (q (db w)) v"
  shows "bnd (sql_query S q) h w = bnd (sql_query S q) k w"
  using assms by (auto simp: bnd_def sql_query_def lift_ext_eq split: option.split)

lemma reads_try_cloud [intro!]: "keeps same_db.on_world (try_cloud f)"
  unfolding try_cloud_def by auto

lemma reads_clean_volumes [intro!]: "keeps same_db.on_world (clean_volumes C tracked vs n)"
  by (induction vs arbitrary: n) auto

lemma reads_clean_servers [intro!]: "keeps same_db.on_world (clean_servers C tracked ss n)"
  by (induction ss arbitrary: n) auto

lemma reads_scan_and_clean_volumes [intro!]: "keeps same_db.on_world (scan_and_clean_volumes S C)"
  unfolding scan_and_clean_volumes_def by auto

lemma reads_scan_and_clean_servers [intro!]: "keeps same_db.on_world (scan_and_clean_servers S C)"
  unfolding scan_and_clean_servers_def by auto

lemma reads_scan_and_clean: "keeps same_db.on_world (scan_and_clean S C)"
  unfolding scan_and_clean_def by auto

text \<open>A zone that lists the volume of the one job there is.\<close>

definition scanned :: "nat job_context" where
  "scanned = demo_context\<lparr>provider := demo_provider\<lparr>list_volumes := \<lambda>z n. (Inr [demo_volume], n)\<rparr>\<rparr>"

section \<open>Properties\<close>

text \<open>
  C17. The orphan scan leaves alone what is not an orphan. Whatever a provider does when asked to delete a volume, or to stop or delete a server, that is
  tracked in the database, or that was not listed under this instance's title prefix, or a server that is not in the right state
  for it: a scan comes out the same, because it never asks.
\<close>

theorem orphan_scan_spares_the_rest:
  fixes w :: "'x world"
  assumes "list_volumes P = list_volumes (provider C)" and "list_servers P = list_servers (provider C)"
    and "\<And>v. orphan_volume C (db w) v \<Longrightarrow> delete_volume P v = delete_volume (provider C) v"
    and "\<And>i. orphan_server C (db w) is_stopped i \<Longrightarrow> delete_server P i = delete_server (provider C) i"
    and "\<And>i. orphan_server C (db w) is_started i \<Longrightarrow> stop_server P i = stop_server (provider C) i"
  shows "scan_and_clean S (C\<lparr>provider := P\<rparr>) w = scan_and_clean S C w"
proof -
  have vols: "scan_and_clean_volumes S (C\<lparr>provider := P\<rparr>) w = scan_and_clean_volumes S C w"
    unfolding scan_and_clean_volumes_def
  proof (rule bnd_try_cloud_cong)
    fix vs and v :: "'x world"
    assume "fst (list_volumes (provider C) (ctx_zone C) (ext w)) = Inr vs" and "db v = db w"
    with assms(3) show "bnd (sql_query S tracked_volumes) (\<lambda>tracked. clean_volumes (C\<lparr>provider := P\<rparr>) tracked vs 0) v
        = bnd (sql_query S tracked_volumes) (\<lambda>tracked. clean_volumes C tracked vs 0) v"
      by (intro bnd_sql_query_cong fun_cong [OF clean_volumes_cong]) (auto intro: orphan_volumeI)
  qed (simp add: assms(1))
  have servers: "scan_and_clean_servers S (C\<lparr>provider := P\<rparr>) v = scan_and_clean_servers S C v" if "db v = db w" for v :: "'x world"
    unfolding scan_and_clean_servers_def
  proof (rule bnd_try_cloud_cong)
    fix ss and u :: "'x world"
    assume "fst (list_servers (provider C) (ctx_zone C) (ext v)) = Inr ss" and "db u = db v"
    with assms(4,5) that show "bnd (sql_query S tracked_servers) (\<lambda>tracked. clean_servers (C\<lparr>provider := P\<rparr>) tracked ss 0) u
        = bnd (sql_query S tracked_servers) (\<lambda>tracked. clean_servers C tracked ss 0) u"
      by (intro bnd_sql_query_cong fun_cong [OF clean_servers_cong]) (auto intro: orphan_serverI)
  qed (simp add: assms(2))
  show ?thesis
  proof (cases "dry_run C")
    case False
    obtain r w1 where v: "scan_and_clean_volumes S C w = (r, w1)" by (cases "scan_and_clean_volumes S C w")
    with same_dbD [OF reads_scan_and_clean_volumes v] servers vols False show ?thesis
      by (auto simp: scan_and_clean_def bnd_def split: sum.split)
  qed (simp add: scan_and_clean_def)
qed

theorem orphan_scan_spares_the_rest_witness:
  "scan_and_clean demo_services (scanned\<lparr>provider := (provider scanned)\<lparr>delete_volume := \<lambda>v n. (Inl (Request ''no''), n + 7)\<rparr>\<rparr>)
     (demo_world ''Pending'' 900) = scan_and_clean demo_services scanned (demo_world ''Pending'' 900)"
proof (rule orphan_scan_spares_the_rest)
  fix v
  assume "orphan_volume scanned (db (demo_world ''Pending'' 900)) v"
  then have "v = ''vol-1''" and "v \<noteq> ''vol-1''"
    by (auto simp: orphan_volume_def scanned_def demo_defs tracked_volumes_def List.map_filter_def)
  then show "delete_volume ((provider scanned)\<lparr>delete_volume := \<lambda>v n. (Inl (Request ''no''), n + 7)\<rparr>) v = delete_volume (provider scanned) v"
    by simp
qed simp_all

text \<open>
  The warning at start-up, that a job's deadline passed and the next tick will fail it, is right about jobs before completion, and wrong about jobs that
  are already being cleaned up: the tick gives up the former for that reason, at the same time or later, and never the latter.
\<close>

theorem recovery_warning_matches_tick:
  assumes "deadline_elapsed L now j" and "now \<le> later"
  shows "give_up_reason L later j =
      (if is_pre_completion_state (j_status j)
       then Some (deadline_message (the (active_deadline_seconds (parse_spec L (j_spec j)))) (j_status j)) else None)"
  using assms by (auto simp: deadline_elapsed_def give_up_reason_def active_deadline_seconds_def split: option.splits)

theorem recovery_warning_matches_tick_witness:
  "give_up_reason demo_services 5000 (demo_job ''VMTerminating'' 900) = None"
proof -
  have "deadline_elapsed demo_services 5000 (demo_job ''VMTerminating'' 900)"
    by (simp add: deadline_elapsed_def demo_defs parse_spec_def)
  from recovery_warning_matches_tick [OF this, of 5000] show ?thesis
    by (simp add: demo_job_def)
qed

end
