(* ===== verification/UpCloud.thy ===== *)
theory UpCloud
  imports Jobs
begin

text \<open>
  The one implementation of \<open>CloudProvider\<close>, a REST client of the UpCloud API (\<open>src/src/providers/upcloud\<close>). What \<open>reqwest\<close> does with a request is the
  parameter \<open>send\<close>: it fails with a text, or answers with a status and a body that may be unreadable. Request bodies are the JSON values the
  \<open>Serialize\<close> structs print; a response struct is decoded from an object whose unknown keys are ignored.
\<close>

record http_request =
  http_method :: string
  url :: string
  bearer :: string
  req_body :: "json option"

record 'x up_cloud_provider =
  base_url :: string
  token :: string
  send :: "http_request \<Rightarrow> 'x \<Rightarrow> (string + nat \<times> (string + string)) \<times> 'x"

section \<open>Requests and responses\<close>

definition request :: "'x up_cloud_provider \<Rightarrow> string \<Rightarrow> string \<Rightarrow> http_request" where
  "request P m path = \<lparr>http_method = m, url = base_url P @ path, bearer = token P, req_body = None\<rparr>"

definition with_json :: "json \<Rightarrow> http_request \<Rightarrow> http_request" where
  "with_json v r = r\<lparr>req_body := Some v\<rparr>"

definition is_success :: "nat \<Rightarrow> bool" where
  "is_success status \<longleftrightarrow> 200 \<le> status \<and> status < 300"

definition error_for_status :: "nat \<Rightarrow> string \<Rightarrow> provider_error" where
  "error_for_status status body =
     (if status = 401 \<or> status = 403 then AuthenticationFailed body
      else if status = 404 then NotFound body
      else Api status body)"

definition text_or_default :: "string + string \<Rightarrow> string" where
  "text_or_default body = (case body of Inr t \<Rightarrow> t | Inl _ \<Rightarrow> [])"

definition decode_error :: provider_error where
  "decode_error = Request ''error decoding response body''"

definition send_json ::
  "'a libs_scheme \<Rightarrow> 'x up_cloud_provider \<Rightarrow> (json \<Rightarrow> 'r option) \<Rightarrow> http_request \<Rightarrow> ('x, provider_error, 'r) io" where
  "send_json L P decode r =
     bnd (io_map_err Request (send P r)) (\<lambda>(status, body).
     if \<not> is_success status then fail (error_for_status status (text_or_default body))
     else (case body of
             Inl e \<Rightarrow> fail (Request e)
           | Inr t \<Rightarrow> of_result (ok_or decode_error (Option.bind (ok (from_str L t)) decode))))"

definition send_no_content :: "'x up_cloud_provider \<Rightarrow> http_request \<Rightarrow> ('x, provider_error, unit) io" where
  "send_no_content P r =
     bnd (io_map_err Request (send P r)) (\<lambda>(status, body).
     if \<not> is_success status then fail (error_for_status status (text_or_default body)) else ret ())"

definition any_value :: "json \<Rightarrow> json option" where
  "any_value v = Some v"

definition check_connectivity :: "'a libs_scheme \<Rightarrow> 'x up_cloud_provider \<Rightarrow> ('x, provider_error, unit) io" where
  "check_connectivity L P = bnd (send_json L P any_value (request P ''GET'' ''/account'')) (\<lambda>_. ret ())"

section \<open>Decoding\<close>

definition de_u32 :: "json \<Rightarrow> nat option" where
  "de_u32 v = filter_opt (\<lambda>n. n < 2 ^ 32) (as_u64 v)"

fun de_f64 :: "json \<Rightarrow> f64 option" where
  "de_f64 (JPos n) = Some (f64_of_int (int n))"
| "de_f64 (JNeg i) = Some (f64_of_int i)"
| "de_f64 (JFloat x) = Some x"
| "de_f64 _ = None"

text \<open>A required field, one with \<open>#[serde(default)]\<close> and one of an \<open>Option\<close> type.\<close>

definition de_field :: "(json \<Rightarrow> 'r option) \<Rightarrow> json \<Rightarrow> string \<Rightarrow> 'r option" where
  "de_field de v k = Option.bind (get v k) de"

definition de_default :: "(json \<Rightarrow> 'r option) \<Rightarrow> 'r \<Rightarrow> json \<Rightarrow> string \<Rightarrow> 'r option" where
  "de_default de d v k = (case get v k of None \<Rightarrow> if as_object v = None then None else Some d | Some x \<Rightarrow> de x)"

definition de_option :: "(json \<Rightarrow> 'r option) \<Rightarrow> json \<Rightarrow> 'r option option" where
  "de_option de v = (if is_null v then Some None else map_option Some (de v))"

fun de_all :: "('v \<Rightarrow> 'r option) \<Rightarrow> 'v list \<Rightarrow> 'r list option" where
  "de_all de [] = Some []"
| "de_all de (v # vs) = Option.bind (de v) (\<lambda>x. Option.bind (de_all de vs) (\<lambda>xs. Some (x # xs)))"

definition de_vec :: "(json \<Rightarrow> 'r option) \<Rightarrow> json \<Rightarrow> 'r list option" where
  "de_vec de v = Option.bind (as_array v) (de_all de)"

section \<open>Volumes\<close>

definition storage_body :: "create_volume_request \<Rightarrow> json" where
  "storage_body req = JObj [(''storage'', JObj [(''size'', JPos (cv_size_gb req)), (''tier'', JStr (cv_tier req)),
     (''title'', JStr (cv_title req)), (''zone'', JStr (cv_zone req))])]"

definition de_storage :: "json \<Rightarrow> volume option" where
  "de_storage v =
     Option.bind (de_field as_str v ''uuid'') (\<lambda>uuid.
     Option.bind (de_field de_u32 v ''size'') (\<lambda>size_gb.
     Option.bind (de_field as_str v ''tier'') (\<lambda>tier.
     Option.bind (de_field as_str v ''title'') (\<lambda>title.
     Option.bind (de_field as_str v ''zone'') (\<lambda>zone.
       Some \<lparr>vol_id = uuid, vol_size_gb = size_gb, vol_tier = tier, vol_title = title, vol_zone = zone\<rparr>)))))"

definition up_create_volume :: "'a libs_scheme \<Rightarrow> 'x up_cloud_provider \<Rightarrow> create_volume_request \<Rightarrow> ('x, provider_error, volume) io" where
  "up_create_volume L P req =
     send_json L P (\<lambda>v. de_field de_storage v ''storage'') (with_json (storage_body req) (request P ''POST'' ''/storage''))"

definition up_delete_volume :: "'x up_cloud_provider \<Rightarrow> string \<Rightarrow> ('x, provider_error, unit) io" where
  "up_delete_volume P volume_id = send_no_content P (request P ''DELETE'' (''/storage/'' @ volume_id))"

definition up_list_volumes :: "'a libs_scheme \<Rightarrow> 'x up_cloud_provider \<Rightarrow> string \<Rightarrow> ('x, provider_error, volume list) io" where
  "up_list_volumes L P zone =
     bnd (send_json L P (\<lambda>v. de_field (\<lambda>s. de_field (de_vec de_storage) s ''storage'') v ''storages'')
            (request P ''GET'' ''/storage/normal''))
       (\<lambda>vs. ret (filter (\<lambda>v. vol_zone v = zone) vs))"

definition storage_device_ref :: "string \<Rightarrow> json" where
  "storage_device_ref volume_id = JObj [(''storage_device'', JObj [(''storage'', JStr volume_id)])]"

definition up_attach_volume :: "'a libs_scheme \<Rightarrow> 'x up_cloud_provider \<Rightarrow> string \<Rightarrow> string \<Rightarrow> ('x, provider_error, unit) io" where
  "up_attach_volume L P server_id volume_id =
     bnd (send_json L P any_value (with_json (storage_device_ref volume_id)
            (request P ''POST'' (''/server/'' @ server_id @ ''/storage/attach''))))
       (\<lambda>_. ret ())"

definition up_detach_volume :: "'a libs_scheme \<Rightarrow> 'x up_cloud_provider \<Rightarrow> string \<Rightarrow> string \<Rightarrow> ('x, provider_error, unit) io" where
  "up_detach_volume L P server_id volume_id =
     bnd (send_json L P any_value (with_json (storage_device_ref volume_id)
            (request P ''POST'' (''/server/'' @ server_id @ ''/storage/detach''))))
       (\<lambda>_. ret ())"

section \<open>Servers\<close>

definition server_body :: "create_server_request \<Rightarrow> json" where
  "server_body req = JObj [(''server'', JObj
     [(''zone'', JStr (cs_zone req)), (''title'', JStr (cs_title req)), (''hostname'', JStr (cs_hostname req)),
      (''plan'', JStr (cs_plan req)), (''metadata'', JStr ''yes''), (''firewall'', JStr ''on''),
      (''login_user'', JObj [(''username'', JStr ''root''),
         (''ssh_keys'', JObj [(''ssh_key'', JArr (map JStr (cs_ssh_public_keys req)))])]),
      (''storage_devices'', JObj [(''storage_device'', JArr [JObj
         [(''action'', JStr ''clone''), (''storage'', JStr (cs_template_uuid req)), (''title'', JStr (cs_title req @ ''-os'')),
          (''size'', JPos (cs_boot_disk_size_gb req)), (''tier'', JStr (cs_boot_disk_tier req))]])]),
      (''user_data'', JStr (cs_user_data req))])]"

record ip_address =
  ip_access :: string
  ip_family :: string
  ip_addr :: string

definition de_ip_address :: "json \<Rightarrow> ip_address option" where
  "de_ip_address v =
     Option.bind (de_field as_str v ''access'') (\<lambda>a.
     Option.bind (de_field as_str v ''family'') (\<lambda>f.
     Option.bind (de_field as_str v ''address'') (\<lambda>d. Some \<lparr>ip_access = a, ip_family = f, ip_addr = d\<rparr>)))"

text \<open>The last public address of each family.\<close>

definition extract_public_ips :: "ip_address list option \<Rightarrow> string option \<times> string option" where
  "extract_public_ips ip_addresses =
     (case ip_addresses of
        None \<Rightarrow> (None, None)
      | Some ips \<Rightarrow>
         foldl (\<lambda>(ipv4, ipv6) ip.
             if ip_access ip \<noteq> ''public'' then (ipv4, ipv6)
             else if ip_family ip = ''IPv4'' then (Some (ip_addr ip), ipv6)
             else if ip_family ip = ''IPv6'' then (ipv4, Some (ip_addr ip))
             else (ipv4, ipv6)) (None, None) ips)"

definition to_server :: "string \<Rightarrow> string \<Rightarrow> string \<Rightarrow> ip_address list option \<Rightarrow> server" where
  "to_server uuid title state ips =
     (let (ipv4, ipv6) = extract_public_ips ips
      in \<lparr>srv_id = uuid, srv_title = title, srv_state = state, srv_public_ipv4 = ipv4, srv_public_ipv6 = ipv6\<rparr>)"

definition de_server :: "json \<Rightarrow> server option" where
  "de_server v =
     Option.bind (de_field as_str v ''uuid'') (\<lambda>uuid.
     Option.bind (de_field as_str v ''title'') (\<lambda>title.
     Option.bind (de_field as_str v ''state'') (\<lambda>state.
     Option.bind (de_default (de_option (\<lambda>a. de_field (de_vec de_ip_address) a ''ip_address'')) None v ''ip_addresses'') (\<lambda>ips.
       Some (to_server uuid title state ips)))))"

definition de_server_envelope :: "json \<Rightarrow> server option" where
  "de_server_envelope v = de_field de_server v ''server''"

definition up_create_server :: "'a libs_scheme \<Rightarrow> 'x up_cloud_provider \<Rightarrow> create_server_request \<Rightarrow> ('x, provider_error, server) io" where
  "up_create_server L P req =
     send_json L P de_server_envelope (with_json (server_body req) (request P ''POST'' ''/server''))"

definition up_get_server :: "'a libs_scheme \<Rightarrow> 'x up_cloud_provider \<Rightarrow> string \<Rightarrow> ('x, provider_error, server) io" where
  "up_get_server L P server_id = send_json L P de_server_envelope (request P ''GET'' (''/server/'' @ server_id))"

definition up_stop_server :: "'a libs_scheme \<Rightarrow> 'x up_cloud_provider \<Rightarrow> string \<Rightarrow> ('x, provider_error, server) io" where
  "up_stop_server L P server_id =
     send_json L P de_server_envelope
       (with_json (JObj [(''stop_server'', JObj [(''stop_type'', JStr ''hard'')])])
          (request P ''POST'' (''/server/'' @ server_id @ ''/stop'')))"

definition up_delete_server :: "'x up_cloud_provider \<Rightarrow> string \<Rightarrow> ('x, provider_error, unit) io" where
  "up_delete_server P server_id =
     send_no_content P (request P ''DELETE'' (''/server/'' @ server_id @ ''?storages=1''))"

record server_list_entry =
  sle_uuid :: string
  sle_title :: string
  sle_state :: string
  sle_zone :: string

definition de_server_list_entry :: "json \<Rightarrow> server_list_entry option" where
  "de_server_list_entry v =
     Option.bind (de_field as_str v ''uuid'') (\<lambda>uuid.
     Option.bind (de_field as_str v ''title'') (\<lambda>title.
     Option.bind (de_field as_str v ''state'') (\<lambda>state.
     Option.bind (de_field as_str v ''zone'') (\<lambda>zone.
       Some \<lparr>sle_uuid = uuid, sle_title = title, sle_state = state, sle_zone = zone\<rparr>))))"

definition up_list_servers :: "'a libs_scheme \<Rightarrow> 'x up_cloud_provider \<Rightarrow> string \<Rightarrow> ('x, provider_error, server list) io" where
  "up_list_servers L P zone =
     bnd (send_json L P (\<lambda>v. de_field (\<lambda>s. de_field (de_vec de_server_list_entry) s ''server'') v ''servers'')
            (request P ''GET'' ''/server''))
       (\<lambda>es. ret (map (\<lambda>s. \<lparr>srv_id = sle_uuid s, srv_title = sle_title s, srv_state = sle_state s,
                             srv_public_ipv4 = None, srv_public_ipv6 = None\<rparr>)
                    (filter (\<lambda>s. sle_zone s = zone) es)))"

section \<open>Firewall rules\<close>

fun direction_str :: "firewall_direction \<Rightarrow> string" where
  "direction_str In = ''in''"
| "direction_str Out = ''out''"

fun action_str :: "firewall_action \<Rightarrow> string" where
  "action_str Accept = ''accept''"
| "action_str Drop = ''drop''"

fun family_str :: "firewall_family \<Rightarrow> string" where
  "family_str Ipv4 = ''IPv4''"
| "family_str Ipv6 = ''IPv6''"

text \<open>\<open>skip_serializing_if = "Option::is_none"\<close>.\<close>

definition opt_entry :: "string \<Rightarrow> string option \<Rightarrow> (string \<times> json) list" where
  "opt_entry k x = (case x of None \<Rightarrow> [] | Some s \<Rightarrow> [(k, JStr s)])"

definition to_params :: "firewall_rule \<Rightarrow> json" where
  "to_params r = JObj
     ([(''direction'', JStr (direction_str (fw_direction r))), (''action'', JStr (action_str (fw_action r))),
       (''family'', JStr (family_str (fw_family r)))]
      @ opt_entry ''protocol'' (fw_protocol r)
      @ opt_entry ''source_address_start'' (fw_source_address r)
      @ opt_entry ''source_address_end'' (fw_source_address r)
      @ opt_entry ''source_port_start'' (fw_source_port_start r)
      @ opt_entry ''source_port_end'' (fw_source_port_end r)
      @ opt_entry ''destination_port_start'' (fw_destination_port_start r)
      @ opt_entry ''destination_port_end'' (fw_destination_port_end r))"

definition rule_request :: "'x up_cloud_provider \<Rightarrow> string \<Rightarrow> firewall_rule \<Rightarrow> http_request" where
  "rule_request P server_id r =
     with_json (JObj [(''firewall_rule'', to_params r)])
       (request P ''POST'' (''/server/'' @ server_id @ ''/firewall_rule''))"

definition up_create_firewall_rules ::
  "'a libs_scheme \<Rightarrow> 'x up_cloud_provider \<Rightarrow> string \<Rightarrow> firewall_rule list \<Rightarrow> ('x, provider_error, unit) io" where
  "up_create_firewall_rules L P server_id rules =
     for_each (\<lambda>r. bnd (send_json L P any_value (rule_request P server_id r)) (\<lambda>_. ret ())) rules"

definition non_empty :: "string \<Rightarrow> string option" where
  "non_empty s = (if s = [] then None else Some s)"

definition de_firewall_rule :: "json \<Rightarrow> firewall_rule option" where
  "de_firewall_rule v =
     Option.bind (de_field as_str v ''direction'') (\<lambda>direction.
     Option.bind (de_field as_str v ''action'') (\<lambda>action.
     Option.bind (de_field as_str v ''family'') (\<lambda>family.
     Option.bind (de_default as_str [] v ''protocol'') (\<lambda>protocol.
     Option.bind (de_default as_str [] v ''source_address_start'') (\<lambda>sa.
     Option.bind (de_default as_str [] v ''source_port_start'') (\<lambda>sps.
     Option.bind (de_default as_str [] v ''source_port_end'') (\<lambda>spe.
     Option.bind (de_default as_str [] v ''destination_port_start'') (\<lambda>dps.
     Option.bind (de_default as_str [] v ''destination_port_end'') (\<lambda>dpe.
       Some \<lparr>fw_direction = (if direction = ''in'' then In else Out),
             fw_action = (if action = ''accept'' then Accept else Drop),
             fw_family = (if family = ''IPv4'' then Ipv4 else Ipv6),
             fw_protocol = non_empty protocol, fw_source_address = non_empty sa,
             fw_source_port_start = non_empty sps, fw_source_port_end = non_empty spe,
             fw_destination_port_start = non_empty dps, fw_destination_port_end = non_empty dpe\<rparr>)))))))))"

definition de_rule_list :: "json \<Rightarrow> firewall_rule list option" where
  "de_rule_list v = de_field (\<lambda>s. de_field (de_vec de_firewall_rule) s ''firewall_rule'') v ''firewall_rules''"

definition up_list_firewall_rules ::
  "'a libs_scheme \<Rightarrow> 'x up_cloud_provider \<Rightarrow> string \<Rightarrow> ('x, provider_error, firewall_rule list) io" where
  "up_list_firewall_rules L P server_id =
     send_json L P de_rule_list (request P ''GET'' (''/server/'' @ server_id @ ''/firewall_rule''))"

section \<open>Prices and plans\<close>

definition de_price_entry :: "string \<Rightarrow> json \<Rightarrow> price_entry option" where
  "de_price_entry currency v =
     Option.bind (de_field de_f64 v ''amount'') (\<lambda>a.
     Option.bind (de_field de_f64 v ''price'') (\<lambda>p. Some \<lparr>pe_amount = a, pe_price = p, pe_currency = currency\<rparr>))"

text \<open>\<open>ZonePrices\<close>: a name, and every other entry of the object is a price.\<close>

definition de_zone_prices :: "string \<Rightarrow> json \<Rightarrow> (string \<times> (string \<times> price_entry) list) option" where
  "de_zone_prices currency v =
     Option.bind (de_field as_str v ''name'') (\<lambda>name.
     Option.bind (as_object v) (\<lambda>kvs.
     Option.bind (de_all (\<lambda>(k, e). map_option (Pair k) (de_price_entry currency e)) (filter (\<lambda>(k, _). k \<noteq> ''name'') kvs))
       (\<lambda>entries. Some (name, entries))))"

definition de_prices :: "json \<Rightarrow> (string \<times> (string \<times> price_entry) list) list option" where
  "de_prices v =
     de_field (\<lambda>p. Option.bind (de_field as_str p ''currency'') (\<lambda>currency.
                   de_field (de_vec (de_zone_prices currency)) p ''zone'')) v ''prices''"

definition up_get_zone_prices ::
  "'a libs_scheme \<Rightarrow> 'x up_cloud_provider \<Rightarrow> string \<Rightarrow> ('x, provider_error, (string \<times> price_entry) list) io" where
  "up_get_zone_prices L P zone =
     bnd (send_json L P de_prices (request P ''GET'' ''/price'')) (\<lambda>zones.
     of_result (ok_or (NotFound (''zone '' @ zone @ '' not present in price list''))
       (map_option snd (find (\<lambda>(name, _). name = zone) zones))))"

definition de_plan :: "json \<Rightarrow> plan_info option" where
  "de_plan v =
     Option.bind (de_field as_str v ''name'') (\<lambda>name.
     Option.bind (de_field de_u32 v ''core_number'') (\<lambda>cores.
     Option.bind (de_field de_u32 v ''memory_amount'') (\<lambda>mb.
     Option.bind (de_default (de_option de_u32) None v ''storage_size'') (\<lambda>size_gb.
     Option.bind (de_default (de_option as_str) None v ''storage_tier'') (\<lambda>tier.
     Option.bind (de_default (de_option de_u32) None v ''gpu_amount'') (\<lambda>gpus.
     Option.bind (de_default (de_option as_str) None v ''current_offering'') (\<lambda>current.
       Some \<lparr>pi_name = name, pi_cpu_cores = cores, pi_memory_mb = mb, pi_storage_gb = unwrap_or 0 size_gb,
             pi_storage_tier = tier, pi_gpu_count = unwrap_or 0 gpus, pi_current_offering = (current \<noteq> Some ''no'')\<rparr>)))))))"

definition up_list_plans :: "'a libs_scheme \<Rightarrow> 'x up_cloud_provider \<Rightarrow> ('x, provider_error, plan_info list) io" where
  "up_list_plans L P =
     send_json L P (\<lambda>v. de_field (\<lambda>s. de_field (de_vec de_plan) s ''plan'') v ''plans'') (request P ''GET'' ''/plan'')"

text \<open>\<open>impl CloudProvider for UpCloudProvider\<close>.\<close>

definition up_cloud :: "'a libs_scheme \<Rightarrow> 'x up_cloud_provider \<Rightarrow> 'x cloud_provider" where
  "up_cloud L P =
     \<lparr>provider_name = ''UpCloud'', invoice_issuer_name = ''UpCloud Ltd'',
      create_volume = up_create_volume L P, delete_volume = up_delete_volume P, list_volumes = up_list_volumes L P,
      attach_volume = up_attach_volume L P, detach_volume = up_detach_volume L P, create_server = up_create_server L P,
      get_server = up_get_server L P, stop_server = up_stop_server L P, delete_server = up_delete_server P,
      list_servers = up_list_servers L P, create_firewall_rules = up_create_firewall_rules L P,
      list_firewall_rules = up_list_firewall_rules L P, get_zone_prices = up_get_zone_prices L P,
      list_plans = up_list_plans L P\<rparr>"

end
