(* ===== verification/UpCloudProps.thy ===== *)
theory UpCloudProps
  imports UpCloud Demo
begin

text \<open>
  What holds of the UpCloud client together with the job loop: a firewall rule reads back as it was written, rules are posted one by one in order, and the
  loop recognises its own rules when the provider lists them.
\<close>

section \<open>Lemmas\<close>

definition no_empty_text :: "firewall_rule \<Rightarrow> bool" where
  "no_empty_text r \<longleftrightarrow> list_all (\<lambda>x. x \<noteq> Some [])
     [fw_protocol r, fw_source_address r, fw_source_port_start r, fw_source_port_end r, fw_destination_port_start r,
      fw_destination_port_end r]"

lemma map_of_opt_entry: "map_of (opt_entry k x) j = (if j = k then map_option JStr x else None)"
  by (simp add: opt_entry_def split: option.split)

lemma map_of_append: "map_of (xs @ ys) k = (case map_of xs k of None \<Rightarrow> map_of ys k | Some v \<Rightarrow> Some v)"
  by (simp add: map_add_def)

lemma get_to_params:
  "get (to_params r) ''direction'' = Some (JStr (direction_str (fw_direction r)))"
  "get (to_params r) ''action'' = Some (JStr (action_str (fw_action r)))"
  "get (to_params r) ''family'' = Some (JStr (family_str (fw_family r)))"
  "get (to_params r) ''protocol'' = map_option JStr (fw_protocol r)"
  "get (to_params r) ''source_address_start'' = map_option JStr (fw_source_address r)"
  "get (to_params r) ''source_port_start'' = map_option JStr (fw_source_port_start r)"
  "get (to_params r) ''source_port_end'' = map_option JStr (fw_source_port_end r)"
  "get (to_params r) ''destination_port_start'' = map_option JStr (fw_destination_port_start r)"
  "get (to_params r) ''destination_port_end'' = map_option JStr (fw_destination_port_end r)"
  "as_object (to_params r) \<noteq> None"
  by (simp_all add: to_params_def map_add_def map_of_opt_entry split: option.split)

lemma de_default_text:
  "get v k = map_option JStr x \<Longrightarrow> as_object v \<noteq> None \<Longrightarrow> de_default as_str [] v k = Some (unwrap_or [] x)"
  by (simp add: de_default_def unwrap_or_def split: option.split)

lemma non_empty_unwrap: "x \<noteq> Some [] \<Longrightarrow> non_empty (unwrap_or [] x) = x"
  by (cases x) (auto simp: non_empty_def unwrap_or_def)

lemma de_firewall_rule_to_params:
  assumes "no_empty_text r"
  shows "de_firewall_rule (to_params r) = Some r"
proof -
  note texts = get_to_params(4-9) [THEN de_default_text, OF get_to_params(10)]
  have flags: "(if direction_str d = ''in'' then In else Out) = d" "(if action_str a = ''accept'' then Accept else Drop) = a"
    "(if family_str f = ''IPv4'' then Ipv4 else Ipv6) = f" for d a f
    by ((cases d; simp), (cases a; simp), (cases f; simp))
  show ?thesis
    using assms unfolding de_firewall_rule_def de_field_def get_to_params texts
    by (simp add: flags non_empty_unwrap no_empty_text_def)
qed

lemma de_all_map: "(\<And>x. x \<in> set xs \<Longrightarrow> de (f x) = Some x) \<Longrightarrow> de_all de (map f xs) = Some xs"
  by (induction xs) auto

definition rule_listing :: "firewall_rule list \<Rightarrow> json" where
  "rule_listing rules = JObj [(''firewall_rules'', JObj [(''firewall_rule'', JArr (map to_params rules))])]"

lemma worker_rules_no_empty_text: "own_public_ip C \<noteq> Some [] \<Longrightarrow> list_all no_empty_text (worker_rules C)"
  by (auto simp: worker_rules_def no_empty_text_def accept_outbound_def accept_ssh_from_def dns_reply_rules_def UPCLOUD_DNS_RESOLVERS_def
      split: option.split)

lemma decoded_rule_listing:
  assumes "list_all no_empty_text rules"
  shows "de_rule_list (rule_listing rules) = Some rules"
proof -
  have "de_all de_firewall_rule (map to_params rules) = Some rules"
    by (rule de_all_map) (use assms in \<open>auto simp: list_all_iff intro: de_firewall_rule_to_params\<close>)
  then show ?thesis by (simp add: de_rule_list_def rule_listing_def de_field_def de_vec_def)
qed

section \<open>Properties\<close>

text \<open>
  Firewall rules read back as they were written: what the provider lists for the parameters the client posted decodes to the same rules, for rules without
  empty texts.
\<close>

theorem firewall_rules_round_trip:
  assumes "list_all no_empty_text rules"
  shows "de_rule_list (rule_listing rules) = Some rules"
  using assms by (rule decoded_rule_listing)

theorem firewall_rules_round_trip_witness: "de_rule_list (rule_listing (worker_rules demo_context)) = Some (worker_rules demo_context)"
  by (rule firewall_rules_round_trip, rule worker_rules_no_empty_text) (simp add: demo_context_def)

text \<open>
  Rules are added one by one and in order: when every request is accepted, creating rules posts exactly one request for each of them to the server's rule collection and nothing
  else. What was there before is not touched.
\<close>

theorem firewall_rules_posted_in_order:
  assumes "\<And>r sent. send P r sent = (Inr (201, Inr text), sent @ [r])" and "from_str L text = Inr v"
  shows "up_create_firewall_rules L P server_id rules sent = (Inr (), sent @ map (rule_request P server_id) rules)"
proof (induction rules arbitrary: sent)
  case Nil
  show ?case by (simp add: up_create_firewall_rules_def)
next
  case (Cons r rules)
  have "send_json L P any_value (rule_request P server_id r) sent = (Inr v, sent @ [rule_request P server_id r])"
    by (simp add: send_json_def bnd_def io_map_err_def map_err_def assms is_success_def ok_def any_value_def of_result_def ok_or_def)
  with Cons.IH show ?case by (simp add: up_create_firewall_rules_def seq_def bnd_def)
qed

theorem firewall_rules_posted_in_order_witness:
  "snd (up_create_firewall_rules demo_services \<lparr>base_url = ''u'', token = ''t'', send = \<lambda>r sent. (Inr (201, Inr ''spec''), sent @ [r])\<rparr>
      ''vm-1'' (worker_rules demo_context) [])
   = map (rule_request \<lparr>base_url = ''u'', token = ''t'', send = \<lambda>r sent. (Inr (201, Inr ''spec''), sent @ [r])\<rparr> ''vm-1'') (worker_rules demo_context)"
  using firewall_rules_posted_in_order [of "\<lparr>base_url = ''u'', token = ''t'', send = \<lambda>r sent. (Inr (201, Inr ''spec''), sent @ [r])\<rparr>" "''spec''"
      demo_services demo_spec "''vm-1''" "worker_rules demo_context" "[]"]
  by (simp add: demo_services_def)

text \<open>
  The loop recognises its own firewall: once the provider lists the rules that \<open>FirewallApplying\<close> asked for, \<open>FirewallVerified\<close> lets the job go on.
\<close>

theorem applied_firewall_verified:
  assumes "provider C = up_cloud S P" and "own_public_ip C \<noteq> Some []"
    and "\<And>x. fst (send P (request P ''GET'' (''/server/'' @ vm @ ''/firewall_rule'')) x) = Inr (200, Inr body)"
    and "from_str S body = Inr (rule_listing (worker_rules C))"
    and "\<And>x. fst (db_fault S x) = None" and "find_job jid (db w) = Some r" and "j_worker_vm_id r = Some vm"
  shows "fst (handle_firewall_verified S C jid w) = Inr True"
proof -
  let ?req = "request P ''GET'' (''/server/'' @ vm @ ''/firewall_rule'')"
  have listed: "fst (up_list_firewall_rules S P vm x) = Inr (worker_rules C)" for x
    using assms(3) [of x] assms(4) decoded_rule_listing [OF worker_rules_no_empty_text [OF assms(2)]]
    by (cases "send P ?req x")
       (simp add: up_list_firewall_rules_def send_json_def bnd_def io_map_err_def map_err_def is_success_def ok_def of_result_def ok_or_def)
  have visible: "rules_visible (worker_rules C)"
    by (simp add: rules_visible_def worker_rules_def accept_outbound_def dns_reply_rules_def UPCLOUD_DNS_RESOLVERS_def is_dns_reply_rule_def)
  obtain w1 where vm: "worker_vm_id S jid w = (Inr (Some vm), w1)"
    using assms(5-7) by (auto simp: worker_vm_id_def sql_fetch_one_def bnd_def sql_query_def lift_ext_eq of_result_def ok_or_def)
  show ?thesis
    using listed [of "ext w1"] visible
    by (simp add: handle_firewall_verified_def bnd_def vm cloud_def attempt_def provider_call_def lift_ext_eq assms(1) up_cloud_def)
qed

definition listing_services :: "nat services" where
  "listing_services = demo_services\<lparr>from_str := \<lambda>_. Inr (rule_listing (worker_rules demo_context))\<rparr>"

definition listing_client :: "nat up_cloud_provider" where
  "listing_client = \<lparr>base_url = ''u'', token = ''t'', send = \<lambda>r x. (Inr (200, Inr ''rules''), x)\<rparr>"

theorem applied_firewall_verified_witness:
  "fst (handle_firewall_verified listing_services (demo_context\<lparr>provider := up_cloud listing_services listing_client\<rparr>) ''job-1''
      (demo_world ''FirewallVerified'' 900)) = Inr True"
  by (rule applied_firewall_verified [where P = listing_client and vm = "''vm-1''" and body = "''rules''"
        and r = "demo_job ''FirewallVerified'' 900"])
     (simp_all add: listing_services_def listing_client_def demo_context_def worker_rules_def demo_services_def demo_world_def demo_db_def
        demo_job_def find_job_def)

end
