(* ===== verification/MetricsCollector.thy ===== *)
theory MetricsCollector
  imports Ssh JobStates "HOL-Library.Word"
begin

text \<open>
  Usage of the worker VMs, \<open>src/src/reconcile/metrics_collector.rs\<close>: one command per worker over SSH, its output parsed section by
  section, the sample stored as the job's one row of \<open>worker_metrics\<close>.

  The tasks of one pass run concurrently; each of them makes one SQL statement, about its own job, at its end. \<open>order\<close> is the
  order in which they get there, and \<open>timer\<close> tells whether a session ran out of time.
\<close>

section \<open>The output of the command\<close>

definition SEP :: string where
  "SEP = ''___KUBESHIM_METRICS_SEP___''"

text \<open>A single quote of the command line.\<close>

definition squote :: string where
  "squote = [CHR 0x27]"

definition collection_command :: string where
  "collection_command =
     (let echo_sep = ''echo '' @ squote @ SEP @ squote @ ''; ''
      in ''podman stats --no-stream --format json 2>/dev/null; '' @ echo_sep
         @ ''free -b | awk '' @ squote @ ''/^Mem:/ {print $2, $3}'' @ squote @ ''; '' @ echo_sep
         @ ''nproc; '' @ echo_sep
         @ ''cat /proc/loadavg; '' @ echo_sep
         @ ''grep -E '' @ squote @ ''^(pgfault|pgmajfault|pswpin|pswpout) '' @ squote @ '' /proc/vmstat; '' @ echo_sep
         @ ''grep -E '' @ squote @ ''^(Mapped|Cached|AnonPages):'' @ squote @ '' /proc/meminfo'')"

record container_sample =
  cs_name :: string
  cs_cpu_millicores :: nat
  cs_memory_usage_bytes :: nat

record vm_stats =
  vm_pgfault :: nat
  vm_pgmajfault :: nat
  vm_pswpin :: nat
  vm_pswpout :: nat
  vm_mapped_bytes :: nat
  vm_cached_bytes :: nat
  vm_anon_bytes :: nat

record sample =
  sm_containers :: "container_sample list"
  sm_node_memory_total_bytes :: nat
  sm_node_memory_used_bytes :: nat
  sm_node_cpu_count :: nat
  sm_node_load1 :: f64
  sm_vm :: "vm_stats option"

text \<open>\<open>str::lines\<close>.\<close>

definition strip_line_end :: "string \<Rightarrow> string" where
  "strip_line_end line =
     (case strip_suffix line [CHR 0x0A] of
        None \<Rightarrow> line
      | Some l \<Rightarrow> (case strip_suffix l [CHR 0x0D] of None \<Rightarrow> l | Some l' \<Rightarrow> l'))"

definition str_lines :: "string \<Rightarrow> string list" where
  "str_lines s = map strip_line_end (split_inclusive (CHR 0x0A) s)"

text \<open>\<open>str::split\<close> at a non-empty string; \<open>acc\<close> is the piece being read.\<close>

function split_str_acc :: "string \<Rightarrow> string \<Rightarrow> string \<Rightarrow> string list" where
  "split_str_acc sep acc s =
     (if sep \<noteq> [] \<and> starts_with s sep then acc # split_str_acc sep [] (drop (length sep) s)
      else (case s of [] \<Rightarrow> [acc] | c # cs \<Rightarrow> split_str_acc sep (acc @ [c]) cs))"
  by pat_completeness auto
termination
  by (relation "measure (\<lambda>(sep, acc, s). length s)") (auto simp: starts_with_iff)

declare split_str_acc.simps [simp del]

definition split_str :: "string \<Rightarrow> string \<Rightarrow> string list" where
  "split_str sep s = split_str_acc sep [] s"

text \<open>The counters read so far, by name.\<close>

type_synonym readings = "string \<Rightarrow> nat option"

definition note_reading :: "string list \<Rightarrow> string \<Rightarrow> nat \<Rightarrow> readings \<Rightarrow> readings" where
  "note_reading known name v m = (if name \<in> set known then m(name \<mapsto> v) else m)"

definition vmstat_names :: "string list" where
  "vmstat_names = [''pgfault'', ''pgmajfault'', ''pswpin'', ''pswpout'']"

definition meminfo_names :: "string list" where
  "meminfo_names = [''Mapped'', ''Cached'', ''AnonPages'']"

definition vmstat_line :: "readings \<Rightarrow> string \<Rightarrow> readings option" where
  "vmstat_line m line =
     (case split_whitespace line of
        name # v # _ \<Rightarrow> map_option (\<lambda>n. note_reading vmstat_names name n m) (parse_usize v)
      | _ \<Rightarrow> Some m)"

definition meminfo_line :: "readings \<Rightarrow> string \<Rightarrow> readings option" where
  "meminfo_line m line =
     (case split_once (CHR '':'') line of
        None \<Rightarrow> Some m
      | Some (name, rest) \<Rightarrow>
         (case split_whitespace rest of
            [] \<Rightarrow> None
          | v # _ \<Rightarrow>
             (case parse_usize v of
                None \<Rightarrow> None
              | Some kib \<Rightarrow>
                 if kib * 1024 < 2 ^ 64 then Some (note_reading meminfo_names (trim name) (kib * 1024) m) else None)))"

fun read_lines :: "(readings \<Rightarrow> string \<Rightarrow> readings option) \<Rightarrow> readings \<Rightarrow> string list \<Rightarrow> readings option" where
  "read_lines f m [] = Some m"
| "read_lines f m (l # ls) = (case f m l of None \<Rightarrow> None | Some m' \<Rightarrow> read_lines f m' ls)"

definition vm_stats_of :: "readings \<Rightarrow> readings \<Rightarrow> vm_stats option" where
  "vm_stats_of v m =
     (case map v vmstat_names @ map m meminfo_names of
        [Some a, Some b, Some c, Some d, Some e, Some f, Some g] \<Rightarrow>
          Some \<lparr>vm_pgfault = a, vm_pgmajfault = b, vm_pswpin = c, vm_pswpout = d,
                vm_mapped_bytes = e, vm_cached_bytes = f, vm_anon_bytes = g\<rparr>
      | _ \<Rightarrow> None)"

definition parse_vm_stats :: "string \<Rightarrow> string \<Rightarrow> vm_stats option" where
  "parse_vm_stats vmstat meminfo =
     Option.bind (read_lines vmstat_line Map.empty (str_lines vmstat)) (\<lambda>v.
     Option.bind (read_lines meminfo_line Map.empty (str_lines meminfo)) (\<lambda>m.
       vm_stats_of v m))"

text \<open>The saturating cast \<open>as u64\<close> of a double.\<close>

definition f64_as_u64 :: "f64 \<Rightarrow> nat" where
  "f64_as_u64 x =
     (case x of
        Fin a \<Rightarrow> (if a \<le> 0 then 0 else min (nat \<lfloor>a\<rfloor>) (2 ^ 64 - 1))
      | PInf \<Rightarrow> 2 ^ 64 - 1
      | NInf \<Rightarrow> 0
      | NaN \<Rightarrow> 0)"

definition podman_units :: "(string \<times> rat) list" where
  "podman_units = [(''PB'', 10 ^ 15), (''TB'', 10 ^ 12), (''GB'', 10 ^ 9), (''MB'', 10 ^ 6), (''kB'', 10 ^ 3), (''B'', 1)]"

definition parse_podman_bytes :: "string \<Rightarrow> nat option" where
  "parse_podman_bytes s =
     (case find_map (\<lambda>(unit, k). map_option (\<lambda>n. (n, k)) (strip_suffix (trim s) unit)) podman_units of
        None \<Rightarrow> None
      | Some (number, multiplier) \<Rightarrow>
          map_option (\<lambda>v. f64_as_u64 (f64_round (f64_mul v (Fin multiplier)))) (parse_f64 (trim number)))"

definition container_entry :: "json \<Rightarrow> container_sample option" where
  "container_entry entry =
     Option.bind (Option.bind (get entry ''name'') as_str) (\<lambda>name.
     Option.bind (Option.bind (get entry ''cpu_percent'') as_str) (\<lambda>cpu.
     Option.bind (parse_f64 (trim_end_matches (CHR ''%'') cpu)) (\<lambda>cpu_percent.
     Option.bind (Option.bind (get entry ''mem_usage'') as_str) (\<lambda>mem_usage.
     Option.bind (parse_podman_bytes (hd (split_on (CHR ''/'') mem_usage))) (\<lambda>memory_usage_bytes.
       Some \<lparr>cs_name = name, cs_cpu_millicores = f64_as_u32 (f64_round (f64_mul cpu_percent (Fin 10))),
             cs_memory_usage_bytes = memory_usage_bytes\<rparr>)))))"

definition parse_podman_stats :: "'a libs_scheme \<Rightarrow> string \<Rightarrow> container_sample list option" where
  "parse_podman_stats L json =
     Option.bind (ok (from_str L json)) (\<lambda>parsed.
     Option.bind (as_array parsed) (\<lambda>entries. Some (List.map_filter container_entry entries)))"

definition parse_u32 :: "string \<Rightarrow> nat option" where
  "parse_u32 s = filter_opt (\<lambda>n. n < 2 ^ 32) (parse_usize s)"

definition parse_node_health :: "string \<Rightarrow> string \<Rightarrow> string \<Rightarrow> (nat \<times> nat \<times> nat \<times> f64) option" where
  "parse_node_health free_line nproc_line loadavg_line =
     (case split_whitespace free_line of
        a # b # _ \<Rightarrow>
          Option.bind (parse_usize a) (\<lambda>total.
          Option.bind (parse_usize b) (\<lambda>used.
          Option.bind (parse_u32 (trim nproc_line)) (\<lambda>cpu_count.
            (case split_whitespace loadavg_line of
               [] \<Rightarrow> None
             | l # _ \<Rightarrow> map_option (\<lambda>load1. (total, used, cpu_count, load1)) (parse_f64 l)))))
      | _ \<Rightarrow> None)"

definition parse_sections :: "'a libs_scheme \<Rightarrow> string list \<Rightarrow> sample option" where
  "parse_sections L sections =
     (case sections of
        stats # free # nproc # loadavg # vm_sections \<Rightarrow>
          Option.bind (parse_podman_stats L stats) (\<lambda>containers.
          Option.bind (parse_node_health free nproc loadavg) (\<lambda>(total, used, cpu_count, load1).
            Some \<lparr>sm_containers = containers, sm_node_memory_total_bytes = total, sm_node_memory_used_bytes = used,
                  sm_node_cpu_count = cpu_count, sm_node_load1 = load1,
                  sm_vm = (case vm_sections of vmstat # meminfo # _ \<Rightarrow> parse_vm_stats vmstat meminfo | _ \<Rightarrow> None)\<rparr>))
      | _ \<Rightarrow> None)"

definition parse_sample :: "'a libs_scheme \<Rightarrow> string \<Rightarrow> sample option" where
  "parse_sample L out = parse_sections L (map trim (split_str SEP out))"

section \<open>Storing samples\<close>

text \<open>\<open>as i64\<close> of a \<open>u64\<close> wraps; the counters saturate.\<close>

definition u64_as_i64 :: "nat \<Rightarrow> int" where
  "u64_as_i64 n = sint (of_nat n :: 64 word)"

definition saturating_i64 :: "nat \<Rightarrow> int" where
  "saturating_i64 n = (if n < 2 ^ 63 then int n else 2 ^ 63 - 1)"

definition sample_row :: "string \<Rightarrow> int \<Rightarrow> sample \<Rightarrow> metrics_row" where
  "sample_row job_id now s =
     (let container = (case sm_containers s of [] \<Rightarrow> None | c # _ \<Rightarrow> Some c);
          vm_field = (\<lambda>f. map_option (\<lambda>vm. saturating_i64 (f vm)) (sm_vm s))
      in \<lparr>wm_job_id = job_id,
          wm_cpu_millicores = map_option (\<lambda>c. int (cs_cpu_millicores c)) container,
          wm_memory_usage_bytes = map_option (\<lambda>c. u64_as_i64 (cs_memory_usage_bytes c)) container,
          wm_node_memory_total_bytes = u64_as_i64 (sm_node_memory_total_bytes s),
          wm_node_memory_used_bytes = u64_as_i64 (sm_node_memory_used_bytes s),
          wm_node_cpu_count = int (sm_node_cpu_count s), wm_node_load1 = sm_node_load1 s, wm_sampled_at = now,
          wm_pgfault = vm_field vm_pgfault, wm_pgmajfault = vm_field vm_pgmajfault,
          wm_pswpin = vm_field vm_pswpin, wm_pswpout = vm_field vm_pswpout,
          wm_mapped_bytes = vm_field vm_mapped_bytes, wm_cached_bytes = vm_field vm_cached_bytes,
          wm_anon_bytes = vm_field vm_anon_bytes\<rparr>)"

definition upsert_metrics_row :: "metrics_row \<Rightarrow> database \<Rightarrow> string + database" where
  "upsert_metrics_row r d =
     (if wm_node_load1 r = NaN then Inl ''NOT NULL constraint failed: worker_metrics.node_load1''
      else (let same = (\<lambda>q. wm_job_id q = wm_job_id r)
            in Inr (d\<lparr>worker_metrics :=
                 (if list_ex same (worker_metrics d) then update_where same (\<lambda>_. r) (worker_metrics d)
                  else worker_metrics d @ [r])\<rparr>)))"

definition upsert_sample :: "'x services \<Rightarrow> string \<Rightarrow> sample \<Rightarrow> ('x, unit) job_io" where
  "upsert_sample S job_id s = bnd (now_ts S) (\<lambda>now. sql_exec S (upsert_metrics_row (sample_row job_id now s)))"

text \<open>The left join: every sample's job with its status, when the job exists.\<close>

definition sampled_jobs :: "database \<Rightarrow> (string \<times> string option) list" where
  "sampled_jobs d = map (\<lambda>m. (wm_job_id m, map_option j_status (find_job (wm_job_id m) d))) (worker_metrics d)"

definition delete_sample :: "string \<Rightarrow> database \<Rightarrow> string + database" where
  "delete_sample job_id d = Inr (d\<lparr>worker_metrics := filter (\<lambda>m. wm_job_id m \<noteq> job_id) (worker_metrics d)\<rparr>)"

definition forget_stale_samples :: "'x services \<Rightarrow> ('x, unit) job_io" where
  "forget_stale_samples S =
     bnd (sql_query S sampled_jobs) (\<lambda>rows.
       for_each (\<lambda>(job_id, status).
         if (case status of None \<Rightarrow> False | Some s \<Rightarrow> is_pre_completion_state s) then ret ()
         else sql_exec S (delete_sample job_id)) rows)"

section \<open>One pass\<close>

definition timed_out :: "('x \<Rightarrow> bool \<times> 'x) \<Rightarrow> ('x, bool) job_io" where
  "timed_out timer = (\<lambda>w. case lift_ext timer w of (late, w') \<Rightarrow> (Inr late, w'))"

definition poll_one_job ::
  "'x services \<Rightarrow> ('x \<Rightarrow> bool \<times> 'x) \<Rightarrow> worker_ssh_config \<Rightarrow> string \<Rightarrow> string \<times> string \<Rightarrow> ('x, bool) job_io" where
  "poll_one_job S timer cfg command job =
     (case job of (job_id, ip) \<Rightarrow>
       bnd (attempt (exec_once S ip (ssh_port cfg) (ssh_private_key cfg) command)) (\<lambda>output.
       bnd (timed_out timer) (\<lambda>late.
         case (output, late) of
           (Inr out, False) \<Rightarrow>
             (case parse_sample S (from_utf8_lossy (stdout out)) of
                None \<Rightarrow> ret False
              | Some s \<Rightarrow> bnd (attempt (upsert_sample S job_id s)) (\<lambda>r. ret (case r of Inr _ \<Rightarrow> True | Inl _ \<Rightarrow> False)))
         | _ \<Rightarrow> ret False)))"

fun run_tasks :: "(string \<times> string \<Rightarrow> ('x, bool) job_io) \<Rightarrow> (string \<times> string) list \<Rightarrow> nat \<Rightarrow> ('x, nat) job_io" where
  "run_tasks task [] updated = ret updated"
| "run_tasks task (j # js) updated =
     bnd (task j) (\<lambda>recorded. run_tasks task js (if recorded then updated + 1 else updated))"

definition pollable :: "database \<Rightarrow> (string \<times> string) list" where
  "pollable d =
     List.map_filter (\<lambda>r.
       case j_worker_ssh_ip r of
         None \<Rightarrow> None
       | Some ip \<Rightarrow> if is_pre_completion_state (j_status r) then Some (j_id r, ip) else None) (jobs d)"

definition poll_once_with_timeout ::
  "'x services \<Rightarrow> ((string \<times> string) list \<Rightarrow> (string \<times> string) list) \<Rightarrow> ('x \<Rightarrow> bool \<times> 'x) \<Rightarrow> worker_ssh_config
   \<Rightarrow> ('x, nat) job_io" where
  "poll_once_with_timeout S order timer cfg =
     seq (forget_stale_samples S)
       (bnd (sql_query S pollable) (\<lambda>rows.
          run_tasks (poll_one_job S timer cfg collection_command) (order rows) 0))"

end
