(* ===== verification/MetricsProps.thy ===== *)
theory MetricsProps
  imports MetricsCollector Demo "HOL-Library.Multiset"
begin

text \<open>
  The worker metrics: a pass forgets exactly the samples of jobs whose worker may be gone and loses no other, whatever fails and in
  whatever order the tasks finish; and what the worker's command prints is read back.
\<close>

section \<open>Tasks only write samples of their own jobs\<close>

definition sample_ids :: "database \<Rightarrow> string list" where
  "sample_ids d = map wm_job_id (worker_metrics d)"

definition resampled :: "string set \<Rightarrow> database \<Rightarrow> database \<Rightarrow> bool" where
  "resampled ids d d' \<longleftrightarrow>
     d' = d\<lparr>worker_metrics := worker_metrics d'\<rparr>
     \<and> (\<forall>m. wm_job_id m \<notin> ids \<longrightarrow> (m \<in> set (worker_metrics d') \<longleftrightarrow> m \<in> set (worker_metrics d)))
     \<and> set (sample_ids d) \<subseteq> set (sample_ids d') \<and> (distinct (sample_ids d) \<longrightarrow> distinct (sample_ids d'))"

lemma resampled_trans:
  assumes "resampled ids a b" and "resampled ids b c"
  shows "resampled ids a c"
proof -
  from assms have "c = a\<lparr>worker_metrics := worker_metrics c\<rparr>" unfolding resampled_def by (metis database.surjective database.update_convs(6))
  with assms show ?thesis unfolding resampled_def by (meson subset_trans)
qed

interpretation resample: db_frame "resampled ids" for ids
proof unfold_locales
  show "resampled ids d d" for d by (simp add: resampled_def)
  show "resampled ids a b \<Longrightarrow> resampled ids b c \<Longrightarrow> resampled ids a c" for a b c by (rule resampled_trans)
qed

lemma update_where_ids:
  "(\<And>q. same q \<longleftrightarrow> wm_job_id q = wm_job_id r) \<Longrightarrow> map wm_job_id (update_where same (\<lambda>_. r) ms) = map wm_job_id ms"
  by (simp add: update_where_def)

lemma resampled_upsert:
  assumes "upsert_metrics_row r d = Inr d'" and "wm_job_id r \<in> ids"
  shows "resampled ids d d'"
proof (cases "list_ex (\<lambda>q. wm_job_id q = wm_job_id r) (worker_metrics d)")
  case True
  with assms have d': "d' = d\<lparr>worker_metrics := update_where (\<lambda>q. wm_job_id q = wm_job_id r) (\<lambda>_. r) (worker_metrics d)\<rparr>"
    by (auto simp: upsert_metrics_row_def Let_def split: if_splits)
  then have "sample_ids d' = sample_ids d" by (simp add: sample_ids_def update_where_ids)
  with d' assms(2) show ?thesis by (auto simp: resampled_def set_update_where)
next
  case False
  with assms show ?thesis
    by (auto simp: upsert_metrics_row_def Let_def resampled_def sample_ids_def list_ex_iff split: if_splits) blast
qed

context db_frame
begin

lemma keeps_exec_once [intro!]: "keeps on_world (exec_once S host port key command)"
  by (rule keeps_same_db) simp

lemma keeps_timed_out [intro!]: "keeps on_world (timed_out timer)"
  by (rule keeps_same_db) (simp add: timed_out_def lift_ext_eq)

end

lemma sample_row_id [simp]: "wm_job_id (sample_row jid now s) = jid"
  by (simp add: sample_row_def Let_def)

lemma resample_upsert_sample: "jid \<in> ids \<Longrightarrow> keeps (resample.on_world ids) (upsert_sample S jid s)"
  by (auto simp: upsert_sample_def intro!: resample.keeps_sql_exec intro: resampled_upsert)

lemma resample_poll_one_job: "fst job \<in> ids \<Longrightarrow> keeps (resample.on_world ids) (poll_one_job S timer cfg command job)"
  by (cases job)
     (auto simp: poll_one_job_def split: sum.split bool.split option.split intro!: resample_upsert_sample)

lemma resample_run_tasks:
  "(\<And>j. j \<in> set js \<Longrightarrow> keeps (resample.on_world ids) (task j)) \<Longrightarrow> keeps (resample.on_world ids) (run_tasks task js n)"
  by (induction js arbitrary: n) auto

section \<open>Stale samples\<close>

definition has_worker :: "database \<Rightarrow> string \<Rightarrow> bool" where
  "has_worker d jid \<longleftrightarrow> (\<exists>r \<in> set (jobs d). j_id r = jid \<and> is_pre_completion_state (j_status r))"

lemma has_worker_find:
  "distinct (map j_id (jobs d)) \<Longrightarrow>
   has_worker d jid \<longleftrightarrow> (case map_option j_status (find_job jid d) of None \<Rightarrow> False | Some s \<Rightarrow> is_pre_completion_state s)"
proof (induction "jobs d" arbitrary: d)
  case Nil
  then show ?case by (simp add: has_worker_def find_job_def)
next
  case (Cons r rs)
  from Cons(1) [of "d\<lparr>jobs := rs\<rparr>"] Cons(2,3) show ?case
    by (auto simp: has_worker_def find_job_def Cons(2) [symmetric] split: option.splits) (metis imageI)+
qed

lemma forget_rows:
  assumes "for_each (\<lambda>(job_id, status).
         if (case status of None \<Rightarrow> False | Some s \<Rightarrow> is_pre_completion_state s) then ret ()
         else sql_exec S (delete_sample job_id)) rows w = (Inr (), w')"
  shows "db w' = (db w)\<lparr>worker_metrics := filter (\<lambda>m. \<forall>(jid, st) \<in> set rows.
            wm_job_id m = jid \<longrightarrow> (case st of None \<Rightarrow> False | Some s \<Rightarrow> is_pre_completion_state s)) (worker_metrics (db w))\<rparr>"
  using assms
proof (induction rows arbitrary: w)
  case Nil
  then show ?case by simp
next
  case (Cons row rows)
  obtain jid st where row: "row = (jid, st)" by fastforce
  let ?live = "case st of None \<Rightarrow> False | Some s \<Rightarrow> is_pre_completion_state s"
  from Cons(2) obtain v where step: "(if ?live then ret () else sql_exec S (delete_sample jid)) w = (Inr (), v)"
    and rest: "for_each (\<lambda>(job_id, status).
         if (case status of None \<Rightarrow> False | Some s \<Rightarrow> is_pre_completion_state s) then ret ()
         else sql_exec S (delete_sample job_id)) rows v = (Inr (), w')"
    by (auto simp: seq_returns row)
  have "db v = (db w)\<lparr>worker_metrics := filter (\<lambda>m. wm_job_id m = jid \<longrightarrow> ?live) (worker_metrics (db w))\<rparr>"
  proof (cases ?live)
    case True
    with step show ?thesis by simp
  next
    case False
    with step show ?thesis by (cases rule: sql_exec_cases [of S "delete_sample jid" w]) (auto simp: delete_sample_def)
  qed
  with Cons.IH [OF rest] show ?case by (auto simp: row intro: filter_cong)
qed

lemma forget_stale_samples_returns:
  assumes "forget_stale_samples S w = (Inr (), w')" and "distinct (map j_id (jobs (db w)))"
  shows "db w' = (db w)\<lparr>worker_metrics := filter (\<lambda>m. has_worker (db w) (wm_job_id m)) (worker_metrics (db w))\<rparr>"
proof -
  from assms(1) obtain rows v where q: "sql_query S sampled_jobs w = (Inr rows, v)"
    and f: "for_each (\<lambda>(job_id, status).
         if (case status of None \<Rightarrow> False | Some s \<Rightarrow> is_pre_completion_state s) then ret ()
         else sql_exec S (delete_sample job_id)) rows v = (Inr (), w')"
    by (auto simp: forget_stale_samples_def bnd_returns)
  from q have "db v = db w" and rows: "rows = sampled_jobs (db w)"
    by (cases rule: sql_query_cases [of S sampled_jobs w]; auto)+
  moreover have "filter (\<lambda>m. \<forall>(jid, st) \<in> set rows.
      wm_job_id m = jid \<longrightarrow> (case st of None \<Rightarrow> False | Some s \<Rightarrow> is_pre_completion_state s)) (worker_metrics (db w))
    = filter (\<lambda>m. has_worker (db w) (wm_job_id m)) (worker_metrics (db w))"
    by (rule filter_cong [OF refl]) (auto simp: rows sampled_jobs_def has_worker_find [OF assms(2)])
  ultimately show ?thesis using forget_rows [OF f] by simp
qed

lemma pollable_has_worker: "(jid, ip) \<in> set (pollable d) \<Longrightarrow> has_worker d jid"
  by (auto simp: pollable_def has_worker_def List.map_filter_def split: option.splits if_splits)

text \<open>
  A metrics pass that returns has dropped exactly the samples of jobs that no longer have a worker: every sample left belongs to a
  job before completion, every such job that had a sample still has one, samples of jobs that were not polled are untouched, there is
  still one sample per job, and no other table has changed - whichever sessions fail, time out or print nonsense, and in whatever order
  the tasks end.
\<close>

theorem poll_keeps_live_samples:
  assumes poll: "poll_once_with_timeout S order timer cfg w = (Inr n, w')"
    and order: "\<And>xs. mset (order xs) = mset xs"
    and keys: "distinct (map j_id (jobs (db w)))" "distinct (sample_ids (db w))"
  shows "db w' = (db w)\<lparr>worker_metrics := worker_metrics (db w')\<rparr>
    \<and> (\<forall>m \<in> set (worker_metrics (db w')). has_worker (db w) (wm_job_id m))
    \<and> (\<forall>m \<in> set (worker_metrics (db w)). has_worker (db w) (wm_job_id m) \<longrightarrow> wm_job_id m \<in> set (sample_ids (db w'))
         \<and> (wm_job_id m \<notin> fst ` set (pollable (db w)) \<longrightarrow> m \<in> set (worker_metrics (db w'))))
    \<and> distinct (sample_ids (db w'))"
proof -
  from poll obtain u rows v where f: "forget_stale_samples S w = (Inr (), u)"
    and q: "sql_query S pollable u = (Inr rows, v)"
    and t: "run_tasks (poll_one_job S timer cfg collection_command) (order rows) 0 v = (Inr n, w')"
    by (auto simp: poll_once_with_timeout_def seq_returns bnd_returns)
  from q have v: "db v = db u" and rows: "rows = pollable (db u)"
    by (cases rule: sql_query_cases [of S pollable u]; auto)+
  note u = forget_stale_samples_returns [OF f keys(1)]
  then have pol: "pollable (db u) = pollable (db w)" by (simp add: pollable_def)
  from order [of rows] have "set (order rows) = set rows" by (metis set_mset_mset)
  then have "keeps (resample.on_world (fst ` set (pollable (db w)))) (run_tasks (poll_one_job S timer cfg collection_command) (order rows) 0)"
    using rows pol by (intro resample_run_tasks resample_poll_one_job) simp
  from keepsD [OF this, of v] t v have r: "resampled (fst ` set (pollable (db w))) (db u) (db w')"
    by (simp add: resample.on_world_def)
  have live: "has_worker (db w) (wm_job_id m)" if "m \<in> set (worker_metrics (db w'))" for m
  proof (cases "wm_job_id m \<in> fst ` set (pollable (db w))")
    case True
    then show ?thesis by (auto intro: pollable_has_worker)
  next
    case False
    with r that have "m \<in> set (worker_metrics (db u))" by (simp add: resampled_def)
    with u show ?thesis by simp
  qed
  from r u have "db w' = (db w)\<lparr>worker_metrics := worker_metrics (db w')\<rparr>"
    unfolding resampled_def by (metis database.surjective database.update_convs(6))
  moreover have "distinct (sample_ids (db w'))"
    using r u keys(2) by (simp add: resampled_def sample_ids_def distinct_map_filter)
  moreover have "wm_job_id m \<in> set (sample_ids (db w')) \<and> (wm_job_id m \<notin> fst ` set (pollable (db w)) \<longrightarrow> m \<in> set (worker_metrics (db w')))"
    if "m \<in> set (worker_metrics (db w))" and "has_worker (db w) (wm_job_id m)" for m
  proof -
    from that u have "m \<in> set (worker_metrics (db u))" by simp
    with r show ?thesis by (auto simp: resampled_def sample_ids_def)
  qed
  ultimately show ?thesis using live by blast
qed

definition stale_row :: "string \<Rightarrow> metrics_row" where
  "stale_row jid =
     \<lparr>wm_job_id = jid, wm_cpu_millicores = None, wm_memory_usage_bytes = None, wm_node_memory_total_bytes = 1,
      wm_node_memory_used_bytes = 1, wm_node_cpu_count = 1, wm_node_load1 = Fin 0, wm_sampled_at = 900, wm_pgfault = None,
      wm_pgmajfault = None, wm_pswpin = None, wm_pswpout = None, wm_mapped_bytes = None, wm_cached_bytes = None, wm_anon_bytes = None\<rparr>"

definition unreachable :: "nat services" where
  "unreachable = demo_services\<lparr>ssh_session := (\<lambda>host port key command stdin n. (Inl ''connection refused'', n))\<rparr>"

definition sampled_world :: "nat world" where
  "sampled_world = \<lparr>db = (demo_db ''ContainerRunning'' 900)\<lparr>worker_metrics := [stale_row ''job-1'', stale_row ''gone'']\<rparr>, ext = 0\<rparr>"

lemma unreachable_sql [simp]:
  "sql_query unreachable q w = (Inr (q (db w)), w)"
  "sql_exec unreachable f w = (case f (db w) of Inl e \<Rightarrow> (Inl e, w) | Inr d \<Rightarrow> (Inr (), w\<lparr>db := d\<rparr>))"
  by (simp_all add: unreachable_def demo_services_def sql_query_def sql_exec_def lift_ext_eq)

lemma unreachable_poll [simp]: "poll_one_job unreachable (\<lambda>n. (False, n)) cfg command job w = (Inr False, w)"
  by (cases job)
     (simp add: poll_one_job_def exec_once_def ssh_call_def unreachable_def timed_out_def attempt_def bnd_def lift_ext_eq)

lemma sampled_world_poll:
  "poll_once_with_timeout unreachable rev (\<lambda>n. (False, n)) cfg sampled_world
     = (Inr 0, \<lparr>db = (demo_db ''ContainerRunning'' 900)\<lparr>worker_metrics := [stale_row ''job-1'']\<rparr>, ext = 0\<rparr>)"
proof -
  have run: "run_tasks (poll_one_job unreachable (\<lambda>n. (False, n)) cfg command) js n w = (Inr n, w)" for command js n w
    by (induction js arbitrary: n) (simp_all add: bnd_def)
  have states: "is_pre_completion_state ''ContainerRunning''" by code_simp
  have rows: "sampled_jobs (db sampled_world) = [(''job-1'', Some ''ContainerRunning''), (''gone'', None)]"
    by (simp add: sampled_jobs_def sampled_world_def demo_db_def demo_job_def stale_row_def find_job_def)
  show ?thesis
    by (simp add: poll_once_with_timeout_def forget_stale_samples_def seq_def bnd_def run states rows delete_sample_def)
       (simp add: sampled_world_def stale_row_def)
qed

theorem poll_keeps_live_samples_witness:
  "sample_ids (db (snd (poll_once_with_timeout unreachable rev (\<lambda>n. (False, n)) \<lparr>ssh_private_key = ''key'', ssh_port = 22\<rparr> sampled_world)))
     = [''job-1'']
   \<and> has_worker (db sampled_world) ''job-1'' \<and> \<not> has_worker (db sampled_world) ''gone''"
proof -
  let ?cfg = "\<lparr>ssh_private_key = ''key'', ssh_port = 22\<rparr>"
  have "distinct (map j_id (jobs (db sampled_world)))" and "distinct (sample_ids (db sampled_world))"
    by (simp_all add: sampled_world_def demo_db_def sample_ids_def stale_row_def)
  from poll_keeps_live_samples [OF sampled_world_poll [of ?cfg] _ this]
  have "has_worker (db sampled_world) ''job-1''" by (simp add: stale_row_def)
  moreover have "\<not> has_worker (db sampled_world) ''gone''"
    by (simp add: has_worker_def sampled_world_def demo_db_def demo_job_def)
  ultimately show ?thesis by (simp add: sampled_world_poll sample_ids_def stale_row_def)
qed

section \<open>White space around and between words\<close>

definition graphic :: "char \<Rightarrow> bool" where
  "graphic c \<longleftrightarrow> 33 \<le> (of_char c :: nat) \<and> (of_char c :: nat) \<le> 126"

definition word_text :: "string \<Rightarrow> bool" where
  "word_text s \<longleftrightarrow> s \<noteq> [] \<and> list_all graphic s"

definition text_block :: "string \<Rightarrow> bool" where
  "text_block s \<longleftrightarrow> s \<noteq> [] \<and> graphic (hd s) \<and> graphic (last s)"

lemma whitespace_ends: "w \<in> set whitespace \<Longrightarrow> w \<noteq> [] \<and> \<not> graphic (hd w) \<and> \<not> graphic (last w)"
proof -
  have "list_all (\<lambda>w. w \<noteq> [] \<and> \<not> graphic (hd w) \<and> \<not> graphic (last w)) whitespace" by code_simp
  then show "w \<in> set whitespace \<Longrightarrow> w \<noteq> [] \<and> \<not> graphic (hd w) \<and> \<not> graphic (last w)" by (simp add: list_all_iff)
qed

lemma leading_none:
  assumes "graphic c" and "\<And>w. w \<in> set ws \<Longrightarrow> w \<noteq> [] \<and> \<not> graphic (hd w)"
  shows "leading ws (c # s) = None"
proof -
  have "\<not> starts_with (c # s) w" if "w \<in> set ws" for w
    using assms(1) assms(2) [OF that] by (cases w) (auto simp: starts_with_iff)
  then show ?thesis by (auto simp: leading_def find_None_iff)
qed

lemma leading_graphic: "graphic c \<Longrightarrow> leading whitespace (c # s) = None"
  by (rule leading_none) (use whitespace_ends in auto)

lemma leading_rev_graphic: "graphic c \<Longrightarrow> leading (map rev whitespace) (c # s) = None"
  by (rule leading_none) (use whitespace_ends in \<open>auto simp: hd_rev\<close>)

lemma leading_LF: "leading whitespace (CHR 0x0A # s) = Some [CHR 0x0A]" "leading whitespace (CHR '' '' # s) = Some '' ''"
  "leading (map rev whitespace) (CHR 0x0A # s) = Some [CHR 0x0A]"
  by (simp_all add: leading_def whitespace_def starts_with_def)

lemma trim_block: "text_block s \<Longrightarrow> trim s = s"
proof -
  assume "text_block s"
  then obtain c cs d ds where "s = c # cs" and "rev s = d # ds" and "graphic c" and "graphic d"
    by (cases s; cases "rev s") (auto simp: text_block_def hd_rev [symmetric])
  then have "trim_start s = s" and "trim_end s = rev (rev s)"
    by (simp_all add: trim_start_def trim_end_def strip_leading.simps leading_graphic leading_rev_graphic)
  then show "trim s = s" by (simp add: trim_def)
qed

lemma trim_LF_before: "trim (CHR 0x0A # s) = trim s"
  by (simp add: trim_def trim_start_def strip_leading.simps [of _ "CHR 0x0A # s"] leading_LF)

lemma trim_LF_after: "text_block s \<Longrightarrow> trim (s @ [CHR 0x0A]) = s"
proof -
  assume b: "text_block s"
  then obtain c cs where s: "s = c # cs" and "graphic c" by (cases s) (auto simp: text_block_def)
  then have "trim_start (s @ [CHR 0x0A]) = s @ [CHR 0x0A]"
    by (simp add: trim_start_def strip_leading.simps leading_graphic)
  moreover have "trim_end (s @ [CHR 0x0A]) = trim_end s"
    by (simp add: trim_end_def strip_leading.simps [of _ "CHR 0x0A # rev s"] leading_LF)
  moreover have "trim_end s = s"
    using trim_block [OF b] s \<open>graphic c\<close> by (simp add: trim_def trim_start_def strip_leading.simps leading_graphic)
  ultimately show ?thesis by (simp add: trim_def)
qed

lemma split_ws_word: "list_all graphic a \<Longrightarrow> split_ws acc (a @ s) = split_ws (acc @ a) s"
  by (induction a arbitrary: acc) (simp_all add: split_ws.simps [of _ "_ # _"] leading_graphic)

lemma split_ws_Nil: "split_ws acc [] = (if acc = [] then [] else [acc])"
  by (simp add: split_ws.simps leading_def whitespace_def starts_with_def)

lemma split_whitespace_Cons: "word_text a \<Longrightarrow> split_whitespace (a @ '' '' @ s) = a # split_whitespace s"
  by (simp add: split_whitespace_def split_ws_word word_text_def split_ws.simps [of a "CHR '' '' # s"] leading_LF)

lemma split_whitespace_space: "split_whitespace ('' '' @ s) = split_whitespace s"
  by (simp add: split_whitespace_def split_ws.simps [of "[]" "CHR '' '' # s"] leading_LF)

lemma split_whitespace_word: "word_text a \<Longrightarrow> split_whitespace a = [a]"
  using split_ws_word [of a "[]" "[]"] by (simp add: split_whitespace_def word_text_def split_ws_Nil)

lemma graphic_digit: "is_ascii_digit c \<Longrightarrow> graphic c"
  by (simp add: is_ascii_digit_def graphic_def)

lemma word_text_nat [simp]: "word_text (show_nat n)"
  using show_nat_digits [of n] by (auto simp: word_text_def list_all_iff intro: graphic_digit)

section \<open>Lines and sections\<close>

lemma split_inclusive_join:
  "ls \<noteq> [] \<Longrightarrow> (\<And>l. l \<in> set ls \<Longrightarrow> c \<notin> set l \<and> l \<noteq> []) \<Longrightarrow>
   split_inclusive c (join [c] ls) = map (\<lambda>l. l @ [c]) (butlast ls) @ [last ls]"
proof (induction ls rule: induct_list012)
  case (2 l)
  have "c \<notin> set l \<Longrightarrow> l \<noteq> [] \<Longrightarrow> split_inclusive c l = [l]" for l
  proof (induction l)
    case (Cons a l)
    then show ?case by (cases "l = []") auto
  qed simp
  with 2 show ?case by simp
next
  case (3 a b ls)
  have "c \<notin> set l \<Longrightarrow> split_inclusive c (l @ c # s) = (l @ [c]) # split_inclusive c s" for l s
    by (induction l) (auto split: list.split)
  with 3 show ?case by simp
qed simp

lemma str_lines_join:
  assumes "ls \<noteq> []" and "\<And>l. l \<in> set ls \<Longrightarrow> text_block l \<and> CHR 0x0A \<notin> set l"
  shows "str_lines (join [CHR 0x0A] ls) = ls"
proof -
  have cr: "strip_line_end (l @ [CHR 0x0A]) = l \<and> strip_line_end l = l" if "text_block l" for l
    using that
    by (cases l rule: rev_cases)
       (auto simp: strip_line_end_def strip_suffix_def ends_with_def text_block_def graphic_def)
  have "str_lines (join [CHR 0x0A] ls) = map strip_line_end (map (\<lambda>l. l @ [CHR 0x0A]) (butlast ls) @ [last ls])"
    using split_inclusive_join [OF assms(1), of "CHR 0x0A"] assms(2) by (simp add: str_lines_def text_block_def)
  also have "\<dots> = map (\<lambda>l. strip_line_end (l @ [CHR 0x0A])) (butlast ls) @ [last ls]"
    using assms cr by simp
  also have "map (\<lambda>l. strip_line_end (l @ [CHR 0x0A])) (butlast ls) = butlast ls"
  proof (rule map_idI)
    fix l
    assume "l \<in> set (butlast ls)"
    from assms(2) [OF in_set_butlastD [OF this]] cr [of l] show "strip_line_end (l @ [CHR 0x0A]) = l" by simp
  qed
  finally show ?thesis using assms(1) by simp
qed

lemma split_str_last: "\<not> sublist sep s \<Longrightarrow> split_str_acc sep acc s = [acc @ s]"
proof (induction s arbitrary: acc)
  case Nil
  then show ?case by (simp add: split_str_acc.simps starts_with_iff)
next
  case (Cons x s)
  have "\<not> starts_with (x # s) sep" using Cons(2) by (auto simp: starts_with_iff)
  moreover have "\<not> sublist sep s" using Cons(2) by (auto simp: sublist_Cons_right)
  ultimately show ?case using Cons(1) by (simp add: split_str_acc.simps [of sep acc])
qed

lemma split_str_next:
  "\<not> sublist sep s \<Longrightarrow> c \<notin> set sep \<Longrightarrow> sep \<noteq> [] \<Longrightarrow>
   split_str_acc sep acc (s @ c # sep @ t) = (acc @ s @ [c]) # split_str_acc sep [] t"
proof (induction s arbitrary: acc)
  case Nil
  then have "\<not> starts_with (c # sep @ t) sep" by (cases sep) (auto simp: starts_with_iff)
  with Nil show ?case by (simp add: split_str_acc.simps [of sep acc] split_str_acc.simps [of sep _ "sep @ t"])
next
  case (Cons x s)
  have "\<not> starts_with ((x # s) @ c # sep @ t) sep"
  proof
    assume "starts_with ((x # s) @ c # sep @ t) sep"
    then obtain r where "(x # s) @ c # sep @ t = sep @ r" by (auto simp: starts_with_iff)
    then have "prefix sep ((x # s) @ c # sep @ t)" by (metis prefixI)
    then have "prefix sep (x # s) \<or> (\<exists>u. sep = (x # s) @ u \<and> prefix u (c # sep @ t))" by (simp only: prefix_append)
    with Cons(2,3) show False by (auto simp: prefix_Cons)
  qed
  moreover have "\<not> sublist sep s" using Cons(2) by (auto simp: sublist_Cons_right)
  ultimately show ?case using Cons by (simp add: split_str_acc.simps [of sep acc])
qed

section \<open>What the command prints is read back\<close>

definition LFS :: string where
  "LFS = [CHR 0x0A]"

definition vmstat_text :: "nat \<Rightarrow> nat \<Rightarrow> nat \<Rightarrow> nat \<Rightarrow> string" where
  "vmstat_text a b c d =
     join LFS [''pgfault'' @ '' '' @ show_nat a, ''pgmajfault'' @ '' '' @ show_nat b, ''pswpin'' @ '' '' @ show_nat c, ''pswpout'' @ '' '' @ show_nat d]"

definition meminfo_text :: "nat \<Rightarrow> nat \<Rightarrow> nat \<Rightarrow> string" where
  "meminfo_text m c a =
     join LFS [''Mapped: '' @ show_nat m @ '' '' @ ''kB'', ''Cached: '' @ show_nat c @ '' '' @ ''kB'', ''AnonPages: '' @ show_nat a @ '' '' @ ''kB'']"

lemma graphic_word: "word_text s \<Longrightarrow> text_block s"
  by (simp add: word_text_def text_block_def list_all_iff)

lemma text_block_append: "text_block s \<Longrightarrow> text_block t \<Longrightarrow> text_block (s @ c # t)"
  by (simp add: text_block_def)

lemma show_nat_graphic: "c \<in> set (show_nat n) \<Longrightarrow> is_ascii_digit c"
  using show_nat_digits [of n] by (simp add: list_all_iff)

lemma show_nat_ends: "is_ascii_digit (hd (show_nat n))" "is_ascii_digit (last (show_nat n))" "show_nat n \<noteq> []"
  using show_nat_digits [of n] by (auto simp: list_all_iff)

lemma show_nat_free: "\<not> is_ascii_digit c \<Longrightarrow> c \<notin> set (show_nat n)"
  using show_nat_graphic by blast

lemmas nat_text = show_nat_free graphic_digit show_nat_ends text_block_def

lemma not_digits: "\<not> is_ascii_digit (CHR 0x0A)" "\<not> is_ascii_digit (CHR ''_'')" "\<not> is_ascii_digit (CHR '':'')"
  by (simp_all add: is_ascii_digit_def)

lemma graphic_letters: "graphic (CHR ''p'')" "graphic (CHR ''M'')" "graphic (CHR ''C'')" "graphic (CHR ''A'')" "graphic (CHR ''B'')"
  by (simp_all add: graphic_def)

lemma vmstat_line_known:
  assumes "word_text name" and "n < 2 ^ 64"
  shows "vmstat_line m (name @ '' '' @ show_nat n) = Some (note_reading vmstat_names name n m)"
  unfolding vmstat_line_def split_whitespace_Cons [OF assms(1)] split_whitespace_word [OF word_text_nat]
  by (simp add: parse_usize_show [OF assms(2)])

lemma meminfo_line_known:
  assumes "word_text name" and "CHR '':'' \<notin> set name" and "n * 1024 < 2 ^ 64"
  shows "meminfo_line m (name @ '': '' @ show_nat n @ '' '' @ ''kB'') = Some (note_reading meminfo_names name (n * 1024) m)"
proof -
  have "split_once (CHR '':'') (name @ '': '' @ show_nat n @ '' '' @ ''kB'') = Some (name, '' '' @ show_nat n @ '' '' @ ''kB'')"
    using assms(2) by (simp add: split_once_Some)
  moreover have "split_whitespace ('' '' @ show_nat n @ '' '' @ ''kB'') = [show_nat n, ''kB'']"
    unfolding split_whitespace_space split_whitespace_Cons [OF word_text_nat]
    by (simp add: split_whitespace_word word_text_def graphic_def)
  moreover have "n < 2 ^ 64" using assms(3) by simp
  ultimately show ?thesis
    using assms parse_usize_show [of n] by (simp add: meminfo_line_def trim_block graphic_word)
qed

lemma vm_stats_read_back:
  assumes "a < 2 ^ 64" "b < 2 ^ 64" "c < 2 ^ 64" "d < 2 ^ 64"
    and "m * 1024 < 2 ^ 64" "k * 1024 < 2 ^ 64" "n * 1024 < 2 ^ 64"
  shows "parse_vm_stats (vmstat_text a b c d) (meminfo_text m k n) =
    Some \<lparr>vm_pgfault = a, vm_pgmajfault = b, vm_pswpin = c, vm_pswpout = d,
          vm_mapped_bytes = m * 1024, vm_cached_bytes = k * 1024, vm_anon_bytes = n * 1024\<rparr>"
proof -
  have words: "word_text ''pgfault''" "word_text ''pgmajfault''" "word_text ''pswpin''" "word_text ''pswpout''"
    "word_text ''Mapped''" "word_text ''Cached''" "word_text ''AnonPages''"
    by (simp_all add: word_text_def graphic_def)
  have v: "str_lines (vmstat_text a b c d) = [''pgfault'' @ '' '' @ show_nat a, ''pgmajfault'' @ '' '' @ show_nat b,
      ''pswpin'' @ '' '' @ show_nat c, ''pswpout'' @ '' '' @ show_nat d]"
    unfolding vmstat_text_def LFS_def by (rule str_lines_join) (auto simp: nat_text not_digits graphic_letters)
  have i: "str_lines (meminfo_text m k n) = [''Mapped: '' @ show_nat m @ '' '' @ ''kB'', ''Cached: '' @ show_nat k @ '' '' @ ''kB'',
      ''AnonPages: '' @ show_nat n @ '' '' @ ''kB'']"
    unfolding meminfo_text_def LFS_def by (rule str_lines_join) (auto simp: nat_text not_digits graphic_letters)
  note ml = meminfo_line_known [OF words(5) _ assms(5)] meminfo_line_known [OF words(6) _ assms(6)] meminfo_line_known [OF words(7) _ assms(7)]
  note vl = vmstat_line_known [OF words(1) assms(1)] vmstat_line_known [OF words(2) assms(2)] vmstat_line_known [OF words(3) assms(3)]
    vmstat_line_known [OF words(4) assms(4)]
  have "read_lines vmstat_line Map.empty (str_lines (vmstat_text a b c d))
      = Some [''pgfault'' \<mapsto> a, ''pgmajfault'' \<mapsto> b, ''pswpin'' \<mapsto> c, ''pswpout'' \<mapsto> d]"
    unfolding v by (simp only: read_lines.simps vl option.case) (simp add: note_reading_def vmstat_names_def)
  moreover have "read_lines meminfo_line Map.empty (str_lines (meminfo_text m k n))
      = Some [''Mapped'' \<mapsto> m * 1024, ''Cached'' \<mapsto> k * 1024, ''AnonPages'' \<mapsto> n * 1024]"
    unfolding i using ml by (simp add: note_reading_def meminfo_names_def)
  ultimately show ?thesis
    by (simp add: parse_vm_stats_def vm_stats_of_def vmstat_names_def meminfo_names_def)
qed

text \<open>The output of the whole command: the sections with the separator on lines of its own.\<close>

definition worker_output :: "string list \<Rightarrow> string" where
  "worker_output sections = join (LFS @ SEP @ LFS) sections @ LFS"

lemma split_sections:
  assumes "sections \<noteq> []" and "\<And>s. s \<in> set sections \<Longrightarrow> text_block s \<and> \<not> sublist SEP s"
  shows "map trim (split_str SEP (worker_output sections)) = sections"
proof -
  have sep: "CHR 0x0A \<notin> set SEP" "SEP \<noteq> []" by (simp_all add: SEP_def)
  have inner: "\<not> sublist SEP s \<Longrightarrow> \<not> sublist SEP (CHR 0x0A # s)" for s
    using sep by (simp add: sublist_Cons_right prefix_Cons) (metis list.set_intros(1))
  have outer: "\<not> sublist SEP s \<Longrightarrow> \<not> sublist SEP (s @ [CHR 0x0A])" for s
    using sep by (auto simp: sublist_snoc suffix_snoc) (metis in_set_conv_decomp)
  have tail: "map trim (split_str_acc SEP [] (p @ join (LFS @ SEP @ LFS) ss @ LFS)) = ss"
    if "ss \<noteq> []" "\<And>s. s \<in> set ss \<Longrightarrow> text_block s \<and> \<not> sublist SEP s" "p = [] \<or> p = LFS" for p ss
    using that
  proof (induction ss arbitrary: p rule: induct_list012)
    case (2 s)
    then have "\<not> sublist SEP (p @ s)" by (auto simp: LFS_def inner)
    with outer [OF this] 2 show ?case by (auto simp: LFS_def split_str_last trim_LF_before trim_LF_after)
  next
    case (3 s t ts)
    then have "\<not> sublist SEP (p @ s)" by (auto simp: LFS_def inner)
    from split_str_next [OF this sep]
    have "split_str_acc SEP [] (p @ join (LFS @ SEP @ LFS) (s # t # ts) @ LFS)
        = (p @ s @ LFS) # split_str_acc SEP [] (LFS @ join (LFS @ SEP @ LFS) (t # ts) @ LFS)"
      by (simp add: LFS_def)
    moreover have "trim (p @ s @ LFS) = s" using 3 by (auto simp: LFS_def trim_LF_before trim_LF_after)
    ultimately show ?case using 3 by simp
  qed simp
  show ?thesis using tail [OF assms, of "[]"] by (simp add: worker_output_def split_str_def)
qed

lemma no_separator: "CHR ''_'' \<notin> set s \<Longrightarrow> \<not> sublist SEP s"
  by (auto simp: SEP_def dest!: set_mono_sublist)

text \<open>
  What the collection command prints on a worker is read back without loss: from the six sections - the containers as JSON, total and
  used memory, processors, load, page and swap counters, memory in KiB - \<open>parse_sample\<close> gets the containers that are well formed, exactly
  the printed numbers, and the memory in bytes.
\<close>

theorem worker_output_read_back:
  assumes podman: "from_str L podman = Inr (JArr entries)" "text_block podman" "\<not> sublist SEP podman"
    and node: "mem < 2 ^ 64" "used < 2 ^ 64" "cpus < 2 ^ 32"
    and load: "word_text load" "parse_f64 load = Some l" "CHR ''_'' \<notin> set load" "text_block rest" "CHR ''_'' \<notin> set rest"
    and vm: "a < 2 ^ 64" "b < 2 ^ 64" "c < 2 ^ 64" "d < 2 ^ 64" "m * 1024 < 2 ^ 64" "k * 1024 < 2 ^ 64" "n * 1024 < 2 ^ 64"
  shows "parse_sample L (worker_output [podman, show_nat mem @ '' '' @ show_nat used, show_nat cpus, load @ '' '' @ rest,
             vmstat_text a b c d, meminfo_text m k n])
     = Some \<lparr>sm_containers = List.map_filter container_entry entries, sm_node_memory_total_bytes = mem, sm_node_memory_used_bytes = used,
             sm_node_cpu_count = cpus, sm_node_load1 = l,
             sm_vm = Some \<lparr>vm_pgfault = a, vm_pgmajfault = b, vm_pswpin = c, vm_pswpout = d, vm_mapped_bytes = m * 1024,
                           vm_cached_bytes = k * 1024, vm_anon_bytes = n * 1024\<rparr>\<rparr>"
proof -
  have blocks: "text_block (show_nat mem @ '' '' @ show_nat used)" "text_block (show_nat cpus)" "text_block (load @ '' '' @ rest)"
    "text_block (vmstat_text a b c d)" "text_block (meminfo_text m k n)"
    using load(1,4)
    by (auto simp: text_block_append graphic_word)
       (auto simp: nat_text graphic_letters vmstat_text_def meminfo_text_def LFS_def)
  have free: "CHR ''_'' \<notin> set (show_nat mem @ '' '' @ show_nat used)" "CHR ''_'' \<notin> set (show_nat cpus)"
    "CHR ''_'' \<notin> set (load @ '' '' @ rest)" "CHR ''_'' \<notin> set (vmstat_text a b c d)" "CHR ''_'' \<notin> set (meminfo_text m k n)"
    using load(3,5) by (auto simp: nat_text not_digits vmstat_text_def meminfo_text_def LFS_def)
  have "map trim (split_str SEP (worker_output [podman, show_nat mem @ '' '' @ show_nat used, show_nat cpus,
            load @ '' '' @ rest, vmstat_text a b c d, meminfo_text m k n]))
      = [podman, show_nat mem @ '' '' @ show_nat used, show_nat cpus, load @ '' '' @ rest, vmstat_text a b c d, meminfo_text m k n]"
    by (rule split_sections) (use podman blocks free no_separator in auto)
  moreover have "parse_podman_stats L podman = Some (List.map_filter container_entry entries)"
    using podman(1) by (simp add: parse_podman_stats_def ok_def)
  moreover have "parse_node_health (show_nat mem @ '' '' @ show_nat used) (show_nat cpus) (load @ '' '' @ rest)
      = Some (mem, used, cpus, l)"
    unfolding parse_node_health_def split_whitespace_Cons [OF word_text_nat] split_whitespace_word [OF word_text_nat]
    using node load parse_usize_show [of mem] parse_usize_show [of used] parse_usize_show [of cpus]
      split_whitespace_Cons [of load "rest"]
    by (simp add: parse_u32_def filter_opt_def trim_block graphic_word)
  ultimately show ?thesis
    by (simp add: parse_sample_def parse_sections_def vm_stats_read_back [OF vm])
qed

end
