(* ===== verification/Loops.thy ===== *)
theory Loops
  imports OrphanScan Schedule MetricsCollector
begin

text \<open>
  The background loops, \<open>src/src/reconcile/mod.rs\<close>, with the daily price sync (\<open>src/src/reconcile/pricing.rs\<close>) and the shutdown flag they watch
  (\<open>src/src/shutdown.rs\<close>). A loop is run on the list of its wake-ups: whether shutdown has been requested by then, and how long the pass takes on the
  monotonic clock. The metrics poll is in theory MetricsCollector, the ECB feed an effect on the outside world.

  The metrics poll and the price sync may be cut off in the middle of a pass. What is left then is what the statements made so far have done;
  as every statement may fail, this is the database of a pass whose remaining statements failed, and nothing is recorded.
\<close>

section \<open>Price sync\<close>

definition has_cached_pricing :: "'x services \<Rightarrow> ('x, bool) job_io" where
  "has_cached_pricing S =
     bnd (sql_query S (\<lambda>d. length (provider_pricing d))) (\<lambda>prices.
     bnd (sql_query S (\<lambda>d. length (exchange_rates d))) (\<lambda>rates.
     if prices > 0 \<and> rates > 0 then has_cached_plans S else ret False))"

definition empty_catalog_message :: string where
  "empty_catalog_message = ''provider returned an empty plan catalog; keeping the cached one''"

definition sync_plans :: "'x services \<Rightarrow> 'x job_context \<Rightarrow> ('x, unit) job_io" where
  "sync_plans S C =
     (if dry_run C then ret ()
      else bnd (try_cloud (list_plans (provider C))) (\<lambda>plans.
        if plans = [] then fail empty_catalog_message
        else bnd (now_ts S) (\<lambda>now.
             bnd (store_plans S plans (ctx_plan_filter C) now) (\<lambda>_. ret ()))))"

definition upsert_price_row :: "pricing_row \<Rightarrow> database \<Rightarrow> string + database" where
  "upsert_price_row r d =
     (if pr_amount r = NaN then Inl ''NOT NULL constraint failed: provider_pricing.amount''
      else if pr_price r = NaN then Inl ''NOT NULL constraint failed: provider_pricing.price''
      else (let same = (\<lambda>q. pr_zone q = pr_zone r \<and> pr_price_key q = pr_price_key r)
            in Inr (d\<lparr>provider_pricing :=
                 (if list_ex same (provider_pricing d) then update_where same (\<lambda>_. r) (provider_pricing d)
                  else provider_pricing d @ [r])\<rparr>)))"

definition price_row_of :: "string \<Rightarrow> int \<Rightarrow> string \<times> price_entry \<Rightarrow> pricing_row" where
  "price_row_of zone now ke =
     (case ke of (key, e) \<Rightarrow>
       \<lparr>pr_zone = zone, pr_price_key = key, pr_amount = pe_amount e, pr_price = pe_price e, pr_currency = pe_currency e,
        pr_fetched_at = now\<rparr>)"

definition sync_pricing :: "'x services \<Rightarrow> 'x job_context \<Rightarrow> ('x, unit) job_io" where
  "sync_pricing S C =
     (if dry_run C then ret ()
      else bnd (try_cloud (get_zone_prices (provider C) (ctx_zone C))) (\<lambda>prices.
           bnd (now_ts S) (\<lambda>now.
             transaction S
               (for_each (\<lambda>ke. sql_exec S (upsert_price_row (price_row_of (ctx_zone C) now ke))) prices))))"

text \<open>\<open>fetch_ecb\<close> downloads the feed and reads its currency and rate attributes.\<close>

type_synonym 'x ecb_feed = "'x \<Rightarrow> (string + (string \<times> f64) list) \<times> 'x"

definition fetch_ecb_rates :: "'x ecb_feed \<Rightarrow> ('x, exchange_rate list) job_io" where
  "fetch_ecb_rates ecb =
     bnd (lift_ext ecb) (\<lambda>cubes. ret (map (\<lambda>(c, r). \<lparr>xr_currency = c, xr_rate = r\<rparr>) cubes))"

definition sync_exchange_rates :: "'x services \<Rightarrow> 'x ecb_feed \<Rightarrow> ('x, unit) job_io" where
  "sync_exchange_rates S ecb =
     bnd (fetch_ecb_rates ecb) (\<lambda>rates. bnd (now_ts S) (\<lambda>now. store_rates S rates now))"

definition tolerate :: "('x, unit) job_io \<Rightarrow> ('x, unit) job_io" where
  "tolerate m = bnd (attempt m) (\<lambda>_. ret ())"

definition sync_pricing_and_rates :: "'x services \<Rightarrow> 'x job_context \<Rightarrow> 'x ecb_feed \<Rightarrow> ('x, unit) job_io" where
  "sync_pricing_and_rates S C ecb =
     seq (tolerate (sync_plans S C)) (seq (tolerate (sync_pricing S C)) (seq (tolerate (sync_exchange_rates S ecb)) (ret ())))"

section \<open>One tick\<close>

definition tick_until :: "'x services \<Rightarrow> 'x job_context \<Rightarrow> ('x \<Rightarrow> bool \<times> 'x) \<Rightarrow> ('x, unit) job_io" where
  "tick_until S C shutdown =
     bnd (schedule_due_jobs S C) (\<lambda>scheduled.
     bnd (advance_all_until S C shutdown) (\<lambda>advanced. ret ()))"

definition reconcile_tick :: "'x services \<Rightarrow> 'x job_context \<Rightarrow> ('x, unit) job_io" where
  "reconcile_tick S C = tick_until S C never"

section \<open>Counters\<close>

record loop_stats =
  last_run_at :: int
  successes :: "64 word"
  failures :: "64 word"
  duration_micros_total :: "64 word"

definition no_runs :: loop_stats where
  "no_runs = \<lparr>last_run_at = 0, successes = 0, failures = 0, duration_micros_total = 0\<rparr>"

definition record_pass :: "int \<Rightarrow> bool \<Rightarrow> nat \<Rightarrow> loop_stats \<Rightarrow> loop_stats" where
  "record_pass now success micros s =
     s\<lparr>last_run_at := now,
       successes := (if success then successes s + 1 else successes s),
       failures := (if success then failures s else failures s + 1),
       duration_micros_total := duration_micros_total s + (if micros < 2 ^ 64 then of_nat micros else - 1)\<rparr>"

definition duration_seconds_total :: "loop_stats \<Rightarrow> f64" where
  "duration_seconds_total s = f64_div (f64_of_int (uint (duration_micros_total s))) (Fin 1000000)"

record tick_health =
  started_at :: int
  tick_stats :: loop_stats
  orphan_scan :: loop_stats
  metrics_poll :: loop_stats
  pricing_sync :: loop_stats

definition new_tick_health :: "int \<Rightarrow> tick_health" where
  "new_tick_health now =
     \<lparr>started_at = now, tick_stats = no_runs, orphan_scan = no_runs, metrics_poll = no_runs, pricing_sync = no_runs\<rparr>"

definition TICK_STALE_THRESHOLD_SECS :: int where
  "TICK_STALE_THRESHOLD_SECS = 60"

definition is_healthy :: "int \<Rightarrow> tick_health \<Rightarrow> bool" where
  "is_healthy now h \<longleftrightarrow>
     (let last_pass = last_run_at (tick_stats h) in last_pass \<noteq> 0 \<and> now - last_pass < TICK_STALE_THRESHOLD_SECS)"

section \<open>Loops\<close>

record wake_up =
  shutdown_requested :: bool
  cut_off :: bool
  pass_micros :: nat

text \<open>One pass with its bookkeeping: the pass is recorded whether it succeeded or not.\<close>

definition recorded_pass ::
  "'x services \<Rightarrow> ('x, 'r) job_io \<Rightarrow> nat \<Rightarrow> loop_stats \<Rightarrow> 'x world \<Rightarrow> loop_stats \<times> 'x world" where
  "recorded_pass S m micros s w =
     (case m w of
        (r, w1) \<Rightarrow>
          (case lift_ext (utc_now S) w1 of
             (t, w2) \<Rightarrow> (record_pass (timestamp t) (case r of Inr _ \<Rightarrow> True | Inl _ \<Rightarrow> False) micros s, w2)))"

fun loop_until :: "'x services \<Rightarrow> ('x, 'r) job_io \<Rightarrow> wake_up list \<Rightarrow> loop_stats \<Rightarrow> 'x world \<Rightarrow> loop_stats \<times> 'x world" where
  "loop_until S m [] s w = (s, w)"
| "loop_until S m (u # us) s w =
     (if shutdown_requested u then (s, w)
      else (case recorded_pass S m (pass_micros u) s w of (s', w') \<Rightarrow> loop_until S m us s' w'))"

fun loop_cut_until :: "'x services \<Rightarrow> ('x, 'r) job_io \<Rightarrow> wake_up list \<Rightarrow> loop_stats \<Rightarrow> 'x world \<Rightarrow> loop_stats \<times> 'x world" where
  "loop_cut_until S m [] s w = (s, w)"
| "loop_cut_until S m (u # us) s w =
     (if shutdown_requested u then (s, w)
      else if cut_off u then (s, snd (m w))
      else (case recorded_pass S m (pass_micros u) s w of (s', w') \<Rightarrow> loop_cut_until S m us s' w'))"

definition run_with_interval ::
  "'x services \<Rightarrow> 'x job_context \<Rightarrow> ('x \<Rightarrow> bool \<times> 'x) \<Rightarrow> wake_up list \<Rightarrow> tick_health \<Rightarrow> 'x world \<Rightarrow> tick_health \<times> 'x world" where
  "run_with_interval S C shutdown us h w =
     (case loop_until S (tick_until S C shutdown) us (tick_stats h) w of (s, w') \<Rightarrow> (h\<lparr>tick_stats := s\<rparr>, w'))"

definition run_orphan_scan_loop ::
  "'x services \<Rightarrow> 'x job_context \<Rightarrow> wake_up list \<Rightarrow> tick_health \<Rightarrow> 'x world \<Rightarrow> tick_health \<times> 'x world" where
  "run_orphan_scan_loop S C us h w =
     (case loop_until S (scan_and_clean S C) us (orphan_scan h) w of (s, w') \<Rightarrow> (h\<lparr>orphan_scan := s\<rparr>, w'))"

definition worker_ssh_config_of :: "'x job_context \<Rightarrow> worker_ssh_config" where
  "worker_ssh_config_of C = \<lparr>ssh_private_key = worker_ssh_private_key C, ssh_port = worker_ssh_port C\<rparr>"

definition run_metrics_poll_loop ::
  "'x services \<Rightarrow> 'x job_context \<Rightarrow> ((string \<times> string) list \<Rightarrow> (string \<times> string) list) \<Rightarrow> ('x \<Rightarrow> bool \<times> 'x)
   \<Rightarrow> wake_up list \<Rightarrow> tick_health \<Rightarrow> 'x world \<Rightarrow> tick_health \<times> 'x world" where
  "run_metrics_poll_loop S C order timer us h w =
     (case loop_cut_until S (poll_once_with_timeout S order timer (worker_ssh_config_of C)) us (metrics_poll h) w of
        (s, w') \<Rightarrow> (h\<lparr>metrics_poll := s\<rparr>, w'))"

definition run_pricing_sync_loop ::
  "'x services \<Rightarrow> 'x job_context \<Rightarrow> 'x ecb_feed \<Rightarrow> wake_up list \<Rightarrow> tick_health \<Rightarrow> 'x world \<Rightarrow> tick_health \<times> 'x world" where
  "run_pricing_sync_loop S C ecb us h w =
     (case loop_cut_until S (sync_pricing_and_rates S C ecb) us (pricing_sync h) w of (s, w') \<Rightarrow> (h\<lparr>pricing_sync := s\<rparr>, w'))"

end
