(* ===== verification/LoopProps.thy ===== *)
theory LoopProps
  imports Loops Demo
begin

text \<open>
  The loops: the price sync as a refinement of a cache whose parts are refreshed whole or kept, and the counters and the health signal
  of a loop.
\<close>

section \<open>The price cache\<close>

text \<open>What the rest of the program reads of the three cached tables.\<close>

record price_cache =
  cache_plans :: "plan_row list"
  cache_prices :: "string \<times> string \<Rightarrow> price_entry option"
  cache_rates :: "string \<Rightarrow> f64 option"

definition price_lookup :: "pricing_row list \<Rightarrow> string \<times> string \<Rightarrow> price_entry option" where
  "price_lookup rows k =
     map_option (\<lambda>r. \<lparr>pe_amount = pr_amount r, pe_price = pr_price r, pe_currency = pr_currency r\<rparr>)
       (find (\<lambda>r. (pr_zone r, pr_price_key r) = k) rows)"

definition cache_of :: "database \<Rightarrow> price_cache" where
  "cache_of d = \<lparr>cache_plans = map (\<lambda>r. r\<lparr>pl_fetched_at := 0\<rparr>) (provider_plans d), cache_prices = price_lookup (provider_pricing d),
                 cache_rates = rate_of d\<rparr>"

definition answers :: "('x \<Rightarrow> ('e + 'a) \<times> 'x) \<Rightarrow> 'a \<Rightarrow> bool" where
  "answers f a \<longleftrightarrow> (\<exists>x. fst (f x) = Inr a)"

text \<open>The abstract refreshes: of the plans, by the eligible part of a catalog that is not empty; of the prices of a zone, one entry
  over another; of the rates, all at once.\<close>

definition plans_refreshed :: "'x job_context \<Rightarrow> price_cache \<Rightarrow> price_cache \<Rightarrow> bool" where
  "plans_refreshed C c c' \<longleftrightarrow>
     (\<exists>plans. \<not> dry_run C \<and> answers (list_plans (provider C)) plans \<and> plans \<noteq> []
        \<and> c' = c\<lparr>cache_plans := map (plan_row_of 0) (filter (is_eligible (ctx_plan_filter C)) plans)\<rparr>)"

definition prices_refreshed :: "'x job_context \<Rightarrow> price_cache \<Rightarrow> price_cache \<Rightarrow> bool" where
  "prices_refreshed C c c' \<longleftrightarrow>
     (\<exists>prices. \<not> dry_run C \<and> answers (get_zone_prices (provider C) (ctx_zone C)) prices
        \<and> c' = c\<lparr>cache_prices := foldl (\<lambda>m (k, e). m((ctx_zone C, k) \<mapsto> e)) (cache_prices c) prices\<rparr>)"

definition rates_refreshed :: "'x ecb_feed \<Rightarrow> price_cache \<Rightarrow> price_cache \<Rightarrow> bool" where
  "rates_refreshed ecb c c' \<longleftrightarrow> (\<exists>rates. answers ecb rates \<and> c' = c\<lparr>cache_rates := map_of rates\<rparr>)"

definition only_prices :: "database \<Rightarrow> database \<Rightarrow> bool" where
  "only_prices d d' \<longleftrightarrow>
     d' = d\<lparr>provider_plans := provider_plans d', provider_pricing := provider_pricing d', exchange_rates := exchange_rates d'\<rparr>"

lemma only_prices_trans: "only_prices a b \<Longrightarrow> only_prices b c \<Longrightarrow> only_prices a c"
  by (cases a; cases b; cases c) (simp add: only_prices_def)

lemma rate_of_cong: "exchange_rates d' = exchange_rates d \<Longrightarrow> rate_of d' = rate_of d"
  by (simp add: rate_of_def fun_eq_iff)

lemma transaction_cases:
  obtains (undone) "db (snd (transaction S body w)) = db w"
  | (committed) a v v' w' where "body v = (Inr a, v')" and "db v = db w" and "db w' = db v'" and "transaction S body w = (Inr a, w')"
proof -
  let ?m = "bnd (sql_query S (\<lambda>_. ())) (\<lambda>_. bnd body (\<lambda>a. bnd (sql_query S (\<lambda>_. ())) (\<lambda>_. ret a)))"
  show ?thesis
  proof (cases "?m w")
    case (Pair r w')
    show ?thesis
    proof (cases r)
      case (Inl e)
      with Pair have "db (snd (transaction S body w)) = db w" by (simp add: transaction_def)
      then show ?thesis by (rule undone)
    next
      case (Inr a)
      with Pair obtain v v' u where q: "sql_query S (\<lambda>_. ()) w = (Inr (), v)" and b: "body v = (Inr a, v')"
        and c: "sql_query S (\<lambda>_. ()) v' = (Inr (), u)" and w': "w' = u"
        by (auto simp: bnd_returns)
      from q have "db v = db w" by (metis db_sql_query snd_conv)
      moreover from c have "db u = db v'" by (metis db_sql_query snd_conv)
      moreover from Pair Inr have "transaction S body w = (Inr a, w')" by (simp add: transaction_def)
      ultimately show ?thesis using b w' committed by blast
    qed
  qed
qed

lemma exec_returns: "sql_exec S f w = (Inr (), w') \<Longrightarrow> f (db w) = Inr (db w')"
  by (cases rule: sql_exec_cases [of S f w]) auto

lemma for_each_rows:
  assumes "for_each (\<lambda>x. sql_exec S (f x)) xs w = (Inr (), w')"
    and "\<And>x d d'. x \<in> set xs \<Longrightarrow> f x d = Inr d' \<Longrightarrow> g d' = h x (g d) \<and> only_prices d d'"
  shows "g (db w') = foldl (\<lambda>t x. h x t) (g (db w)) xs \<and> only_prices (db w) (db w')"
  using assms
proof (induction xs arbitrary: w)
  case Nil
  then show ?case by (simp add: only_prices_def)
next
  case (Cons x xs)
  then obtain v where "sql_exec S (f x) w = (Inr (), v)" and rest: "for_each (\<lambda>x. sql_exec S (f x)) xs v = (Inr (), w')"
    by (auto simp: seq_returns)
  then have "g (db v) = h x (g (db w)) \<and> only_prices (db w) (db v)" using Cons(3) exec_returns by fastforce
  moreover have "g (db w') = foldl (\<lambda>t x. h x t) (g (db v)) xs \<and> only_prices (db v) (db w')"
    using Cons(3) by (intro Cons.IH [OF rest]) auto
  ultimately show ?case by (auto intro: only_prices_trans)
qed

lemma for_each_same:
  assumes "for_each (\<lambda>x. sql_exec S (f x)) xs w = (Inr (), w')" and "\<And>x d d'. f x d = Inr d' \<Longrightarrow> g d' = g d"
  shows "g (db w') = g (db w)"
  using assms(1)
proof (induction xs arbitrary: w)
  case (Cons x xs)
  then obtain v where x: "sql_exec S (f x) w = (Inr (), v)" and xs: "for_each (\<lambda>x. sql_exec S (f x)) xs v = (Inr (), w')"
    by (auto simp: seq_returns)
  from Cons.IH [OF xs] assms(2) [OF exec_returns [OF x]] show ?case by simp
qed simp

lemma try_cloud_returns: "try_cloud f w = (Inr a, w') \<Longrightarrow> answers f a \<and> db w' = db w"
  by (auto simp: try_cloud_def io_map_err_returns provider_call_def lift_ext_eq answers_def)

lemma bnd_now_ts: "bnd (now_ts S) k w = k (timestamp (fst (utc_now S (ext w)))) (w\<lparr>ext := snd (utc_now S (ext w))\<rparr>)"
  by (simp add: bnd_def now_ts_eq)

lemma db_bnd_unit: "db (snd (bnd m (\<lambda>_. ret ()) w)) = db (snd (m w))"
  by (auto simp: bnd_def split: prod.split sum.split)

text \<open>The outcome of one part of the sync: nothing, or the abstract refresh.\<close>

definition refines :: "(price_cache \<Rightarrow> price_cache \<Rightarrow> bool) \<Rightarrow> database \<Rightarrow> database \<Rightarrow> bool" where
  "refines R d d' \<longleftrightarrow> only_prices d d' \<and> (cache_of d' = cache_of d \<or> R (cache_of d) (cache_of d'))"

lemma refines_same [intro]: "d' = d \<Longrightarrow> refines R d d'"
  by (simp add: refines_def only_prices_def)

lemma foldl_snoc_map: "foldl (\<lambda>t x. t @ [f x]) rows xs = rows @ map f xs"
  by (induction xs arbitrary: rows) simp_all

lemma store_plans_refines:
  "db (snd (store_plans S plans f t w)) = db w
   \<or> only_prices (db w) (db (snd (store_plans S plans f t w)))
     \<and> cache_of (db (snd (store_plans S plans f t w))) = (cache_of (db w))\<lparr>cache_plans := map (plan_row_of 0) (filter (is_eligible f) plans)\<rparr>"
proof -
  let ?el = "filter (is_eligible f) plans"
  let ?clear = "sql_exec S (\<lambda>d. Inr (d\<lparr>provider_plans := []\<rparr>))"
  let ?fill = "for_each (\<lambda>plan. sql_exec S (insert_plan_row (plan_row_of t plan))) ?el"
  let ?body = "seq ?clear (seq ?fill (ret (length ?el)))"
  have s: "store_plans S plans f t = transaction S ?body" by (simp add: store_plans_def Let_def)
  show ?thesis
  proof (cases rule: transaction_cases [of S ?body w])
    case (committed a v v' w')
    then obtain u where c: "?clear v = (Inr (), u)" and i: "?fill u = (Inr (), v')" by (auto simp: seq_returns)
    have rows: "provider_plans (db v') = provider_plans (db u) @ map (plan_row_of t) ?el \<and> only_prices (db u) (db v')"
      unfolding foldl_snoc_map [symmetric]
      by (rule for_each_rows [OF i]) (auto simp: insert_plan_row_def only_prices_def split: if_splits)
    have keep: "provider_pricing (db v') = provider_pricing (db u) \<and> exchange_rates (db v') = exchange_rates (db u)"
      by (intro conjI for_each_same [OF i]) (auto simp: insert_plan_row_def split: if_splits)
    from exec_returns [OF c] committed(2) have u: "db u = (db w)\<lparr>provider_plans := []\<rparr>" by simp
    have "only_prices (db w) (db u)" by (simp add: u only_prices_def)
    with rows have "only_prices (db w) (db v')" using only_prices_trans by blast
    moreover have "cache_of (db v') = (cache_of (db w))\<lparr>cache_plans := map (plan_row_of 0) ?el\<rparr>"
      using rows keep u rate_of_cong [of "db v'" "db w"] by (simp add: cache_of_def plan_row_of_def comp_def)
    ultimately show ?thesis using committed by (simp add: s)
  qed (simp add: s)
qed

lemma sync_plans_refines: "refines (plans_refreshed C) (db w) (db (snd (sync_plans S C w)))"
proof (cases "dry_run C")
  case False
  show ?thesis
  proof (cases rule: bnd_cases [of "try_cloud (list_plans (provider C))" w "\<lambda>plans.
        if plans = [] then fail empty_catalog_message
        else bnd (now_ts S) (\<lambda>now. bnd (store_plans S plans (ctx_plan_filter C) now) (\<lambda>_. ret ()))"])
    case (err e v)
    moreover have "db v = db w" using err by (metis same_dbD same_db.keeps_map_err same_db.keeps_provider_call try_cloud_def)
    ultimately show ?thesis using False by (auto simp: sync_plans_def)
  next
    case (val plans v)
    note a = try_cloud_returns [OF val(1)]
    show ?thesis
    proof (cases "plans = []")
      case True
      with val a False show ?thesis by (auto simp: sync_plans_def)
    next
      case ne: False
      let ?t = "timestamp (fst (utc_now S (ext v)))" and ?u = "v\<lparr>ext := snd (utc_now S (ext v))\<rparr>"
      have "db (snd (sync_plans S C w)) = db (snd (store_plans S plans (ctx_plan_filter C) ?t ?u))"
        using val False ne by (simp add: sync_plans_def bnd_now_ts db_bnd_unit)
      with store_plans_refines [of S plans "ctx_plan_filter C" ?t ?u] a ne False show ?thesis
        by (auto simp: refines_def plans_refreshed_def only_prices_def)
    qed
  qed
qed (auto simp: sync_plans_def)

lemma price_lookup_upsert:
  assumes "upsert_price_row r d = Inr d'"
  shows "price_lookup (provider_pricing d') = (price_lookup (provider_pricing d))((pr_zone r, pr_price_key r) \<mapsto>
           \<lparr>pe_amount = pr_amount r, pe_price = pr_price r, pe_currency = pr_currency r\<rparr>)"
proof -
  let ?same = "\<lambda>q. pr_zone q = pr_zone r \<and> pr_price_key q = pr_price_key r"
  have found: "list_ex ?same rows \<Longrightarrow> find ?same (update_where ?same (\<lambda>_. r) rows) = Some r" for rows
    by (induction rows) (auto simp: update_where_def)
  have other: "k \<noteq> (pr_zone r, pr_price_key r) \<Longrightarrow>
    find (\<lambda>q. (pr_zone q, pr_price_key q) = k) (update_where ?same (\<lambda>_. r) rows) = find (\<lambda>q. (pr_zone q, pr_price_key q) = k) rows" for k rows
    by (induction rows) (auto simp: update_where_def)
  have fresh: "\<not> list_ex ?same rows \<Longrightarrow> find ?same (rows @ [r]) = Some r" for rows by (induction rows) auto
  have kept: "k \<noteq> (pr_zone r, pr_price_key r) \<Longrightarrow>
    find (\<lambda>q. (pr_zone q, pr_price_key q) = k) (rows @ [r]) = find (\<lambda>q. (pr_zone q, pr_price_key q) = k) rows" for k rows
    by (induction rows) auto
  from assms have "provider_pricing d' = (if list_ex ?same (provider_pricing d) then update_where ?same (\<lambda>_. r) (provider_pricing d)
      else provider_pricing d @ [r])"
    by (auto simp: upsert_price_row_def Let_def split: if_splits)
  then show ?thesis
    using found [of "provider_pricing d"] fresh [of "provider_pricing d"] other [of _ "provider_pricing d"] kept [of _ "provider_pricing d"]
    by (auto simp: fun_eq_iff price_lookup_def)
qed

lemma store_prices_refines:
  assumes body_def: "body = for_each (\<lambda>ke. sql_exec S (upsert_price_row (price_row_of zone t ke))) prices"
  shows "db (snd (transaction S body w)) = db w
   \<or> only_prices (db w) (db (snd (transaction S body w)))
     \<and> cache_of (db (snd (transaction S body w)))
       = (cache_of (db w))\<lparr>cache_prices := foldl (\<lambda>m (k, e). m((zone, k) \<mapsto> e)) (cache_prices (cache_of (db w))) prices\<rparr>"
proof (cases rule: transaction_cases [of S body w])
  case (committed a v v' w')
  then have run: "for_each (\<lambda>ke. sql_exec S (upsert_price_row (price_row_of zone t ke))) prices v = (Inr (), v')"
    by (simp add: body_def)
  let ?h = "\<lambda>(k, e) m. m((zone, k) \<mapsto> e)"
  have "price_lookup (provider_pricing d') = ?h ke (price_lookup (provider_pricing d)) \<and> only_prices d d'"
    if "upsert_price_row (price_row_of zone t ke) d = Inr d'" for ke d d'
    using price_lookup_upsert [OF that] that
    by (cases ke) (auto simp: price_row_of_def upsert_price_row_def only_prices_def Let_def split: if_splits)
  from for_each_rows [OF run, of "\<lambda>d. price_lookup (provider_pricing d)" ?h] this
  have "price_lookup (provider_pricing (db v')) = foldl (\<lambda>m ke. ?h ke m) (price_lookup (provider_pricing (db w))) prices"
    and "only_prices (db w) (db v')"
    using committed(2) by auto
  moreover have "provider_plans (db v') = provider_plans (db w) \<and> exchange_rates (db v') = exchange_rates (db w)"
    unfolding committed(2) [symmetric]
    by (intro conjI for_each_same [OF run]) (auto simp: upsert_price_row_def Let_def split: if_splits)
  ultimately show ?thesis using committed rate_of_cong [of "db v'" "db w"]
    by (simp add: cache_of_def) (simp add: case_prod_unfold)
qed simp

lemma sync_pricing_refines: "refines (prices_refreshed C) (db w) (db (snd (sync_pricing S C w)))"
proof (cases "dry_run C")
  case False
  let ?k = "\<lambda>prices. bnd (now_ts S) (\<lambda>now. transaction S
      (for_each (\<lambda>ke. sql_exec S (upsert_price_row (price_row_of (ctx_zone C) now ke))) prices))"
  show ?thesis
  proof (cases rule: bnd_cases [of "try_cloud (get_zone_prices (provider C) (ctx_zone C))" w ?k])
    case (err e v)
    moreover have "db v = db w" using err by (metis same_dbD same_db.keeps_map_err same_db.keeps_provider_call try_cloud_def)
    ultimately show ?thesis using False by (auto simp: sync_pricing_def)
  next
    case (val prices v)
    let ?t = "timestamp (fst (utc_now S (ext v)))" and ?u = "v\<lparr>ext := snd (utc_now S (ext v))\<rparr>"
    have "sync_pricing S C w = transaction S (for_each (\<lambda>ke. sql_exec S (upsert_price_row (price_row_of (ctx_zone C) ?t ke))) prices) ?u"
      using val False by (simp add: sync_pricing_def bnd_now_ts)
    with store_prices_refines [OF refl, of S "ctx_zone C" ?t prices ?u] try_cloud_returns [OF val(1)] False show ?thesis
      by (auto simp: refines_def prices_refreshed_def only_prices_def)
  qed
qed (auto simp: sync_pricing_def)

lemma store_rates_refines:
  "db (snd (store_rates S rates t w)) = db w
   \<or> only_prices (db w) (db (snd (store_rates S rates t w)))
     \<and> cache_of (db (snd (store_rates S rates t w))) = (cache_of (db w))\<lparr>cache_rates := map_of (map (\<lambda>r. (xr_currency r, xr_rate r)) rates)\<rparr>"
proof -
  let ?row = "\<lambda>r. \<lparr>er_currency = xr_currency r, er_rate = xr_rate r, er_fetched_at = t\<rparr>"
  let ?clear = "sql_exec S (\<lambda>d. Inr (d\<lparr>exchange_rates := []\<rparr>))"
  let ?fill = "for_each (\<lambda>r. sql_exec S (insert_rate_row (?row r))) rates"
  let ?body = "seq ?clear ?fill"
  have s: "store_rates S rates t = transaction S ?body" by (simp add: store_rates_def)
  show ?thesis
  proof (cases rule: transaction_cases [of S ?body w])
    case (committed a v v' w')
    then obtain u where c: "?clear v = (Inr (), u)" and i: "?fill u = (Inr (), v')" by (auto simp: seq_returns)
    have rows: "exchange_rates (db v') = exchange_rates (db u) @ map ?row rates \<and> only_prices (db u) (db v')"
      unfolding foldl_snoc_map [symmetric]
      by (rule for_each_rows [OF i]) (auto simp: insert_rate_row_def only_prices_def split: if_splits)
    have keep: "provider_pricing (db v') = provider_pricing (db u) \<and> provider_plans (db v') = provider_plans (db u)"
      by (intro conjI for_each_same [OF i]) (auto simp: insert_rate_row_def split: if_splits)
    from exec_returns [OF c] committed(2) have u: "db u = (db w)\<lparr>exchange_rates := []\<rparr>" by simp
    have "only_prices (db w) (db u)" by (simp add: u only_prices_def)
    with rows have "only_prices (db w) (db v')" using only_prices_trans by blast
    moreover have "map_option er_rate (find (\<lambda>r. er_currency r = c) (map ?row rates)) = map_of (map (\<lambda>r. (xr_currency r, xr_rate r)) rates) c" for c
      by (induction rates) auto
    then have "rate_of (db v') = map_of (map (\<lambda>r. (xr_currency r, xr_rate r)) rates)"
      using rows u by (simp add: rate_of_def fun_eq_iff)
    ultimately show ?thesis using committed keep u by (simp add: s cache_of_def)
  qed (simp add: s)
qed

lemma sync_exchange_rates_refines: "refines (rates_refreshed ecb) (db w) (db (snd (sync_exchange_rates S ecb w)))"
proof (cases "ecb (ext w)")
  case (Pair r x)
  show ?thesis
  proof (cases r)
    case (Inl e)
    with Pair show ?thesis by (auto simp: sync_exchange_rates_def fetch_ecb_rates_def bnd_def lift_ext_eq)
  next
    case (Inr cubes)
    let ?rates = "map (\<lambda>(c, r). \<lparr>xr_currency = c, xr_rate = r\<rparr>) cubes"
    let ?v = "w\<lparr>ext := x\<rparr>"
    let ?t = "timestamp (fst (utc_now S (ext ?v)))" and ?u = "?v\<lparr>ext := snd (utc_now S (ext ?v))\<rparr>"
    from Pair Inr have "sync_exchange_rates S ecb w = bnd (now_ts S) (\<lambda>now. store_rates S ?rates now) ?v"
      by (simp add: sync_exchange_rates_def fetch_ecb_rates_def bnd_def lift_ext_eq)
    then have "sync_exchange_rates S ecb w = store_rates S ?rates ?t ?u" by (simp add: bnd_now_ts)
    moreover have "map (\<lambda>r. (xr_currency r, xr_rate r)) ?rates = cubes" by (induction cubes) auto
    moreover have "answers ecb cubes" using Pair Inr by (auto simp: answers_def intro!: exI [of _ "ext w"])
    ultimately show ?thesis using store_rates_refines [of S ?rates ?t ?u]
      by (auto simp: refines_def rates_refreshed_def only_prices_def)
  qed
qed

lemma tolerate_apply: "tolerate m w = (Inr (), snd (m w))"
  by (simp add: tolerate_def bnd_def attempt_def split: prod.split)

text \<open>
  C22. The daily price sync always returns, and what it does to the cache is one refinement step of each of its parts: the plans are
  kept or become the eligible part of a non-empty catalog the provider returned, the prices are kept or overlaid with one complete
  answer for the zone, the exchange rates are kept or replaced by one complete feed. Whatever fails in between, no reader sees a part half
  refreshed, a failure of one part does not keep the others from being refreshed, and no other table changes. In dry-run mode only the
  rates move.
\<close>

theorem price_sync_refines_cache:
  "\<exists>w'. sync_pricing_and_rates S C ecb w = (Inr (), w') \<and> only_prices (db w) (db w')
     \<and> ((plans_refreshed C)\<^sup>=\<^sup>= OO (prices_refreshed C)\<^sup>=\<^sup>= OO (rates_refreshed ecb)\<^sup>=\<^sup>=) (cache_of (db w)) (cache_of (db w'))"
proof -
  let ?u = "snd (sync_plans S C w)"
  let ?v = "snd (sync_pricing S C ?u)"
  let ?w = "snd (sync_exchange_rates S ecb ?v)"
  have "sync_pricing_and_rates S C ecb w = (Inr (), ?w)"
    by (simp add: sync_pricing_and_rates_def seq_def bnd_def tolerate_apply)
  moreover note sync_plans_refines [of C w S] sync_pricing_refines [of C ?u S] sync_exchange_rates_refines [of ecb ?v S]
  ultimately show ?thesis unfolding refines_def by (auto simp: relcompp_apply intro: only_prices_trans)
qed

section \<open>Counters and health\<close>

definition passes :: "loop_stats \<Rightarrow> 64 word" where
  "passes s = successes s + failures s"

lemma recorded_pass_stats:
  assumes "recorded_pass S m micros s w = (s', w')"
  shows "passes s' = passes s + 1" and "\<exists>x. last_run_at s' = timestamp (fst (utc_now S x))"
  using assms by (auto simp: recorded_pass_def record_pass_def passes_def lift_ext_eq split: prod.splits sum.splits)

lemma loop_until_passes:
  assumes "loop_until S m us s w = (s', w')"
  shows "passes s' = passes s + of_nat (length (takeWhile (\<lambda>u. \<not> shutdown_requested u) us))"
  using assms
proof (induction us arbitrary: s w)
  case (Cons u us)
  show ?case
  proof (cases "shutdown_requested u")
    case False
    obtain s1 w1 where p: "recorded_pass S m (pass_micros u) s w = (s1, w1)" by fastforce
    with Cons(2) False have "loop_until S m us s1 w1 = (s', w')" by simp
    from Cons.IH [OF this] recorded_pass_stats(1) [OF p] False show ?thesis by simp
  qed (use Cons(2) in simp)
qed simp

lemma loop_until_last:
  assumes "loop_until S m us s w = (s', w')"
  shows "(takeWhile (\<lambda>u. \<not> shutdown_requested u) us = [] \<longrightarrow> s' = s \<and> w' = w)
    \<and> (takeWhile (\<lambda>u. \<not> shutdown_requested u) us \<noteq> [] \<or> (\<exists>x. last_run_at s = timestamp (fst (utc_now S x)))
         \<longrightarrow> (\<exists>x. last_run_at s' = timestamp (fst (utc_now S x))))"
  using assms
proof (induction us arbitrary: s w)
  case (Cons u us)
  show ?case
  proof (cases "shutdown_requested u")
    case False
    obtain s1 w1 where p: "recorded_pass S m (pass_micros u) s w = (s1, w1)" by fastforce
    with Cons(2) False have "loop_until S m us s1 w1 = (s', w')" by simp
    from Cons.IH [OF this] recorded_pass_stats(2) [OF p] False show ?thesis by auto
  qed (use Cons(2) in simp)
qed simp

text \<open>
  The job loop counts every pass it makes before shutdown is requested, once, as a success or as a failure (modulo 64 bits), and makes
  none afterwards; the counters of the other loops are not touched. Readiness says only that the loop is alive: after a pass, successful or
  not, the shim is ready until sixty seconds have gone by.
\<close>

theorem job_loop_counts_and_stays_ready:
  assumes run: "run_with_interval S C shutdown us h w = (h', w')"
    and clock: "\<And>x. t \<le> timestamp (fst (utc_now S x))" "0 < t"
  shows "let made = takeWhile (\<lambda>u. \<not> shutdown_requested u) us
    in passes (tick_stats h') = passes (tick_stats h) + of_nat (length made)
       \<and> h' = h\<lparr>tick_stats := tick_stats h'\<rparr>
       \<and> (made = [] \<longrightarrow> h' = h \<and> w' = w)
       \<and> (made \<noteq> [] \<longrightarrow> (\<forall>now. now < t + 60 \<longrightarrow> is_healthy now h'))"
proof -
  obtain s where l: "loop_until S (tick_until S C shutdown) us (tick_stats h) w = (s, w')" and h': "h' = h\<lparr>tick_stats := s\<rparr>"
    using run by (auto simp: run_with_interval_def split: prod.splits)
  have "is_healthy now h'" if "takeWhile (\<lambda>u. \<not> shutdown_requested u) us \<noteq> []" and "now < t + 60" for now
  proof -
    from loop_until_last [OF l] that(1) obtain x where "last_run_at s = timestamp (fst (utc_now S x))" by blast
    with clock(1) [of x] clock(2) that(2) show ?thesis by (simp add: is_healthy_def h' TICK_STALE_THRESHOLD_SECS_def Let_def)
  qed
  then show ?thesis using loop_until_passes [OF l] loop_until_last [OF l] h' by (auto simp: Let_def)
qed

theorem job_loop_counts_and_stays_ready_witness:
  "let h' = fst (run_with_interval demo_services demo_context never
       [\<lparr>shutdown_requested = False, cut_off = False, pass_micros = 5\<rparr>, \<lparr>shutdown_requested = True, cut_off = False, pass_micros = 5\<rparr>]
       (new_tick_health 900) (demo_world ''Pending'' 900))
   in passes (tick_stats h') = 1 \<and> is_healthy 1059 h'"
proof -
  have clock: "1000 \<le> timestamp (fst (utc_now demo_services x))" for x
    by (simp add: demo_services_def timestamp_def nanos_per_second_def)
  show ?thesis
    using job_loop_counts_and_stays_ready [where t = 1000 and h = "new_tick_health 900" and S = demo_services and C = demo_context
        and shutdown = never and w = "demo_world ''Pending'' 900"
        and us = "[\<lparr>shutdown_requested = False, cut_off = False, pass_micros = 5\<rparr>, \<lparr>shutdown_requested = True, cut_off = False, pass_micros = 5\<rparr>]",
        OF prod.collapse [symmetric] clock]
    by (simp add: Let_def new_tick_health_def no_runs_def passes_def)
qed

end
