(* ===== verification/JsonObject.thy ===== *)
theory JsonObject
  imports Json "HOL-Library.List_Lexorder" "HOL-Library.Char_ord"
begin

text \<open>
  Changing JSON objects. \<open>serde_json\<close> keeps an object as a B-tree map, so its entries are in the byte order of the keys; \<open>ordered\<close> says
  so for a value and everything in it, and the operations here keep it. On ordered values lookups decide equality.
\<close>

type_synonym entries = "(string \<times> json) list"

fun obj_insert :: "string \<Rightarrow> json \<Rightarrow> entries \<Rightarrow> entries" where
  "obj_insert k v [] = [(k, v)]"
| "obj_insert k v ((k', v') # kvs) =
     (if k = k' then (k, v) # kvs
      else if k < k' then (k, v) # (k', v') # kvs
      else (k', v') # obj_insert k v kvs)"

definition obj_remove :: "string \<Rightarrow> entries \<Rightarrow> entries" where
  "obj_remove k kvs = filter (\<lambda>e. fst e \<noteq> k) kvs"

fun ordered :: "json \<Rightarrow> bool" where
  "ordered (JArr vs) = list_all ordered vs"
| "ordered (JObj kvs) = (sorted_wrt (<) (map fst kvs) \<and> list_all (\<lambda>e. ordered (snd e)) kvs)"
| "ordered _ = True"

lemma map_of_obj_insert [simp]: "map_of (obj_insert k v kvs) = (map_of kvs)(k \<mapsto> v)"
  by (induction k v kvs rule: obj_insert.induct) (auto simp: fun_eq_iff)

lemma map_of_obj_remove [simp]: "map_of (obj_remove k kvs) = (map_of kvs)(k := None)"
  by (induction kvs) (auto simp: obj_remove_def fun_eq_iff)

lemma keys_obj_insert: "fst ` set (obj_insert k v kvs) = insert k (fst ` set kvs)"
  by (induction k v kvs rule: obj_insert.induct) auto

lemma sorted_obj_insert:
  "sorted_wrt (<) (map fst kvs) \<Longrightarrow> sorted_wrt (<) (map fst (obj_insert k v kvs))"
proof (induction k v kvs rule: obj_insert.induct)
  case (2 k v k' v' kvs)
  from 2(2) have k': "\<forall>x \<in> fst ` set kvs. k' < x" by auto
  with 2 keys_obj_insert [of k v kvs] show ?case by (auto simp del: image_insert)
qed simp

lemma in_obj_insert: "e \<in> set (obj_insert k v kvs) \<Longrightarrow> e = (k, v) \<or> e \<in> set kvs"
  by (induction k v kvs rule: obj_insert.induct) (auto split: if_splits)

lemma ordered_obj_insert: "ordered (JObj kvs) \<Longrightarrow> ordered v \<Longrightarrow> ordered (JObj (obj_insert k v kvs))"
  by (auto simp: sorted_obj_insert list_all_iff dest!: in_obj_insert)

lemma ordered_obj_remove: "ordered (JObj kvs) \<Longrightarrow> ordered (JObj (obj_remove k kvs))"
  by (auto simp: obj_remove_def list_all_iff sorted_wrt_map sorted_wrt_filter)

lemma sorted_entries_eq:
  assumes "sorted_wrt (<) (map fst a)" and "sorted_wrt (<) (map fst b)" and "map_of a = map_of b"
  shows "(a :: entries) = b"
proof -
  have d: "distinct (map fst a)" "distinct (map fst b)"
    using assms(1,2) by (auto simp: strict_sorted_iff)
  have "set (map fst a) = set (map fst b)" using assms(3) by (metis dom_map_of_conv_image_fst set_map)
  then have keys: "map fst a = map fst b"
    using assms(1,2) by (intro sorted_distinct_set_unique) (auto simp: strict_sorted_iff)
  have "kvs = map (\<lambda>k. (k, the (map_of kvs k))) (map fst kvs)" if "distinct (map fst kvs)" for kvs :: entries
    using that by (auto simp: comp_def intro!: map_idI [symmetric])
  with d keys assms(3) show ?thesis by metis
qed

end
