(* ===== verification/Api.thy ===== *)
theory Api
  imports JsonObject Schedule Workload RunOptions ContainerEnv Pricing
begin

text \<open>
  What the HTTP handlers share: responses in the shapes of \<open>src/src/k8s_status.rs\<close>, bearer tokens (\<open>src/src/auth.rs\<close>) and the admission checks
  of \<open>src/src/admission.rs\<close>.

  A handler is a function of the world. Its error is a panic, which ends the request without a response; every other failure is a response. A
  serialised struct is the object of its fields in the order of their declaration.
\<close>

section \<open>Responses\<close>

datatype response_body = NoBody | TextBody string | JsonBody json

record response =
  resp_code :: nat
  resp_body :: response_body

datatype panic = UnwrapNone | TimeOutOfRange | Unreachable | StackOverflow

type_synonym 'x handler = "('x world, panic, response) io"

text \<open>\<open>(StatusCode, String)\<close> and \<open>(StatusCode, Json<T>)\<close>.\<close>

definition text_response :: "nat \<Rightarrow> string \<Rightarrow> response" where
  "text_response code msg = \<lparr>resp_code = code, resp_body = TextBody msg\<rparr>"

definition json_response :: "nat \<Rightarrow> json \<Rightarrow> response" where
  "json_response code v = \<lparr>resp_code = code, resp_body = JsonBody v\<rparr>"

definition no_content :: response where
  "no_content = \<lparr>resp_code = 204, resp_body = NoBody\<rparr>"

definition internal_error :: "string \<Rightarrow> response" where
  "internal_error msg = text_response 500 msg"

text \<open>\<open>match r { Ok(v) => v, Err(e) => return INTERNAL_SERVER_ERROR }\<close>.\<close>

definition or_500 :: "('x, 'a) job_io \<Rightarrow> ('a \<Rightarrow> 'x handler) \<Rightarrow> 'x handler" where
  "or_500 m k = bnd (attempt m) (\<lambda>r. case r of Inl e \<Rightarrow> ret (internal_error e) | Inr a \<Rightarrow> k a)"

definition status_error_with_details :: "nat \<Rightarrow> string \<Rightarrow> string \<Rightarrow> json option \<Rightarrow> response" where
  "status_error_with_details code reason message details =
     json_response code
       (JObj ([(''kind'', JStr ''Status''), (''apiVersion'', JStr ''v1''), (''metadata'', JObj []), (''status'', JStr ''Failure''),
               (''message'', JStr message), (''reason'', JStr reason)]
              @ (case details of None \<Rightarrow> [] | Some d \<Rightarrow> [(''details'', d)])
              @ [(''code'', JPos code)]))"

definition status_error :: "nat \<Rightarrow> string \<Rightarrow> string \<Rightarrow> response" where
  "status_error code reason message = status_error_with_details code reason message None"

definition unauthorized :: "string \<Rightarrow> response" where
  "unauthorized message = status_error 401 ''Unauthorized'' message"

definition apostrophe :: string where
  "apostrophe = [CHR 0x27]"

definition policy_denied :: "string \<Rightarrow> string \<Rightarrow> response" where
  "policy_denied policy_name reason =
     status_error 403 ''Forbidden''
       (''ValidatingAdmissionPolicy '' @ apostrophe @ policy_name @ apostrophe @ '' with binding '' @ apostrophe @ policy_name @ ''-binding''
        @ apostrophe @ '' denied request: '' @ reason)"

definition not_found :: "string \<Rightarrow> string \<Rightarrow> response" where
  "not_found kind name = status_error 404 ''NotFound'' (kind @ '' '' @ quoted name @ '' not found'')"

definition already_exists :: "string \<Rightarrow> string \<Rightarrow> response" where
  "already_exists kind name = status_error 409 ''AlreadyExists'' (kind @ '' '' @ quoted name @ '' already exists'')"

definition bad_request :: "string \<Rightarrow> response" where
  "bad_request message = status_error 400 ''BadRequest'' message"

definition unsupported_media_type :: "string \<Rightarrow> response" where
  "unsupported_media_type message = status_error 415 ''UnsupportedMediaType'' message"

definition invalid :: "string \<Rightarrow> response" where
  "invalid message = status_error 422 ''Invalid'' message"

definition invalid_field_value :: "string \<Rightarrow> string \<Rightarrow> string \<Rightarrow> response" where
  "invalid_field_value object_description fld v =
     (let cause_message = ''Unsupported value: '' @ quoted v
      in status_error_with_details 422 ''Invalid'' (object_description @ '' is invalid: '' @ fld @ '': '' @ cause_message)
           (Some (JObj [(''causes'', JArr [JObj [(''reason'', JStr ''FieldValueNotSupported''), (''message'', JStr cause_message),
              (''field'', JStr fld)]])])))"

section \<open>Bearer tokens\<close>

record api_token =
  at_token :: string
  at_expires_at :: "int option"

definition is_valid_at :: "api_token \<Rightarrow> int \<Rightarrow> bool" where
  "is_valid_at t now = (case at_expires_at t of Some e \<Rightarrow> now < e | None \<Rightarrow> True)"

text \<open>Every entry is compared, whether or not one has matched.\<close>

definition token_is_valid :: "api_token list \<Rightarrow> string \<Rightarrow> int \<Rightarrow> bool" where
  "token_is_valid tokens presented now =
     foldl (\<lambda>matched entry. matched \<or> (at_token entry = presented \<and> is_valid_at entry now)) False tokens"

text \<open>\<open>HeaderValue::to_str\<close>: visible ASCII, space and tab.\<close>

definition header_to_str :: "string \<Rightarrow> string option" where
  "header_to_str v = (if list_all (\<lambda>c. c = CHR 0x09 \<or> (32 \<le> (of_char c :: nat) \<and> (of_char c :: nat) \<le> 126)) v then Some v else None)"

definition require_bearer_token :: "'x services \<Rightarrow> api_token list \<Rightarrow> string option \<Rightarrow> 'x handler \<Rightarrow> 'x handler" where
  "require_bearer_token S tokens authorization k =
     (case Option.bind (Option.bind authorization header_to_str) (\<lambda>v. strip_prefix v ''Bearer '') of
        Some token \<Rightarrow> bnd (now_nanos S) (\<lambda>now. if token_is_valid tokens token now then k else ret (unauthorized ''Unauthorized''))
      | None \<Rightarrow> ret (unauthorized ''Unauthorized''))"

section \<open>Admission checks\<close>

definition require_active_deadline_seconds :: "json \<Rightarrow> string \<Rightarrow> response option" where
  "require_active_deadline_seconds pod_template_spec field_prefix =
     (case pointer pod_template_spec [''activeDeadlineSeconds''] of
        Some _ \<Rightarrow> None
      | None \<Rightarrow> Some (policy_denied ''kube-shim.brawer.ch/require-active-deadline''
                  (field_prefix @ ''.activeDeadlineSeconds must be set (bounds the job'' @ apostrophe @ ''s worst-case cost against the budget guard)'')))"

definition storage_class_field :: "string \<Rightarrow> string" where
  "storage_class_field field_prefix = field_prefix @ ''.template.spec.volumes[].ephemeral.volumeClaimTemplate.spec.storageClassName''"

definition check_storage_class :: "string \<Rightarrow> string \<Rightarrow> json \<Rightarrow> response option" where
  "check_storage_class object_description field_prefix v =
     (case pointer v [''ephemeral'', ''volumeClaimTemplate'', ''spec''] of
        None \<Rightarrow> None
      | Some pvc_spec \<Rightarrow>
         (case tier_parse (get_str pvc_spec ''storageClassName'') of
            Inl unknown \<Rightarrow> Some (invalid_field_value object_description (storage_class_field field_prefix) unknown)
          | Inr _ \<Rightarrow> None))"

definition validate_ephemeral_volume_storage_classes :: "string \<Rightarrow> json \<Rightarrow> string \<Rightarrow> response option" where
  "validate_ephemeral_volume_storage_classes object_description pod_template_spec field_prefix =
     (case Option.bind (pointer pod_template_spec [''template'', ''spec'', ''volumes'']) as_array of
        None \<Rightarrow> None
      | Some vs \<Rightarrow> find_map (check_storage_class object_description field_prefix) vs)"

definition check_limit :: "string \<Rightarrow> json \<Rightarrow> string \<Rightarrow> (string \<Rightarrow> string + nat) \<Rightarrow> string \<Rightarrow> response option" where
  "check_limit object_description limits base_field parse key =
     (case get_str limits key of
        None \<Rightarrow> None
      | Some q \<Rightarrow>
         (case parse q of
            Inl _ \<Rightarrow> Some (invalid_field_value object_description (base_field @ ''.'' @ key) q)
          | Inr _ \<Rightarrow> None))"

definition validate_resource_limits :: "string \<Rightarrow> json \<Rightarrow> string \<Rightarrow> response option" where
  "validate_resource_limits object_description pod_template_spec field_prefix =
     (case pointer pod_template_spec [''template'', ''spec'', ''containers'', ''0'', ''resources'', ''limits''] of
        None \<Rightarrow> None
      | Some limits \<Rightarrow>
         (let base_field = field_prefix @ ''.template.spec.containers[0].resources.limits''
          in or_else (check_limit object_description limits base_field parse_cpu_millicores ''cpu'')
                     (check_limit object_description limits base_field parse_storage_quantity_mb ''memory'')))"

definition validate_env_sources :: "'a libs_scheme \<Rightarrow> string \<Rightarrow> json \<Rightarrow> string \<Rightarrow> response option" where
  "validate_env_sources L object_description pod_template_spec field_prefix =
     (case pointer pod_template_spec [''template'', ''spec'', ''containers'', ''0''] of
        None \<Rightarrow> None
      | Some container \<Rightarrow>
         (case validate_env L container of
            Inr _ \<Rightarrow> None
          | Inl err \<Rightarrow> Some (invalid_field_value object_description
              (field_prefix @ ''.template.spec.containers[0].'' @ ee_field err) (ee_value err))))"

definition admit_run_options :: "'a libs_scheme \<Rightarrow> string \<Rightarrow> json \<Rightarrow> string \<Rightarrow> response option" where
  "admit_run_options L object_description pod_template_spec field_prefix =
     (case validate_run_options L pod_template_spec of
        Inr _ \<Rightarrow> None
      | Inl err \<Rightarrow> Some (invalid_field_value object_description (field_prefix @ ''.template.spec.'' @ se_field err) (se_value err)))"

definition validate_cronjob_schedule :: "'a libs_scheme \<Rightarrow> string \<Rightarrow> json \<Rightarrow> response option" where
  "validate_cronjob_schedule L object_description cronjob_spec =
     (let reject = (\<lambda>v. Some (invalid_field_value object_description ''spec.schedule'' v))
      in case get cronjob_spec ''schedule'' of
           Some (JStr s) \<Rightarrow> (if trim s \<noteq> [] \<and> parse_schedule L s \<noteq> None then None else reject s)
         | None \<Rightarrow> reject []
         | Some JNull \<Rightarrow> reject []
         | Some other \<Rightarrow> reject (to_string L other))"

text \<open>The text of a rejected value: a string as it is, anything else as JSON.\<close>

definition value_text :: "'a libs_scheme \<Rightarrow> json \<Rightarrow> string" where
  "value_text L v = (case v of JStr s \<Rightarrow> s | other \<Rightarrow> to_string L other)"

definition validate_cronjob_schedule_fields :: "'a libs_scheme \<Rightarrow> string \<Rightarrow> json \<Rightarrow> response option" where
  "validate_cronjob_schedule_fields L object_description cronjob_spec =
     (let check = (\<lambda>fld p.
            case get cronjob_spec fld of
              None \<Rightarrow> None
            | Some v \<Rightarrow> if v = JNull \<or> p v then None
                        else Some (invalid_field_value object_description (''spec.'' @ fld) (value_text L v)))
      in or_else (check ''suspend'' (\<lambda>v. as_bool v \<noteq> None))
        (or_else (check ''startingDeadlineSeconds'' (\<lambda>v. as_u64 v \<noteq> None))
                 (check ''concurrencyPolicy'' (\<lambda>v. v = JStr ''Allow'' \<or> v = JStr ''Forbid''))))"

definition no_fitting_plan_message :: "nat \<Rightarrow> nat \<Rightarrow> string" where
  "no_fitting_plan_message cpu_cores memory_gb =
     ''no available server plan is big enough for '' @ show_nat cpu_cores @ '' CPU / '' @ show_nat memory_gb @ '' GB requested''"

definition plan_fits :: "'x services \<Rightarrow> string \<Rightarrow> nat option \<Rightarrow> nat option \<Rightarrow> ('x, bool option) job_io" where
  "plan_fits S zone cpu_millicores memory_mb =
     bnd (has_cached_plans S) (\<lambda>cached.
       if \<not> cached then ret None
       else bnd (plan_for_resource_requests S zone cpu_millicores memory_mb) (\<lambda>plan. ret (Some (plan \<noteq> None))))"

definition validate_plan_fits :: "'x services \<Rightarrow> string \<Rightarrow> json \<Rightarrow> ('x world, panic, response option) io" where
  "validate_plan_fits S zone pod_template_spec =
     (let (cpu_millicores, memory_mb) = extract_resource_requests pod_template_spec
      in bnd (attempt (plan_fits S zone cpu_millicores memory_mb)) (\<lambda>result.
           case result of
             Inl e \<Rightarrow> ret (Some (internal_error e))
           | Inr None \<Rightarrow> ret None
           | Inr (Some True) \<Rightarrow> ret None
           | Inr (Some False) \<Rightarrow>
               (let (cpu_cores, memory_gb) = whole_units_for_requests cpu_millicores memory_mb
                in ret (Some (policy_denied ''kube-shim.brawer.ch/require-fitting-server-plan''
                     (no_fitting_plan_message cpu_cores memory_gb))))))"

text \<open>The checks on the pod template that need no database, in the order of both callers.\<close>

definition first_rejection :: "response option list \<Rightarrow> response option" where
  "first_rejection rs = find_map (\<lambda>r. r) rs"

end
