(* ===== verification/JobApi.thy ===== *)
theory JobApi
  imports Api
begin

text \<open>
  Jobs and Pods over HTTP: \<open>src/src/api/job.rs\<close> and \<open>src/src/api/pods.rs\<close>. A handler gets its request after decoding.
\<close>

record object_meta =
  om_name :: string
  om_namespace :: "string option"
  om_uid :: "string option"
  om_creation_timestamp :: "string option"

record cost_report_config =
  cr_resource_prefix :: string
  cr_zone :: string
  cr_main_currency :: string
  cr_provider_name :: string
  cr_invoice_issuer_name :: string

text \<open>\<open>ObjectMeta\<close> as JSON: the namespace may be null, the last two fields are left out when absent.\<close>

definition opt_field :: "string \<Rightarrow> string option \<Rightarrow> entries" where
  "opt_field k v = (case v of None \<Rightarrow> [] | Some s \<Rightarrow> [(k, JStr s)])"

definition meta_json :: "object_meta \<Rightarrow> json" where
  "meta_json m =
     JObj ([(''name'', JStr (om_name m)), (''namespace'', case om_namespace m of None \<Rightarrow> JNull | Some ns \<Rightarrow> JStr ns)]
           @ opt_field ''uid'' (om_uid m) @ opt_field ''creationTimestamp'' (om_creation_timestamp m))"

definition rfc3339 :: "'a libs_scheme \<Rightarrow> int \<Rightarrow> string" where
  "rfc3339 L t = unwrap_or [] (rfc3339_secs L t)"

section \<open>Status\<close>

definition phase_for :: "string \<Rightarrow> bool \<Rightarrow> string" where
  "phase_for status failed =
     (if status = ''ContainerRunning'' then ''Running''
      else if status = ''Succeeded'' then ''Succeeded''
      else if status = ''Failed'' then ''Failed''
      else if status \<in> {''VolumeDetaching'', ''VolumeDeleted'', ''VMTerminating'', ''Archived''}
      then (if failed then ''Failed'' else ''Succeeded'')
      else ''Pending'')"

record job_status =
  js_active :: nat
  js_succeeded :: nat
  js_failed :: nat
  js_conditions :: "(string \<times> string) list"

definition status_for :: "string \<Rightarrow> bool \<Rightarrow> job_status" where
  "status_for status failed =
     (if phase_for status failed = ''Succeeded''
      then \<lparr>js_active = 0, js_succeeded = 1, js_failed = 0, js_conditions = [(''Complete'', ''True'')]\<rparr>
      else if phase_for status failed = ''Failed''
      then \<lparr>js_active = 0, js_succeeded = 0, js_failed = 1, js_conditions = [(''Failed'', ''True'')]\<rparr>
      else \<lparr>js_active = 1, js_succeeded = 0, js_failed = 0, js_conditions = []\<rparr>)"

definition status_json :: "job_status \<Rightarrow> json" where
  "status_json s =
     JObj [(''active'', JPos (js_active s)), (''succeeded'', JPos (js_succeeded s)), (''failed'', JPos (js_failed s)),
           (''conditions'', JArr (map (\<lambda>(t, st). JObj [(''type'', JStr t), (''status'', JStr st)]) (js_conditions s)))]"

definition job_json :: "object_meta \<Rightarrow> json \<Rightarrow> job_status \<Rightarrow> json" where
  "job_json meta spec st =
     JObj [(''apiVersion'', JStr ''batch/v1''), (''kind'', JStr ''Job''), (''metadata'', meta_json meta), (''spec'', spec),
           (''status'', status_json st)]"

definition row_to_job :: "'a libs_scheme \<Rightarrow> job_row \<times> bool \<Rightarrow> json" where
  "row_to_job L row =
     (case row of (r, failed) \<Rightarrow>
       job_json \<lparr>om_name = j_name r, om_namespace = Some (j_namespace r), om_uid = Some (j_id r), om_creation_timestamp = None\<rparr>
         (parse_spec L (j_spec r)) (status_for (j_status r) failed))"

section \<open>Creating\<close>

record create_job_request =
  cj_metadata :: object_meta
  cj_job_spec :: json

definition job_field_prefix :: string where
  "job_field_prefix = ''spec''"

definition job_rejection :: "'a libs_scheme \<Rightarrow> string \<Rightarrow> json \<Rightarrow> response option" where
  "job_rejection L name spec =
     (let object_description = ''Job '' @ quoted name
      in first_rejection
           [require_active_deadline_seconds spec job_field_prefix,
            validate_ephemeral_volume_storage_classes object_description spec job_field_prefix,
            validate_resource_limits object_description spec job_field_prefix,
            validate_env_sources L object_description spec job_field_prefix,
            admit_run_options L object_description spec job_field_prefix])"

definition insufficient_budget_message :: "f64 option \<Rightarrow> string \<Rightarrow> string" where
  "insufficient_budget_message estimated_cost currency =
     ''estimated cost ('' @ show_fixed 4 (unwrap_or (Fin 0) estimated_cost) @ '' '' @ currency
     @ '') exceeds the current budget balance -- top up via POST /apis/cost.kube-shim.brawer.ch/v1/budget/topup and resubmit''"

definition job_named :: "string \<Rightarrow> string \<Rightarrow> database \<Rightarrow> job_row option" where
  "job_named ns name d = find (\<lambda>r. j_namespace r = ns \<and> j_name r = name) (jobs d)"

definition notify_loop :: "'x services \<Rightarrow> ('x world, 'e, unit) io" where
  "notify_loop S = (\<lambda>w. (Inr (), w\<lparr>ext := notify_one S (ext w)\<rparr>))"

definition store_job :: "'x services \<Rightarrow> create_job_request \<Rightarrow> f64 option \<Rightarrow> 'x handler" where
  "store_job S req estimated_cost =
     (let name = om_name (cj_metadata req); ns = unwrap_or ''default'' (om_namespace (cj_metadata req))
      in or_500 (sql_query S (job_named ns name)) (\<lambda>existing.
           if existing \<noteq> None then ret (already_exists ''Job'' name)
           else
             bnd (new_uuid S) (\<lambda>jid.
             bnd (now_ts S) (\<lambda>now.
             or_500 (sql_exec S (insert_job_row (new_job_row jid name ns None (to_string S (cj_job_spec req)) (sql_real estimated_cost) now))) (\<lambda>_.
             seq (notify_loop S)
               (ret (json_response 201
                  (job_json \<lparr>om_name = name, om_namespace = Some ns, om_uid = Some jid, om_creation_timestamp = Some (rfc3339 S now)\<rparr>
                     (cj_job_spec req) (status_for ''Created'' False)))))))))"

definition budget_then_store :: "'x services \<Rightarrow> cost_report_config \<Rightarrow> create_job_request \<Rightarrow> int \<Rightarrow> 'x handler" where
  "budget_then_store S cfg req deadline =
     or_500 (effective_main_currency S (cr_main_currency cfg)) (\<lambda>currency.
     or_500 (check_budget S (cr_zone cfg) (cj_job_spec req) deadline currency) (\<lambda>(estimated_cost, enough).
       if \<not> enough
       then ret (policy_denied ''kube-shim.brawer.ch/require-sufficient-budget'' (insufficient_budget_message estimated_cost currency))
       else store_job S req estimated_cost))"

definition create_job :: "'x services \<Rightarrow> cost_report_config \<Rightarrow> create_job_request \<Rightarrow> 'x handler" where
  "create_job S cfg req =
     (case job_rejection S (om_name (cj_metadata req)) (cj_job_spec req) of
        Some r \<Rightarrow> ret r
      | None \<Rightarrow>
         bnd (validate_plan_fits S (cr_zone cfg) (cj_job_spec req)) (\<lambda>rejected.
           case rejected of
             Some r \<Rightarrow> ret r
           | None \<Rightarrow>
              (case active_deadline_seconds (cj_job_spec req) of
                 None \<Rightarrow> fail UnwrapNone
               | Some deadline \<Rightarrow> budget_then_store S cfg req deadline)))"

section \<open>Reading and deleting\<close>

definition with_outcome :: "(job_row \<Rightarrow> bool) \<Rightarrow> database \<Rightarrow> (job_row \<times> bool) list" where
  "with_outcome p d = map (\<lambda>r. (r, run_failed d r)) (filter p (jobs d))"

definition list_jobs :: "'x services \<Rightarrow> string \<Rightarrow> 'x handler" where
  "list_jobs S ns =
     or_500 (sql_query S (with_outcome (\<lambda>r. j_namespace r = ns))) (\<lambda>rows.
       ret (json_response 200
         (JObj [(''apiVersion'', JStr ''batch/v1''), (''kind'', JStr ''JobList''), (''items'', JArr (map (row_to_job S) rows))])))"

definition first_row :: "'a list \<Rightarrow> 'a option" where
  "first_row rows = (case rows of [] \<Rightarrow> None | r # _ \<Rightarrow> Some r)"

definition get_job :: "'x services \<Rightarrow> string \<Rightarrow> string \<Rightarrow> 'x handler" where
  "get_job S ns name =
     or_500 (sql_query S (\<lambda>d. first_row (with_outcome (\<lambda>r. j_namespace r = ns \<and> j_name r = name) d))) (\<lambda>row.
       case row of
         None \<Rightarrow> ret (text_response 404 ''Job not found'')
       | Some r \<Rightarrow> ret (json_response 200 (row_to_job S r)))"

definition get_pod :: "'x services \<Rightarrow> string \<Rightarrow> string \<Rightarrow> 'x handler" where
  "get_pod S ns name =
     or_500 (sql_query S (\<lambda>d. first_row (with_outcome (\<lambda>r. j_namespace r = ns \<and> j_name r = name) d))) (\<lambda>row.
       case row of
         None \<Rightarrow> ret (text_response 404 ''Pod not found'')
       | Some (r, failed) \<Rightarrow>
          ret (json_response 200
            (JObj [(''apiVersion'', JStr ''v1''), (''kind'', JStr ''Pod''),
                   (''metadata'', meta_json \<lparr>om_name = name, om_namespace = Some ns, om_uid = None, om_creation_timestamp = None\<rparr>),
                   (''status'', JObj [(''phase'', JStr (phase_for (j_status r) failed))])])))"

definition deleted_message :: string where
  "deleted_message = ''Deleted: job was explicitly deleted while still running''"

definition delete_job_row :: "string \<Rightarrow> database \<Rightarrow> string + database" where
  "delete_job_row jid d = Inr (d\<lparr>jobs := filter (\<lambda>r. j_id r \<noteq> jid) (jobs d)\<rparr>)"

definition delete_job :: "'x services \<Rightarrow> string \<Rightarrow> string \<Rightarrow> 'x handler" where
  "delete_job S ns name =
     or_500 (sql_query S (job_named ns name)) (\<lambda>row.
       case row of
         None \<Rightarrow> ret (text_response 404 ''Job not found'')
       | Some r \<Rightarrow>
          (if is_pre_completion_state (j_status r)
           then bnd (now_ts S) (\<lambda>now. or_500 (force_failed S (j_id r) deleted_message now) (\<lambda>_. ret no_content))
           else or_500 (sql_exec S (delete_job_row (j_id r))) (\<lambda>_. ret no_content)))"

end
