(* ===== verification/CronJobApi.thy ===== *)
theory CronJobApi
  imports JobApi
begin

text \<open>
  CronJobs over HTTP, \<open>src/src/api/cronjob.rs\<close>: create, replace, JSON merge patch, read, list and delete, with the defaults of Kubernetes
  and one chain of admission checks for creating and updating.
\<close>

section \<open>Defaults and merge patches\<close>

definition cronjob_defaults :: entries where
  "cronjob_defaults =
     [(''concurrencyPolicy'', JStr ''Allow''), (''suspend'', JBool False), (''successfulJobsHistoryLimit'', JPos 3),
      (''failedJobsHistoryLimit'', JPos 1)]"

definition set_default :: "entries \<Rightarrow> string \<times> json \<Rightarrow> entries" where
  "set_default kvs kd =
     (case kd of (key, dflt) \<Rightarrow>
       (case map_of kvs key of
          None \<Rightarrow> obj_insert key dflt kvs
        | Some v \<Rightarrow> if is_null v then obj_insert key dflt kvs else kvs))"

definition apply_cronjob_defaults :: "json \<Rightarrow> json" where
  "apply_cronjob_defaults spec =
     (case spec of
        JObj kvs \<Rightarrow> JObj (foldl set_default kvs cronjob_defaults)
      | _ \<Rightarrow> spec)"

function (sequential) merge_patch :: "json \<Rightarrow> json \<Rightarrow> json" and merge_fields :: "entries \<Rightarrow> entries \<Rightarrow> entries" where
  "merge_patch target (JObj patch_fields) =
     JObj (merge_fields (case target of JObj kvs \<Rightarrow> kvs | _ \<Rightarrow> []) patch_fields)"
| "merge_patch target patch = patch"
| "merge_fields kvs [] = kvs"
| "merge_fields kvs ((key, v) # rest) =
     merge_fields
       (if is_null v then obj_remove key kvs
        else obj_insert key (merge_patch (unwrap_or JNull (map_of kvs key)) v) kvs) rest"
  by pat_completeness auto
termination
  by (relation "measure (\<lambda>x. case x of Inl (t, p) \<Rightarrow> size p | Inr (f, p) \<Rightarrow> size_list (size_prod (\<lambda>_. 0) size) p)") auto

definition schedule_of :: "json \<Rightarrow> string" where
  "schedule_of spec = unwrap_or [] (get_str spec ''schedule'')"

section \<open>Stored CronJobs\<close>

record cron_job =
  kc_metadata :: object_meta
  kc_spec :: json
  kc_status :: "json option"

definition cronjob_json :: "cron_job \<Rightarrow> json" where
  "cronjob_json c =
     JObj ([(''apiVersion'', JStr ''batch/v1''), (''kind'', JStr ''CronJob''), (''metadata'', meta_json (kc_metadata c)), (''spec'', kc_spec c)]
           @ (case kc_status c of None \<Rightarrow> [] | Some v \<Rightarrow> [(''status'', v)]))"

definition is_cronjob :: "string \<Rightarrow> string \<Rightarrow> cronjob_row \<Rightarrow> bool" where
  "is_cronjob ns name r \<longleftrightarrow> cj_name r = name \<and> cj_namespace r = ns"

definition cronjob_exists :: "'x services \<Rightarrow> string \<Rightarrow> string \<Rightarrow> ('x, bool) job_io" where
  "cronjob_exists S ns name = sql_query S (\<lambda>d. list_ex (is_cronjob ns name) (cronjobs d))"

definition stored_status :: "'a libs_scheme \<Rightarrow> string option \<Rightarrow> json option" where
  "stored_status L s = Option.bind s (\<lambda>t. ok (from_str L t))"

definition load_cronjob :: "'x services \<Rightarrow> string \<Rightarrow> string \<Rightarrow> ('x, cron_job option) job_io" where
  "load_cronjob S ns name =
     bnd (sql_query S (\<lambda>d. find (is_cronjob ns name) (cronjobs d))) (\<lambda>row.
       case row of
         None \<Rightarrow> ret None
       | Some r \<Rightarrow>
          bnd (of_result (from_str S (cj_spec r))) (\<lambda>spec.
            ret (Some \<lparr>kc_metadata = \<lparr>om_name = name, om_namespace = Some ns, om_uid = Some (cj_id r),
                         om_creation_timestamp = Some (rfc3339 S (cj_created_at r))\<rparr>,
                       kc_spec = apply_cronjob_defaults spec, kc_status = stored_status S (cj_status r)\<rparr>)))"

section \<open>Admission\<close>

definition cronjob_field_prefix :: string where
  "cronjob_field_prefix = ''spec.jobTemplate.spec''"

definition pod_template_of :: "json \<Rightarrow> json" where
  "pod_template_of spec = unwrap_or JNull (pointer spec [''jobTemplate'', ''spec''])"

definition cronjob_rejection :: "'a libs_scheme \<Rightarrow> string \<Rightarrow> json \<Rightarrow> response option" where
  "cronjob_rejection L name spec =
     (let pod = pod_template_of spec; object_description = ''CronJob '' @ quoted name
      in first_rejection
           [require_active_deadline_seconds pod cronjob_field_prefix,
            validate_cronjob_schedule L object_description spec,
            validate_cronjob_schedule_fields L object_description spec,
            validate_ephemeral_volume_storage_classes object_description pod cronjob_field_prefix,
            validate_resource_limits object_description pod cronjob_field_prefix,
            validate_env_sources L object_description pod cronjob_field_prefix,
            admit_run_options L object_description pod cronjob_field_prefix])"

definition admit_cronjob :: "'x services \<Rightarrow> string \<Rightarrow> string \<Rightarrow> json \<Rightarrow> ('x world, panic, response option) io" where
  "admit_cronjob S zone name spec =
     (case cronjob_rejection S name spec of
        Some r \<Rightarrow> ret (Some r)
      | None \<Rightarrow> validate_plan_fits S zone (pod_template_of spec))"

section \<open>Creating\<close>

record create_cronjob_request =
  cc_metadata :: object_meta
  cc_spec :: json

definition insert_cronjob_row :: "cronjob_row \<Rightarrow> database \<Rightarrow> string + database" where
  "insert_cronjob_row r d =
     (if cj_id r \<in> cj_id ` set (cronjobs d) then Inl (unique_violation ''cronjobs.id'')
      else Inr (d\<lparr>cronjobs := cronjobs d @ [r]\<rparr>))"

definition new_cronjob_row :: "string \<Rightarrow> string \<Rightarrow> string \<Rightarrow> string \<Rightarrow> string \<Rightarrow> int \<Rightarrow> cronjob_row" where
  "new_cronjob_row cid name ns spec_json schedule now =
     \<lparr>cj_id = cid, cj_name = name, cj_namespace = ns, cj_spec = spec_json, cj_status = None, cj_schedule = schedule,
      cj_created_at = now, cj_updated_at = now, cj_version = 1\<rparr>"

definition store_cronjob :: "'x services \<Rightarrow> string \<Rightarrow> string \<Rightarrow> json \<Rightarrow> 'x handler" where
  "store_cronjob S ns name spec =
     or_500 (cronjob_exists S ns name) (\<lambda>there.
       if there then ret (already_exists ''CronJob'' name)
       else
         bnd (new_uuid S) (\<lambda>cid.
         bnd (now_ts S) (\<lambda>now.
         or_500 (sql_exec S (insert_cronjob_row (new_cronjob_row cid name ns (to_string S spec) (schedule_of spec) now))) (\<lambda>_.
         seq (notify_loop S)
           (ret (json_response 201
              (cronjob_json \<lparr>kc_metadata = \<lparr>om_name = name, om_namespace = Some ns, om_uid = Some cid,
                               om_creation_timestamp = Some (rfc3339 S now)\<rparr>,
                             kc_spec = spec, kc_status = None\<rparr>)))))))"

definition create_cronjob :: "'x services \<Rightarrow> cost_report_config \<Rightarrow> create_cronjob_request \<Rightarrow> 'x handler" where
  "create_cronjob S cfg req =
     (let spec = apply_cronjob_defaults (cc_spec req); name = om_name (cc_metadata req)
      in bnd (admit_cronjob S (cr_zone cfg) name spec) (\<lambda>rejected.
           case rejected of
             Some r \<Rightarrow> ret r
           | None \<Rightarrow> store_cronjob S (unwrap_or ''default'' (om_namespace (cc_metadata req))) name spec))"

section \<open>Updating\<close>

text \<open>An \<open>UPDATE\<close> whose \<open>rows_affected\<close> is looked at.\<close>

definition sql_exec_counted :: "'x services \<Rightarrow> (database \<Rightarrow> (string + database) \<times> nat) \<Rightarrow> ('x, nat) job_io" where
  "sql_exec_counted S f =
     bnd (\<lambda>w. (Inr (snd (f (db w))), w)) (\<lambda>n. seq (sql_exec S (\<lambda>d. fst (f d))) (ret n))"

definition update_cronjob_rows :: "string \<Rightarrow> string \<Rightarrow> string \<Rightarrow> string \<Rightarrow> int \<Rightarrow> database \<Rightarrow> (string + database) \<times> nat" where
  "update_cronjob_rows ns name spec_json schedule now d =
     (Inr (d\<lparr>cronjobs := update_where (is_cronjob ns name)
        (\<lambda>r. r\<lparr>cj_spec := spec_json, cj_schedule := schedule, cj_updated_at := now, cj_version := cj_version r + 1\<rparr>) (cronjobs d)\<rparr>),
      length (filter (is_cronjob ns name) (cronjobs d)))"

definition update_cronjob :: "'x services \<Rightarrow> string \<Rightarrow> string \<Rightarrow> string \<Rightarrow> json \<Rightarrow> 'x handler" where
  "update_cronjob S zone ns name spec0 =
     (let spec = apply_cronjob_defaults spec0
      in bnd (admit_cronjob S zone name spec) (\<lambda>rejected.
           case rejected of
             Some r \<Rightarrow> ret r
           | None \<Rightarrow>
              bnd (now_ts S) (\<lambda>now.
              or_500 (sql_exec_counted S (update_cronjob_rows ns name (to_string S spec) (schedule_of spec) now)) (\<lambda>affected.
                if affected = 0 then ret (not_found ''CronJob'' name)
                else
                  seq (notify_loop S)
                    (or_500 (load_cronjob S ns name) (\<lambda>c.
                       case c of
                         Some cronjob \<Rightarrow> ret (json_response 200 (cronjob_json cronjob))
                       | None \<Rightarrow> ret (not_found ''CronJob'' name)))))))"

definition replace_cronjob ::
  "'x services \<Rightarrow> cost_report_config \<Rightarrow> string \<Rightarrow> string \<Rightarrow> create_cronjob_request \<Rightarrow> 'x handler" where
  "replace_cronjob S cfg ns name req =
     (if om_name (cc_metadata req) \<noteq> name
      then ret (bad_request (''the name of the object ('' @ om_name (cc_metadata req) @ '') does not match the name on the URL ('' @ name @ '')''))
      else if (case om_namespace (cc_metadata req) of None \<Rightarrow> False | Some n \<Rightarrow> n \<noteq> ns)
      then ret (bad_request ''the namespace of the provided object does not match the namespace sent on the request'')
      else update_cronjob S (cr_zone cfg) ns name (cc_spec req))"

text \<open>The media type of a \<open>Content-Type\<close> header.\<close>

definition content_type_of :: "string option \<Rightarrow> string" where
  "content_type_of hdr = unwrap_or [] (map_option (\<lambda>v. trim (hd (split_on (CHR '';'') v))) (Option.bind hdr header_to_str))"

definition patched_cronjob :: "string \<Rightarrow> string \<Rightarrow> json \<Rightarrow> json \<Rightarrow> json" where
  "patched_cronjob ns name spec patch =
     merge_patch
       (JObj [(''apiVersion'', JStr ''batch/v1''), (''kind'', JStr ''CronJob''),
              (''metadata'', JObj [(''name'', JStr name), (''namespace'', JStr ns)]), (''spec'', spec)]) patch"

text \<open>What is done with the stored CronJob once it is loaded.\<close>

definition patch_current :: "'x services \<Rightarrow> cost_report_config \<Rightarrow> string \<Rightarrow> string \<Rightarrow> json \<Rightarrow> cron_job option \<Rightarrow> 'x handler" where
  "patch_current S cfg ns name patch c =
     (case c of
        None \<Rightarrow> ret (not_found ''CronJob'' name)
      | Some current \<Rightarrow>
         (let object = patched_cronjob ns name (kc_spec current) patch
          in if pointer_str object [''metadata'', ''name''] \<noteq> Some name
                \<or> pointer_str object [''metadata'', ''namespace''] \<noteq> Some ns
             then ret (bad_request (''a patch can'' @ apostrophe @ ''t change a CronJob'' @ apostrophe @ ''s name or namespace''))
             else update_cronjob S (cr_zone cfg) ns name (unwrap_or JNull (get object ''spec''))))"

definition patch_cronjob ::
  "'x services \<Rightarrow> cost_report_config \<Rightarrow> string \<Rightarrow> string \<Rightarrow> string option \<Rightarrow> string \<Rightarrow> 'x handler" where
  "patch_cronjob S cfg ns name content_type body =
     (let ct = content_type_of content_type
      in if ct \<noteq> ''application/merge-patch+json''
         then ret (unsupported_media_type
                (''the body of the request was in an unknown format - accepted media types include: application/merge-patch+json (got ''
                 @ str_debug ct @ ''; with kubectl, use `kubectl patch --type merge`)''))
         else (case from_str S body of
                 Inl e \<Rightarrow> ret (bad_request (''invalid merge patch: '' @ e))
               | Inr patch \<Rightarrow> or_500 (load_cronjob S ns name) (patch_current S cfg ns name patch)))"

section \<open>Reading and deleting\<close>

definition get_cronjob :: "'x services \<Rightarrow> string \<Rightarrow> string \<Rightarrow> 'x handler" where
  "get_cronjob S ns name =
     or_500 (load_cronjob S ns name) (\<lambda>c.
       case c of
         None \<Rightarrow> ret (text_response 404 ''CronJob not found'')
       | Some cronjob \<Rightarrow> ret (json_response 200 (cronjob_json cronjob)))"

definition listed_cronjob :: "'a libs_scheme \<Rightarrow> cronjob_row \<Rightarrow> json" where
  "listed_cronjob L r =
     cronjob_json \<lparr>kc_metadata = \<lparr>om_name = cj_name r, om_namespace = Some (cj_namespace r), om_uid = Some (cj_id r), om_creation_timestamp = None\<rparr>,
                   kc_spec = apply_cronjob_defaults (parse_spec L (cj_spec r)), kc_status = stored_status L (cj_status r)\<rparr>"

definition list_cronjobs :: "'x services \<Rightarrow> string \<Rightarrow> 'x handler" where
  "list_cronjobs S ns =
     or_500 (sql_query S (\<lambda>d. filter (\<lambda>r. cj_namespace r = ns) (cronjobs d))) (\<lambda>rows.
       ret (json_response 200
         (JObj [(''apiVersion'', JStr ''batch/v1''), (''kind'', JStr ''CronJobList''), (''items'', JArr (map (listed_cronjob S) rows))])))"

definition delete_cronjob_rows :: "string \<Rightarrow> string \<Rightarrow> database \<Rightarrow> (string + database) \<times> nat" where
  "delete_cronjob_rows ns name d =
     (Inr (d\<lparr>cronjobs := filter (\<lambda>r. \<not> is_cronjob ns name r) (cronjobs d)\<rparr>), length (filter (is_cronjob ns name) (cronjobs d)))"

definition delete_cronjob :: "'x services \<Rightarrow> string \<Rightarrow> string \<Rightarrow> 'x handler" where
  "delete_cronjob S ns name =
     or_500 (sql_exec_counted S (delete_cronjob_rows ns name)) (\<lambda>affected.
       if affected = 0 then ret (text_response 404 ''CronJob not found'') else ret no_content)"

end
