(* ===== verification/SecretApi.thy ===== *)
theory SecretApi
  imports CronJobApi
begin

text \<open>
  Secrets over HTTP, \<open>src/src/api/secret.rs\<close>. Applying a JSON Patch (RFC 6902) is the library's and a parameter; what comes out of it is checked
  here.
\<close>

definition SECRET_TYPE :: string where
  "SECRET_TYPE = ''Opaque''"

section \<open>Data\<close>

definition data_entries :: "json option \<Rightarrow> string + entries" where
  "data_entries data =
     (case data of
        None \<Rightarrow> Inr []
      | Some JNull \<Rightarrow> Inr []
      | Some (JObj kvs) \<Rightarrow> Inr kvs
      | Some _ \<Rightarrow> Inl ''data must be an object'')"

definition check_encoded :: "'a libs_scheme \<Rightarrow> string \<times> json \<Rightarrow> string + unit" where
  "check_encoded L kv =
     (case kv of (key, v) \<Rightarrow>
       (case v of
          JStr encoded \<Rightarrow>
            (if b64_decode L encoded = None
             then Inl (''data.'' @ key @ '' is not base64-encoded (use stringData for plain values)'')
             else Inr ())
        | _ \<Rightarrow> Inl (''data.'' @ key @ '' must be a string'')))"

definition insert_plain :: "'a libs_scheme \<Rightarrow> entries \<Rightarrow> string \<times> json \<Rightarrow> string + entries" where
  "insert_plain L merged kv =
     (case kv of (key, v) \<Rightarrow>
       (case v of
          JStr plain \<Rightarrow> Inr (obj_insert key (JStr (b64_encode L plain)) merged)
        | _ \<Rightarrow> Inl (''stringData.'' @ key @ '' must be a string'')))"

definition merge_string_data :: "'a libs_scheme \<Rightarrow> json option \<Rightarrow> json option \<Rightarrow> string + json" where
  "merge_string_data L data string_data =
     rbind (data_entries data) (\<lambda>merged.
     rbind (for_all (check_encoded L) merged) (\<lambda>_.
     rbind (case string_data of
              None \<Rightarrow> Inr merged
            | Some JNull \<Rightarrow> Inr merged
            | Some (JObj kvs) \<Rightarrow> try_fold (insert_plain L) merged kvs
            | Some _ \<Rightarrow> Inl ''stringData must be an object'') (\<lambda>all. Inr (JObj all))))"

section \<open>Rows\<close>

definition is_secret :: "string \<Rightarrow> string \<Rightarrow> secret_row \<Rightarrow> bool" where
  "is_secret ns name r \<longleftrightarrow> sec_name r = name \<and> sec_namespace r = ns"

definition insert_secret_row :: "secret_row \<Rightarrow> database \<Rightarrow> string + database" where
  "insert_secret_row r d =
     (if sec_id r \<in> sec_id ` set (secrets d) then Inl (unique_violation ''secrets.id'')
      else Inr (d\<lparr>secrets := secrets d @ [r]\<rparr>))"

definition update_secret_rows :: "string \<Rightarrow> string \<Rightarrow> string \<Rightarrow> int \<Rightarrow> database \<Rightarrow> (string + database) \<times> nat" where
  "update_secret_rows ns name data_text now d =
     (Inr (d\<lparr>secrets := update_where (is_secret ns name)
        (\<lambda>r. r\<lparr>sec_data := data_text, sec_updated_at := now, sec_version := sec_version r + 1\<rparr>) (secrets d)\<rparr>),
      length (filter (is_secret ns name) (secrets d)))"

definition delete_secret_rows :: "string \<Rightarrow> string \<Rightarrow> database \<Rightarrow> (string + database) \<times> nat" where
  "delete_secret_rows ns name d =
     (Inr (d\<lparr>secrets := filter (\<lambda>r. \<not> is_secret ns name r) (secrets d)\<rparr>), length (filter (is_secret ns name) (secrets d)))"

definition secret_json :: "object_meta \<Rightarrow> json \<Rightarrow> json" where
  "secret_json meta data =
     JObj [(''apiVersion'', JStr ''v1''), (''kind'', JStr ''Secret''), (''metadata'', meta_json meta), (''data'', data),
           (''type'', JStr SECRET_TYPE)]"

section \<open>Handlers\<close>

record create_secret_request =
  cs_metadata :: object_meta
  cs_data :: "json option"
  cs_string_data :: "json option"

definition create_secret :: "'x services \<Rightarrow> create_secret_request \<Rightarrow> 'x handler" where
  "create_secret S req =
     (let name = om_name (cs_metadata req); ns = unwrap_or ''default'' (om_namespace (cs_metadata req))
      in bnd (new_uuid S) (\<lambda>sid.
         bnd (now_ts S) (\<lambda>now.
           case merge_string_data S (cs_data req) (cs_string_data req) of
             Inl e \<Rightarrow> ret (text_response 400 e)
           | Inr data \<Rightarrow>
              or_500 (sql_exec S (insert_secret_row \<lparr>sec_id = sid, sec_name = name, sec_namespace = ns, sec_data = to_string S data,
                        sec_created_at = now, sec_updated_at = now, sec_version = 1\<rparr>)) (\<lambda>_.
                ret (json_response 201
                  (secret_json \<lparr>om_name = name, om_namespace = Some ns, om_uid = Some sid, om_creation_timestamp = Some (rfc3339 S now)\<rparr> data))))))"

definition get_secret :: "'x services \<Rightarrow> string \<Rightarrow> string \<Rightarrow> 'x handler" where
  "get_secret S ns name =
     or_500 (sql_query S (\<lambda>d. find (is_secret ns name) (secrets d))) (\<lambda>row.
       case row of
         None \<Rightarrow> ret (text_response 404 ''Secret not found'')
       | Some r \<Rightarrow>
          or_500 (of_result (from_str S (sec_data r))) (\<lambda>data.
            ret (json_response 200
              (secret_json \<lparr>om_name = name, om_namespace = Some ns, om_uid = Some (sec_id r), om_creation_timestamp = None\<rparr> data))))"

definition listed_secret :: "'a libs_scheme \<Rightarrow> secret_row \<Rightarrow> json" where
  "listed_secret L r =
     secret_json \<lparr>om_name = sec_name r, om_namespace = Some (sec_namespace r), om_uid = Some (sec_id r), om_creation_timestamp = None\<rparr>
       (parse_spec L (sec_data r))"

definition list_secrets :: "'x services \<Rightarrow> string \<Rightarrow> 'x handler" where
  "list_secrets S ns =
     or_500 (sql_query S (\<lambda>d. filter (\<lambda>r. sec_namespace r = ns) (secrets d))) (\<lambda>rows.
       ret (json_response 200
         (JObj [(''apiVersion'', JStr ''v1''), (''kind'', JStr ''SecretList''), (''items'', JArr (map (listed_secret S) rows))])))"

definition delete_secret :: "'x services \<Rightarrow> string \<Rightarrow> string \<Rightarrow> 'x handler" where
  "delete_secret S ns name =
     or_500 (sql_exec_counted S (delete_secret_rows ns name)) (\<lambda>affected.
       if affected = 0 then ret (text_response 404 ''Secret not found'') else ret no_content)"

section \<open>Patching\<close>

definition is_empty_value :: "json \<Rightarrow> bool" where
  "is_empty_value v = (case v of JNull \<Rightarrow> True | JObj kvs \<Rightarrow> kvs = [] | _ \<Rightarrow> False)"

text \<open>Labels and annotations may only be empty, and are then taken out before the metadata are compared.\<close>

definition drop_empty :: "entries \<Rightarrow> string \<Rightarrow> string + entries" where
  "drop_empty meta key =
     (case map_of meta key of
        None \<Rightarrow> Inr meta
      | Some v \<Rightarrow>
         if \<not> is_empty_value v
         then Inl (''metadata.'' @ key @ '': kube-shim doesn'' @ apostrophe @ ''t store '' @ key @ '' on Secrets'')
         else Inr (obj_remove key meta))"

definition stripped_metadata :: "json \<Rightarrow> string + json" where
  "stripped_metadata m =
     (case m of
        JObj meta \<Rightarrow> rbind (try_fold drop_empty meta [''labels'', ''annotations'']) (\<lambda>kvs. Inr (JObj kvs))
      | _ \<Rightarrow> Inr m)"

definition check_type_field :: "'a libs_scheme \<Rightarrow> json option \<Rightarrow> string + unit" where
  "check_type_field L t =
     (case t of
        None \<Rightarrow> Inr ()
      | Some v \<Rightarrow> if v = JNull \<or> v = JStr SECRET_TYPE then Inr () else Inl (''type: Unsupported value: '' @ to_string L v))"

definition check_immutable_field :: "'a libs_scheme \<Rightarrow> json option \<Rightarrow> string + unit" where
  "check_immutable_field L i =
     (case i of
        None \<Rightarrow> Inr ()
      | Some v \<Rightarrow>
         if v = JNull \<or> v = JBool False then Inr ()
         else Inl (''immutable: Unsupported value: '' @ to_string L v @ '' (immutable Secrets aren'' @ apostrophe @ ''t supported)''))"

definition check_patched_secret :: "'a libs_scheme \<Rightarrow> json \<Rightarrow> json \<Rightarrow> string + json option \<times> json option" where
  "check_patched_secret L object metadata =
     (case object of
        JObj kvs \<Rightarrow>
          (if map_of kvs ''apiVersion'' \<noteq> Some (JStr ''v1'') \<or> map_of kvs ''kind'' \<noteq> Some (JStr ''Secret'')
           then Inl (''a patch can'' @ apostrophe @ ''t change apiVersion or kind'')
           else
             rbind (stripped_metadata (unwrap_or JNull (map_of kvs ''metadata''))) (\<lambda>meta.
             if meta \<noteq> metadata then Inl (''a patch can'' @ apostrophe @ ''t change metadata'')
             else
               rbind (check_type_field L (map_of kvs ''type'')) (\<lambda>_.
               rbind (check_immutable_field L (map_of kvs ''immutable'')) (\<lambda>_.
                 case filter (\<lambda>e. fst e \<notin> {''apiVersion'', ''kind'', ''metadata'', ''type'', ''immutable'', ''data'', ''stringData''}) kvs of
                   (key, _) # _ \<Rightarrow> Inl (key @ '': field not supported on Secrets'')
                 | [] \<Rightarrow> Inr (map_of kvs ''data'', map_of kvs ''stringData'')))))
      | _ \<Rightarrow> Inl ''the patched object is not an object'')"

definition secret_object :: "json \<Rightarrow> json \<Rightarrow> json" where
  "secret_object metadata data =
     JObj [(''apiVersion'', JStr ''v1''), (''data'', data), (''kind'', JStr ''Secret''), (''metadata'', metadata), (''type'', JStr SECRET_TYPE)]"

definition patched_data :: "'a libs_scheme \<Rightarrow> string \<Rightarrow> json \<Rightarrow> json \<Rightarrow> json \<Rightarrow> response + json" where
  "patched_data L name metadata data patch =
     rbind (map_err (\<lambda>e. invalid (''the patch could not be applied: '' @ e)) (json_patch L (secret_object metadata data) patch)) (\<lambda>object.
     map_err (\<lambda>e. invalid (''Secret '' @ quoted name @ '' is invalid: '' @ e))
       (rbind (check_patched_secret L object metadata) (\<lambda>(d, sd). merge_string_data L d sd)))"

definition patch_secret :: "'x services \<Rightarrow> string \<Rightarrow> string \<Rightarrow> string option \<Rightarrow> string \<Rightarrow> 'x handler" where
  "patch_secret S ns name content_type body =
     (let ct = content_type_of content_type
      in if ct \<noteq> ''application/json-patch+json''
         then ret (unsupported_media_type
                (''the body of the request was in an unknown format - accepted media types include: application/json-patch+json (got ''
                 @ str_debug ct @ ''; with kubectl, use `kubectl patch --type json`)''))
         else (case patch_from_slice S body of
                 Inl e \<Rightarrow> ret (bad_request (''invalid JSON patch: '' @ e))
               | Inr patch \<Rightarrow>
                  or_500 (sql_query S (\<lambda>d. find (is_secret ns name) (secrets d))) (\<lambda>row.
                    case row of
                      None \<Rightarrow> ret (not_found ''Secret'' name)
                    | Some r \<Rightarrow>
                       or_500 (of_result (from_str S (sec_data r))) (\<lambda>old.
                         case patched_data S name
                                (JObj [(''name'', JStr name), (''namespace'', JStr ns), (''uid'', JStr (sec_id r))]) old patch of
                           Inl rejected \<Rightarrow> ret rejected
                         | Inr data \<Rightarrow>
                            bnd (now_ts S) (\<lambda>now.
                            or_500 (sql_exec_counted S (update_secret_rows ns name (to_string S data) now)) (\<lambda>affected.
                              if affected = 0 then ret (not_found ''Secret'' name)
                              else ret (json_response 200
                                (secret_json \<lparr>om_name = name, om_namespace = Some ns, om_uid = Some (sec_id r), om_creation_timestamp = None\<rparr> data))))))))"

end
