(* ===== verification/BudgetApi.thy ===== *)
theory BudgetApi
  imports JobApi
begin

text \<open>The budget over HTTP, \<open>src/src/api/budget.rs\<close>: settings and top-ups, each with its event and its wake-up of the job loop.\<close>

definition budget_error_response :: "budget_error \<Rightarrow> response" where
  "budget_error_response err =
     (case err of
        NotSeeded \<Rightarrow> text_response 500 (budget_error_to_string err)
      | CurrencyConversionUnavailable _ _ \<Rightarrow> text_response 409 (budget_error_to_string err)
      | Internal e \<Rightarrow> text_response 500 e)"

text \<open>\<open>map_err(budget_error_response)?\<close>.\<close>

definition or_budget_error :: "('x world, budget_error, 'a) io \<Rightarrow> ('a \<Rightarrow> 'x handler) \<Rightarrow> 'x handler" where
  "or_budget_error m k = bnd (attempt m) (\<lambda>r. case r of Inl e \<Rightarrow> ret (budget_error_response e) | Inr a \<Rightarrow> k a)"

definition settings_response :: "budget_settings \<Rightarrow> f64 \<Rightarrow> response" where
  "settings_response s balance =
     json_response 200
       (JObj [(''budget_daily_rate'', JFloat (budget_daily_rate s)), (''budget_rollover_cap_days'', JPos (budget_rollover_cap_days s)),
              (''main_currency'', JStr (main_currency s)), (''balance'', JFloat balance)])"

definition get_settings :: "'x services \<Rightarrow> 'x handler" where
  "get_settings S =
     or_budget_error (io_map_err Internal (settle_accrual S)) (\<lambda>r.
       case r of
         None \<Rightarrow> ret (budget_error_response NotSeeded)
       | Some (balance, settings) \<Rightarrow> ret (settings_response settings balance))"

definition settings_message :: "'a libs_scheme \<Rightarrow> settings_patch_outcome \<Rightarrow> string" where
  "settings_message L outcome =
     (let s = po_settings outcome;
          message = ''budget_daily_rate='' @ display_f64 L (budget_daily_rate s) @ '', budget_rollover_cap_days=''
                    @ show_nat (budget_rollover_cap_days s) @ '', main_currency='' @ main_currency s
      in case po_currency_conversion outcome of
           None \<Rightarrow> message
         | Some (old_currency, old_balance, new_currency, new_balance) \<Rightarrow>
             message @ '' (balance converted '' @ show_fixed 4 old_balance @ '' '' @ old_currency @ '' -> ''
             @ show_fixed 4 new_balance @ '' '' @ new_currency @ '')'')"

definition patch_settings_request :: "'x services \<Rightarrow> settings_patch \<Rightarrow> 'x handler" where
  "patch_settings_request S req =
     or_budget_error (patch_settings S req) (\<lambda>outcome.
     or_500 (record_event S None ''SettingsChanged'' (settings_message S outcome) ''Normal'') (\<lambda>_.
     seq (notify_loop S) (ret (settings_response (po_settings outcome) (po_balance outcome)))))"

definition is_valid_amount :: "f64 \<Rightarrow> bool" where
  "is_valid_amount amount \<longleftrightarrow> f64_is_finite amount \<and> \<not> f64_eq amount (Fin 0)"

definition topup_message :: "f64 \<Rightarrow> f64 \<Rightarrow> f64 \<Rightarrow> string" where
  "topup_message amount applied_delta balance =
     (if f64_lt (rnd (1 / 10 ^ 9)) (f64_abs (f64_sub applied_delta amount))
      then show_fixed_signed 4 amount @ '' requested, clamped to '' @ show_fixed_signed 4 applied_delta
           @ '' (balance cannot go below zero), new balance '' @ show_fixed 4 balance
      else show_fixed_signed 4 amount @ '', new balance '' @ show_fixed 4 balance)"

definition topup :: "'x services \<Rightarrow> f64 \<Rightarrow> 'x handler" where
  "topup S amount =
     (if \<not> is_valid_amount amount then ret (text_response 400 ''amount must be a nonzero finite number'')
      else or_budget_error (apply_topup S amount) (\<lambda>(balance, applied_delta).
           or_500 (record_event S None ''BudgetToppedUp'' (topup_message amount applied_delta balance) ''Normal'') (\<lambda>_.
           seq (notify_loop S) (ret (json_response 200 (JObj [(''balance'', JFloat balance)]))))))"

end
