(* ===== verification/ReadApi.thy ===== *)
theory ReadApi
  imports CronJobApi MetricsCollector LogFilter
begin

text \<open>
  The read-only part of the API: events (\<open>src/src/api/events.rs\<close>), nodes (\<open>src/src/api/nodes.rs\<close>), metrics (\<open>src/src/api/metrics.rs\<close>) and the logs of
  a pod (\<open>src/src/api/logs.rs\<close>). A followed log arrives over time: \<open>arrivals\<close> turns what the SSH channel delivers into the events the merge buffer
  sees, with their times.
\<close>

section \<open>Events\<close>

definition selected_involved_object_name :: "string option \<Rightarrow> string option" where
  "selected_involved_object_name field_selector =
     Option.bind field_selector (\<lambda>sel.
       find_map (\<lambda>clause.
         case split_once (CHR ''='') clause of
           None \<Rightarrow> None
         | Some (key, v) \<Rightarrow> if trim key = ''involvedObject.name'' then Some (trim v) else None) (split_on (CHR '','') sel))"

text \<open>The join of events and jobs, in the order of the time stamps.\<close>

definition selected_events :: "string \<Rightarrow> string option \<Rightarrow> database \<Rightarrow> (event_row \<times> job_row) list" where
  "selected_events ns name d =
     sort_key (\<lambda>p. ev_timestamp (fst p))
       (filter (\<lambda>(e, j). ev_job_id e = Some (j_id j) \<and> j_namespace j = ns \<and> (case name of None \<Rightarrow> True | Some n \<Rightarrow> j_name j = n))
          (List.product (events d) (jobs d)))"

definition event_json :: "'a libs_scheme \<Rightarrow> event_row \<times> job_row \<Rightarrow> json" where
  "event_json L ej =
     (case ej of (e, j) \<Rightarrow>
       (let t = unwrap_or [] (rfc3339_offset L (ev_timestamp e))
        in JObj [(''apiVersion'', JStr ''v1''), (''kind'', JStr ''Event''),
                 (''metadata'', meta_json \<lparr>om_name = ev_id e, om_namespace = Some (j_namespace j), om_uid = None, om_creation_timestamp = Some t\<rparr>),
                 (''involvedObject'', JObj [(''apiVersion'', JStr ''v1''), (''kind'', JStr ''Pod''), (''name'', JStr (j_name j)),
                    (''namespace'', JStr (j_namespace j))]),
                 (''reason'', JStr (ev_reason e)), (''message'', JStr (ev_message e)), (''type'', JStr (ev_type e)),
                 (''firstTimestamp'', JStr t), (''lastTimestamp'', JStr t), (''count'', JPos 1)]))"

definition list_response :: "string \<Rightarrow> string \<Rightarrow> json list \<Rightarrow> response" where
  "list_response api_version kind items =
     json_response 200 (JObj [(''apiVersion'', JStr api_version), (''kind'', JStr kind), (''items'', JArr items)])"

definition list_events :: "'x services \<Rightarrow> string \<Rightarrow> string option \<Rightarrow> 'x handler" where
  "list_events S ns field_selector =
     or_500 (sql_query S (selected_events ns (selected_involved_object_name field_selector))) (\<lambda>rows.
       ret (list_response ''v1'' ''EventList'' (map (event_json S) rows)))"

section \<open>Metrics and nodes\<close>

definition format_cpu_millicores :: "nat \<Rightarrow> string" where
  "format_cpu_millicores millicores =
     (if millicores mod 1000 = 0 then show_nat (millicores div 1000) else show_nat millicores @ ''m'')"

text \<open>Division of an \<open>i64\<close> truncates.\<close>

definition format_memory_bytes :: "int \<Rightarrow> string" where
  "format_memory_bytes bytes = show_int (if bytes < 0 then - ((- bytes) div 1024) else bytes div 1024) @ ''Ki''"

record worker_sample =
  ws_job_name :: string
  ws_job_namespace :: string
  ws_vm_name :: string
  ws_cpu_millicores :: "nat option"
  ws_memory_usage_bytes :: "int option"
  ws_node_memory_total_bytes :: int
  ws_node_memory_used_bytes :: int
  ws_node_cpu_count :: nat
  ws_sampled_at :: int

text \<open>\<open>as u32\<close> of an \<open>i64\<close> keeps the low 32 bits.\<close>

definition i64_as_u32 :: "int \<Rightarrow> nat" where
  "i64_as_u32 v = nat (v mod 2 ^ 32)"

definition worker_sample_of :: "metrics_row \<Rightarrow> job_row \<Rightarrow> worker_sample option" where
  "worker_sample_of m j =
     (case j_worker_vm_name j of
        None \<Rightarrow> None
      | Some vm \<Rightarrow>
         if \<not> is_pre_completion_state (j_status j) then None
         else Some \<lparr>ws_job_name = j_name j, ws_job_namespace = j_namespace j, ws_vm_name = vm,
                    ws_cpu_millicores = map_option i64_as_u32 (wm_cpu_millicores m), ws_memory_usage_bytes = wm_memory_usage_bytes m,
                    ws_node_memory_total_bytes = wm_node_memory_total_bytes m, ws_node_memory_used_bytes = wm_node_memory_used_bytes m,
                    ws_node_cpu_count = i64_as_u32 (wm_node_cpu_count m), ws_sampled_at = wm_sampled_at m\<rparr>)"

definition real_worker_samples :: "database \<Rightarrow> worker_sample list" where
  "real_worker_samples d =
     List.map_filter (\<lambda>m. Option.bind (find_job (wm_job_id m) d) (worker_sample_of m)) (worker_metrics d)"

definition usage_json :: "string \<Rightarrow> string \<Rightarrow> json" where
  "usage_json cpu memory = JObj [(''cpu'', JStr cpu), (''memory'', JStr memory)]"

definition metrics_api_version :: string where
  "metrics_api_version = ''metrics.k8s.io/v1beta1''"

definition node_metrics_json :: "'a libs_scheme \<Rightarrow> worker_sample \<Rightarrow> json" where
  "node_metrics_json L s =
     JObj [(''apiVersion'', JStr metrics_api_version), (''kind'', JStr ''NodeMetrics''), (''metadata'', JObj [(''name'', JStr (ws_vm_name s))]),
           (''timestamp'', JStr (unwrap_or [] (rfc3339_offset L (ws_sampled_at s)))), (''window'', JStr ''30s''),
           (''usage'', usage_json (format_cpu_millicores (unwrap_or 0 (ws_cpu_millicores s))) (format_memory_bytes (ws_node_memory_used_bytes s)))]"

definition list_node_metrics :: "'x services \<Rightarrow> 'x handler" where
  "list_node_metrics S =
     or_500 (sql_query S real_worker_samples) (\<lambda>samples.
       ret (list_response metrics_api_version ''NodeMetricsList'' (map (node_metrics_json S) samples)))"

definition to_pod_metrics :: "'a libs_scheme \<Rightarrow> worker_sample \<Rightarrow> json option" where
  "to_pod_metrics L s =
     Option.bind (ws_cpu_millicores s) (\<lambda>cpu.
     Option.bind (ws_memory_usage_bytes s) (\<lambda>memory.
       Some (JObj [(''apiVersion'', JStr metrics_api_version), (''kind'', JStr ''PodMetrics''),
                   (''metadata'', JObj [(''name'', JStr (ws_job_name s)), (''namespace'', JStr (ws_job_namespace s))]),
                   (''timestamp'', JStr (unwrap_or [] (rfc3339_offset L (ws_sampled_at s)))), (''window'', JStr ''30s''),
                   (''containers'', JArr [JObj [(''name'', JStr ''main''),
                      (''usage'', usage_json (format_cpu_millicores cpu) (format_memory_bytes memory))]])])))"

definition list_pod_metrics :: "'x services \<Rightarrow> 'x handler" where
  "list_pod_metrics S =
     or_500 (sql_query S real_worker_samples) (\<lambda>samples.
       ret (list_response metrics_api_version ''PodMetricsList'' (List.map_filter (to_pod_metrics S) samples)))"

definition list_pod_metrics_for_namespace :: "'x services \<Rightarrow> string \<Rightarrow> 'x handler" where
  "list_pod_metrics_for_namespace S ns =
     or_500 (sql_query S real_worker_samples) (\<lambda>samples.
       ret (list_response metrics_api_version ''PodMetricsList''
         (List.map_filter (to_pod_metrics S) (filter (\<lambda>s. ws_job_namespace s = ns) samples))))"

definition node_json :: "worker_sample \<Rightarrow> json" where
  "node_json s =
     (let resources = usage_json (show_nat (ws_node_cpu_count s)) (format_memory_bytes (ws_node_memory_total_bytes s))
      in JObj [(''apiVersion'', JStr ''v1''), (''kind'', JStr ''Node''), (''metadata'', JObj [(''name'', JStr (ws_vm_name s))]),
               (''status'', JObj [(''capacity'', resources), (''allocatable'', resources),
                  (''conditions'', JArr [JObj [(''type'', JStr ''Ready''), (''status'', JStr ''True'')]])])])"

definition list_nodes :: "'x services \<Rightarrow> 'x handler" where
  "list_nodes S =
     or_500 (sql_query S real_worker_samples) (\<lambda>samples. ret (list_response ''v1'' ''NodeList'' (map node_json samples)))"

section \<open>Logs\<close>

record log_query_params =
  lq_follow :: bool
  lq_timestamps :: bool
  lq_tail_lines :: "int option"
  lq_since_seconds :: "int option"
  lq_since_time :: "string option"
  lq_limit_bytes :: "int option"
  lq_previous :: bool
  lq_stream :: "string option"

record log_options =
  lo_follow :: bool
  lo_timestamps :: bool
  lo_tail_lines :: "nat option"
  lo_since :: "int option"
  lo_limit_bytes :: "nat option"

definition invalid_option :: "string \<Rightarrow> string \<Rightarrow> int \<Rightarrow> string \<Rightarrow> response" where
  "invalid_option name fld v rule =
     status_error 422 ''Invalid''
       (''PodLogOptions '' @ quoted name @ '' is invalid: '' @ fld @ '': Invalid value: '' @ show_int v @ '': '' @ rule)"

definition at_least :: "string \<Rightarrow> string \<Rightarrow> int \<Rightarrow> string \<Rightarrow> int option \<Rightarrow> response + nat option" where
  "at_least name fld bound rule v =
     (case v of
        None \<Rightarrow> Inr None
      | Some n \<Rightarrow> if n < bound then Inl (invalid_option name fld n rule) else Inr (Some (nat n)))"

text \<open>The checks that come before the clock is read.\<close>

definition check_log_params :: "log_query_params \<Rightarrow> string \<Rightarrow> response + nat option \<times> nat option" where
  "check_log_params p name =
     (if lq_previous p
      then Inl (status_error 400 ''BadRequest''
             (''previous terminated container in pod '' @ quoted name @ '' not found: kube-shim never restarts a container''))
      else if (case lq_stream p of None \<Rightarrow> False | Some s \<Rightarrow> s \<noteq> ''All'')
      then Inl (status_error 400 ''BadRequest''
             (''stream '' @ quoted (unwrap_or [] (lq_stream p)) @ '' is not supported: kube-shim returns stdout and stderr merged (stream=All)''))
      else if lq_since_seconds p \<noteq> None \<and> lq_since_time p \<noteq> None
      then Inl (status_error 422 ''Invalid''
             (''PodLogOptions '' @ quoted name @ '' is invalid: : Forbidden: at most one of `sinceTime` or `sinceSeconds` may be specified''))
      else rbind (at_least name ''tailLines'' 0 ''must be greater than or equal to 0'' (lq_tail_lines p)) (\<lambda>tail_lines.
           rbind (at_least name ''limitBytes'' 1 ''must be greater than 0'' (lq_limit_bytes p)) (\<lambda>limit.
             Inr (tail_lines, limit))))"

text \<open>\<open>Utc::now() - Duration::seconds(n)\<close> panics where the duration or the time is out of chrono's range.\<close>

definition seconds_ago :: "'x services \<Rightarrow> int \<Rightarrow> ('x world, panic, int) io" where
  "seconds_ago S n =
     bnd (now_nanos S) (\<lambda>now.
       case Option.bind (try_seconds n) (checked_sub_signed S now) of None \<Rightarrow> fail TimeOutOfRange | Some t \<Rightarrow> ret t)"

definition log_since :: "'x services \<Rightarrow> log_query_params \<Rightarrow> string \<Rightarrow> ('x world, panic, response + int option) io" where
  "log_since S p name =
     (case (lq_since_seconds p, lq_since_time p) of
        (Some n, _) \<Rightarrow>
          (if n < 1 then ret (Inl (invalid_option name ''sinceSeconds'' n ''must be greater than 0''))
           else bnd (seconds_ago S n) (\<lambda>t. ret (Inr (Some t))))
      | (None, Some time) \<Rightarrow>
          (case parse_from_rfc3339 S time of
             Some t \<Rightarrow> ret (Inr (Some t))
           | None \<Rightarrow> ret (Inl (status_error 400 ''BadRequest'' (''sinceTime '' @ quoted time @ '' is not an RFC3339 time''))))
      | (None, None) \<Rightarrow> ret (Inr None))"

definition validate_log_options :: "'x services \<Rightarrow> log_query_params \<Rightarrow> string \<Rightarrow> ('x world, panic, response + log_options) io" where
  "validate_log_options S p name =
     (case check_log_params p name of
        Inl r \<Rightarrow> ret (Inl r)
      | Inr (tail_lines, limit) \<Rightarrow>
         bnd (log_since S p name) (\<lambda>r.
           ret (case r of
                  Inl rej \<Rightarrow> Inl rej
                | Inr t \<Rightarrow> Inr \<lparr>lo_follow = lq_follow p, lo_timestamps = lq_timestamps p, lo_tail_lines = tail_lines,
                               lo_since = t, lo_limit_bytes = limit\<rparr>)))"

definition log_filter_of :: "log_options \<Rightarrow> bool \<Rightarrow> log_filter" where
  "log_filter_of opts has_timestamps =
     \<lparr>input_has_timestamps = has_timestamps, timestamps = lo_timestamps opts, since = lo_since opts, limit_bytes = lo_limit_bytes opts\<rparr>"

definition podman_command :: "log_options \<Rightarrow> string \<Rightarrow> string" where
  "podman_command opts container_id =
     ''podman logs'' @ (if lo_follow opts then '' -f'' else []) @ '' --timestamps''
     @ (case lo_tail_lines opts of None \<Rightarrow> [] | Some n \<Rightarrow> '' --tail '' @ show_nat n) @ '' '' @ container_id"

definition live_container_id :: "'x services \<Rightarrow> string \<Rightarrow> worker_ssh_config \<Rightarrow> ('x world, panic, string option) io" where
  "live_container_id S ip cfg =
     bnd (attempt (exec_once S ip (ssh_port cfg) (ssh_private_key cfg) ''cat /tmp/container-id.txt'')) (\<lambda>r.
       ret (case r of
              Inl _ \<Rightarrow> None
            | Inr out \<Rightarrow>
               (let cid = trim (from_utf8_lossy (stdout out))
                in if cid \<noteq> [] \<and> list_all is_ascii_hexdigit cid then Some cid else None)))"

type_synonym arrival_times = "(output_stream \<times> string) list \<Rightarrow> (stream_event \<times> int \<times> int) list"

text \<open>The log as the worker has it now, when it can be reached.\<close>

definition live_log ::
  "'x services \<Rightarrow> arrival_times \<Rightarrow> worker_ssh_config \<Rightarrow> log_options \<Rightarrow> string \<Rightarrow> ('x world, panic, string option) io" where
  "live_log S arrivals cfg opts ip =
     bnd (live_container_id S ip cfg) (\<lambda>cid.
       case cid of
         None \<Rightarrow> ret None
       | Some container_id \<Rightarrow>
          (let command = podman_command opts container_id; f = log_filter_of opts True
           in if lo_follow opts
              then bnd (attempt (exec_stream S ip (ssh_port cfg) (ssh_private_key cfg) command)) (\<lambda>r.
                     ret (case r of Inl _ \<Rightarrow> None | Inr chunks \<Rightarrow> Some (concat (apply_stream S f (arrivals chunks)))))
              else bnd (attempt (exec_once S ip (ssh_port cfg) (ssh_private_key cfg) command)) (\<lambda>r.
                     ret (case r of
                            Inl _ \<Rightarrow> None
                          | Inr out \<Rightarrow> Some (apply_filter S f (merge_by_timestamp S [stdout out, stderr out]) None)))))"

definition cached_log :: "'a libs_scheme \<Rightarrow> log_options \<Rightarrow> job_row \<Rightarrow> response" where
  "cached_log L opts j =
     (case j_cached_logs j of
        Some logs \<Rightarrow> text_response 200 (apply_filter L (log_filter_of opts (j_cached_logs_timestamped j)) logs (lo_tail_lines opts))
      | None \<Rightarrow> status_error 404 ''NotFound'' ''no logs available for this pod yet'')"

definition log_of_job ::
  "'x services \<Rightarrow> arrival_times \<Rightarrow> worker_ssh_config \<Rightarrow> log_options \<Rightarrow> job_row \<Rightarrow> 'x handler" where
  "log_of_job S arrivals cfg opts j =
     bnd (case j_worker_ssh_ip j of
            Some ip \<Rightarrow>
              (if j_status j = ''ContainerRunning'' \<and> ssh_private_key cfg \<noteq> [] then live_log S arrivals cfg opts ip else ret None)
          | None \<Rightarrow> ret None) (\<lambda>live.
       ret (case live of Some out \<Rightarrow> text_response 200 out | None \<Rightarrow> cached_log S opts j))"

definition get_pod_log ::
  "'x services \<Rightarrow> arrival_times \<Rightarrow> worker_ssh_config \<Rightarrow> string \<Rightarrow> string \<Rightarrow> log_query_params \<Rightarrow> 'x handler" where
  "get_pod_log S arrivals cfg ns name p =
     bnd (validate_log_options S p name) (\<lambda>r.
       case r of
         Inl rej \<Rightarrow> ret rej
       | Inr opts \<Rightarrow>
          bnd (attempt (sql_query S (job_named ns name))) (\<lambda>found.
            case found of
              Inl _ \<Rightarrow> ret (status_error 500 ''InternalError'' ''failed to look up pod'')
            | Inr None \<Rightarrow> ret (not_found ''Pod'' name)
            | Inr (Some j) \<Rightarrow> log_of_job S arrivals cfg opts j))"

end
