(* ===== verification/ApiLaws.thy ===== *)
theory ApiLaws
  imports CronJobApi SecretApi BudgetApi ReadApi BudgetLaws
begin

text \<open>
  What the handlers may do to the database: the effects they share, added to the contract \<open>db_frame\<close>, and the way a failed
  statement becomes a response.
\<close>

lemma or_500_cases:
  obtains (fault) e v where "m w = (Inl e, v)" and "or_500 m k w = (Inr (internal_error e), v)"
  | (val) a v where "m w = (Inr a, v)" and "or_500 m k w = k a v"
  by (cases "m w"; cases "fst (m w)") (auto simp: or_500_def attempt_def bnd_def)

lemma or_500_Inl: "m w = (Inl e, v) \<Longrightarrow> or_500 m k w = (Inr (internal_error e), v)"
  by (simp add: or_500_def attempt_def bnd_def)

lemma or_500_Inr: "m w = (Inr a, v) \<Longrightarrow> or_500 m k w = k a v"
  by (simp add: or_500_def attempt_def bnd_def)

lemma or_500_query_cases:
  obtains (fault) e v where "db v = db w" and "or_500 (sql_query S q) k w = (Inr (internal_error e), v)"
  | (val) v where "db v = db w" and "or_500 (sql_query S q) k w = k (q (db w)) v"
proof (cases rule: sql_query_cases [of S q w])
  case (fault msg)
  show ?thesis by (rule that(1) [OF _ or_500_Inl [of "sql_query S q" w, OF fault]]) simp
next
  case result
  show ?thesis by (rule that(2) [OF _ or_500_Inr [of "sql_query S q" w, OF result]]) simp
qed

lemma or_500_passed:
  assumes "or_500 m k w = (Inr r, w')" and "resp_code r \<noteq> 500"
  obtains a v where "m w = (Inr a, v)" and "k a v = (Inr r, w')"
  using assms by (cases "m w"; cases "fst (m w)")
    (auto simp: or_500_def attempt_def bnd_def ret_def internal_error_def text_response_def)

lemma or_500_query_passed:
  assumes "or_500 (sql_query S q) k w = (Inr r, w')" and "resp_code r \<noteq> 500"
  obtains v where "db v = db w" and "k (q (db w)) v = (Inr r, w')"
proof -
  from assms obtain a v where query: "sql_query S q w = (Inr a, v)" and rest: "k a v = (Inr r, w')"
    by (rule or_500_passed)
  from query have "a = q (db w) \<and> db v = db w" by (cases rule: sql_query_cases [of S q w]) auto
  with rest show thesis by (intro that) auto
qed

lemma or_500_exec_cases:
  obtains (fault) e v where "db v = db w" and "or_500 (sql_exec S f) k w = (Inr (internal_error e), v)"
  | (val) v where "f (db w) = Inr (db v)" and "or_500 (sql_exec S f) k w = k () v"
proof (cases rule: sql_exec_cases [of S f w])
  case (fault msg)
  show ?thesis by (rule that(1) [OF _ or_500_Inl [of "sql_exec S f" w, OF fault]]) simp
next
  case (executed d)
  show ?thesis by (rule that(2) [OF _ or_500_Inr [of "sql_exec S f" w, OF executed(2)]]) (simp add: executed(1))
qed

lemma sql_exec_counted_cases:
  obtains (fault) e v where "db v = db w" and "sql_exec_counted S f w = (Inl e, v)"
  | (val) v where "fst (f (db w)) = Inr (db v)" and "sql_exec_counted S f w = (Inr (snd (f (db w))), v)"
proof (cases rule: sql_exec_cases [of S "\<lambda>d. fst (f d)" w])
  case (fault msg)
  show ?thesis by (rule that(1)) (auto simp: sql_exec_counted_def bnd_def seq_def fault)
next
  case (executed d)
  show ?thesis by (rule that(2)) (auto simp: sql_exec_counted_def bnd_def seq_def executed)
qed

lemma or_500_counted_cases:
  obtains (fault) e v where "db v = db w" and "or_500 (sql_exec_counted S f) k w = (Inr (internal_error e), v)"
  | (val) v where "fst (f (db w)) = Inr (db v)" and "or_500 (sql_exec_counted S f) k w = k (snd (f (db w))) v"
proof (cases rule: sql_exec_counted_cases [of w S f])
  case (fault e v)
  show ?thesis by (rule that(1) [OF fault(1) or_500_Inl [of "sql_exec_counted S f" w, OF fault(2)]])
next
  case (val v)
  show ?thesis by (rule that(2) [OF val(1) or_500_Inr [of "sql_exec_counted S f" w, OF val(2)]])
qed

lemma bnd_now: "bnd (now_ts S) k w = k (timestamp (fst (utc_now S (ext w)))) (w\<lparr>ext := snd (utc_now S (ext w))\<rparr>)"
  by (simp add: bnd_def now_ts_eq)

lemma bnd_uuid: "bnd (new_uuid S) k w = k (fst (uuid_v4 S (ext w))) (w\<lparr>ext := snd (uuid_v4 S (ext w))\<rparr>)"
  by (simp add: bnd_def new_uuid_eq)

lemma notify_then: "seq (notify_loop S) m w = m (w\<lparr>ext := notify_one S (ext w)\<rparr>)"
  by (simp add: notify_loop_def seq_def bnd_def)

lemmas stepping = bnd_now bnd_uuid notify_then

lemma resp_codes [simp]:
  "resp_code (internal_error e) = 500"
  "resp_code (text_response c t) = c"
  "resp_code (json_response c j) = c"
  "resp_code no_content = 204"
  "resp_code (already_exists kind n) = 409"
  "resp_code (not_found kind n) = 404"
  "resp_code (bad_request msg) = 400"
  "resp_code (unsupported_media_type msg) = 415"
  "resp_code (invalid msg) = 422"
  "resp_code (policy_denied p msg) = 403"
  "resp_code (unauthorized msg) = 401"
  "resp_code (invalid_field_value d f v) = 422"
  "resp_code (status_error c reason msg) = c"
  by (simp_all add: internal_error_def text_response_def json_response_def no_content_def already_exists_def not_found_def bad_request_def
      unsupported_media_type_def invalid_def policy_denied_def unauthorized_def invalid_field_value_def status_error_def
      status_error_with_details_def Let_def)

section \<open>Effects on the database\<close>

context db_frame
begin

lemma keeps_or_500 [intro!]: "keeps on_world m \<Longrightarrow> (\<And>a. keeps on_world (k a)) \<Longrightarrow> keeps on_world (or_500 m k)"
  unfolding or_500_def by (intro keeps_bnd keeps_attempt) (auto split: sum.split)

lemma keeps_notify_loop [intro!]: "keeps on_world (notify_loop S)"
  by (rule keeps_same_db) (simp add: notify_loop_def)

lemma keeps_validate_plan_fits [intro!]: "keeps on_world (validate_plan_fits S zone pod)"
  by (auto simp: validate_plan_fits_def plan_fits_def has_cached_plans_def plan_for_resource_requests_def cheapest_fitting_server_plan_def
      split: prod.split sum.split option.split bool.split)

lemma keeps_admit_cronjob [intro!]: "keeps on_world (admit_cronjob S zone name spec)"
  by (auto simp: admit_cronjob_def split: option.split)

lemma keeps_load_cronjob [intro!]: "keeps on_world (load_cronjob S ns name)"
  by (auto simp: load_cronjob_def split: option.split)

lemma keeps_seconds_ago [intro!]: "keeps on_world (seconds_ago S n)"
  by (auto simp: seconds_ago_def split: option.split)

lemma keeps_validate_log_options [intro!]: "keeps on_world (validate_log_options S p name)"
  by (auto simp: validate_log_options_def log_since_def split: sum.split option.split)

end

end
