(* ===== verification/ApiProps.thy ===== *)
theory ApiProps
  imports ApiLaws CostProps
begin

text \<open>Requests about Jobs: who may make them, and what creating, reading and deleting a Job does to the tables.\<close>

section \<open>Authentication\<close>

lemma token_fold: "foldl (\<lambda>matched e. matched \<or> p e) b ts \<longleftrightarrow> b \<or> list_ex p ts"
  by (induction ts arbitrary: b) auto

lemma token_is_valid_iff:
  "token_is_valid tokens presented now \<longleftrightarrow> (\<exists>t \<in> set tokens. at_token t = presented \<and> is_valid_at t now)"
  by (auto simp: token_is_valid_def token_fold list_ex_iff)

text \<open>
  A request reaches its handler exactly when its \<open>Authorization\<close> header is \<open>Bearer\<close>, one space and a configured token that has not expired
  at the time of the request. Any other request gets a 401 that does not depend on the handler, and the database is as before.
\<close>

theorem only_valid_tokens_reach_handlers:
  fixes w :: "'x world"
  assumes now: "utc_now S (ext w) = (t, x)"
  shows "if \<exists>token. authorization = Some (''Bearer '' @ token) \<and> header_to_str (''Bearer '' @ token) \<noteq> None
               \<and> (\<exists>e \<in> set tokens. at_token e = token \<and> (\<forall>expiry. at_expires_at e = Some expiry \<longrightarrow> t < expiry))
         then require_bearer_token S tokens authorization k w = k (w\<lparr>ext := x\<rparr>)
         else fst (require_bearer_token S tokens authorization k w) = Inr (unauthorized ''Unauthorized'')
              \<and> db (snd (require_bearer_token S tokens authorization k w)) = db w"
proof -
  have run: "bnd (now_nanos S) m w = m t (w\<lparr>ext := x\<rparr>)" for m :: "int \<Rightarrow> 'x handler"
    by (simp add: bnd_def now_nanos_def lift_ext_eq now)
  have valid: "is_valid_at e t \<longleftrightarrow> (\<forall>expiry. at_expires_at e = Some expiry \<longrightarrow> t < expiry)" for e
    by (simp add: is_valid_at_def split: option.split)
  have hdr: "header_to_str v = Some u \<longleftrightarrow> u = v \<and> header_to_str v \<noteq> None" for u v
    by (auto simp: header_to_str_def)
  show ?thesis
  proof (cases "Option.bind (Option.bind authorization header_to_str) (\<lambda>v. strip_prefix v ''Bearer '')")
    case None
    have "\<not> (\<exists>token. authorization = Some (''Bearer '' @ token) \<and> header_to_str (''Bearer '' @ token) \<noteq> None)"
    proof
      assume "\<exists>token. authorization = Some (''Bearer '' @ token) \<and> header_to_str (''Bearer '' @ token) \<noteq> None"
      then obtain token where a: "authorization = Some (''Bearer '' @ token)" and h: "header_to_str (''Bearer '' @ token) \<noteq> None" by blast
      from h hdr have "header_to_str (''Bearer '' @ token) = Some (''Bearer '' @ token)" by blast
      with a None show False by (simp add: strip_prefix_def starts_with_def)
    qed
    with None show ?thesis by (auto simp: require_bearer_token_def)
  next
    case (Some token)
    then obtain v where a: "authorization = Some v" and h: "header_to_str v = Some (''Bearer '' @ token)"
      by (auto simp: strip_prefix_Some bind_eq_Some_conv)
    have "header_to_str v = Some u \<Longrightarrow> v = u" for u by (simp add: header_to_str_def split: if_splits)
    from this [OF h] have v: "v = ''Bearer '' @ token" .
    have "require_bearer_token S tokens authorization k w
            = (if token_is_valid tokens token t then k (w\<lparr>ext := x\<rparr>) else (Inr (unauthorized ''Unauthorized''), w\<lparr>ext := x\<rparr>))"
      unfolding require_bearer_token_def Some by (simp add: run)
    moreover have "(\<exists>tok. authorization = Some (''Bearer '' @ tok) \<and> header_to_str (''Bearer '' @ tok) \<noteq> None
        \<and> (\<exists>e \<in> set tokens. at_token e = tok \<and> (\<forall>expiry. at_expires_at e = Some expiry \<longrightarrow> t < expiry)))
        \<longleftrightarrow> token_is_valid tokens token t"
      using h by (auto simp: a v token_is_valid_iff valid)
    ultimately show ?thesis by (simp only: if_split) simp
  qed
qed

theorem only_valid_tokens_reach_handlers_witness:
  "require_bearer_token demo_services [\<lparr>at_token = ''t'', at_expires_at = None\<rparr>] (Some ''Bearer t'') (list_jobs demo_services ''default'')
     (demo_world ''Created'' 900) = list_jobs demo_services ''default'' (demo_world ''Created'' 900)
   \<and> fst (require_bearer_token demo_services [\<lparr>at_token = ''t'', at_expires_at = Some 5\<rparr>] (Some ''Bearer t'')
       (list_jobs demo_services ''default'') (demo_world ''Created'' 900)) = Inr (unauthorized ''Unauthorized'')"
proof -
  have now: "utc_now demo_services (ext (demo_world ''Created'' 900)) = (10 ^ 12, 0)" by (simp add: demo_services_def demo_world_def)
  have h: "header_to_str ''Bearer t'' = Some ''Bearer t''" by (simp add: header_to_str_def)
  have w: "(demo_world ''Created'' 900)\<lparr>ext := 0\<rparr> = demo_world ''Created'' 900" by (simp add: demo_world_def)
  from only_valid_tokens_reach_handlers [OF now, of "Some ''Bearer t''" "[\<lparr>at_token = ''t'', at_expires_at = None\<rparr>]" "list_jobs demo_services ''default''"]
       only_valid_tokens_reach_handlers [OF now, of "Some ''Bearer t''" "[\<lparr>at_token = ''t'', at_expires_at = Some 5\<rparr>]" "list_jobs demo_services ''default''"]
  show ?thesis by (simp add: h w)
qed

definition demo_report_config :: cost_report_config where
  "demo_report_config =
     \<lparr>cr_resource_prefix = ''ks'', cr_zone = ''de-fra1'', cr_main_currency = ''EUR'', cr_provider_name = ''demo'', cr_invoice_issuer_name = ''demo''\<rparr>"

section \<open>Admission\<close>

text \<open>What the admission checks ask of a pod template, apart from the deadline: known storage classes, limits that can be read, a valid environment and valid options.\<close>

definition known_storage_classes :: "json \<Rightarrow> bool" where
  "known_storage_classes pod \<longleftrightarrow>
     (\<forall>vs v pvc. pointer pod [''template'', ''spec'', ''volumes''] = Some (JArr vs) \<longrightarrow> v \<in> set vs
        \<longrightarrow> pointer v [''ephemeral'', ''volumeClaimTemplate'', ''spec''] = Some pvc
        \<longrightarrow> (\<exists>tier. tier_parse (get_str pvc ''storageClassName'') = Inr tier))"

definition readable_limits :: "json \<Rightarrow> bool" where
  "readable_limits pod \<longleftrightarrow>
     (\<forall>limits q. pointer pod [''template'', ''spec'', ''containers'', ''0'', ''resources'', ''limits''] = Some limits
        \<longrightarrow> (get_str limits ''cpu'' = Some q \<longrightarrow> (\<exists>n. parse_cpu_millicores q = Inr n))
          \<and> (get_str limits ''memory'' = Some q \<longrightarrow> (\<exists>n. parse_storage_quantity_mb q = Inr n)))"

definition checks_passed :: "'a libs_scheme \<Rightarrow> json \<Rightarrow> bool" where
  "checks_passed L pod \<longleftrightarrow>
     known_storage_classes pod \<and> readable_limits pod
     \<and> (\<forall>container. pointer pod [''template'', ''spec'', ''containers'', ''0''] = Some container \<longrightarrow> validate_env L container = Inr ())
     \<and> validate_run_options L pod = Inr ()"

text \<open>A server plan for the template: the price list is not loaded yet, or has a plan with the requested processors and memory (one core, one gigabyte by default).\<close>

definition some_plan_fits :: "database \<Rightarrow> json \<Rightarrow> bool" where
  "some_plan_fits d pod \<longleftrightarrow>
     provider_plans d = []
     \<or> (\<exists>p \<in> set (provider_plans d).
          unwrap_or 1000 (fst (extract_resource_requests pod)) \<le> pl_cpu_cores p * 1000
          \<and> unwrap_or 1024 (snd (extract_resource_requests pod)) \<le> pl_memory_mb p)"

lemma first_rejection_None: "first_rejection rs = None \<longleftrightarrow> list_all (\<lambda>r. r = None) rs"
  by (simp add: first_rejection_def find_map_None list_all_iff)

lemma or_else_None: "or_else a b = None \<longleftrightarrow> a = None \<and> b = None"
  by (cases a) (simp_all add: or_else_def)

lemma deadline_given: "require_active_deadline_seconds pod p = None \<longleftrightarrow> get pod ''activeDeadlineSeconds'' \<noteq> None"
proof -
  have "parse_index ''activeDeadlineSeconds'' = None"
    by (simp add: parse_index_def parse_usize_def parse_nat_def is_ascii_digit_def filter_opt_def)
  then have "pointer pod [''activeDeadlineSeconds''] = get pod ''activeDeadlineSeconds''" by (cases pod) simp_all
  then show ?thesis unfolding require_active_deadline_seconds_def by (simp split: option.split)
qed

lemma storage_classes_checked: "validate_ephemeral_volume_storage_classes d pod p = None \<longleftrightarrow> known_storage_classes pod"
proof -
  have one: "check_storage_class d p v = None \<longleftrightarrow>
      (\<forall>pvc. pointer v [''ephemeral'', ''volumeClaimTemplate'', ''spec''] = Some pvc
         \<longrightarrow> (\<exists>tier. tier_parse (get_str pvc ''storageClassName'') = Inr tier))" for v
    unfolding check_storage_class_def
    by (cases "pointer v [''ephemeral'', ''volumeClaimTemplate'', ''spec'']") (simp_all del: pointer.simps split: sum.split)
  show ?thesis
  proof (cases "pointer pod [''template'', ''spec'', ''volumes'']")
    case None
    then show ?thesis unfolding validate_ephemeral_volume_storage_classes_def known_storage_classes_def None by simp
  next
    case (Some vols)
    show ?thesis unfolding validate_ephemeral_volume_storage_classes_def known_storage_classes_def Some
      by (cases vols) (simp_all add: find_map_None one del: pointer.simps, blast)
  qed
qed

lemma limit_checked: "check_limit d limits base parse key = None \<longleftrightarrow> (\<forall>q. get_str limits key = Some q \<longrightarrow> (\<exists>n. parse q = Inr n))"
  by (auto simp: check_limit_def split: option.split sum.split)

lemma limits_checked: "validate_resource_limits d pod p = None \<longleftrightarrow> readable_limits pod"
  by (auto simp: validate_resource_limits_def readable_limits_def Let_def or_else_None limit_checked simp del: pointer.simps split: option.split)

lemma env_checked:
  "validate_env_sources L d pod p = None \<longleftrightarrow>
     (\<forall>container. pointer pod [''template'', ''spec'', ''containers'', ''0''] = Some container \<longrightarrow> validate_env L container = Inr ())"
  by (auto simp: validate_env_sources_def simp del: pointer.simps split: option.split sum.split)

lemma options_checked: "admit_run_options L d pod p = None \<longleftrightarrow> validate_run_options L pod = Inr ()"
  by (auto simp: admit_run_options_def split: sum.split)

lemmas admission_checks = deadline_given storage_classes_checked limits_checked env_checked options_checked

lemma job_admitted:
  "job_rejection L name spec = None \<longleftrightarrow> get spec ''activeDeadlineSeconds'' \<noteq> None \<and> checks_passed L spec"
  by (simp only: job_rejection_def Let_def first_rejection_None list.pred_inject admission_checks checks_passed_def simp_thms conj_assoc)

text \<open>No rejection looks like a success.\<close>

lemma first_rejection_pred:
  "first_rejection rs = Some r \<Longrightarrow> list_all (\<lambda>x. \<forall>y. x = Some y \<longrightarrow> P y) rs \<Longrightarrow> P r"
  by (auto simp: first_rejection_def list_all_iff dest!: find_map_Some)

lemma deadline_code: "require_active_deadline_seconds pod p = Some r \<Longrightarrow> resp_code r = 403"
  by (auto simp: require_active_deadline_seconds_def split: option.splits)

lemma storage_class_code: "validate_ephemeral_volume_storage_classes d pod p = Some r \<Longrightarrow> resp_code r = 422"
  by (auto simp: validate_ephemeral_volume_storage_classes_def check_storage_class_def dest!: find_map_Some split: option.splits sum.splits)

lemma limits_code: "validate_resource_limits d pod p = Some r \<Longrightarrow> resp_code r = 422"
  by (auto simp: validate_resource_limits_def check_limit_def or_else_def Let_def simp del: pointer.simps split: option.splits sum.splits if_splits)

lemma env_sources_code: "validate_env_sources L d pod p = Some r \<Longrightarrow> resp_code r = 422"
  by (auto simp: validate_env_sources_def dest!: find_map_Some split: option.splits sum.splits if_splits)

lemma run_options_code: "admit_run_options L d pod p = Some r \<Longrightarrow> resp_code r = 422"
  by (auto simp: admit_run_options_def split: option.splits sum.splits if_splits)

lemma schedule_code: "validate_cronjob_schedule L d spec = Some r \<Longrightarrow> resp_code r = 422"
  by (auto simp: validate_cronjob_schedule_def split: option.splits json.splits if_splits)

lemma schedule_fields_code: "validate_cronjob_schedule_fields L d spec = Some r \<Longrightarrow> resp_code r = 422"
  by (auto simp: validate_cronjob_schedule_fields_def or_else_def Let_def split: option.splits sum.splits json.splits if_splits)

lemmas check_codes = deadline_code storage_class_code limits_code env_sources_code run_options_code schedule_code schedule_fields_code

lemma job_rejection_not_created: "job_rejection L name spec = Some r \<Longrightarrow> resp_code r \<in> {403, 422}"
  unfolding job_rejection_def Let_def by (erule first_rejection_pred) (simp add: check_codes)

lemma job_without_deadline:
  "get spec ''activeDeadlineSeconds'' = None \<Longrightarrow> \<exists>r. job_rejection L name spec = Some r \<and> resp_code r = 403"
  using deadline_given [of spec job_field_prefix] deadline_code [of spec job_field_prefix]
  by (auto simp: job_rejection_def Let_def first_rejection_def)

lemma plan_check_passed:
  assumes "validate_plan_fits S zone pod w = (Inr None, v)"
  shows "some_plan_fits (db w) pod"
proof -
  obtain cpu mem where req: "extract_resource_requests pod = (cpu, mem)" by fastforce
  obtain cores gb where units: "whole_units_for_requests cpu mem = (cores, gb)" by fastforce
  have need: "unwrap_or 1000 cpu \<le> cores * 1000" "unwrap_or 1024 mem \<le> gb * 1024"
    using units div_ceil_ge [of 1000] div_ceil_ge [of 1024] by (auto simp: whole_units_for_requests_def)
  from assms req have "provider_plans (db w) = [] \<or> (\<exists>p \<in> set (provider_plans (db w)). cores \<le> pl_cpu_cores p \<and> gb * 1024 \<le> pl_memory_mb p)"
    by (auto simp: validate_plan_fits_def attempt_def plan_fits_def has_cached_plans_def plan_for_resource_requests_def units
        cheapest_fitting_server_plan_def bnd_def sql_query_def lift_ext_eq fitting_plans_def dest!: first_min_in
        split: option.splits sum.splits prod.splits bool.splits if_splits)
  then show ?thesis
  proof
    assume "\<exists>p \<in> set (provider_plans (db w)). cores \<le> pl_cpu_cores p \<and> gb * 1024 \<le> pl_memory_mb p"
    then obtain p where p: "p \<in> set (provider_plans (db w))" "cores \<le> pl_cpu_cores p" "gb * 1024 \<le> pl_memory_mb p" by blast
    then have "cores * 1000 \<le> pl_cpu_cores p * 1000" by simp
    with p need show ?thesis by (auto simp: some_plan_fits_def req intro!: bexI [of _ p])
  qed (simp add: some_plan_fits_def)
qed

section \<open>Creating a Job\<close>

text \<open>What creating a Job may do besides adding it: the budget's accrual.\<close>

definition guard_only :: "database \<Rightarrow> database \<Rightarrow> bool" where
  "guard_only d d' \<longleftrightarrow>
     (\<exists>b. d' = d\<lparr>budget_state := b\<rparr> \<and> map_option settings_of b = map_option settings_of (budget_state d))"

interpretation guard: settle_frame guard_only
proof unfold_locales
  fix d :: database
  show "guard_only d d" by (auto simp: guard_only_def intro!: exI [of _ "budget_state d"])
next
  fix a b c :: database
  assume "guard_only a b" and "guard_only b c"
  then show "guard_only a c" by (auto simp: guard_only_def)
next
  fix d :: database and b b' :: budget_row
  assume "budget_state d = Some b" and "settings_of b' = settings_of b"
  then show "guard_only d (d\<lparr>budget_state := Some b'\<rparr>)" by (auto simp: guard_only_def intro!: exI [of _ "Some b'"])
qed

lemma guardD: "keeps guard.on_world m \<Longrightarrow> m w = (r, w') \<Longrightarrow> guard_only (db w) (db w')"
  by (simp add: keeps_def guard.on_world_def) (metis snd_conv)

definition job_added :: "'x services \<Rightarrow> create_job_request \<Rightarrow> f64 option \<Rightarrow> database \<Rightarrow> database \<Rightarrow> bool" where
  "job_added S req cost d d' \<longleftrightarrow>
     (\<exists>jid now. d' = d\<lparr>jobs := jobs d @ [new_job_row jid (om_name (cj_metadata req)) (unwrap_or ''default'' (om_namespace (cj_metadata req))) None
                   (to_string S (cj_job_spec req)) (sql_real cost) now]\<rparr>
        \<and> jid \<notin> j_id ` set (jobs d)
        \<and> job_named (unwrap_or ''default'' (om_namespace (cj_metadata req))) (om_name (cj_metadata req)) d = None)"

lemma store_job_cases:
  "(\<exists>resp. fst (store_job S req cost w) = Inr resp
      \<and> (if resp_code resp = 201 then job_added S req cost (db w) (db (snd (store_job S req cost w)))
         else db (snd (store_job S req cost w)) = db w))"
proof -
  let ?ns = "unwrap_or ''default'' (om_namespace (cj_metadata req))" and ?name = "om_name (cj_metadata req)"
  let ?row = "\<lambda>jid now. new_job_row jid ?name ?ns None (to_string S (cj_job_spec req)) (sql_real cost) now"
  let ?ok = "\<lambda>jid now. seq (notify_loop S) (ret (json_response 201
       (job_json \<lparr>om_name = ?name, om_namespace = Some ?ns, om_uid = Some jid, om_creation_timestamp = Some (rfc3339 S now)\<rparr>
          (cj_job_spec req) (status_for ''Created'' False))))"
  let ?insert = "\<lambda>jid now. or_500 (sql_exec S (insert_job_row (?row jid now))) (\<lambda>_. ?ok jid now)"
  let ?k = "\<lambda>existing. if existing \<noteq> None then ret (already_exists ''Job'' ?name)
              else bnd (new_uuid S) (\<lambda>jid. bnd (now_ts S) (?insert jid))"
  have s: "store_job S req cost = or_500 (sql_query S (job_named ?ns ?name)) ?k" by (simp add: store_job_def Let_def)
  show ?thesis
  proof (cases rule: or_500_query_cases [where S = S and q = "job_named ?ns ?name" and w = w and k = ?k])
    case (val v)
    show ?thesis
    proof (cases "job_named ?ns ?name (db w)")
      case None
      define jid now u where "jid = fst (uuid_v4 S (ext v))"
        and "now = timestamp (fst (utc_now S (snd (uuid_v4 S (ext v)))))"
        and "u = v\<lparr>ext := snd (utc_now S (snd (uuid_v4 S (ext v))))\<rparr>"
      have run: "store_job S req cost w = ?insert jid now u"
        using None val(2) by (simp add: s stepping jid_def now_def u_def)
      show ?thesis
      proof (cases rule: or_500_exec_cases [where S = S and f = "insert_job_row (?row jid now)" and w = u and k = "\<lambda>_. ?ok jid now"])
        case (fault e v')
        then show ?thesis using run val(1) by (simp add: u_def)
      next
        case (val v')
        then have "jid \<notin> j_id ` set (jobs (db w)) \<and> db v' = (db w)\<lparr>jobs := jobs (db w) @ [?row jid now]\<rparr>"
          using \<open>db v = db w\<close> by (auto simp: insert_job_row_def u_def new_job_row_def split: if_splits)
        then have "job_added S req cost (db w) (db v')" using None unfolding job_added_def by blast
        then show ?thesis using run val(2) by (simp add: stepping)
      qed
    next
      case (Some r)
      then show ?thesis using val by (simp add: s)
    qed
  qed (simp add: s)
qed

lemmas guard_currency = guardD [OF guard.keeps_effective_main_currency]
lemmas guard_check = guardD [OF guard.keeps_check_budget]

lemma budget_then_store_cases:
  "\<exists>resp d. fst (budget_then_store S cfg req deadline w) = Inr resp \<and> guard_only (db w) d
      \<and> (if resp_code resp = 201
         then \<exists>cost. cost_covered S (cr_zone cfg) (cr_main_currency cfg) (cj_job_spec req) deadline cost (db w) d
                \<and> job_added S req cost d (db (snd (budget_then_store S cfg req deadline w)))
         else db (snd (budget_then_store S cfg req deadline w)) = d)"
proof -
  let ?store = "\<lambda>currency (cost, enough). if \<not> enough
      then ret (policy_denied ''kube-shim.brawer.ch/require-sufficient-budget'' (insufficient_budget_message cost currency))
      else store_job S req cost"
  let ?check = "\<lambda>currency. or_500 (check_budget S (cr_zone cfg) (cj_job_spec req) deadline currency) (?store currency)"
  have b: "budget_then_store S cfg req deadline = or_500 (effective_main_currency S (cr_main_currency cfg)) ?check"
    by (simp add: budget_then_store_def case_prod_beta')
  show ?thesis
  proof (cases rule: or_500_cases [where m = "effective_main_currency S (cr_main_currency cfg)" and w = w and k = ?check])
    case (fault e v)
    from guard_currency [OF fault(1)] fault(2) show ?thesis by (auto simp: b)
  next
    case (val currency v)
    from guard_currency [OF this(1)] have v: "guard_only (db w) (db v)" .
    show ?thesis
    proof (cases rule: or_500_cases [where m = "check_budget S (cr_zone cfg) (cj_job_spec req) deadline currency" and w = v and k = "?store currency"])
      case (fault e u)
      from guard_check [OF fault(1)] have "guard_only (db v) (db u)" .
      with v have "guard_only (db w) (db u)" by (rule guard.Q_trans)
      then show ?thesis using val(2) fault(2) by (auto simp: b)
    next
      case (val a u)
      obtain cost enough where a: "a = (cost, enough)" by fastforce
      from guard_check [OF val(1)] have "guard_only (db v) (db u)" .
      with v have g: "guard_only (db w) (db u)" by (rule guard.Q_trans)
      have run: "budget_then_store S cfg req deadline w = ?store currency a u"
        using \<open>or_500 (effective_main_currency S (cr_main_currency cfg)) ?check w = ?check currency v\<close> val(2) by (simp add: b)
      show ?thesis
      proof (cases enough)
        case True
        then have "cost_covered S (cr_zone cfg) (cr_main_currency cfg) (cj_job_spec req) deadline cost (db w) (db u)"
          using check_budget_covered [OF \<open>effective_main_currency S (cr_main_currency cfg) w = (Inr currency, v)\<close>] val(1) a by simp
        then show ?thesis using True run a store_job_cases [of S req cost u] g by (auto split: if_splits)
      next
        case False
        then show ?thesis using run a g by auto
      qed
    qed
  qed
qed

lemma plan_fits_outcome:
  "\<exists>r. fst (validate_plan_fits S zone pod w) = Inr r \<and> (\<forall>resp. r = Some resp \<longrightarrow> resp_code resp \<in> {403, 500})"
  by (auto simp: validate_plan_fits_def bnd_def attempt_def Let_def split: sum.splits option.splits bool.splits prod.splits)

lemma plan_fits_returns:
  obtains r v where "validate_plan_fits S zone pod w = (Inr r, v)" and "db v = db w"
    and "\<And>resp. r = Some resp \<Longrightarrow> resp_code resp \<in> {403, 500}"
proof -
  obtain r v where f: "validate_plan_fits S zone pod w = (r, v)" by fastforce
  have "db v = db w" by (rule same_dbD [OF same_db.keeps_validate_plan_fits f])
  with plan_fits_outcome [of S zone pod w] f that show ?thesis by auto
qed

text \<open>
  C26. Creating a Job is all or nothing, and nothing gets in unchecked. It answers 201 exactly when it appends one new row to the jobs, in state
  \<open>Created\<close>, with the request's spec and a fresh id, under a name that was free in its namespace. The spec then has an integral deadline, known
  storage classes, readable limits, a valid environment and valid run options; a server plan is big enough for its requests, or no plans are known yet; and the
  cost in the row is the estimate for the deadline, which the settled budget covers after the claims of all unfinished jobs. Any other outcome, a
  panic included, leaves every table as it was. Settling the budget's accrual apart, nothing else changes in either case.
\<close>

theorem create_job_all_or_nothing:
  "case fst (create_job S cfg req w) of
     Inl _ \<Rightarrow> db (snd (create_job S cfg req w)) = db w
   | Inr resp \<Rightarrow>
      (if resp_code resp = 201
       then checks_passed S (cj_job_spec req) \<and> some_plan_fits (db w) (cj_job_spec req)
            \<and> (\<exists>deadline d cost. active_deadline_seconds (cj_job_spec req) = Some deadline
                 \<and> cost_covered S (cr_zone cfg) (cr_main_currency cfg) (cj_job_spec req) deadline cost (db w) d
                 \<and> guard_only (db w) d \<and> job_added S req cost d (db (snd (create_job S cfg req w))))
       else guard_only (db w) (db (snd (create_job S cfg req w))))"
proof (cases "job_rejection S (om_name (cj_metadata req)) (cj_job_spec req)")
  case (Some r)
  then show ?thesis using guard.Q_refl job_rejection_not_created [OF Some] by (auto simp: create_job_def)
next
  case None
  let ?fits = "validate_plan_fits S (cr_zone cfg) (cj_job_spec req)"
  obtain r v where f: "?fits w = (Inr r, v)" and v: "db v = db w" and rc: "\<And>resp. r = Some resp \<Longrightarrow> resp_code resp \<in> {403, 500}"
    by (rule plan_fits_returns [of S "cr_zone cfg" "cj_job_spec req" w]) blast
  show ?thesis
  proof (cases r)
    case (Some resp)
    then show ?thesis using None f v rc [of resp] guard.Q_refl by (auto simp add: create_job_def bnd_def)
  next
    case r: None
    show ?thesis
    proof (cases "active_deadline_seconds (cj_job_spec req)")
      case no: None
      then show ?thesis using None f v r by (simp add: create_job_def bnd_def)
    next
      case (Some deadline)
      have run: "create_job S cfg req w = budget_then_store S cfg req deadline v"
        using None f r Some by (simp add: create_job_def bnd_def)
      have "checks_passed S (cj_job_spec req)" "some_plan_fits (db w) (cj_job_spec req)"
        using None job_admitted plan_check_passed [OF f [unfolded r]] by blast+
      with budget_then_store_cases [of S cfg req deadline v] v Some show ?thesis
        by (auto simp: run split: if_splits)
    qed
  qed
qed

end
