(* ===== verification/JobApiProps.thy ===== *)
theory JobApiProps
  imports ApiProps JobProps OrphanScan
begin

text \<open>Requests that fail, read or delete: panics of job creation, the effect of deletions, and requests that only query the tables.\<close>

section \<open>A deadline that is no integer\<close>

text \<open>
  C30. Creating a Job panics exactly when its \<open>activeDeadlineSeconds\<close> is there but is not an integer, and every other admission check passes: the check of the deadline
  only asks for the field to be there. A spec without the field is answered with 403.
\<close>

theorem create_job_panics_iff:
  "((\<exists>p. fst (create_job S cfg req w) = Inl p) \<longleftrightarrow>
      (\<exists>v. get (cj_job_spec req) ''activeDeadlineSeconds'' = Some v \<and> as_i64 v = None)
      \<and> checks_passed S (cj_job_spec req) \<and> some_plan_fits (db w) (cj_job_spec req)
      \<and> fst (validate_plan_fits S (cr_zone cfg) (cj_job_spec req) w) = Inr None)
   \<and> (get (cj_job_spec req) ''activeDeadlineSeconds'' = None \<longrightarrow>
        (\<exists>resp. create_job S cfg req w = (Inr resp, w) \<and> resp_code resp = 403))"
proof -
  let ?spec = "cj_job_spec req" and ?name = "om_name (cj_metadata req)"
  have deadline: "active_deadline_seconds ?spec = None \<longleftrightarrow>
      get ?spec ''activeDeadlineSeconds'' = None \<or> (\<exists>v. get ?spec ''activeDeadlineSeconds'' = Some v \<and> as_i64 v = None)"
    by (cases "get ?spec ''activeDeadlineSeconds''") (simp_all add: active_deadline_seconds_def)
  obtain r v where f: "validate_plan_fits S (cr_zone cfg) ?spec w = (Inr r, v)"
    by (rule plan_fits_returns [of S "cr_zone cfg" ?spec w]) blast
  have "(\<exists>p. fst (create_job S cfg req w) = Inl p) \<longleftrightarrow> job_rejection S ?name ?spec = None \<and> r = None \<and> active_deadline_seconds ?spec = None"
  proof (cases "job_rejection S ?name ?spec = None \<and> r = None \<and> active_deadline_seconds ?spec \<noteq> None")
    case True
    then obtain deadline where dl: "active_deadline_seconds ?spec = Some deadline" by blast
    have "create_job S cfg req w = budget_then_store S cfg req deadline v"
      using True f dl by (simp add: create_job_def bnd_def)
    with budget_then_store_cases [of S cfg req deadline v] dl show ?thesis by auto
  next
    case False
    then show ?thesis using f by (auto simp: create_job_def bnd_def split: option.split)
  qed
  moreover have "some_plan_fits (db w) ?spec" if "r = None" using plan_check_passed f that by blast
  moreover have "\<exists>resp. create_job S cfg req w = (Inr resp, w) \<and> resp_code resp = 403" if "get ?spec ''activeDeadlineSeconds'' = None"
    using job_without_deadline [OF that, of S ?name] by (auto simp: create_job_def)
  ultimately show ?thesis unfolding job_admitted deadline f by auto
qed

definition lax_spec :: json where
  "lax_spec = JObj [(''activeDeadlineSeconds'', JStr ''1h'')]"

definition demo_request :: "json \<Rightarrow> create_job_request" where
  "demo_request spec = \<lparr>cj_metadata = \<lparr>om_name = ''a'', om_namespace = None, om_uid = None, om_creation_timestamp = None\<rparr>, cj_job_spec = spec\<rparr>"

theorem create_job_panics_iff_witness:
  "(\<exists>p. fst (create_job demo_services demo_report_config (demo_request lax_spec) (demo_world ''Created'' 900)) = Inl p)
   \<and> (\<exists>resp. create_job demo_services demo_report_config (demo_request (JObj [])) (demo_world ''Created'' 900)
         = (Inr resp, demo_world ''Created'' 900) \<and> resp_code resp = 403)"
proof -
  let ?w = "demo_world ''Created'' 900"
  have "job_rejection demo_services ''a'' lax_spec = None"
    by (simp add: job_rejection_def Let_def first_rejection_def lax_spec_def require_active_deadline_seconds_def
        validate_ephemeral_volume_storage_classes_def validate_resource_limits_def validate_env_sources_def admit_run_options_def
        validate_run_options_def check_section_def scratch_mount_def parse_run_options_def id_field_def bool_field_def select_user_def
        scratch_volume_option_def rbind_def or_else_def unwrap_or_def ok_or_def filter_opt_def)
  moreover have "fst (validate_plan_fits demo_services ''de-fra1'' lax_spec ?w) = Inr None"
    by (simp add: validate_plan_fits_def plan_fits_def has_cached_plans_def extract_resource_requests_def lax_spec_def demo_defs
        sql_query_def lift_ext_eq bnd_def attempt_def Let_def get_str_def)
  moreover have "some_plan_fits (db ?w) lax_spec" by (simp add: some_plan_fits_def demo_world_def demo_db_def)
  moreover have "get lax_spec ''activeDeadlineSeconds'' = Some (JStr ''1h'')" "as_i64 (JStr ''1h'') = None" by (simp_all add: lax_spec_def)
  moreover have "cj_job_spec (demo_request spec) = spec" "cr_zone demo_report_config = ''de-fra1''" for spec
    by (simp_all add: demo_request_def demo_report_config_def)
  ultimately have "\<exists>p. fst (create_job demo_services demo_report_config (demo_request lax_spec) ?w) = Inl p"
    using create_job_panics_iff [of demo_services demo_report_config "demo_request lax_spec" ?w] by (simp only: job_admitted) blast
  moreover have "\<exists>resp. create_job demo_services demo_report_config (demo_request (JObj [])) ?w = (Inr resp, ?w) \<and> resp_code resp = 403"
    by (rule conjunct2 [OF create_job_panics_iff, THEN mp]) (simp add: demo_request_def)
  ultimately show ?thesis ..
qed

section \<open>Deleting a Job\<close>

definition failed_by_deletion :: "int \<Rightarrow> job_row \<Rightarrow> job_row" where
  "failed_by_deletion now r =
     r\<lparr>j_status := ''Failed'', j_last_error := Some deleted_message, j_last_transition_time := Some now, j_updated_at := now,
       j_version := j_version r + 1\<rparr>"

lemma force_failed_db:
  assumes "force_failed S jid deleted_message now w = (Inr u, w')"
  shows "\<exists>e. db w' = (db w)\<lparr>jobs := update_where (\<lambda>r. j_id r = jid) (failed_by_deletion now) (jobs (db w)), events := events (db w) @ [e]\<rparr>
             \<and> ev_job_id e = Some jid \<and> ev_reason e = ''Failed''"
  using assms unfolding force_failed_def
  by (auto simp: seq_def bnd_def sql_exec_def update_jobs_def record_event_def new_uuid_eq now_ts_eq lift_ext_eq insert_event_row_def
      failed_by_deletion_def [abs_def] split: option.splits sum.splits if_splits)

text \<open>
  A deletion that is answered with 204 fails a job that has not completed, with its event, so that the job loop cleans up after it, and removes the
  row of any other job. One answered with 404 found no such job and changes nothing; the only other answer is 500.
\<close>

lemma delete_job_effect:
  "\<exists>resp. fst (delete_job S ns name w) = Inr resp
     \<and> (case job_named ns name (db w) of
          None \<Rightarrow> resp_code resp \<in> {404, 500} \<and> db (snd (delete_job S ns name w)) = db w
        | Some j \<Rightarrow>
            resp_code resp = 500
            \<or> resp_code resp = 204
              \<and> (if is_pre_completion_state (j_status j)
                 then \<exists>now e. db (snd (delete_job S ns name w))
                        = (db w)\<lparr>jobs := update_where (\<lambda>r. j_id r = j_id j) (failed_by_deletion now) (jobs (db w)), events := events (db w) @ [e]\<rparr>
                      \<and> ev_job_id e = Some (j_id j) \<and> ev_reason e = ''Failed''
                 else db (snd (delete_job S ns name w)) = (db w)\<lparr>jobs := filter (\<lambda>r. j_id r \<noteq> j_id j) (jobs (db w))\<rparr>))"
proof -
  let ?force = "\<lambda>j now. or_500 (force_failed S (j_id j) deleted_message now) (\<lambda>_. ret no_content)"
  let ?remove = "\<lambda>j. or_500 (sql_exec S (delete_job_row (j_id j))) (\<lambda>_. ret no_content)"
  let ?k = "\<lambda>row. case row of
       None \<Rightarrow> ret (text_response 404 ''Job not found'')
     | Some j \<Rightarrow> if is_pre_completion_state (j_status j) then bnd (now_ts S) (?force j) else ?remove j"
  have d: "delete_job S ns name = or_500 (sql_query S (job_named ns name)) ?k" by (simp add: delete_job_def)
  show ?thesis
  proof (cases rule: or_500_query_cases [where S = S and q = "job_named ns name" and w = w and k = ?k])
    case (val v)
    show ?thesis
    proof (cases "job_named ns name (db w)")
      case (Some j)
      show ?thesis
      proof (cases "is_pre_completion_state (j_status j)")
        case True
        define now u where "now = timestamp (fst (utc_now S (ext v)))" and "u = v\<lparr>ext := snd (utc_now S (ext v))\<rparr>"
        have run: "delete_job S ns name w = ?force j now u"
          using Some True val(2) by (simp add: d stepping now_def u_def)
        have u: "db u = db w" using val(1) by (simp add: u_def)
        show ?thesis
        proof (cases rule: or_500_cases [where m = "force_failed S (j_id j) deleted_message now" and w = u and k = "\<lambda>_. ret no_content"])
          case (fault e x)
          then show ?thesis using run Some by simp
        next
          case (val a x)
          from force_failed_db [OF val(1)] have "\<exists>e. db x = (db w)\<lparr>jobs := update_where (\<lambda>r. j_id r = j_id j) (failed_by_deletion now) (jobs (db w)),
              events := events (db w) @ [e]\<rparr> \<and> ev_job_id e = Some (j_id j) \<and> ev_reason e = ''Failed''" unfolding u .
          then show ?thesis using run val(2) Some True by auto
        qed
      next
        case False
        then have run: "delete_job S ns name w = ?remove j v" using Some val(2) by (simp add: d)
        show ?thesis
        proof (cases rule: or_500_exec_cases [where S = S and f = "delete_job_row (j_id j)" and w = v and k = "\<lambda>_. ret no_content"])
          case (fault e x)
          then show ?thesis using run Some by simp
        next
          case (val x)
          then show ?thesis using run Some False \<open>db v = db w\<close> by (simp add: delete_job_row_def)
        qed
      qed
    qed (simp add: d val)
  qed (simp add: d split: option.split)
qed

text \<open>
  C31. Deleting a job between its completion and the end of its clean-up strands its volume: the row of the job goes, so no tick works on it any more, and
  the row of the volume stays, so the orphan scan takes the volume for one in use.
\<close>

theorem deletion_strands_volume:
  assumes "job_named ns name (db w) = Some j" and "\<not> is_pre_completion_state (j_status j)"
    and "delete_job S ns name w = (Inr resp, w')" and "resp_code resp = 204"
    and "v \<in> set (job_volumes (db w))" and "jv_job_id v = j_id j" and "jv_provider_volume_id v = Some vol"
  shows "find_job (j_id j) (db w') = None \<and> v \<in> set (job_volumes (db w')) \<and> \<not> orphan_volume C (db w') vol"
proof -
  from delete_job_effect [of S ns name w] assms(1-4)
  have w': "db w' = (db w)\<lparr>jobs := filter (\<lambda>r. j_id r \<noteq> j_id j) (jobs (db w))\<rparr>" by simp
  then have v: "v \<in> set (job_volumes (db w'))" using assms(5) by simp
  then have "vol \<in> set (tracked_volumes (db w'))"
    using assms(7) by (force simp: tracked_volumes_def List.map_filter_def)
  with v show ?thesis by (auto simp: w' find_job_def find_None_iff orphan_volume_def)
qed

theorem deletion_strands_volume_witness:
  "\<exists>w'. delete_job demo_services ''default'' ''job'' (demo_world ''Succeeded'' 900) = (Inr no_content, w')
        \<and> find_job ''job-1'' (db w') = None \<and> demo_job_volume \<in> set (job_volumes (db w')) \<and> \<not> orphan_volume demo_context (db w') ''vol-1''"
proof -
  let ?w = "demo_world ''Succeeded'' 900"
  have j: "job_named ''default'' ''job'' (db ?w) = Some (demo_job ''Succeeded'' 900)"
    by (simp add: job_named_def demo_world_def demo_db_def demo_job_def)
  have s: "\<not> is_pre_completion_state (j_status (demo_job ''Succeeded'' 900))" and i: "j_id (demo_job ''Succeeded'' 900) = ''job-1''"
    by (simp_all add: demo_job_def is_pre_completion_simps)
  have "delete_job demo_services ''default'' ''job'' ?w
      = or_500 (sql_exec demo_services (delete_job_row ''job-1'')) (\<lambda>_. ret no_content) ?w"
    using s by (simp add: delete_job_def or_500_def sql_query_def lift_ext_eq attempt_def bnd_def demo_services_def j i)
  moreover have "\<exists>w'. or_500 (sql_exec demo_services (delete_job_row ''job-1'')) (\<lambda>_. ret no_content) ?w = (Inr no_content, w')"
    by (simp add: or_500_def sql_exec_def lift_ext_eq attempt_def bnd_def demo_services_def delete_job_row_def)
  ultimately obtain w' where "delete_job demo_services ''default'' ''job'' ?w = (Inr no_content, w')" by auto
  with deletion_strands_volume [OF j s this, of demo_job_volume "''vol-1''" demo_context] i show ?thesis
    by (simp add: demo_world_def demo_db_def demo_job_volume_def)
qed

section \<open>Requests that only read\<close>

text \<open>The requests that only read, with what each needs.\<close>

datatype read_request =
    ListJobs string | GetJob string string | GetPod string string
  | ListCronJobs string | GetCronJob string string
  | ListSecrets string | GetSecret string string
  | ListEvents string "string option"
  | ListNodes | ListNodeMetrics | ListPodMetrics | ListPodMetricsIn string
  | PodLog arrival_times worker_ssh_config string string log_query_params

fun answer :: "'x services \<Rightarrow> read_request \<Rightarrow> 'x handler" where
  "answer S (ListJobs ns) = list_jobs S ns"
| "answer S (GetJob ns name) = get_job S ns name"
| "answer S (GetPod ns name) = get_pod S ns name"
| "answer S (ListCronJobs ns) = list_cronjobs S ns"
| "answer S (GetCronJob ns name) = get_cronjob S ns name"
| "answer S (ListSecrets ns) = list_secrets S ns"
| "answer S (GetSecret ns name) = get_secret S ns name"
| "answer S (ListEvents ns sel) = list_events S ns sel"
| "answer S ListNodes = list_nodes S"
| "answer S ListNodeMetrics = list_node_metrics S"
| "answer S ListPodMetrics = list_pod_metrics S"
| "answer S (ListPodMetricsIn ns) = list_pod_metrics_for_namespace S ns"
| "answer S (PodLog arrivals cfg ns name p) = get_pod_log S arrivals cfg ns name p"

lemma keeps_log_of_job: "keeps same_db.on_world (log_of_job S arrivals cfg opts j)"
proof -
  have once: "keeps same_db.on_world (exec_once S ip port key cmd)" for ip port key cmd
    by (rule same_db.keeps_same_db) (simp add: exec_once_def)
  have stream: "keeps same_db.on_world (exec_stream S ip port key cmd)" for ip port key cmd
  proof -
    have "keeps same_db.on_world (lift_ext (ssh_session S ip port key cmd None))"
      by (rule same_db.keeps_same_db) simp
    then show ?thesis unfolding exec_stream_def by auto
  qed
  have cid: "keeps same_db.on_world (live_container_id S ip cfg)" for ip
    unfolding live_container_id_def by (auto intro!: once)
  have "keeps same_db.on_world (live_log S arrivals cfg opts ip)" for ip
    unfolding live_log_def Let_def by (auto intro!: cid once stream split: option.split)
  then show ?thesis unfolding log_of_job_def by (auto split: option.split)
qed

lemma reads_answer: "keeps same_db.on_world (answer S req)"
  by (cases req)
     (auto simp: list_jobs_def get_job_def get_pod_def list_cronjobs_def get_cronjob_def list_secrets_def get_secret_def list_events_def
        list_nodes_def list_node_metrics_def list_pod_metrics_def list_pod_metrics_for_namespace_def get_pod_log_def
        intro!: keeps_log_of_job split: option.split sum.split)

text \<open>A handler that never panics.\<close>

definition responds :: "('w, 'e, 'a) io \<Rightarrow> bool" where
  "responds m \<longleftrightarrow> (\<forall>w. \<exists>r. fst (m w) = Inr r)"

lemma responds_ret [intro!]: "responds (ret a)"
  by (simp add: responds_def)

lemma responds_Pair [intro!]: "responds (Pair (Inr a))"
  by (simp add: responds_def)

lemma responds_Inl: "responds m \<Longrightarrow> fst (m w) \<noteq> Inl e"
  unfolding responds_def by (metis Inl_Inr_False)

lemma bnd_panics: "fst (bnd m k w) = Inl e \<Longrightarrow> (\<And>a. responds (k a)) \<Longrightarrow> fst (m w) = Inl e"
  by (cases rule: bnd_cases [of m w k]) (auto simp: responds_Inl)

lemma responds_attempt [intro!]: "responds (attempt m)"
  by (simp add: responds_def attempt_def split: prod.split)

lemma responds_bnd [intro!]: "responds m \<Longrightarrow> (\<And>a. responds (k a)) \<Longrightarrow> responds (bnd m k)"
  unfolding responds_def bnd_def by (auto split: prod.split sum.split) (metis Inl_Inr_False fst_conv)

lemma responds_or_500 [intro!]: "(\<And>a. responds (k a)) \<Longrightarrow> responds (or_500 m k)"
  unfolding or_500_def by (auto split: sum.split)

lemma responds_log_of_job [intro!]: "responds (log_of_job S arrivals cfg opts j)"
  by (auto simp: log_of_job_def live_log_def live_container_id_def Let_def split: option.split)

lemma log_panics:
  assumes "fst (get_pod_log S arrivals cfg ns name p w) = Inl e"
  shows "e = TimeOutOfRange \<and> (\<exists>n. lq_since_seconds p = Some n \<and> 1 \<le> n)"
proof -
  from assms have "fst (validate_log_options S p name w) = Inl e"
    unfolding get_pod_log_def by (rule bnd_panics) (auto split: sum.split option.split)
  then show ?thesis
    by (auto simp: validate_log_options_def log_since_def seconds_ago_def bnd_def split: prod.splits sum.splits option.splits if_splits)
       (auto simp: now_nanos_def lift_ext_eq)
qed

text \<open>Only a request for the log of a pod can fail other than by a response.\<close>

lemma answer_panics:
  assumes "fst (answer S req w) = Inl p"
  shows "p = TimeOutOfRange \<and> (\<exists>arrivals cfg ns name params n. req = PodLog arrivals cfg ns name params \<and> lq_since_seconds params = Some n \<and> 1 \<le> n)"
proof -
  have "responds (answer S req) \<or> (\<exists>arrivals cfg ns name params. req = PodLog arrivals cfg ns name params)"
    by (cases req)
       (auto simp: list_jobs_def get_job_def get_pod_def list_cronjobs_def get_cronjob_def list_secrets_def get_secret_def list_events_def
          list_nodes_def list_node_metrics_def list_pod_metrics_def list_pod_metrics_for_namespace_def split: option.split)
  with assms show ?thesis by (auto simp: responds_Inl dest!: log_panics)
qed

end
