(* ===== verification/PatchProps.thy ===== *)
theory PatchProps
  imports CronJobApi
begin

text \<open>JSON merge patches and CronJob defaults: what they do to each field, that they keep objects ordered, and that applying them twice is applying them once.\<close>

section \<open>Fields of a patched object\<close>

definition fields_of :: "json \<Rightarrow> entries" where
  "fields_of v = (case v of JObj kvs \<Rightarrow> kvs | _ \<Rightarrow> [])"

definition patched_field :: "entries \<Rightarrow> entries \<Rightarrow> string \<Rightarrow> json option" where
  "patched_field kvs patch k =
     (case map_of patch k of
        None \<Rightarrow> map_of kvs k
      | Some v \<Rightarrow> if v = JNull then None else Some (merge_patch (unwrap_or JNull (map_of kvs k)) v))"

lemma merge_patch_JObj: "merge_patch t (JObj p) = JObj (merge_fields (fields_of t) p)"
  by (simp add: fields_of_def)

lemma map_of_merge_fields:
  "distinct (map fst patch) \<Longrightarrow> map_of (merge_fields kvs patch) k = patched_field kvs patch k"
proof (induction patch arbitrary: kvs k)
  case Nil
  then show ?case by (simp add: patched_field_def)
next
  case (Cons e patch)
  obtain key v where e: "e = (key, v)" by fastforce
  from Cons(2) e have key: "map_of patch key = None" by (simp add: map_of_eq_None_iff)
  from Cons(2) e have d: "distinct (map fst patch)" by simp
  show ?case
  proof (cases "k = key")
    case True
    then show ?thesis by (simp add: e Cons(1) [OF d] patched_field_def is_null_def key)
  next
    case False
    then show ?thesis by (simp add: e Cons(1) [OF d] patched_field_def is_null_def split: option.split)
  qed
qed

lemma ordered_merge:
  shows "ordered t \<Longrightarrow> ordered p \<Longrightarrow> ordered (merge_patch t p)"
    and "ordered (JObj kvs) \<Longrightarrow> list_all (\<lambda>e. ordered (snd e)) patch \<Longrightarrow> ordered (JObj (merge_fields kvs patch))"
proof (induction t p and kvs patch rule: merge_patch_merge_fields.induct)
  case (1 target patch_fields)
  have "ordered (JObj (case target of JObj kvs \<Rightarrow> kvs | _ \<Rightarrow> []))" using 1(2) by (cases target) auto
  with 1(1) 1(3) show ?case by simp
next
  case (4 kvs key v rest)
  show ?case
  proof (cases "is_null v")
    case True
    with 4 show ?thesis by (simp add: ordered_obj_remove del: ordered.simps)
  next
    case False
    have "ordered (unwrap_or JNull (map_of kvs key))"
      using 4(3) by (auto simp: unwrap_or_def list_all_iff dest!: map_of_SomeD split: option.split)
    with 4 False show ?thesis by (simp add: ordered_obj_insert del: ordered.simps)
  qed
qed auto

lemma ordered_keys: "ordered (JObj kvs) \<Longrightarrow> distinct (map fst kvs)"
  by (simp add: strict_sorted_iff)

lemma ordered_fields: "ordered t \<Longrightarrow> ordered (JObj (fields_of t))"
  by (cases t) (auto simp: fields_of_def)

lemma size_of_entry: "(k, v) \<in> set patch \<Longrightarrow> size v < size (JObj patch)"
  by (induction patch) auto

lemma merge_twice:
  shows "ordered t \<Longrightarrow> ordered p \<Longrightarrow> merge_patch (merge_patch t p) p = merge_patch t p"
proof (induction "size p" arbitrary: t p rule: less_induct)
  case less
  show ?case
  proof (cases p)
    case (JObj patch)
    let ?m = "merge_fields (fields_of t) patch"
    from less(3) JObj have d: "distinct (map fst patch)" by (simp add: strict_sorted_iff)
    have sub: "size v < size p \<and> ordered v" if "map_of patch k = Some v" for k v
    proof -
      from that have m: "(k, v) \<in> set patch" by (rule map_of_SomeD)
      with size_of_entry [OF m] less(3) JObj show ?thesis by (auto simp: list_all_iff)
    qed
    have "patched_field ?m patch k = patched_field (fields_of t) patch k" for k
    proof (cases "map_of patch k")
      case None
      then show ?thesis by (simp add: patched_field_def map_of_merge_fields [OF d])
    next
      case (Some v)
      show ?thesis
      proof (cases "v = JNull")
        case False
        have "ordered (unwrap_or JNull (map_of (fields_of t) k))"
          using ordered_fields [OF less(2)] by (auto simp: unwrap_or_def list_all_iff dest!: map_of_SomeD split: option.split)
        with less(1) sub [OF Some]
        have "merge_patch (merge_patch (unwrap_or JNull (map_of (fields_of t) k)) v) v = merge_patch (unwrap_or JNull (map_of (fields_of t) k)) v"
          by blast
        with Some False show ?thesis by (simp add: patched_field_def map_of_merge_fields [OF d] unwrap_or_def)
      qed (simp add: patched_field_def Some)
    qed
    then have "map_of (merge_fields ?m patch) = map_of ?m" by (simp add: fun_eq_iff map_of_merge_fields [OF d])
    moreover have o: "ordered (JObj ?m)"
      using ordered_merge(2) [OF ordered_fields [OF less(2)]] less(3) JObj by simp
    then have "ordered (JObj (merge_fields ?m patch))" using ordered_merge(2) less(3) JObj by simp
    ultimately have "merge_fields ?m patch = ?m" using o by (intro sorted_entries_eq) auto
    then show ?thesis by (simp add: JObj merge_patch_JObj fields_of_def)
  qed auto
qed

section \<open>Defaults\<close>

text \<open>A default is what a field has when it is missing or null.\<close>

definition defaulted :: "entries \<Rightarrow> entries \<Rightarrow> string \<Rightarrow> json option" where
  "defaulted ds kvs k =
     (case map_of kvs k of
        Some v \<Rightarrow> if v = JNull then or_else (map_of ds k) (Some JNull) else Some v
      | None \<Rightarrow> map_of ds k)"

lemma set_default_eq:
  "set_default kvs (key, d) = (if map_of kvs key = None \<or> map_of kvs key = Some JNull then obj_insert key d kvs else kvs)"
  by (auto simp: set_default_def is_null_def split: option.split)

lemma map_of_set_defaults:
  "distinct (map fst ds) \<Longrightarrow> map_of (foldl set_default kvs ds) k = defaulted ds kvs k"
proof (induction ds arbitrary: kvs k)
  case Nil
  then show ?case by (auto simp: defaulted_def or_else_def split: option.split)
next
  case (Cons e ds)
  obtain key d where e: "e = (key, d)" by fastforce
  from Cons(2) e have key: "map_of ds key = None" and d: "distinct (map fst ds)" by (auto simp: map_of_eq_None_iff)
  show ?case
    by (cases "k = key") (auto simp: e Cons(1) [OF d] defaulted_def set_default_eq or_else_def key split: option.split)
qed

lemma ordered_set_default: "ordered (JObj kvs) \<Longrightarrow> ordered d \<Longrightarrow> ordered (JObj (set_default kvs (key, d)))"
  by (simp add: set_default_def ordered_obj_insert del: ordered.simps split: option.split)

lemma ordered_apply_defaults: "ordered spec \<Longrightarrow> ordered (apply_cronjob_defaults spec)"
  by (cases spec) (simp_all add: apply_cronjob_defaults_def cronjob_defaults_def ordered_set_default del: ordered.simps(2))

lemma get_apply_defaults:
  "get (apply_cronjob_defaults (JObj kvs)) k = defaulted cronjob_defaults kvs k"
proof -
  have d: "distinct (map fst cronjob_defaults)" by (simp add: cronjob_defaults_def)
  show ?thesis by (simp add: apply_cronjob_defaults_def map_of_set_defaults [OF d])
qed

lemma apply_defaults_twice:
  assumes "ordered spec"
  shows "apply_cronjob_defaults (apply_cronjob_defaults spec) = apply_cronjob_defaults spec"
proof (cases spec)
  case (JObj kvs)
  have d: "distinct (map fst cronjob_defaults)" by (simp add: cronjob_defaults_def)
  let ?once = "foldl set_default kvs cronjob_defaults"
  have nn: "map_of cronjob_defaults k \<noteq> Some JNull" for k by (simp add: cronjob_defaults_def)
  have "defaulted cronjob_defaults ?once k = defaulted cronjob_defaults kvs k" for k
    using nn [of k] by (auto simp: defaulted_def map_of_set_defaults [OF d] or_else_def split: option.split)
  then have "map_of (foldl set_default ?once cronjob_defaults) = map_of ?once"
    by (simp add: fun_eq_iff map_of_set_defaults [OF d])
  moreover have "ordered (JObj ?once)" and "ordered (JObj (foldl set_default ?once cronjob_defaults))"
    using ordered_apply_defaults [OF assms] ordered_apply_defaults [of "JObj ?once"] by (simp_all add: JObj apply_cronjob_defaults_def)
  ultimately have "foldl set_default ?once cronjob_defaults = ?once" by (intro sorted_entries_eq) auto
  then show ?thesis by (simp add: JObj apply_cronjob_defaults_def)
qed (simp_all add: apply_cronjob_defaults_def)

section \<open>Properties\<close>

text \<open>
  C28. A JSON merge patch does what RFC 7386 says: a patch that is no object replaces the value; an object patch gives an object in which a field
  that the patch does not name is unchanged, a field patched with null is gone, and any other field of the patch is merged into what was there.
  Applying the patch again changes nothing.
\<close>

theorem merge_patch_meets_rfc:
  assumes "ordered t" and "ordered p"
  shows "(case p of
            JObj patch \<Rightarrow>
              (\<exists>kvs. merge_patch t p = JObj kvs
                 \<and> (\<forall>k. map_of kvs k =
                      (case map_of patch k of
                         None \<Rightarrow> get t k
                       | Some v \<Rightarrow> if v = JNull then None else Some (merge_patch (index_str t k) v))))
          | _ \<Rightarrow> merge_patch t p = p)
         \<and> merge_patch (merge_patch t p) p = merge_patch t p"
proof -
  have g: "map_of (fields_of t) k = get t k" for k by (cases t) (auto simp: fields_of_def)
  show ?thesis
    using ordered_keys merge_twice [OF assms] assms(2)
    by (cases p) (auto simp: merge_patch_JObj map_of_merge_fields patched_field_def g index_str_def simp del: merge_patch.simps(1) split: option.split)
qed

theorem merge_patch_meets_rfc_witness:
  "(let t = JObj [(''schedule'', JStr ''a''), (''suspend'', JBool True)]; p = JObj [(''schedule'', JStr ''b''), (''suspend'', JNull)]
    in merge_patch t p = JObj [(''schedule'', JStr ''b'')] \<and> merge_patch (merge_patch t p) p = merge_patch t p)"
  using merge_patch_meets_rfc [of "JObj [(''schedule'', JStr ''a''), (''suspend'', JBool True)]"
      "JObj [(''schedule'', JStr ''b''), (''suspend'', JNull)]"]
  by (simp add: is_null_def unwrap_or_def obj_remove_def)

text \<open>
  C29. Objects stay well-formed: patching a stored CronJob and filling in defaults keep every object, at any depth, in key order without
  duplicates, and defaults are filled in once: given fields stay, missing and null ones get the default.
\<close>

theorem patched_specs_ordered:
  assumes "ordered spec" and "ordered patch"
  shows "ordered (patched_cronjob ns name spec patch)
         \<and> ordered (apply_cronjob_defaults (unwrap_or JNull (get (patched_cronjob ns name spec patch) ''spec'')))
         \<and> apply_cronjob_defaults (apply_cronjob_defaults spec) = apply_cronjob_defaults spec
         \<and> (\<forall>k v. get spec k = Some v \<and> v \<noteq> JNull \<longrightarrow> get (apply_cronjob_defaults spec) k = Some v)"
proof (intro conjI)
  show o: "ordered (patched_cronjob ns name spec patch)"
    unfolding patched_cronjob_def by (rule ordered_merge(1)) (use assms in auto)
  then have "ordered (unwrap_or JNull (get (patched_cronjob ns name spec patch) ''spec''))"
    by (cases "patched_cronjob ns name spec patch")
       (auto simp: unwrap_or_def list_all_iff dest!: map_of_SomeD split: option.split)
  then show "ordered (apply_cronjob_defaults (unwrap_or JNull (get (patched_cronjob ns name spec patch) ''spec'')))"
    by (rule ordered_apply_defaults)
  show "apply_cronjob_defaults (apply_cronjob_defaults spec) = apply_cronjob_defaults spec"
    by (rule apply_defaults_twice [OF assms(1)])
  show "\<forall>k v. get spec k = Some v \<and> v \<noteq> JNull \<longrightarrow> get (apply_cronjob_defaults spec) k = Some v"
    by (cases spec) (auto simp: get_apply_defaults defaulted_def)
qed

theorem patched_specs_ordered_witness:
  "ordered (patched_cronjob ''default'' ''c'' (JObj [(''schedule'', JStr ''a'')]) (JObj [(''spec'', JObj [(''suspend'', JBool True)])]))"
  using patched_specs_ordered [of "JObj [(''schedule'', JStr ''a'')]" "JObj [(''spec'', JObj [(''suspend'', JBool True)])]"]
  by simp

end
