(* ===== verification/CronJobProps.thy ===== *)
theory CronJobProps
  imports ApiProps PatchProps
begin

text \<open>Requests that create and change CronJobs: what is stored was admitted, and what was refused changes nothing.\<close>

section \<open>Admission\<close>

lemma cronjob_rejection_code: "cronjob_rejection L name spec = Some r \<Longrightarrow> resp_code r \<in> {403, 422}"
  unfolding cronjob_rejection_def Let_def by (erule first_rejection_pred) (simp add: check_codes)

text \<open>
  What a CronJob's spec must have to be stored: a schedule that the scheduler reads, scheduling fields of the right kind, and a pod template with a deadline that passes the
  checks every template must pass and that some server plan fits.
\<close>

definition scheduling_fields_valid :: "json \<Rightarrow> bool" where
  "scheduling_fields_valid spec \<longleftrightarrow>
     (\<forall>v. get spec ''suspend'' = Some v \<longrightarrow> v = JNull \<or> as_bool v \<noteq> None)
     \<and> (\<forall>v. get spec ''startingDeadlineSeconds'' = Some v \<longrightarrow> v = JNull \<or> as_u64 v \<noteq> None)
     \<and> (\<forall>v. get spec ''concurrencyPolicy'' = Some v \<longrightarrow> v \<in> {JNull, JStr ''Allow'', JStr ''Forbid''})"

definition cronjob_admissible :: "'a libs_scheme \<Rightarrow> database \<Rightarrow> json \<Rightarrow> bool" where
  "cronjob_admissible L d spec \<longleftrightarrow>
     (\<exists>schedule. get spec ''schedule'' = Some (JStr schedule) \<and> trim schedule \<noteq> [] \<and> parse_schedule L schedule \<noteq> None)
     \<and> scheduling_fields_valid spec
     \<and> get (pod_template_of spec) ''activeDeadlineSeconds'' \<noteq> None \<and> checks_passed L (pod_template_of spec)
     \<and> some_plan_fits d (pod_template_of spec)"

lemma schedule_checked:
  "validate_cronjob_schedule L desc spec = None \<longleftrightarrow>
     (\<exists>schedule. get spec ''schedule'' = Some (JStr schedule) \<and> trim schedule \<noteq> [] \<and> parse_schedule L schedule \<noteq> None)"
  by (auto simp: validate_cronjob_schedule_def Let_def split: option.split json.split)

lemma schedule_fields_checked: "validate_cronjob_schedule_fields L desc spec = None \<longleftrightarrow> scheduling_fields_valid spec"
  by (auto simp: validate_cronjob_schedule_fields_def scheduling_fields_valid_def Let_def or_else_None split: option.split)

lemma cronjob_admitted:
  assumes "cronjob_rejection L name spec = None" and "some_plan_fits d (pod_template_of spec)"
  shows "cronjob_admissible L d spec"
proof -
  have "get (pod_template_of spec) ''activeDeadlineSeconds'' \<noteq> None \<and> checks_passed L (pod_template_of spec) \<and> scheduling_fields_valid spec
      \<and> (\<exists>schedule. get spec ''schedule'' = Some (JStr schedule) \<and> trim schedule \<noteq> [] \<and> parse_schedule L schedule \<noteq> None)"
    using assms(1)
    by (simp only: cronjob_rejection_def Let_def first_rejection_None list.pred_inject admission_checks schedule_checked schedule_fields_checked
        checks_passed_def simp_thms) blast
  with assms(2) show ?thesis by (simp add: cronjob_admissible_def)
qed

lemma admissible_schedule: "cronjob_admissible L d spec \<Longrightarrow> trim (schedule_of spec) \<noteq> [] \<and> parse_schedule L (schedule_of spec) \<noteq> None"
  by (auto simp: cronjob_admissible_def schedule_of_def get_str_def unwrap_or_def)

lemma admit_cronjob_returns:
  obtains r v where "admit_cronjob S zone name spec w = (Inr r, v)" and "db v = db w"
    and "\<And>resp. r = Some resp \<Longrightarrow> resp_code resp \<in> {403, 422, 500}" and "r = None \<Longrightarrow> cronjob_admissible S (db w) spec"
proof (cases "cronjob_rejection S name spec")
  case None
  obtain r v where f: "validate_plan_fits S zone (pod_template_of spec) w = (Inr r, v)" and "db v = db w"
    and "\<And>resp. r = Some resp \<Longrightarrow> resp_code resp \<in> {403, 500}"
    by (rule plan_fits_returns [of S zone "pod_template_of spec" w]) blast
  moreover have "cronjob_admissible S (db w) spec" if "r = None"
    using cronjob_admitted [OF None] plan_check_passed f that by blast
  moreover have "admit_cronjob S zone name spec w = (Inr r, v)" using None f by (simp add: admit_cronjob_def)
  ultimately show ?thesis by (intro that [of r v]) auto
next
  case (Some resp)
  with that [of "Some resp" w] cronjob_rejection_code [OF Some] show ?thesis by (auto simp: admit_cronjob_def)
qed

section \<open>Creating\<close>

definition cronjob_added :: "'x services \<Rightarrow> string \<Rightarrow> string \<Rightarrow> json \<Rightarrow> database \<Rightarrow> database \<Rightarrow> bool" where
  "cronjob_added S ns name spec d d' \<longleftrightarrow>
     (\<exists>cid now. d' = d\<lparr>cronjobs := cronjobs d @ [new_cronjob_row cid name ns (to_string S spec) (schedule_of spec) now]\<rparr>
        \<and> cid \<notin> cj_id ` set (cronjobs d) \<and> \<not> list_ex (is_cronjob ns name) (cronjobs d))"

lemma store_cronjob_cases:
  "\<exists>resp. fst (store_cronjob S ns name spec w) = Inr resp
      \<and> (if resp_code resp = 201 then cronjob_added S ns name spec (db w) (db (snd (store_cronjob S ns name spec w)))
         else db (snd (store_cronjob S ns name spec w)) = db w)"
proof -
  let ?there = "\<lambda>d. list_ex (is_cronjob ns name) (cronjobs d)"
  let ?row = "\<lambda>cid now. new_cronjob_row cid name ns (to_string S spec) (schedule_of spec) now"
  let ?ok = "\<lambda>cid now. seq (notify_loop S) (ret (json_response 201
       (cronjob_json \<lparr>kc_metadata = \<lparr>om_name = name, om_namespace = Some ns, om_uid = Some cid, om_creation_timestamp = Some (rfc3339 S now)\<rparr>,
                      kc_spec = spec, kc_status = None\<rparr>)))"
  let ?insert = "\<lambda>cid now. or_500 (sql_exec S (insert_cronjob_row (?row cid now))) (\<lambda>_. ?ok cid now)"
  let ?k = "\<lambda>there. if there then ret (already_exists ''CronJob'' name) else bnd (new_uuid S) (\<lambda>cid. bnd (now_ts S) (?insert cid))"
  have s: "store_cronjob S ns name spec = or_500 (sql_query S ?there) ?k" by (simp add: store_cronjob_def cronjob_exists_def)
  show ?thesis
  proof (cases rule: or_500_query_cases [where S = S and q = ?there and w = w and k = ?k])
    case (val v)
    show ?thesis
    proof (cases "?there (db w)")
      case False
      define cid now u where "cid = fst (uuid_v4 S (ext v))"
        and "now = timestamp (fst (utc_now S (snd (uuid_v4 S (ext v)))))"
        and "u = v\<lparr>ext := snd (utc_now S (snd (uuid_v4 S (ext v))))\<rparr>"
      have run: "store_cronjob S ns name spec w = ?insert cid now u"
        using False val(2) by (simp add: s stepping cid_def now_def u_def)
      show ?thesis
      proof (cases rule: or_500_exec_cases [where S = S and f = "insert_cronjob_row (?row cid now)" and w = u and k = "\<lambda>_. ?ok cid now"])
        case (fault e x)
        then show ?thesis using run val(1) by (simp add: u_def)
      next
        case (val x)
        then have "cid \<notin> cj_id ` set (cronjobs (db w)) \<and> db x = (db w)\<lparr>cronjobs := cronjobs (db w) @ [?row cid now]\<rparr>"
          using \<open>db v = db w\<close> by (auto simp: insert_cronjob_row_def u_def new_cronjob_row_def split: if_splits)
        then have "cronjob_added S ns name spec (db w) (db x)" using False unfolding cronjob_added_def by blast
        then show ?thesis using run val(2) by (simp add: stepping)
      qed
    qed (simp add: s val)
  qed (simp add: s)
qed

text \<open>
  A CronJob that the API accepts is one the scheduler can run: creating one answers 201 exactly when it appends one row, under a fresh id and a name
  that was free, with the request's spec completed by the defaults, and then the stored schedule is one the scheduler's own parser reads. Any
  other outcome leaves the database as it was.
\<close>

theorem created_cronjobs_schedulable:
  "\<exists>resp. fst (create_cronjob S cfg req w) = Inr resp
     \<and> (if resp_code resp = 201
        then (\<exists>spec. spec = apply_cronjob_defaults (cc_spec req)
               \<and> cronjob_admissible S (db w) spec
               \<and> trim (schedule_of spec) \<noteq> [] \<and> parse_schedule S (schedule_of spec) \<noteq> None
               \<and> cronjob_added S (unwrap_or ''default'' (om_namespace (cc_metadata req))) (om_name (cc_metadata req)) spec (db w)
                   (db (snd (create_cronjob S cfg req w))))
        else db (snd (create_cronjob S cfg req w)) = db w)"
proof -
  let ?spec = "apply_cronjob_defaults (cc_spec req)" and ?name = "om_name (cc_metadata req)"
  let ?ns = "unwrap_or ''default'' (om_namespace (cc_metadata req))"
  obtain r v where a: "admit_cronjob S (cr_zone cfg) ?name ?spec w = (Inr r, v)" and v: "db v = db w"
    and code: "\<And>resp. r = Some resp \<Longrightarrow> resp_code resp \<in> {403, 422, 500}" and adm: "r = None \<Longrightarrow> cronjob_admissible S (db w) ?spec"
    by (rule admit_cronjob_returns [of S "cr_zone cfg" ?name ?spec w]) blast
  show ?thesis
  proof (cases r)
    case None
    have "create_cronjob S cfg req w = store_cronjob S ?ns ?name ?spec v"
      using a None by (simp add: create_cronjob_def Let_def bnd_def)
    with store_cronjob_cases [of S ?ns ?name ?spec v] admissible_schedule [OF adm [OF None]] adm [OF None] v show ?thesis
      by (auto split: if_splits)
  next
    case (Some resp)
    then show ?thesis using a v code [of resp] by (auto simp: create_cronjob_def Let_def bnd_def)
  qed
qed

section \<open>Updating\<close>

text \<open>The rows after an update to an admitted spec: those of that name get the spec, its schedule and a higher version.\<close>

definition cronjob_updated :: "'x services \<Rightarrow> string \<Rightarrow> string \<Rightarrow> json \<Rightarrow> database \<Rightarrow> database \<Rightarrow> bool" where
  "cronjob_updated S ns name spec d d' \<longleftrightarrow>
     list_ex (is_cronjob ns name) (cronjobs d) \<and> cronjob_admissible S d spec
     \<and> (\<exists>now. d' = d\<lparr>cronjobs := map (\<lambda>r. if is_cronjob ns name r
           then r\<lparr>cj_spec := to_string S spec, cj_schedule := schedule_of spec, cj_updated_at := now, cj_version := cj_version r + 1\<rparr>
           else r) (cronjobs d)\<rparr>)"

definition checked_update :: "'x services \<Rightarrow> string \<Rightarrow> string \<Rightarrow> json \<Rightarrow> 'x handler \<Rightarrow> 'x world \<Rightarrow> bool" where
  "checked_update S ns name spec m w \<longleftrightarrow>
     (\<exists>resp. fst (m w) = Inr resp
       \<and> (if resp_code resp = 200 then cronjob_updated S ns name spec (db w) (db (snd (m w)))
          else if resp_code resp = 500 then db (snd (m w)) = db w \<or> cronjob_updated S ns name spec (db w) (db (snd (m w)))
          else db (snd (m w)) = db w))"

lemma list_ex_updated:
  assumes "\<And>r. P (f r) = P r"
  shows "list_ex P (map (\<lambda>r. if P r then f r else r) rows) = list_ex P rows"
  by (induction rows) (auto simp: assms)

lemma same_name:
  "is_cronjob ns name (r\<lparr>cj_spec := a, cj_schedule := b, cj_updated_at := t, cj_version := n\<rparr>) = is_cronjob ns name r"
  by (simp add: is_cronjob_def)

lemma load_cronjob_spec:
  assumes "load_cronjob S ns name w = (Inr (Some c), w')"
  shows "\<exists>r stored. find (is_cronjob ns name) (cronjobs (db w)) = Some r \<and> from_str S (cj_spec r) = Inr stored
           \<and> kc_spec c = apply_cronjob_defaults stored"
  using assms
  by (auto simp: load_cronjob_def bnd_def sql_query_def lift_ext_eq of_result_def split: option.splits prod.splits sum.splits)

lemma load_cronjob_found:
  assumes "load_cronjob S ns name w = (Inr c, w')" and "list_ex (is_cronjob ns name) (cronjobs (db w))"
  shows "c \<noteq> None"
proof -
  from assms(2) obtain r where "find (is_cronjob ns name) (cronjobs (db w)) = Some r"
    by (cases "find (is_cronjob ns name) (cronjobs (db w))") (auto simp: find_None_iff list_ex_iff)
  with assms(1) show ?thesis
    by (auto simp: load_cronjob_def bnd_def sql_query_def lift_ext_eq of_result_def split: option.splits prod.splits sum.splits)
qed

definition stored_update :: "'x services \<Rightarrow> string \<Rightarrow> string \<Rightarrow> json \<Rightarrow> int \<Rightarrow> 'x handler" where
  "stored_update S ns name spec now =
     or_500 (sql_exec_counted S (update_cronjob_rows ns name (to_string S spec) (schedule_of spec) now)) (\<lambda>affected.
       if affected = 0 then ret (not_found ''CronJob'' name)
       else
         seq (notify_loop S)
           (or_500 (load_cronjob S ns name) (\<lambda>c.
              case c of
                Some cronjob \<Rightarrow> ret (json_response 200 (cronjob_json cronjob))
              | None \<Rightarrow> ret (not_found ''CronJob'' name))))"

lemma update_rows_none:
  assumes "\<not> list_ex (is_cronjob ns name) (cronjobs d)"
  shows "update_cronjob_rows ns name spec_json schedule now d = (Inr d, 0)"
proof -
  have "filter (is_cronjob ns name) (cronjobs d) = []" using assms by (simp add: filter_empty_conv list_ex_iff)
  moreover have "update_where (is_cronjob ns name) f (cronjobs d) = cronjobs d" for f
    using assms by (auto simp: update_where_def list_ex_iff intro!: map_idI)
  ultimately show ?thesis by (simp add: update_cronjob_rows_def)
qed

lemma stored_update_cases:
  assumes adm: "cronjob_admissible S (db w) spec"
  shows "checked_update S ns name spec (stored_update S ns name spec now) w"
proof -
  let ?found = "\<lambda>c. case c of Some cronjob \<Rightarrow> ret (json_response 200 (cronjob_json cronjob)) | None \<Rightarrow> ret (not_found ''CronJob'' name)"
  let ?load = "or_500 (load_cronjob S ns name) ?found"
  let ?rows = "update_cronjob_rows ns name (to_string S spec) (schedule_of spec) now"
  let ?k = "\<lambda>affected. if affected = 0 then ret (not_found ''CronJob'' name) else seq (notify_loop S) ?load"
  have run: "stored_update S ns name spec now = or_500 (sql_exec_counted S ?rows) ?k" by (simp add: stored_update_def)
  show ?thesis
  proof (cases rule: or_500_counted_cases [where S = S and f = ?rows and w = w and k = ?k])
    case (val x)
    show ?thesis
    proof (cases "list_ex (is_cronjob ns name) (cronjobs (db w))")
      case False
      then show ?thesis using run val by (simp add: checked_update_def update_rows_none)
    next
      case True
      then have n: "snd (?rows (db w)) \<noteq> 0" by (auto simp: update_cronjob_rows_def filter_empty_conv list_ex_iff)
      let ?x = "x\<lparr>ext := notify_one S (ext x)\<rparr>"
      have upd: "cronjob_updated S ns name spec (db w) (db x)"
        using val(1) True adm
        by (auto simp: cronjob_updated_def update_cronjob_rows_def update_where_def intro!: exI [of _ now])
      have there: "list_ex (is_cronjob ns name) (cronjobs (db ?x))"
        using upd True by (auto simp: cronjob_updated_def list_ex_updated same_name)
      have run': "stored_update S ns name spec now w = ?load ?x"
        using run val(2) n by (simp add: stepping)
      show ?thesis
      proof (cases rule: or_500_cases [where m = "load_cronjob S ns name" and w = ?x and k = ?found])
        case (fault e y)
        from same_dbD [OF same_db.keeps_load_cronjob fault(1)] fault(2) upd show ?thesis
          by (simp add: checked_update_def run')
      next
        case (val c y)
        with load_cronjob_found [OF val(1) there] same_dbD [OF same_db.keeps_load_cronjob val(1)] upd show ?thesis
          by (auto simp: checked_update_def run')
      qed
    qed
  qed (simp add: run checked_update_def)
qed

lemma checked_update_via:
  assumes "checked_update S ns name spec n v" and "m w = n v" and "db v = db w"
  shows "checked_update S ns name spec m w"
  unfolding checked_update_def assms(2) assms(3) [symmetric] by (rule assms(1) [unfolded checked_update_def])

lemma checked_refused: "resp_code resp \<notin> {200, 500} \<Longrightarrow> checked_update S ns name spec (ret resp) w"
  by (simp add: checked_update_def)

lemma update_cronjob_cases: "checked_update S ns name (apply_cronjob_defaults spec0) (update_cronjob S zone ns name spec0) w"
proof -
  let ?spec = "apply_cronjob_defaults spec0"
  obtain r v where a: "admit_cronjob S zone name ?spec w = (Inr r, v)" and v: "db v = db w"
    and code: "\<And>resp. r = Some resp \<Longrightarrow> resp_code resp \<in> {403, 422, 500}" and adm: "r = None \<Longrightarrow> cronjob_admissible S (db w) ?spec"
    by (rule admit_cronjob_returns [of S zone name ?spec w]) blast
  show ?thesis
  proof (cases r)
    case (Some resp)
    then show ?thesis using a v code [of resp] by (auto simp: checked_update_def update_cronjob_def Let_def bnd_def)
  next
    case None
    define now u where "now = timestamp (fst (utc_now S (ext v)))" and "u = v\<lparr>ext := snd (utc_now S (ext v))\<rparr>"
    have "update_cronjob S zone ns name spec0 w = stored_update S ns name ?spec now u"
      using a None
      by (simp add: update_cronjob_def stored_update_def Let_def bnd_Inr [of "admit_cronjob S zone name ?spec" w] stepping now_def u_def)
    moreover have "checked_update S ns name ?spec (stored_update S ns name ?spec now) u" by (rule stored_update_cases) (use adm [OF None] v in \<open>simp add: u_def\<close>)
    ultimately show ?thesis
      using v checked_update_via [of S ns name ?spec "stored_update S ns name ?spec now" u "update_cronjob S zone ns name spec0" w]
      by (simp add: u_def)
  qed
qed

text \<open>The spec that a merge patch of the stored one comes to.\<close>

definition spec_after_patch :: "'x services \<Rightarrow> string \<Rightarrow> string \<Rightarrow> string \<Rightarrow> database \<Rightarrow> json option" where
  "spec_after_patch S ns name body d =
     Option.bind (ok (from_str S body)) (\<lambda>patch.
     Option.bind (find (is_cronjob ns name) (cronjobs d)) (\<lambda>r.
     Option.bind (ok (from_str S (cj_spec r))) (\<lambda>stored.
       Some (apply_cronjob_defaults
         (unwrap_or JNull (get (patched_cronjob ns name (apply_cronjob_defaults stored) patch) ''spec''))))))"

lemma patch_cronjob_cases:
  "case spec_after_patch S ns name body (db w) of
     Some spec \<Rightarrow> checked_update S ns name spec (patch_cronjob S cfg ns name content_type body) w
   | None \<Rightarrow> (\<exists>resp. fst (patch_cronjob S cfg ns name content_type body w) = Inr resp \<and> resp_code resp \<noteq> 200
                \<and> db (snd (patch_cronjob S cfg ns name content_type body w)) = db w)"
proof -
  let ?m = "patch_cronjob S cfg ns name content_type body"
  have unchanged: ?thesis if "?m w = (Inr resp, v)" and "db v = db w" and "resp_code resp \<noteq> 200" for resp v
    using that by (auto simp: checked_update_def split: option.split)
  show ?thesis
  proof (cases "content_type_of content_type = ''application/merge-patch+json''")
    case False
    then show ?thesis by (intro unchanged) (auto simp: patch_cronjob_def Let_def)
  next
    case ct: True
    show ?thesis
    proof (cases "from_str S body")
      case (Inl e)
      with ct show ?thesis by (intro unchanged) (auto simp: patch_cronjob_def)
    next
      case (Inr patch)
      let ?new = "\<lambda>c. patched_cronjob ns name (kc_spec c) patch"
      let ?k = "patch_current S cfg ns name patch"
      have run: "?m = or_500 (load_cronjob S ns name) ?k"
        using ct Inr by (simp add: patch_cronjob_def Let_def)
      show ?thesis
      proof (cases rule: or_500_cases [where m = "load_cronjob S ns name" and w = w and k = ?k])
        case (fault e v)
        have "?m w = (Inr (internal_error e), v)" unfolding run by (rule fault(2))
        then show ?thesis using same_dbD [OF same_db.keeps_load_cronjob fault(1)] by (rule unchanged) simp
      next
        case (val c v)
        have v: "db v = db w" by (rule same_dbD [OF same_db.keeps_load_cronjob val(1)])
        show ?thesis
        proof (cases c)
          case None
          have "?m w = (Inr (not_found ''CronJob'' name), v)" unfolding run using val(2) None by (simp add: patch_current_def)
          then show ?thesis using v by (rule unchanged) simp
        next
          case (Some current)
          from load_cronjob_spec [OF val(1) [unfolded Some]] Inr
          have spec: "spec_after_patch S ns name body (db w) = Some (apply_cronjob_defaults (unwrap_or JNull (get (?new current) ''spec'')))"
            by (auto simp: spec_after_patch_def ok_def)
          have "checked_update S ns name (apply_cronjob_defaults (unwrap_or JNull (get (?new current) ''spec''))) (?k c) v"
            using update_cronjob_cases by (auto simp: Some patch_current_def Let_def checked_refused)
          from checked_update_via [OF this, of ?m w] val(2) v show ?thesis by (simp add: spec run)
        qed
      qed
    qed
  qed
qed

text \<open>
  C27. A CronJob is only ever changed to an admissible spec, one whose schedule the scheduler can read, whose scheduling fields are of the right kind, and whose pod template
  has a deadline, passes the checks every template must pass and fits a server plan; and it is only ever changed whole: replacing or patching one answers 200 exactly when spec, schedule, time and version of that CronJob's row, and nothing else, were updated; any other
  answer but 500 leaves the database as it was. A patch is the merge of its body into the stored spec.
\<close>

theorem cronjob_updates_checked:
  "checked_update S ns name (apply_cronjob_defaults (cc_spec req)) (replace_cronjob S cfg ns name req) w
   \<and> (case spec_after_patch S ns name body (db w) of
        Some spec \<Rightarrow> checked_update S ns name spec (patch_cronjob S cfg ns name content_type body) w
      | None \<Rightarrow> (\<exists>resp. fst (patch_cronjob S cfg ns name content_type body w) = Inr resp \<and> resp_code resp \<noteq> 200
                   \<and> db (snd (patch_cronjob S cfg ns name content_type body w)) = db w))"
proof
  show "checked_update S ns name (apply_cronjob_defaults (cc_spec req)) (replace_cronjob S cfg ns name req) w"
    using update_cronjob_cases [of S ns name "cc_spec req" "cr_zone cfg" w]
    by (auto simp: replace_cronjob_def checked_update_def)
qed (rule patch_cronjob_cases)

text \<open>A CronJob that is replaced by one with an hour's deadline.\<close>

definition hourly_spec :: json where
  "hourly_spec = JObj [(''jobTemplate'', JObj [(''spec'', JObj [(''activeDeadlineSeconds'', JPos 3600)])]), (''schedule'', JStr ''@daily'')]"

definition daily_services :: "nat services" where
  "daily_services = demo_services\<lparr>from_str := \<lambda>_. Inr hourly_spec, cron_from_str := \<lambda>_. Some (\<lambda>_. None)\<rparr>"

definition cronjob_world :: "nat world" where
  "cronjob_world = \<lparr>db = (demo_db ''Pending'' 900)\<lparr>cronjobs := [new_cronjob_row ''c'' ''cron'' ''default'' ''s'' ''@weekly'' 0]\<rparr>, ext = 0\<rparr>"

definition cronjob_request :: create_cronjob_request where
  "cronjob_request = \<lparr>cc_metadata = \<lparr>om_name = ''cron'', om_namespace = Some ''default'', om_uid = None, om_creation_timestamp = None\<rparr>, cc_spec = hourly_spec\<rparr>"

lemma hourly_spec_admitted: "cronjob_rejection daily_services name (apply_cronjob_defaults hourly_spec) = None"
proof -
  have t: "trim ''@daily'' = ''@daily''" "split_whitespace ''@daily'' = [''@daily'']" by code_simp+
  have spec: "apply_cronjob_defaults hourly_spec = JObj [(''concurrencyPolicy'', JStr ''Allow''), (''failedJobsHistoryLimit'', JPos 1),
      (''jobTemplate'', JObj [(''spec'', JObj [(''activeDeadlineSeconds'', JPos 3600)])]), (''schedule'', JStr ''@daily''),
      (''successfulJobsHistoryLimit'', JPos 3), (''suspend'', JBool False)]"
    by code_simp
  show ?thesis
    by (simp add: cronjob_rejection_def spec Let_def first_rejection_def pod_template_of_def unwrap_or_def require_active_deadline_seconds_def
        validate_cronjob_schedule_def t parse_schedule_def schedule_parts_def daily_services_def validate_cronjob_schedule_fields_def
        validate_ephemeral_volume_storage_classes_def validate_resource_limits_def validate_env_sources_def admit_run_options_def
        validate_run_options_def check_section_def scratch_mount_def parse_run_options_def id_field_def bool_field_def select_user_def
        scratch_volume_option_def rbind_def or_else_def ok_or_def filter_opt_def) blast
qed

theorem cronjob_updates_checked_witness:
  "cronjob_updated daily_services ''default'' ''cron'' (apply_cronjob_defaults hourly_spec) (db cronjob_world)
     (db (snd (replace_cronjob daily_services demo_report_config ''default'' ''cron'' cronjob_request cronjob_world)))"
proof -
  let ?m = "replace_cronjob daily_services demo_report_config ''default'' ''cron'' cronjob_request"
  let ?spec = "apply_cronjob_defaults hourly_spec"
  have quiet: "quiet daily_services" by (simp add: quiet_def daily_services_def demo_services_def)
  have "provider_plans (db cronjob_world) = []" by (simp add: cronjob_world_def demo_db_def)
  then have "validate_plan_fits daily_services zone pod cronjob_world = (Inr None, cronjob_world)" for zone pod
    by (simp add: validate_plan_fits_def plan_fits_def has_cached_plans_def quiet_query [OF quiet] bnd_def attempt_def split: prod.split)
  then have admit: "admit_cronjob daily_services zone ''cron'' ?spec cronjob_world = (Inr None, cronjob_world)" for zone
    by (simp add: admit_cronjob_def hourly_spec_admitted)
  have now: "now_ts daily_services w = (Inr 1000, w)" for w :: "nat world"
    by (simp add: now_ts_eq daily_services_def demo_services_def timestamp_def nanos_per_second_def)
  have fault: "db_fault daily_services n = (None, n)" and from_str: "from_str daily_services t = Inr hourly_spec" for n t
    by (simp_all add: daily_services_def demo_services_def)
  have "\<exists>resp. fst (?m cronjob_world) = Inr resp \<and> resp_code resp = 200"
    by (simp add: replace_cronjob_def cronjob_request_def update_cronjob_def Let_def bnd_def admit now or_500_def attempt_def sql_exec_counted_def
        sql_exec_def lift_ext_eq seq_def ret_def fault)
       (simp add: update_cronjob_rows_def cronjob_world_def new_cronjob_row_def is_cronjob_def update_where_def load_cronjob_def bnd_def or_500_def
        attempt_def seq_def notify_loop_def quiet_query [OF quiet] from_str of_result_def ret_def)
  with conjunct1 [OF cronjob_updates_checked [of daily_services "''default''" "''cron''" cronjob_request demo_report_config cronjob_world]] show ?thesis
    by (auto simp: checked_update_def cronjob_request_def)
qed

end
