(* ===== verification/SecretProps.thy ===== *)
theory SecretProps
  imports ApiLaws Demo
begin

text \<open>Secrets: from a request to the environment of a container and back to the client.\<close>

section \<open>Storing\<close>

definition secret_name_of :: "create_secret_request \<Rightarrow> string" where
  "secret_name_of req = om_name (cs_metadata req)"

definition secret_namespace_of :: "create_secret_request \<Rightarrow> string" where
  "secret_namespace_of req = unwrap_or ''default'' (om_namespace (cs_metadata req))"

lemma create_secret_cases:
  obtains (refused) resp v where "create_secret S req w = (Inr resp, v)" and "db v = db w" and "resp_code resp \<in> {400, 500}"
  | (stored) data sid now resp v where "merge_string_data S (cs_data req) (cs_string_data req) = Inr data"
      and "create_secret S req w = (Inr resp, v)" and "resp_code resp = 201" and "sid \<notin> sec_id ` set (secrets (db w))"
      and "db v = (db w)\<lparr>secrets := secrets (db w) @ [\<lparr>sec_id = sid, sec_name = secret_name_of req, sec_namespace = secret_namespace_of req,
             sec_data = to_string S data, sec_created_at = now, sec_updated_at = now, sec_version = 1\<rparr>]\<rparr>"
proof -
  define sid now u where "sid = fst (uuid_v4 S (ext w))"
    and "now = timestamp (fst (utc_now S (snd (uuid_v4 S (ext w)))))"
    and "u = w\<lparr>ext := snd (utc_now S (snd (uuid_v4 S (ext w))))\<rparr>"
  note stepped = create_secret_def Let_def stepping sid_def [symmetric] now_def [symmetric] u_def [symmetric]
  have u: "db u = db w" by (simp add: u_def)
  show ?thesis
  proof (cases "merge_string_data S (cs_data req) (cs_string_data req)")
    case (Inl e)
    then have "create_secret S req w = (Inr (text_response 400 e), u)" by (simp add: stepped)
    then show ?thesis using u by (rule refused) simp
  next
    case (Inr data)
    define row where "row = \<lparr>sec_id = sid, sec_name = secret_name_of req, sec_namespace = secret_namespace_of req,
             sec_data = to_string S data, sec_created_at = now, sec_updated_at = now, sec_version = 1\<rparr>"
    define ok where "ok = json_response 201 (secret_json \<lparr>om_name = secret_name_of req, om_namespace = Some (secret_namespace_of req),
             om_uid = Some sid, om_creation_timestamp = Some (rfc3339 S now)\<rparr> data)"
    have run: "create_secret S req w = or_500 (sql_exec S (insert_secret_row row)) (\<lambda>_. ret ok) u"
      using Inr by (simp add: stepped secret_name_of_def secret_namespace_of_def row_def ok_def)
    show ?thesis
    proof (cases rule: or_500_exec_cases [where S = S and f = "insert_secret_row row" and w = u and k = "\<lambda>_. ret ok"])
      case (fault e v)
      then show ?thesis using run u by (intro refused [of "internal_error e" v]) simp_all
    next
      case (val v)
      then show ?thesis using run u Inr
        by (intro stored [of data ok v sid now]) (auto simp: ok_def row_def insert_secret_row_def split: if_splits)
    qed
  qed
qed

section \<open>Merged data\<close>

lemma insert_plain_Inr:
  "insert_plain L merged (k, v) = Inr d \<longleftrightarrow> (\<exists>plain. v = JStr plain \<and> d = obj_insert k (JStr (b64_encode L plain)) merged)"
  by (cases v) (auto simp: insert_plain_def)

lemma insert_plains:
  assumes "try_fold (insert_plain L) merged kvs = Inr data" and "distinct (map fst kvs)"
  shows "map_of data key =
           (case map_of kvs key of Some v \<Rightarrow> map_option (\<lambda>s. JStr (b64_encode L s)) (as_str v) | None \<Rightarrow> map_of merged key)"
  using assms
proof (induction kvs arbitrary: merged)
  case (Cons kv kvs)
  obtain k v where kv: "kv = (k, v)" by fastforce
  from Cons(2) kv obtain plain where v: "v = JStr plain"
    and rest: "try_fold (insert_plain L) (obj_insert k (JStr (b64_encode L plain)) merged) kvs = Inr data"
    by (auto simp: insert_plain_Inr rbind_Inr)
  from Cons(3) kv have d: "distinct (map fst kvs)" and k: "map_of kvs k = None" by (auto simp: map_of_eq_None_iff)
  show ?case using Cons(1) [OF rest d] k by (auto simp: kv v split: option.split)
qed simp

lemma merged_plain:
  assumes "merge_string_data L data (Some (JObj kvs)) = Inr (JObj merged)" and "ordered (JObj kvs)" and "map_of kvs key = Some (JStr plain)"
  shows "map_of merged key = Some (JStr (b64_encode L plain))"
proof -
  from assms(1) obtain d where "try_fold (insert_plain L) d kvs = Inr merged" by (auto simp: merge_string_data_def rbind_Inr)
  moreover have "distinct (map fst kvs)" using assms(2) by (simp add: strict_sorted_iff)
  ultimately show ?thesis using assms(3) by (simp add: insert_plains)
qed

section \<open>Properties\<close>

lemma find_append_None: "find P xs = None \<Longrightarrow> find P (xs @ ys) = find P ys"
  by (induction xs) (auto split: if_splits)

lemma find_append_Some: "find P xs = Some x \<Longrightarrow> find P (xs @ ys) = Some x"
  by (induction xs) (auto split: if_splits)

lemma get_secret_found:
  assumes "find (is_secret ns name) (secrets (db w)) = Some r" and "from_str S (sec_data r) = Inr data" and "fst (db_fault S (ext w)) = None"
  shows "fst (get_secret S ns name w) = Inr (json_response 200
           (secret_json \<lparr>om_name = name, om_namespace = Some ns, om_uid = Some (sec_id r), om_creation_timestamp = None\<rparr> data))"
  using assms by (simp add: get_secret_def or_500_def attempt_def bnd_def sql_query_def lift_ext_eq of_result_def)

text \<open>
  C33. A Secret that was created comes back: under a name that was free, a client reads the data that were stored, and a container that refers to one of
  the keys given as \<open>stringData\<close> gets the plain value, provided it is UTF-8 without a NUL byte, as an environment needs it. Assumed are the round
  trips of the JSON and base64 libraries.
\<close>

theorem created_secret_read_back:
  assumes "create_secret S req w = (Inr resp, w')" and "resp_code resp = 201"
    and "find (is_secret (secret_namespace_of req) (secret_name_of req)) (secrets (db w)) = None"
    and "merge_string_data S (cs_data req) (cs_string_data req) = Inr (JObj data)"
    and "from_str S (to_string S (JObj data)) = Inr (JObj data)" and "b64_decode S (b64_encode S plain) = Some plain"
    and "fst (db_fault S (ext w')) = None"
    and "cs_string_data req = Some (JObj plains)" and "ordered (JObj plains)"
    and "map_of plains key = Some (JStr plain)" and "utf8_valid plain" and "CHR 0x00 \<notin> set plain"
  shows "\<exists>sid raw. fst (get_secret S (secret_namespace_of req) (secret_name_of req) w') = Inr (json_response 200
             (secret_json \<lparr>om_name = secret_name_of req, om_namespace = Some (secret_namespace_of req), om_uid = Some sid,
                om_creation_timestamp = None\<rparr> (JObj data)))
         \<and> select_secret_data (secret_namespace_of req) (secret_name_of req) (db w') = Some (to_string S (JObj data))
         \<and> map_of data key = Some raw \<and> decode_secret_value S (secret_name_of req) key raw = Inr plain"
proof (cases rule: create_secret_cases [of S req w])
  case (refused r v)
  then show ?thesis using assms(1,2) by auto
next
  case (stored v sid now r w'')
  define row where "row = \<lparr>sec_id = sid, sec_name = secret_name_of req, sec_namespace = secret_namespace_of req,
             sec_data = to_string S v, sec_created_at = now, sec_updated_at = now, sec_version = 1\<rparr>"
  from stored(1) assms(4) have v: "v = JObj data" by simp
  from stored(2,5) assms(1) have w': "db w' = (db w)\<lparr>secrets := secrets (db w) @ [row]\<rparr>" by (simp add: row_def)
  have found: "find (is_secret (secret_namespace_of req) (secret_name_of req)) (secrets (db w')) = Some row"
    using assms(3) by (simp add: w' find_append_None) (simp add: is_secret_def row_def)
  have raw: "map_of data key = Some (JStr (b64_encode S plain))"
    using merged_plain [of S "cs_data req" plains data key plain] assms(4,8-10) by simp
  have "fst (get_secret S (secret_namespace_of req) (secret_name_of req) w') = Inr (json_response 200
             (secret_json \<lparr>om_name = secret_name_of req, om_namespace = Some (secret_namespace_of req), om_uid = Some sid,
                om_creation_timestamp = None\<rparr> (JObj data)))"
    using get_secret_found [OF found _ assms(7)] assms(5) by (simp add: row_def v)
  moreover have "select_secret_data (secret_namespace_of req) (secret_name_of req) (db w') = Some (to_string S (JObj data))"
    using found by (simp add: select_secret_data_def is_secret_def [abs_def] conj_commute row_def v)
  moreover have "decode_secret_value S (secret_name_of req) key (JStr (b64_encode S plain)) = Inr plain"
    using assms(6,11,12) by (simp add: decode_secret_value_def from_utf8_def)
  ultimately show ?thesis using raw by blast
qed

definition demo_secret_request :: create_secret_request where
  "demo_secret_request = \<lparr>cs_metadata = \<lparr>om_name = ''s'', om_namespace = None, om_uid = None, om_creation_timestamp = None\<rparr>,
     cs_data = None, cs_string_data = Some (JObj [(''k'', JStr ''v'')])\<rparr>"

definition demo_secret_services :: "nat services" where
  "demo_secret_services = demo_services\<lparr>from_str := (\<lambda>_. Inr (JObj [(''k'', JStr ''v'')]))\<rparr>"

lemma demo_secret:
  "secret_name_of demo_secret_request = ''s''" "secret_namespace_of demo_secret_request = ''default''"
  "cs_string_data demo_secret_request = Some (JObj [(''k'', JStr ''v'')])"
  "merge_string_data demo_secret_services (cs_data demo_secret_request) (cs_string_data demo_secret_request) = Inr (JObj [(''k'', JStr ''v'')])"
  by (simp_all add: secret_name_of_def secret_namespace_of_def demo_secret_request_def unwrap_or_def merge_string_data_def data_entries_def
      rbind_def insert_plain_def demo_secret_services_def demo_services_def)

lemma demo_secret_created:
  assumes "show_nat (ext w) \<notin> sec_id ` set (secrets (db w))"
  shows "\<exists>resp w'. create_secret demo_secret_services demo_secret_request w = (Inr resp, w') \<and> resp_code resp = 201"
proof -
  have f: "uuid_v4 demo_secret_services = (\<lambda>n. (show_nat n, n + 1))" "db_fault demo_secret_services = (\<lambda>n. (None, n))"
    by (simp_all add: demo_secret_services_def demo_services_def)
  show ?thesis
    using assms by (simp add: create_secret_def Let_def stepping demo_secret(4))
      (simp add: or_500_def attempt_def bnd_def sql_exec_def lift_ext_eq insert_secret_row_def f)
qed

theorem created_secret_read_back_witness:
  "\<exists>resp w' raw. create_secret demo_secret_services demo_secret_request (demo_world ''Created'' 900) = (Inr resp, w') \<and> resp_code resp = 201
     \<and> decode_secret_value demo_secret_services ''s'' ''k'' raw = Inr ''v''"
proof -
  obtain resp w' where c: "create_secret demo_secret_services demo_secret_request (demo_world ''Created'' 900) = (Inr resp, w')"
    and r: "resp_code resp = 201"
    using demo_secret_created [of "demo_world ''Created'' 900"] by (auto simp: demo_world_def demo_db_def)
  have v: "utf8_valid ''v''" by code_simp
  from created_secret_read_back [OF c r _ demo_secret(4), of "''v''" "[(''k'', JStr ''v'')]" "''k''"] v r c show ?thesis
    by (auto simp: demo_secret demo_secret_services_def demo_services_def demo_world_def demo_db_def)
qed

text \<open>
  Nothing keeps two Secrets from having one name: creating a second one is answered with 201 as well, and from then on readers still get the first.
\<close>

theorem second_secret_shadowed:
  assumes "create_secret S req w = (Inr resp, w')" and "resp_code resp = 201"
    and "find (is_secret (secret_namespace_of req) (secret_name_of req)) (secrets (db w)) = Some r"
  shows "length (secrets (db w')) = length (secrets (db w)) + 1
         \<and> find (is_secret (secret_namespace_of req) (secret_name_of req)) (secrets (db w')) = Some r
         \<and> select_secret_data (secret_namespace_of req) (secret_name_of req) (db w') = Some (sec_data r)"
proof (cases rule: create_secret_cases [of S req w])
  case (refused x v)
  then show ?thesis using assms(1,2) by auto
next
  case (stored v sid now x w'')
  then have "\<exists>row. db w' = (db w)\<lparr>secrets := secrets (db w) @ [row]\<rparr>" using assms(1) by auto
  then show ?thesis
    using assms(3) find_append_Some [OF assms(3)] by (auto simp: select_secret_data_def is_secret_def [abs_def] conj_commute)
qed

definition demo_secret_row :: secret_row where
  "demo_secret_row = \<lparr>sec_id = ''first'', sec_name = ''s'', sec_namespace = ''default'', sec_data = ''old'', sec_created_at = 0,
     sec_updated_at = 0, sec_version = 1\<rparr>"

theorem second_secret_shadowed_witness:
  "\<exists>resp w'. create_secret demo_secret_services demo_secret_request \<lparr>db = (demo_db ''Created'' 900)\<lparr>secrets := [demo_secret_row]\<rparr>, ext = 0\<rparr>
        = (Inr resp, w')
     \<and> resp_code resp = 201 \<and> length (secrets (db w')) = 2 \<and> select_secret_data ''default'' ''s'' (db w') = Some ''old''"
proof -
  let ?w = "\<lparr>db = (demo_db ''Created'' 900)\<lparr>secrets := [demo_secret_row]\<rparr>, ext = 0\<rparr>"
  have "show_nat 0 = ''0''" by code_simp
  then obtain resp w' where c: "create_secret demo_secret_services demo_secret_request ?w = (Inr resp, w')" and r: "resp_code resp = 201"
    using demo_secret_created [of ?w] by (auto simp: demo_secret_row_def)
  from second_secret_shadowed [OF c r, of demo_secret_row] c r show ?thesis
    by (auto simp: demo_secret is_secret_def demo_secret_row_def)
qed

end
