(* ===== verification/Escaping.thy ===== *)
theory Escaping
  imports Prelude
begin

text \<open>
  Escaping of text: \<open>str::replace\<close> of one character by a string, and the interface \<open>char_code\<close> that each escaping of the program meets: a code for every
  character and a reader that takes the first code off a text. What is proved from the interface alone is that escaped text can be read back and that
  different texts never have the same escaped form.
\<close>

definition replace_char :: "char \<Rightarrow> string \<Rightarrow> string \<Rightarrow> string" where
  "replace_char a t s = concat (map (\<lambda>c. if c = a then t else [c]) s)"

lemma replace_char_simps [simp]:
  "replace_char a t [] = []"
  "replace_char a t (c # s) = (if c = a then t else [c]) @ replace_char a t s"
  by (simp_all add: replace_char_def)

lemma replace_char_append [simp]: "replace_char a t (s @ s') = replace_char a t s @ replace_char a t s'"
  by (simp add: replace_char_def)

lemma replace_char_concat: "replace_char a t (concat (map f s)) = concat (map (\<lambda>c. replace_char a t (f c)) s)"
  by (induction s) simp_all

text \<open>Reading a text code by code, to its end; \<open>None\<close> when some part of it is no code.\<close>

fun read_codes :: "(string \<Rightarrow> (char \<times> string) option) \<Rightarrow> nat \<Rightarrow> string \<Rightarrow> string option" where
  "read_codes step n [] = Some []"
| "read_codes step 0 (c # s) = None"
| "read_codes step (Suc n) (c # s) =
     (case step (c # s) of None \<Rightarrow> None | Some (a, rest) \<Rightarrow> map_option ((#) a) (read_codes step n rest))"

locale char_code =
  fixes code :: "char \<Rightarrow> string" and step :: "string \<Rightarrow> (char \<times> string) option"
  assumes step_code: "step (code c @ s) = Some (c, s)"
    and code_nonempty: "code c \<noteq> []"
begin

lemma code_inj: "inj code"
proof (rule injI)
  fix c d assume "code c = code d"
  with step_code [of c "[]"] step_code [of d "[]"] show "c = d" by simp
qed

lemma read_back: "length s \<le> n \<Longrightarrow> read_codes step n (concat (map code s)) = Some s"
proof (induction s arbitrary: n)
  case (Cons c s)
  then obtain m where n: "n = Suc m" "length s \<le> m" by (cases n) auto
  obtain a r where "code c = a # r" using code_nonempty [of c] by (cases "code c") auto
  with n Cons.IH [of m] step_code [of c "concat (map code s)"] show ?case by simp
qed simp

lemma code_length: "length s \<le> length (concat (map code s))"
proof (induction s)
  case (Cons c s)
  then show ?case using code_nonempty [of c] by (cases "code c") auto
qed simp

lemma encode_inj: "concat (map code s) = concat (map code t) \<Longrightarrow> s = t"
proof -
  assume eq: "concat (map code s) = concat (map code t)"
  have "Some s = read_codes step (max (length s) (length t)) (concat (map code s))"
    by (simp add: read_back)
  also have "\<dots> = Some t" unfolding eq by (simp add: read_back)
  finally show "s = t" by simp
qed

end

text \<open>Text that ends at a character with which no code begins, such as the closing quote of a label or the tag after a cell.\<close>

fun read_until :: "char \<Rightarrow> (string \<Rightarrow> (char \<times> string) option) \<Rightarrow> nat \<Rightarrow> string \<Rightarrow> (string \<times> string) option" where
  "read_until q step n [] = None"
| "read_until q step 0 (c # s) = (if c = q then Some ([], s) else None)"
| "read_until q step (Suc n) (c # s) =
     (if c = q then Some ([], s)
      else case step (c # s) of
             None \<Rightarrow> None
           | Some (a, rest) \<Rightarrow> map_option (\<lambda>(t, r). (a # t, r)) (read_until q step n rest))"

locale delimited_code = char_code +
  fixes q :: char
  assumes code_start: "hd (code c) \<noteq> q"
begin

lemma read_delimited: "length s \<le> n \<Longrightarrow> read_until q step n (concat (map code s) @ q # r) = Some (s, r)"
proof (induction s arbitrary: n)
  case Nil
  show ?case by (cases n) simp_all
next
  case (Cons c s)
  then obtain m where n: "n = Suc m" "length s \<le> m" by (cases n) auto
  obtain a t where "code c = a # t" using code_nonempty [of c] by (cases "code c") auto
  with n Cons.IH [of m] step_code [of c "concat (map code s) @ q # r"] code_start [of c] show ?case by simp
qed

end

end
