(* ===== verification/CostReport.thy ===== *)
theory CostReport
  imports JobApi Escaping
begin

text \<open>
  The cost report, \<open>src/src/api/cost_report.rs\<close>: a CSV with one line per charge of each job that finished, in the columns of FOCUS.

  Dates are chrono's. \<open>calendar\<close> has what the report asks of them: a date is the number of its day since the Unix epoch, an instant the number of
  nanoseconds.
\<close>

record calendar =
  parse_ymd :: "string \<Rightarrow> int option"
  max_date :: int
  from_timestamp :: "int \<Rightarrow> int option"
  year_month :: "int \<Rightarrow> int \<times> nat"
  month_start :: "int \<Rightarrow> nat \<Rightarrow> int option"
  instant_rfc3339 :: "int \<Rightarrow> string"

definition COLUMNS :: "string list" where
  "COLUMNS =
     [''AllocatedMethodDetails'', ''AllocatedMethodId'', ''AllocatedResourceId'', ''AllocatedResourceName'', ''AllocatedTags'',
      ''AvailabilityZone'', ''BilledCost'', ''BillingAccountId'', ''BillingAccountName'', ''BillingAccountType'', ''BillingCurrency'',
      ''BillingPeriodEnd'', ''BillingPeriodStart'', ''CapacityReservationId'', ''CapacityReservationStatus'', ''ChargeCategory'',
      ''ChargeClass'', ''ChargeDescription'', ''ChargeFrequency'', ''ChargePeriodEnd'', ''ChargePeriodStart'',
      ''CommitmentDiscountCategory'', ''CommitmentDiscountId'', ''CommitmentDiscountName'', ''CommitmentDiscountQuantity'',
      ''CommitmentDiscountStatus'', ''CommitmentDiscountType'', ''CommitmentDiscountUnit'', ''CommitmentProgramEligibilityDetails'',
      ''ConsumedQuantity'', ''ConsumedUnit'', ''ContractApplied'', ''ContractedCost'', ''ContractedUnitPrice'', ''EffectiveCost'',
      ''HostProviderName'', ''InvoiceDetailId'', ''InvoiceId'', ''InvoiceIssuerName'', ''ListCost'', ''ListUnitPrice'',
      ''PricingCategory'', ''PricingCurrency'', ''PricingCurrencyContractedUnitPrice'', ''PricingCurrencyEffectiveCost'',
      ''PricingCurrencyListUnitPrice'', ''PricingQuantity'', ''PricingUnit'', ''RegionId'', ''RegionName'', ''ResourceId'',
      ''ResourceName'', ''ResourceType'', ''ServiceCategory'', ''ServiceName'', ''ServiceProviderName'', ''ServiceSubcategory'',
      ''SkuId'', ''SkuMeter'', ''SkuPriceDetails'', ''SkuPriceId'', ''SubAccountId'', ''SubAccountName'', ''SubAccountType'', ''Tags'']"

record completed_job =
  co_name :: string
  co_namespace :: string
  co_spec :: json
  co_created_at :: int
  co_completed_at :: int
  co_worker_plan :: "string option"

section \<open>Dates and fields\<close>

definition parse_date_param :: "calendar \<Rightarrow> (string \<Rightarrow> string option) \<Rightarrow> string \<Rightarrow> response + int" where
  "parse_date_param K params key =
     (case params key of
        None \<Rightarrow> Inl (text_response 400 (''missing required query parameter '' @ str_debug key))
      | Some raw \<Rightarrow>
         (case parse_ymd K raw of
            None \<Rightarrow> Inl (text_response 400 (key @ '' must be an ISO date (YYYY-MM-DD), got '' @ str_debug raw))
          | Some d \<Rightarrow> Inr d))"

definition report_time :: "calendar \<Rightarrow> int \<Rightarrow> string" where
  "report_time K unix_seconds = unwrap_or [] (map_option (instant_rfc3339 K) (from_timestamp K unix_seconds))"

definition next_month :: "int \<times> nat \<Rightarrow> int \<times> nat" where
  "next_month ym = (case ym of (y, m) \<Rightarrow> if m = 12 then (y + 1, 1) else (y, m + 1))"

definition month_around :: "calendar \<Rightarrow> int \<Rightarrow> string \<times> string" where
  "month_around K dt =
     (let start = unwrap_or dt (case year_month K dt of (y, m) \<Rightarrow> month_start K y m);
          fin = unwrap_or start (case next_month (year_month K dt) of (y, m) \<Rightarrow> month_start K y m)
      in (instant_rfc3339 K start, instant_rfc3339 K fin))"

definition billing_period_for :: "'x services \<Rightarrow> calendar \<Rightarrow> int \<Rightarrow> ('x, string \<times> string) job_io" where
  "billing_period_for S K unix_seconds =
     (case from_timestamp K unix_seconds of
        Some dt \<Rightarrow> ret (month_around K dt)
      | None \<Rightarrow> bnd (now_nanos S) (\<lambda>dt. ret (month_around K dt)))"

definition csv_field :: "string \<Rightarrow> string" where
  "csv_field v =
     (if CHR '','' \<in> set v \<or> CHR 0x22 \<in> set v \<or> CHR 0x0A \<in> set v
      then [CHR 0x22] @ replace_char (CHR 0x22) [CHR 0x22, CHR 0x22] v @ [CHR 0x22]
      else v)"

definition format_decimal :: "f64 \<Rightarrow> string" where
  "format_decimal v = show_fixed 6 v"

section \<open>Lines\<close>

definition is_volume_charge :: "charge_breakdown \<Rightarrow> bool" where
  "is_volume_charge c \<longleftrightarrow> starts_with (ch_sku_price_id c) ''storage_''"

definition charge_fields ::
  "calendar \<Rightarrow> cost_report_config \<Rightarrow> completed_job \<Rightarrow> charge_breakdown \<Rightarrow> string \<Rightarrow> f64 \<Rightarrow> f64 \<Rightarrow> string \<times> string \<Rightarrow> (string \<times> string) list" where
  "charge_fields K cfg job c provider_currency unit_price_conv total_conv period =
     (let vol = is_volume_charge c;
          billed_cost = format_decimal (ch_total c);
          unit_price = format_decimal (ch_unit_price c);
          quantity = format_decimal (ch_quantity c)
      in [(''BilledCost'', billed_cost), (''BillingAccountId'', cr_resource_prefix cfg), (''BillingAccountName'', cr_resource_prefix cfg),
          (''BillingAccountType'', ''Standard''), (''BillingCurrency'', provider_currency), (''BillingPeriodStart'', fst period),
          (''BillingPeriodEnd'', snd period), (''ChargeCategory'', ''Usage''), (''ChargeFrequency'', ''Usage-Based''),
          (''ChargeDescription'', co_namespace job @ ''/'' @ co_name job @ '' '' @ (if vol then ''ephemeral volume'' else ''worker VM'')),
          (''ChargePeriodStart'', report_time K (co_created_at job)), (''ChargePeriodEnd'', report_time K (co_completed_at job)),
          (''ConsumedQuantity'', quantity), (''ConsumedUnit'', ch_unit c), (''ContractedCost'', billed_cost),
          (''ContractedUnitPrice'', unit_price), (''EffectiveCost'', billed_cost), (''HostProviderName'', cr_provider_name cfg),
          (''InvoiceIssuerName'', cr_invoice_issuer_name cfg), (''ListCost'', billed_cost), (''ListUnitPrice'', unit_price),
          (''PricingCategory'', ch_pricing_category c), (''PricingCurrency'', cr_main_currency cfg),
          (''PricingCurrencyContractedUnitPrice'', format_decimal unit_price_conv),
          (''PricingCurrencyEffectiveCost'', format_decimal total_conv), (''PricingCurrencyListUnitPrice'', format_decimal unit_price_conv),
          (''PricingQuantity'', quantity), (''PricingUnit'', ch_unit c), (''ServiceCategory'', if vol then ''Storage'' else ''Compute''),
          (''ServiceName'', cr_provider_name cfg @ '' '' @ (if vol then ''Storage'' else ''Server'')),
          (''ServiceProviderName'', cr_provider_name cfg), (''ServiceSubcategory'', if vol then ''Block Storage'' else ''Virtual Machines''),
          (''SkuId'', ch_sku_id c), (''SkuMeter'', if vol then ''Block Volume Usage'' else ''Compute Usage''),
          (''SkuPriceId'', ch_sku_price_id c)])"

definition in_columns :: "(string \<times> string) list \<Rightarrow> string list" where
  "in_columns kvs = map (\<lambda>col. unwrap_or [] (map_of kvs col)) COLUMNS"

definition charge_row ::
  "'x services \<Rightarrow> calendar \<Rightarrow> cost_report_config \<Rightarrow> completed_job \<Rightarrow> charge_breakdown \<Rightarrow> string \<Rightarrow> ('x, string list option) job_io" where
  "charge_row S K cfg job c provider_currency =
     bnd (convert S (ch_unit_price c) provider_currency (cr_main_currency cfg)) (\<lambda>u.
     case u of
       None \<Rightarrow> ret None
     | Some unit_price_conv \<Rightarrow>
        bnd (convert S (ch_total c) provider_currency (cr_main_currency cfg)) (\<lambda>t.
        case t of
          None \<Rightarrow> ret None
        | Some total_conv \<Rightarrow>
           bnd (billing_period_for S K (co_created_at job)) (\<lambda>period.
             ret (Some (in_columns (charge_fields K cfg job c provider_currency unit_price_conv total_conv period))))))"

definition csv_line :: "string list \<Rightarrow> string" where
  "csv_line row = join '','' (map csv_field row) @ [CHR 0x0A]"

fun charge_lines ::
  "'x services \<Rightarrow> calendar \<Rightarrow> cost_report_config \<Rightarrow> completed_job \<Rightarrow> string \<Rightarrow> charge_breakdown list \<Rightarrow> string \<Rightarrow> ('x, string) job_io" where
  "charge_lines S K cfg job provider_currency [] csv = ret csv"
| "charge_lines S K cfg job provider_currency (c # cs) csv =
     bnd (charge_row S K cfg job c provider_currency) (\<lambda>row.
       charge_lines S K cfg job provider_currency cs (case row of None \<Rightarrow> csv | Some cells \<Rightarrow> csv @ csv_line cells))"

fun job_lines ::
  "'x services \<Rightarrow> calendar \<Rightarrow> cost_report_config \<Rightarrow> completed_job list \<Rightarrow> string \<Rightarrow> ('x, string) job_io" where
  "job_lines S K cfg [] csv = ret csv"
| "job_lines S K cfg (job # js) csv =
     bnd (actual_job_charges S (cr_zone cfg) (co_spec job) (co_worker_plan job) (co_completed_at job - co_created_at job)) (\<lambda>r.
     case r of
       None \<Rightarrow> job_lines S K cfg js csv
     | Some (charges, provider_currency) \<Rightarrow>
        bnd (charge_lines S K cfg job provider_currency charges csv) (\<lambda>csv'. job_lines S K cfg js csv'))"

section \<open>The handler\<close>

definition completed_job_of :: "'a libs_scheme \<Rightarrow> job_row \<Rightarrow> completed_job" where
  "completed_job_of L r =
     \<lparr>co_name = j_name r, co_namespace = j_namespace r, co_spec = parse_spec L (j_spec r), co_created_at = j_created_at r,
      co_completed_at = unwrap_or (j_created_at r) (j_completed_at r), co_worker_plan = j_worker_plan r\<rparr>"

definition billed_jobs :: "int \<Rightarrow> int \<Rightarrow> database \<Rightarrow> job_row list" where
  "billed_jobs from_ts to_ts d =
     sort_key j_created_at (filter (\<lambda>r. j_actual_cost r \<noteq> None \<and> from_ts \<le> j_created_at r \<and> j_created_at r < to_ts) (jobs d))"

definition midnight :: "int \<Rightarrow> int" where
  "midnight day = day * 86400"

definition report_header :: string where
  "report_header = join '','' COLUMNS @ [CHR 0x0A]"

definition report_between :: "'x services \<Rightarrow> calendar \<Rightarrow> cost_report_config \<Rightarrow> int \<Rightarrow> int \<Rightarrow> 'x handler" where
  "report_between S K cfg from_ts to_ts =
     or_500 (sql_query S (billed_jobs from_ts to_ts)) (\<lambda>rows.
     or_500 (job_lines S K cfg (map (completed_job_of S) rows) report_header) (\<lambda>csv.
       ret (text_response 200 csv)))"

text \<open>The day after the last one chrono has panics.\<close>

definition get_cost_report ::
  "'x services \<Rightarrow> calendar \<Rightarrow> cost_report_config \<Rightarrow> (string \<Rightarrow> string option) \<Rightarrow> 'x handler" where
  "get_cost_report S K cfg params =
     (case parse_date_param K params ''from'' of
        Inl r \<Rightarrow> ret r
      | Inr d0 \<Rightarrow>
         (case parse_date_param K params ''to'' of
            Inl r \<Rightarrow> ret r
          | Inr d1 \<Rightarrow>
             if d1 + 1 > max_date K then fail TimeOutOfRange
             else report_between S K cfg (midnight d0) (midnight (d1 + 1))))"

end
