(* ===== verification/ReportProps.thy ===== *)
theory ReportProps
  imports CostReport ApiLaws Demo
begin

text \<open>
  What a reader of the cost report finds in it. \<open>csv_records\<close> is a reader of RFC 4180 text, written from the format and not from the code; the report
  is what it reads back.
\<close>

section \<open>A reader of CSV\<close>

datatype csv_mode = AtStart | Plain | Quoted | QuoteSeen

fun csv_read :: "csv_mode \<Rightarrow> string \<Rightarrow> string list \<Rightarrow> string \<Rightarrow> string list list option" where
  "csv_read mode cell row [] = (if mode = AtStart \<and> row = [] then Some [] else None)"
| "csv_read mode cell row (c # cs) =
     (if mode = Quoted
      then (if c = CHR 0x22 then csv_read QuoteSeen cell row cs else csv_read Quoted (cell @ [c]) row cs)
      else if c = CHR 0x22
      then (case mode of AtStart \<Rightarrow> csv_read Quoted cell row cs
            | QuoteSeen \<Rightarrow> csv_read Quoted (cell @ [c]) row cs
            | _ \<Rightarrow> None)
      else if c = CHR '','' then csv_read AtStart [] (row @ [cell]) cs
      else if c = CHR 0x0A then map_option ((#) (row @ [cell])) (csv_read AtStart [] [] cs)
      else if mode = QuoteSeen then None
      else csv_read Plain (cell @ [c]) row cs)"

definition csv_records :: "string \<Rightarrow> string list list option" where
  "csv_records s = csv_read AtStart [] [] s"

definition needs_quotes :: "string \<Rightarrow> bool" where
  "needs_quotes v \<longleftrightarrow> CHR '','' \<in> set v \<or> CHR 0x22 \<in> set v \<or> CHR 0x0A \<in> set v"

lemma read_plain:
  "\<not> needs_quotes v \<Longrightarrow> mode = AtStart \<or> mode = Plain \<Longrightarrow>
   csv_read mode cell row (v @ s) = csv_read (if v = [] then mode else Plain) (cell @ v) row s"
  by (induction v arbitrary: mode cell) (auto simp: needs_quotes_def)

lemma read_quoted:
  "csv_read Quoted cell row (replace_char (CHR 0x22) [CHR 0x22, CHR 0x22] v @ s) = csv_read Quoted (cell @ v) row s"
  by (induction v arbitrary: cell) auto

lemma read_field:
  "c \<in> {CHR '','', CHR 0x0A} \<Longrightarrow>
   csv_read AtStart [] row (csv_field v @ c # s)
   = (if c = CHR '','' then csv_read AtStart [] (row @ [v]) s else map_option ((#) (row @ [v])) (csv_read AtStart [] [] s))"
  by (cases "needs_quotes v") (auto simp: csv_field_def needs_quotes_def [symmetric] read_plain read_quoted)

lemma read_line:
  "cells \<noteq> [] \<Longrightarrow> csv_read AtStart [] row (csv_line cells @ s) = map_option ((#) (row @ cells)) (csv_read AtStart [] [] s)"
  unfolding csv_line_def
proof (induction cells arbitrary: row)
  case (Cons v vs)
  then show ?case by (cases vs) (simp_all add: read_field)
qed simp

lemma records_of_lines:
  "[] \<notin> set rows \<Longrightarrow> csv_records (concat (map csv_line rows)) = Some rows"
  unfolding csv_records_def by (induction rows) (auto simp: read_line)

section \<open>What a row says\<close>

definition column :: "string \<Rightarrow> string list \<Rightarrow> string option" where
  "column col cells = map_of (zip COLUMNS cells) col"

lemma map_of_zip_map: "map_of (zip ks (map f ks)) k = (if k \<in> set ks then Some (f k) else None)"
  by (induction ks) auto

lemma column_in_columns: "col \<in> set COLUMNS \<Longrightarrow> column col (in_columns kvs) = Some (unwrap_or [] (map_of kvs col))"
  by (simp add: column_def in_columns_def map_of_zip_map)

lemma length_in_columns: "length (in_columns kvs) = length COLUMNS"
  by (simp add: in_columns_def)

definition describes :: "calendar \<Rightarrow> cost_report_config \<Rightarrow> completed_job \<Rightarrow> charge_breakdown \<Rightarrow> string list \<Rightarrow> bool" where
  "describes K cfg job c cells \<longleftrightarrow>
     length cells = length COLUMNS
     \<and> column ''ChargeDescription'' cells
         = Some (co_namespace job @ ''/'' @ co_name job @ (if is_volume_charge c then '' ephemeral volume'' else '' worker VM''))
     \<and> column ''ChargePeriodStart'' cells = Some (report_time K (co_created_at job))
     \<and> column ''ChargePeriodEnd'' cells = Some (report_time K (co_completed_at job))
     \<and> column ''BilledCost'' cells = Some (show_fixed 6 (ch_total c))
     \<and> column ''SkuPriceId'' cells = Some (ch_sku_price_id c)
     \<and> column ''PricingCurrency'' cells = Some (cr_main_currency cfg)
     \<and> column ''Tags'' cells = Some []"

lemma described: "describes K cfg job c (in_columns (charge_fields K cfg job c cur u t period))"
  unfolding describes_def
  by (simp add: length_in_columns)
     (simp add: column_in_columns COLUMNS_def charge_fields_def Let_def unwrap_or_def format_decimal_def)

lemma charge_row_run:
  assumes "charge_row S K cfg job c cur w = (Inr r, w')"
  shows "db w' = db w \<and> (case r of None \<Rightarrow> cur \<noteq> cr_main_currency cfg | Some cells \<Rightarrow> describes K cfg job c cells)"
proof
  have "keeps same_db.on_world (charge_row S K cfg job c cur)"
    by (auto simp: charge_row_def billing_period_for_def split: option.split)
  from same_dbD [OF this assms] show "db w' = db w" .
  from assms show "case r of None \<Rightarrow> cur \<noteq> cr_main_currency cfg | Some cells \<Rightarrow> describes K cfg job c cells"
    by (auto simp: charge_row_def described bnd_def convert_def ret_def split: prod.splits sum.splits option.splits if_splits)
qed

text \<open>The rows of one job: some of its charges, in their order, and all of them when the provider bills in the main currency.\<close>

inductive rows_for :: "calendar \<Rightarrow> cost_report_config \<Rightarrow> completed_job \<Rightarrow> string \<Rightarrow> charge_breakdown list \<Rightarrow> string list list \<Rightarrow> bool"
  for K cfg job cur where
  done_rows: "rows_for K cfg job cur [] []"
| billed: "describes K cfg job c cells \<Longrightarrow> rows_for K cfg job cur cs rows \<Longrightarrow> rows_for K cfg job cur (c # cs) (cells # rows)"
| unconverted: "cur \<noteq> cr_main_currency cfg \<Longrightarrow> rows_for K cfg job cur cs rows \<Longrightarrow> rows_for K cfg job cur (c # cs) rows"

lemma rows_for_all: "rows_for K cfg job (cr_main_currency cfg) cs rows \<Longrightarrow> length rows = length cs"
  by (induction cs rows rule: rows_for.induct) auto

lemma rows_for_nonempty: "rows_for K cfg job cur cs rows \<Longrightarrow> [] \<notin> set rows"
  by (induction rule: rows_for.induct) (auto simp: describes_def COLUMNS_def)

lemma charge_lines_run:
  assumes "charge_lines S K cfg job cur cs csv w = (Inr csv', w')"
  shows "\<exists>rows. rows_for K cfg job cur cs rows \<and> csv' = csv @ concat (map csv_line rows) \<and> db w' = db w"
  using assms
proof (induction cs arbitrary: csv w)
  case Nil
  then show ?case by (auto simp: ret_def intro: exI [of _ "[]"] done_rows)
next
  case (Cons c cs)
  from Cons.prems obtain r v where row: "charge_row S K cfg job c cur w = (Inr r, v)"
    and rest: "charge_lines S K cfg job cur cs (case r of None \<Rightarrow> csv | Some cells \<Rightarrow> csv @ csv_line cells) v = (Inr csv', w')"
    by (auto simp: bnd_def split: prod.splits sum.splits)
  note this_row = charge_row_run [OF row]
  from Cons.IH [OF rest] obtain rows where rows: "rows_for K cfg job cur cs rows" "db w' = db v"
    and csv': "csv' = (case r of None \<Rightarrow> csv | Some cells \<Rightarrow> csv @ csv_line cells) @ concat (map csv_line rows)" by blast
  show ?case
  proof (cases r)
    case None
    with this_row rows csv' show ?thesis by (auto intro!: exI [of _ rows] unconverted)
  next
    case (Some cells)
    with this_row rows csv' show ?thesis by (auto intro!: exI [of _ "cells # rows"] billed)
  qed
qed

text \<open>What the report has of one job, with the prices of the tables \<open>d\<close>.\<close>

definition rows_of_job :: "'x services \<Rightarrow> calendar \<Rightarrow> cost_report_config \<Rightarrow> database \<Rightarrow> completed_job \<Rightarrow> string list list \<Rightarrow> bool" where
  "rows_of_job S K cfg d job rows \<longleftrightarrow>
     (\<exists>v charges. db v = d
        \<and> fst (actual_job_charges S (cr_zone cfg) (co_spec job) (co_worker_plan job) (co_completed_at job - co_created_at job) v) = Inr charges
        \<and> (case charges of None \<Rightarrow> rows = [] | Some (cs, cur) \<Rightarrow> rows_for K cfg job cur cs rows))"

lemma rows_of_job_nonempty: "rows_of_job S K cfg d job rows \<Longrightarrow> [] \<notin> set rows"
  by (auto simp: rows_of_job_def dest: rows_for_nonempty split: option.splits)

lemma job_lines_run:
  assumes "job_lines S K cfg js csv w = (Inr csv', w')"
  shows "\<exists>parts. list_all2 (rows_of_job S K cfg (db w)) js parts \<and> csv' = csv @ concat (map csv_line (concat parts)) \<and> db w' = db w"
  using assms
proof (induction js arbitrary: csv w)
  case Nil
  then show ?case by (auto simp: ret_def intro: exI [of _ "[]"])
next
  case (Cons job js)
  let ?charges = "actual_job_charges S (cr_zone cfg) (co_spec job) (co_worker_plan job) (co_completed_at job - co_created_at job)"
  from Cons.prems obtain r v where charges: "?charges w = (Inr r, v)"
    and rest: "(case r of None \<Rightarrow> job_lines S K cfg js csv
         | Some (cs, cur) \<Rightarrow> bnd (charge_lines S K cfg job cur cs csv) (job_lines S K cfg js)) v = (Inr csv', w')"
    by (auto simp: bnd_returns)
  have "keeps same_db.on_world ?charges" by (auto simp: actual_job_charges_def)
  from same_dbD [OF this charges] have dbv: "db v = db w" .
  show ?case
  proof (cases r)
    case None
    with rest have "job_lines S K cfg js csv v = (Inr csv', w')" by simp
    from Cons.IH [OF this] obtain parts where "list_all2 (rows_of_job S K cfg (db w)) js parts"
      "csv' = csv @ concat (map csv_line (concat parts))" "db w' = db w" by (auto simp: dbv)
    moreover have "rows_of_job S K cfg (db w) job []" using charges None by (auto simp: rows_of_job_def intro!: exI [of _ w])
    ultimately show ?thesis by (intro exI [of _ "[] # parts"]) simp
  next
    case (Some p)
    obtain cs cur where p: "p = (cs, cur)" by (cases p)
    from rest Some p obtain csv1 v1 where lines: "charge_lines S K cfg job cur cs csv v = (Inr csv1, v1)"
      and more_jobs: "job_lines S K cfg js csv1 v1 = (Inr csv', w')" by (auto simp: bnd_returns)
    from charge_lines_run [OF lines] obtain rows where rows: "rows_for K cfg job cur cs rows"
      and csv1: "csv1 = csv @ concat (map csv_line rows)" and db1: "db v1 = db w" by (auto simp: dbv)
    from Cons.IH [OF more_jobs] obtain parts where "list_all2 (rows_of_job S K cfg (db w)) js parts"
      "csv' = csv1 @ concat (map csv_line (concat parts))" "db w' = db w" by (auto simp: db1)
    moreover have "rows_of_job S K cfg (db w) job rows" using charges Some p rows by (auto simp: rows_of_job_def intro!: exI [of _ w])
    ultimately show ?thesis by (intro exI [of _ "rows # parts"]) (simp add: csv1)
  qed
qed

lemma no_empty_rows: "list_all2 (rows_of_job S K cfg d) js ps \<Longrightarrow> [] \<notin> set (concat ps)"
  by (induction rule: list_all2_induct) (auto dest: rows_of_job_nonempty)

lemma plain_columns: "\<forall>c \<in> set COLUMNS. \<not> needs_quotes c"
  by (simp add: COLUMNS_def needs_quotes_def)

lemma report_header_line: "report_header = csv_line COLUMNS"
proof -
  have "map csv_field COLUMNS = COLUMNS"
    by (rule map_idI) (use plain_columns in \<open>auto simp: csv_field_def needs_quotes_def\<close>)
  then show ?thesis by (simp add: report_header_def csv_line_def)
qed

text \<open>
  C37. The cost report reads back as CSV: when it is sent, an RFC 4180 reader finds the columns of FOCUS in its first record and then, for each job that
  has an actual cost and was created in the asked days, in the order of creation, the rows of that job's charges, whatever commas, quotes and line ends
  names and prices have. Every charge has a row when the provider bills in the main currency. The report changes no table.
\<close>

theorem cost_report_reads_back:
  assumes run: "get_cost_report S K cfg params w = (Inr r, w')" and sent: "resp_code r = 200"
  shows "\<exists>d0 d1 csv parts.
     map_option (parse_ymd K) (params ''from'') = Some (Some d0) \<and> map_option (parse_ymd K) (params ''to'') = Some (Some d1)
     \<and> resp_body r = TextBody csv
     \<and> csv_records csv = Some (COLUMNS # concat parts)
     \<and> list_all2 (rows_of_job S K cfg (db w)) (map (completed_job_of S) (billed_jobs (d0 * 86400) ((d1 + 1) * 86400) (db w))) parts
     \<and> db w' = db w"
proof -
  from run sent obtain d0 d1 where d0: "map_option (parse_ymd K) (params ''from'') = Some (Some d0)"
    and d1: "map_option (parse_ymd K) (params ''to'') = Some (Some d1)"
    and report: "report_between S K cfg (d0 * 86400) ((d1 + 1) * 86400) w = (Inr r, w')"
    by (auto simp: get_cost_report_def parse_date_param_def midnight_def ret_def fail_def split: option.splits if_splits)
  let ?rows = "billed_jobs (d0 * 86400) ((d1 + 1) * 86400)"
  obtain v where v: "db v = db w"
    and lines: "or_500 (job_lines S K cfg (map (completed_job_of S) (?rows (db w))) report_header) (\<lambda>csv. ret (text_response 200 csv)) v = (Inr r, w')"
    using report sent unfolding report_between_def by (elim or_500_query_passed) auto
  from lines sent obtain csv where csv: "job_lines S K cfg (map (completed_job_of S) (?rows (db w))) report_header v = (Inr csv, w')"
    and r: "r = text_response 200 csv"
    by (elim or_500_passed) (auto simp: ret_def)
  from job_lines_run [OF csv] obtain parts where parts: "list_all2 (rows_of_job S K cfg (db w)) (map (completed_job_of S) (?rows (db w))) parts"
    and body: "csv = concat (map csv_line (COLUMNS # concat parts))" and db: "db w' = db w"
    by (auto simp: v report_header_line)
  have "[] \<notin> set (COLUMNS # concat parts)"
    using no_empty_rows [OF parts] by (auto simp: COLUMNS_def)
  then have "csv_records csv = Some (COLUMNS # concat parts)" unfolding body by (rule records_of_lines)
  with d0 d1 parts db r show ?thesis by (auto simp: text_response_def)
qed

section \<open>The report is sent\<close>

definition faultless :: "'x services \<Rightarrow> bool" where
  "faultless S \<longleftrightarrow> (\<forall>x. fst (db_fault S x) = None)"

definition never_fails :: "('w, 'e, 'a) io \<Rightarrow> bool" where
  "never_fails m \<longleftrightarrow> (\<forall>w. \<exists>a v. m w = (Inr a, v))"

lemma never_fails_ret [intro!]: "never_fails (ret a)"
  by (simp add: never_fails_def ret_def)

lemma never_fails_Pair [intro!]: "never_fails (Pair (Inr a))"
  by (simp add: never_fails_def)

lemma never_fails_bnd [intro!]: "never_fails m \<Longrightarrow> (\<And>a. never_fails (k a)) \<Longrightarrow> never_fails (bnd m k)"
  unfolding never_fails_def bnd_returns by meson

lemma never_fails_now [intro!]: "never_fails (now_nanos S)"
  by (simp add: never_fails_def now_nanos_def lift_ext_eq split: prod.split)

lemma never_fails_query [intro!]: "faultless S \<Longrightarrow> never_fails (sql_query S q)"
  by (simp add: never_fails_def faultless_def sql_query_def lift_ext_eq)

lemma never_fails_charges: "faultless S \<Longrightarrow> never_fails (actual_job_charges S zone spec plan secs)"
  by (auto simp: actual_job_charges_def charge_breakdown_for_duration_def charged_plan_def bundle_charges_def volume_charges_def optional_charge_def
      cached_price_def plan_for_resource_requests_def cheapest_fitting_server_plan_def Let_def split: option.split prod.split)

lemma never_fails_charge_lines: "faultless S \<Longrightarrow> never_fails (charge_lines S K cfg job cur cs csv)"
  by (induction cs arbitrary: csv)
     (auto simp: charge_row_def billing_period_for_def convert_def cached_rate_def split: option.split)

lemma never_fails_job_lines: "faultless S \<Longrightarrow> never_fails (job_lines S K cfg js csv)"
  by (induction js arbitrary: csv) (auto intro!: never_fails_charges never_fails_charge_lines split: option.split)

text \<open>With two dates that can be read, of which the second is not the last one there is, a database that answers is enough for the report.\<close>

theorem cost_report_sent:
  assumes "faultless S" and "params ''from'' = Some a" "parse_ymd K a = Some d0" and "params ''to'' = Some b" "parse_ymd K b = Some d1"
    and "d1 < max_date K"
  shows "\<exists>csv w'. get_cost_report S K cfg params w = (Inr (text_response 200 csv), w')"
proof -
  let ?rows = "billed_jobs (midnight d0) (midnight (d1 + 1))"
  have "never_fails (bnd (sql_query S ?rows) (\<lambda>rows. job_lines S K cfg (map (completed_job_of S) rows) report_header))"
    using assms(1) by (auto intro: never_fails_job_lines)
  then obtain csv w' where "bnd (sql_query S ?rows) (\<lambda>rows. job_lines S K cfg (map (completed_job_of S) rows) report_header) w = (Inr csv, w')"
    unfolding never_fails_def by blast
  then show ?thesis
    using assms by (auto simp: get_cost_report_def parse_date_param_def report_between_def bnd_returns or_500_Inr ret_def)
qed

definition report_calendar :: calendar where
  "report_calendar =
     \<lparr>parse_ymd = parse_i64, max_date = 1000, from_timestamp = (\<lambda>s. Some (s * 10 ^ 9)), year_month = (\<lambda>_. (1970, 1)),
      month_start = (\<lambda>_ _. Some 0), instant_rfc3339 = show_int\<rparr>"

definition billed_world :: "nat world" where
  "billed_world = \<lparr>db = (demo_db ''Archived'' 900)
     \<lparr>jobs := [(demo_job ''Archived'' 900)\<lparr>j_name := ''a,b'', j_actual_cost := Some (Fin 1), j_completed_at := Some 4500, j_worker_plan := Some ''1xCPU''\<rparr>],
      provider_pricing := [\<lparr>pr_zone = ''de-fra1'', pr_price_key = ''server_plan_1xCPU'', pr_amount = Fin 1, pr_price = Fin 1, pr_currency = ''EUR'',
                             pr_fetched_at = 0\<rparr>]\<rparr>, ext = 0\<rparr>"

definition billed_config :: cost_report_config where
  "billed_config =
     \<lparr>cr_resource_prefix = ''ks'', cr_zone = ''de-fra1'', cr_main_currency = ''EUR'', cr_provider_name = ''demo'', cr_invoice_issuer_name = ''demo''\<rparr>"
lemma billed_report_sent:
  "\<exists>csv w'. get_cost_report demo_services report_calendar billed_config [''from'' \<mapsto> ''0'', ''to'' \<mapsto> ''0''] billed_world
     = (Inr (text_response 200 csv), w')"
  by (rule cost_report_sent [of _ _ "''0''" _ 0 "''0''" 0])
     (simp_all add: faultless_def demo_services_def report_calendar_def, (code_simp)+)

text \<open>The theorem applied to a world with one charge, of a job whose name has a comma.\<close>

theorem cost_report_reads_back_witness:
  "\<exists>csv w' rows. get_cost_report demo_services report_calendar billed_config [''from'' \<mapsto> ''0'', ''to'' \<mapsto> ''0''] billed_world
       = (Inr (text_response 200 csv), w')
     \<and> csv_records csv = Some (COLUMNS # rows) \<and> db w' = db billed_world"
proof -
  from billed_report_sent obtain csv w'
    where run: "get_cost_report demo_services report_calendar billed_config [''from'' \<mapsto> ''0'', ''to'' \<mapsto> ''0''] billed_world
      = (Inr (text_response 200 csv), w')" by blast
  from cost_report_reads_back [OF run] show ?thesis using run by (auto simp: text_response_def)
qed

end
