(* ===== verification/MetricsExport.thy ===== *)
theory MetricsExport
  imports Loops JobApi Escaping "HOL-Library.Product_Lexorder"
begin

text \<open>
  The Prometheus text of \<open>GET /metrics\<close>, \<open>src/src/metrics_export.rs\<close>. The version is fixed when the program is built and a parameter here; a grouping
  query gives its groups in the order of their first rows.
\<close>

type_synonym exposition = string

section \<open>The text format\<close>

definition escape_label :: "string \<Rightarrow> string" where
  "escape_label v =
     replace_char (CHR 0x0A) [CHR 0x5C, CHR ''n'']
       (replace_char (CHR 0x22) [CHR 0x5C, CHR 0x22] (replace_char (CHR 0x5C) [CHR 0x5C, CHR 0x5C] v))"

definition label_text :: "string \<times> string \<Rightarrow> string" where
  "label_text kv = fst kv @ ''='' @ [CHR 0x22] @ escape_label (snd kv) @ [CHR 0x22]"

definition labels :: "(string \<times> string) list \<Rightarrow> string" where
  "labels kvs = (if kvs = [] then [] else ''{'' @ join '','' (map label_text kvs) @ ''}'')"

definition family :: "exposition \<Rightarrow> string \<Rightarrow> string \<Rightarrow> string \<Rightarrow> exposition" where
  "family out name kind help =
     out @ ''# HELP '' @ name @ '' '' @ help @ [CHR 0x0A] @ ''# TYPE '' @ name @ '' '' @ kind @ [CHR 0x0A]"

definition sample_line :: "exposition \<Rightarrow> string \<Rightarrow> (string \<times> string) list \<Rightarrow> string \<Rightarrow> exposition" where
  "sample_line out name kvs v = out @ name @ labels kvs @ '' '' @ v @ [CHR 0x0A]"

definition single :: "exposition \<Rightarrow> string \<Rightarrow> string \<Rightarrow> string \<Rightarrow> string \<Rightarrow> exposition" where
  "single out name kind help v = sample_line (family out name kind help) name [] v"

section \<open>The shim's own health\<close>

definition write_loop :: "'a libs_scheme \<Rightarrow> exposition \<Rightarrow> string \<Rightarrow> string \<Rightarrow> loop_stats \<Rightarrow> exposition" where
  "write_loop L out loop what stats =
     (let runs = ''kubeshim_'' @ loop @ ''_runs_total'';
          duration = ''kubeshim_'' @ loop @ ''_duration_seconds'';
          out1 = family out runs ''counter'' (''Completed '' @ what @ '' passes, by result.'');
          out2 = sample_line out1 runs [(''result'', ''success'')] (show_nat (unat (successes stats)));
          out3 = sample_line out2 runs [(''result'', ''failure'')] (show_nat (unat (failures stats)));
          out4 = family out3 duration ''summary'' (''Time spent in '' @ what @ '' passes.'');
          out5 = sample_line out4 (duration @ ''_sum'') [] (display_f64 L (duration_seconds_total stats));
          out6 = sample_line out5 (duration @ ''_count'') [] (show_nat (unat (successes stats + failures stats)))
      in single out6 (''kubeshim_'' @ loop @ ''_last_run_timestamp_seconds'') ''gauge''
           (''Unix time of the most recent '' @ what @ '' pass, or 0 if none yet.'') (show_int (last_run_at stats)))"

definition write_self_metrics :: "'a libs_scheme \<Rightarrow> string \<Rightarrow> exposition \<Rightarrow> tick_health \<Rightarrow> int \<Rightarrow> exposition" where
  "write_self_metrics L version out health now =
     (let out1 = family out ''kubeshim_build_info'' ''gauge'' ''Always 1; the version label is the running kube-shim release.'';
          out2 = sample_line out1 ''kubeshim_build_info'' [(''version'', version)] ''1'';
          out3 = single out2 ''kubeshim_process_start_time_seconds'' ''gauge'' ''Unix time the kube-shim process started.''
                   (show_int (started_at health));
          out4 = single out3 ''kubeshim_uptime_seconds'' ''gauge'' ''Seconds since the kube-shim process started.''
                   (show_int (max (now - started_at health) 0));
          out5 = write_loop L out4 ''reconcile_tick'' ''reconciliation tick'' (tick_stats health);
          out6 = write_loop L out5 ''orphan_scan'' ''orphan scan'' (orphan_scan health);
          out7 = write_loop L out6 ''metrics_poll'' ''worker metrics poll'' (metrics_poll health)
      in write_loop L out7 ''pricing_sync'' ''pricing sync'' (pricing_sync health))"

section \<open>Jobs\<close>

definition status_counts :: "database \<Rightarrow> (string \<times> nat) list" where
  "status_counts d =
     map (\<lambda>s. (s, length (filter (\<lambda>r. j_status r = s) (jobs d)))) (remdups (map j_status (jobs d)))"

text \<open>\<open>counts.remove(state)\<close> for each state in turn, and what is left over, sorted.\<close>

fun state_series :: "(string \<times> nat) list \<Rightarrow> string list \<Rightarrow> (string \<times> nat) list" where
  "state_series counts [] = sort_key fst counts"
| "state_series counts (state # states) =
     (state, unwrap_or 0 (map_of counts state)) # state_series (filter (\<lambda>e. fst e \<noteq> state) counts) states"

definition write_states :: "exposition \<Rightarrow> (string \<times> nat) list \<Rightarrow> exposition" where
  "write_states out series =
     foldl (\<lambda>o1 (state, count). sample_line o1 ''kubeshim_jobs_by_state'' [(''state'', state)] (show_nat count)) out series"

definition write_jobs_by_state :: "'x services \<Rightarrow> exposition \<Rightarrow> ('x, exposition) job_io" where
  "write_jobs_by_state S out =
     bnd (sql_query S status_counts) (\<lambda>counts.
       ret (write_states
              (family out ''kubeshim_jobs_by_state'' ''gauge'' ''Job runs currently in each reconciliation state.'')
              (state_series counts STATE_SEQUENCE)))"

definition is_finished_state :: "string \<Rightarrow> bool" where
  "is_finished_state status \<longleftrightarrow> status = ''Failed'' \<or> (status \<in> set STATE_SEQUENCE \<and> \<not> is_pre_completion_state status)"

text \<open>\<open>COALESCE(completed_at, (SELECT MIN(e.timestamp) ...), updated_at)\<close>.\<close>

definition completion_time :: "database \<Rightarrow> job_row \<Rightarrow> int" where
  "completion_time d r =
     (let ends = map ev_timestamp (filter (\<lambda>e. ev_job_id e = Some (j_id r) \<and> ev_reason e \<in> {''Succeeded'', ''Failed''}) (events d))
      in case j_completed_at r of
           Some t \<Rightarrow> t
         | None \<Rightarrow> (case ends of [] \<Rightarrow> j_updated_at r | t # ts \<Rightarrow> foldl min t ts))"

record run_group =
  rg_namespace :: string
  rg_cronjob :: string
  rg_status :: string
  rg_failed :: bool
  rg_count :: nat
  rg_last :: int

definition group_key :: "database \<Rightarrow> job_row \<Rightarrow> string \<times> string \<times> string \<times> bool" where
  "group_key d r = (j_namespace r, unwrap_or [] (j_cronjob_name r), j_status r, run_failed d r)"

definition max_of :: "int list \<Rightarrow> int" where
  "max_of ts = (case ts of [] \<Rightarrow> 0 | t # rest \<Rightarrow> foldl max t rest)"

definition run_groups :: "database \<Rightarrow> run_group list" where
  "run_groups d =
     map (\<lambda>(ns, cj, st, failed).
            let rows = filter (\<lambda>r. group_key d r = (ns, cj, st, failed)) (jobs d)
            in \<lparr>rg_namespace = ns, rg_cronjob = cj, rg_status = st, rg_failed = failed, rg_count = length rows,
                rg_last = max_of (map (completion_time d) rows)\<rparr>)
       (remdups (map (group_key d) (jobs d)))"

record run_tally =
  tally_count :: nat
  last_completion :: int

definition empty_tally :: run_tally where
  "empty_tally = \<lparr>tally_count = 0, last_completion = 0\<rparr>"

text \<open>\<open>entry(k).or_default()\<close> on a B-tree map, kept as its entries in key order. A value is the tally of the runs that succeeded and that of those
  that failed.\<close>

type_synonym tallies = "((string \<times> string) \<times> (run_tally \<times> run_tally)) list"

fun at_entry :: "'k::linorder \<Rightarrow> 'v \<Rightarrow> ('v \<Rightarrow> 'v) \<Rightarrow> ('k \<times> 'v) list \<Rightarrow> ('k \<times> 'v) list" where
  "at_entry k dflt f [] = [(k, f dflt)]"
| "at_entry k dflt f ((k', v) # kvs) =
     (if k = k' then (k, f v) # kvs
      else if k < k' then (k, f dflt) # (k', v) # kvs
      else (k', v) # at_entry k dflt f kvs)"

definition add_runs :: "nat \<Rightarrow> int \<Rightarrow> run_tally \<Rightarrow> run_tally" where
  "add_runs n t tally =
     \<lparr>tally_count = tally_count tally + n, last_completion = max (last_completion tally) t\<rparr>"

definition tally_group :: "tallies \<Rightarrow> run_group \<Rightarrow> tallies" where
  "tally_group ts g =
     (if \<not> is_finished_state (rg_status g) then ts
      else at_entry (rg_namespace g, rg_cronjob g) (empty_tally, empty_tally)
             (\<lambda>(ok, bad). if rg_failed g then (ok, add_runs (rg_count g) (rg_last g) bad) else (add_runs (rg_count g) (rg_last g) ok, bad)) ts)"

definition tally_runs :: "run_group list \<Rightarrow> (string \<times> string) list \<Rightarrow> tallies" where
  "tally_runs groups cronjob_keys =
     foldl tally_group (foldl (\<lambda>ts k. at_entry k (empty_tally, empty_tally) (\<lambda>v. v) ts) [] cronjob_keys) groups"

definition write_tallies :: "exposition \<Rightarrow> string \<Rightarrow> (run_tally \<Rightarrow> string) \<Rightarrow> tallies \<Rightarrow> exposition" where
  "write_tallies out name show_value ts =
     foldl (\<lambda>o1 ((ns, cj), (ok, bad)).
              sample_line (sample_line o1 name [(''namespace'', ns), (''cronjob'', cj), (''result'', ''succeeded'')] (show_value ok))
                name [(''namespace'', ns), (''cronjob'', cj), (''result'', ''failed'')] (show_value bad)) out ts"

definition write_job_runs :: "'x services \<Rightarrow> exposition \<Rightarrow> ('x, exposition) job_io" where
  "write_job_runs S out =
     bnd (sql_query S run_groups) (\<lambda>groups.
     bnd (sql_query S (\<lambda>d. map (\<lambda>c. (cj_namespace c, cj_name c)) (cronjobs d))) (\<lambda>keys.
       (let ts = tally_runs groups keys;
            out1 = family out ''kubeshim_job_runs_total'' ''counter''
                     ''Finished job runs, by CronJob (empty for a standalone Job) and result.'';
            out2 = write_tallies out1 ''kubeshim_job_runs_total'' (\<lambda>t. show_nat (tally_count t)) ts;
            out3 = family out2 ''kubeshim_job_last_completion_timestamp_seconds'' ''gauge''
                     ''Unix time the most recent job run with this result finished, or 0 if none yet.''
        in ret (write_tallies out3 ''kubeshim_job_last_completion_timestamp_seconds'' (\<lambda>t. show_int (last_completion t)) ts))))"

definition write_budget :: "'x services \<Rightarrow> exposition \<Rightarrow> ('x, exposition) job_io" where
  "write_budget S out =
     bnd (settle_accrual S) (\<lambda>r.
       ret (case r of
              None \<Rightarrow> out
            | Some (balance, settings) \<Rightarrow>
               if f64_less (Fin 0) (budget_daily_rate settings)
               then sample_line (family out ''kubeshim_budget_balance'' ''gauge'' ''Current rolling budget balance, in the main currency.'')
                      ''kubeshim_budget_balance'' [(''currency'', main_currency settings)] (display_f64 S balance)
               else out))"

section \<open>Workers\<close>

record worker_vm_sample =
  wv_namespace :: string
  wv_pod :: string
  wv_node :: string
  wv_pgfault :: int
  wv_pgmajfault :: int
  wv_pswpin :: int
  wv_pswpout :: int
  wv_mapped_bytes :: int
  wv_cached_bytes :: int
  wv_anon_bytes :: int

definition worker_vm_sample_of :: "metrics_row \<Rightarrow> job_row \<Rightarrow> worker_vm_sample option" where
  "worker_vm_sample_of m j =
     Option.bind (wm_pgfault m) (\<lambda>pgfault. Option.bind (wm_pgmajfault m) (\<lambda>pgmajfault.
     Option.bind (wm_pswpin m) (\<lambda>pswpin. Option.bind (wm_pswpout m) (\<lambda>pswpout.
     Option.bind (wm_mapped_bytes m) (\<lambda>mapped. Option.bind (wm_cached_bytes m) (\<lambda>cached. Option.bind (wm_anon_bytes m) (\<lambda>anon.
       Some \<lparr>wv_namespace = j_namespace j, wv_pod = j_name j, wv_node = unwrap_or [] (j_worker_vm_name j), wv_pgfault = pgfault,
             wv_pgmajfault = pgmajfault, wv_pswpin = pswpin, wv_pswpout = pswpout, wv_mapped_bytes = mapped, wv_cached_bytes = cached,
             wv_anon_bytes = anon\<rparr>)))))))"

definition worker_vm_samples :: "database \<Rightarrow> worker_vm_sample list" where
  "worker_vm_samples d =
     sort_key (\<lambda>s. (wv_namespace s, wv_pod s))
       (List.map_filter (\<lambda>m. Option.bind (find_job (wm_job_id m) d) (worker_vm_sample_of m)) (worker_metrics d))"

definition vm_families :: "(string \<times> string \<times> string \<times> (worker_vm_sample \<Rightarrow> int)) list" where
  "vm_families =
     [(''node_vmstat_pgfault'', ''untyped'', ''/proc/vmstat information field pgfault.'', wv_pgfault),
      (''node_vmstat_pgmajfault'', ''untyped'', ''/proc/vmstat information field pgmajfault.'', wv_pgmajfault),
      (''node_vmstat_pswpin'', ''untyped'', ''/proc/vmstat information field pswpin.'', wv_pswpin),
      (''node_vmstat_pswpout'', ''untyped'', ''/proc/vmstat information field pswpout.'', wv_pswpout),
      (''node_memory_Mapped_bytes'', ''gauge'', ''Memory information field Mapped_bytes.'', wv_mapped_bytes),
      (''node_memory_Cached_bytes'', ''gauge'', ''Memory information field Cached_bytes.'', wv_cached_bytes),
      (''node_memory_AnonPages_bytes'', ''gauge'', ''Memory information field AnonPages_bytes.'', wv_anon_bytes)]"

definition write_vm_family :: "worker_vm_sample list \<Rightarrow> exposition \<Rightarrow> string \<times> string \<times> string \<times> (worker_vm_sample \<Rightarrow> int) \<Rightarrow> exposition" where
  "write_vm_family samples out fam =
     (case fam of (name, kind, help, field) \<Rightarrow>
        foldl (\<lambda>o1 s. sample_line o1 name [(''namespace'', wv_namespace s), (''pod'', wv_pod s), (''node'', wv_node s)] (show_int (field s)))
          (family out name kind help) samples)"

definition write_worker_vm_metrics :: "exposition \<Rightarrow> worker_vm_sample list \<Rightarrow> exposition" where
  "write_worker_vm_metrics out samples =
     (if samples = [] then out else foldl (write_vm_family samples) out vm_families)"

section \<open>The handler\<close>

definition render_all :: "'x services \<Rightarrow> string \<Rightarrow> tick_health \<Rightarrow> ('x, exposition) job_io" where
  "render_all S version health =
     bnd (now_ts S) (\<lambda>now.
     bnd (write_jobs_by_state S (write_self_metrics S version [] health now)) (\<lambda>out1.
     bnd (write_job_runs S out1) (\<lambda>out2.
     bnd (write_budget S out2) (\<lambda>out3.
     bnd (sql_query S worker_vm_samples) (\<lambda>samples.
       ret (write_worker_vm_metrics out3 samples))))))"

definition render_metrics :: "'x services \<Rightarrow> string \<Rightarrow> tick_health \<Rightarrow> 'x handler" where
  "render_metrics S version health = or_500 (render_all S version health) (\<lambda>body. ret (text_response 200 body))"

end
