(* ===== verification/ExportProps.thy ===== *)
theory ExportProps
  imports MetricsExport ApiLaws
begin

text \<open>
  What a scraper of \<open>GET /metrics\<close> can rely on: the counters of finished runs are those of the jobs table, the gauge of job states counts every job
  once, and label values read back.
\<close>

section \<open>Maps updated at an entry\<close>

text \<open>What the counting of runs needs of the map it keeps its tallies in.\<close>

locale entry_map =
  fixes wf :: "'m \<Rightarrow> bool" and lookup :: "'m \<Rightarrow> 'k \<Rightarrow> 'v option" and entry :: "'k \<Rightarrow> 'v \<Rightarrow> ('v \<Rightarrow> 'v) \<Rightarrow> 'm \<Rightarrow> 'm"
  assumes wf_at: "wf m \<Longrightarrow> wf (entry k v f m)"
    and lookup_at: "wf m \<Longrightarrow> lookup (entry k v f m) k' = (if k' = k then Some (f (unwrap_or v (lookup m k))) else lookup m k')"
begin

lemma wf_all: "wf m \<Longrightarrow> wf (foldl (\<lambda>m x. entry (key x) v (upd x) m) m xs)"
  by (induction xs arbitrary: m) (auto intro: wf_at)

lemma lookup_all:
  "wf m \<Longrightarrow>
   lookup (foldl (\<lambda>m x. entry (key x) v (upd x) m) m xs) k
   = (if k \<in> key ` set xs \<or> lookup m k \<noteq> None
      then Some (foldl (\<lambda>a x. upd x a) (unwrap_or v (lookup m k)) (filter (\<lambda>x. key x = k) xs)) else None)"
proof (induction xs arbitrary: m)
  case Nil
  then show ?case by (auto simp: unwrap_or_def split: option.split)
next
  case (Cons x xs)
  then show ?case by (cases "key x = k") (auto simp: wf_at lookup_at unwrap_or_def)
qed

end

definition key_sorted :: "('k::linorder \<times> 'v) list \<Rightarrow> bool" where
  "key_sorted kvs \<longleftrightarrow> sorted_wrt (<) (map fst kvs)"

lemma key_sorted_Cons: "key_sorted (kv # kvs) \<longleftrightarrow> (\<forall>x \<in> set kvs. fst kv < fst x) \<and> key_sorted kvs"
  by (simp add: key_sorted_def)

lemma keys_at_entry: "fst ` set (at_entry k v f kvs) = insert k (fst ` set kvs)"
  by (induction k v f kvs rule: at_entry.induct) auto

lemma key_sorted_at_entry: "key_sorted kvs \<Longrightarrow> key_sorted (at_entry k v f kvs)"
proof (induction k v f kvs rule: at_entry.induct)
  case (2 k v f k' v' kvs)
  show ?case
  proof (cases rule: linorder_cases [of k k'])
    case greater
    have "k' < fst x" if "x \<in> set (at_entry k v f kvs)" for x
    proof -
      have "fst x \<in> insert k (fst ` set kvs)" using that keys_at_entry [of k v f kvs] by blast
      with greater 2(2) show ?thesis by (auto simp: key_sorted_Cons)
    qed
    with greater 2 show ?thesis by (auto simp: key_sorted_Cons)
  qed (use 2(2) in \<open>auto simp: key_sorted_Cons\<close>)
qed (simp add: key_sorted_def)

lemma map_of_at_entry:
  "key_sorted kvs \<Longrightarrow>
   map_of (at_entry k v f kvs) k' = (if k' = k then Some (f (unwrap_or v (map_of kvs k))) else map_of kvs k')"
proof (induction k v f kvs rule: at_entry.induct)
  case (2 k v f k1 v1 kvs)
  have "k < k1 \<Longrightarrow> map_of kvs k = None"
    using 2(2) by (auto simp: key_sorted_Cons map_of_eq_None_iff)
  with 2 show ?case by (auto simp: key_sorted_Cons unwrap_or_def)
qed (simp add: unwrap_or_def)

interpretation btree: entry_map key_sorted map_of at_entry
  by unfold_locales (simp_all add: key_sorted_at_entry map_of_at_entry)

section \<open>Finished runs\<close>

definition run_owner :: "job_row \<Rightarrow> string \<times> string" where
  "run_owner r = (j_namespace r, unwrap_or [] (j_cronjob_name r))"

text \<open>The tally of an owner's runs taken straight from the table.\<close>

definition finished_runs :: "database \<Rightarrow> string \<times> string \<Rightarrow> bool \<Rightarrow> job_row list" where
  "finished_runs d k failed =
     filter (\<lambda>r. run_owner r = k \<and> is_finished_state (j_status r) \<and> run_failed d r = failed) (jobs d)"

definition direct_tally :: "database \<Rightarrow> string \<times> string \<Rightarrow> bool \<Rightarrow> run_tally" where
  "direct_tally d k failed =
     \<lparr>tally_count = length (finished_runs d k failed),
      last_completion = Max (insert 0 (completion_time d ` set (finished_runs d k failed)))\<rparr>"

lemma foldl_max: "foldl max (a::int) xs = Max (insert a (set xs))"
proof (induction xs arbitrary: a)
  case (Cons x xs)
  have "Max (insert (max a x) (set xs)) = Max (insert a (insert x (set xs)))"
    by (cases "xs = []") (auto simp: max.assoc max.left_commute)
  with Cons show ?case by simp
qed simp

lemma max_of_Max: "xs \<noteq> [] \<Longrightarrow> max_of xs = Max (set xs)"
  by (cases xs) (simp_all add: max_of_def foldl_max)

text \<open>Grouping rows loses none: counts add up over the groups, and so does the latest of a group.\<close>

lemma count_partition:
  "finite B \<Longrightarrow> key ` set xs \<subseteq> B \<Longrightarrow> (\<Sum>g \<in> B. length (filter (\<lambda>x. key x = g) xs)) = length xs"
proof (induction xs)
  case (Cons x xs)
  have "(\<Sum>g \<in> B. length (filter (\<lambda>x. key x = g) (x # xs))) = (\<Sum>g \<in> B. (if key x = g then 1 else 0) + length (filter (\<lambda>x. key x = g) xs))"
    by (intro sum.cong) auto
  with Cons show ?case by (simp add: sum.distrib)
qed simp

lemma count_by_group:
  "sum_list (map (\<lambda>g. length (filter (\<lambda>x. key x = g) xs)) (filter P (remdups (map key xs)))) = length (filter (\<lambda>x. P (key x)) xs)"
proof -
  have "sum_list (map (\<lambda>g. length (filter (\<lambda>x. key x = g) xs)) (filter P (remdups (map key xs))))
    = (\<Sum>g \<in> {g \<in> key ` set xs. P g}. length (filter (\<lambda>x. key x = g) xs))"
    by (subst sum_list_distinct_conv_sum_set) (auto intro!: sum.cong)
  also have "\<dots> = (\<Sum>g \<in> {g \<in> key ` set xs. P g}. length (filter (\<lambda>x. key x = g) (filter (\<lambda>x. P (key x)) xs)))"
    by (intro sum.cong) (auto intro!: arg_cong [of _ _ length] filter_cong)
  also have "\<dots> = length (filter (\<lambda>x. P (key x)) xs)"
    by (rule count_partition) auto
  finally show ?thesis .
qed

lemma latest_by_group:
  fixes t :: "'a \<Rightarrow> int"
  assumes "finite B" and "\<And>k. k \<in> B \<Longrightarrow> R k \<noteq> {}" "\<And>k. k \<in> B \<Longrightarrow> finite (R k)"
  shows "Max (insert 0 ((\<lambda>k. Max (t ` R k)) ` B)) = Max (insert 0 (t ` (\<Union>k \<in> B. R k)))"
  using assms
proof (induction B rule: finite_induct)
  case (insert k B)
  have "Max (insert 0 ((\<lambda>k. Max (t ` R k)) ` insert k B)) = max (Max (t ` R k)) (Max (insert 0 ((\<lambda>k. Max (t ` R k)) ` B)))"
    using insert.hyps by (simp only: image_insert insert_commute [of 0]) (rule Max_insert, auto)
  also have "\<dots> = max (Max (t ` R k)) (Max (insert 0 (t ` (\<Union>k \<in> B. R k))))"
    using insert by simp
  also have "\<dots> = Max (t ` R k \<union> insert 0 (t ` (\<Union>k \<in> B. R k)))"
    using insert by (subst Max_Un) auto
  also have "t ` R k \<union> insert 0 (t ` (\<Union>k \<in> B. R k)) = insert 0 (t ` (\<Union>k \<in> insert k B. R k))"
    by auto
  finally show ?case .
qed simp

definition group_of :: "database \<Rightarrow> string \<times> string \<times> string \<times> bool \<Rightarrow> run_group" where
  "group_of d g =
     (let rows = filter (\<lambda>r. group_key d r = g) (jobs d)
      in \<lparr>rg_namespace = fst g, rg_cronjob = fst (snd g), rg_status = fst (snd (snd g)), rg_failed = snd (snd (snd g)),
          rg_count = length rows, rg_last = max_of (map (completion_time d) rows)\<rparr>)"

lemma run_groups_eq: "run_groups d = map (group_of d) (remdups (map (group_key d) (jobs d)))"
  by (auto simp: run_groups_def group_of_def Let_def split: prod.split)

definition sum_groups :: "run_group list \<Rightarrow> run_tally" where
  "sum_groups gs = \<lparr>tally_count = sum_list (map rg_count gs), last_completion = Max (insert 0 (rg_last ` set gs))\<rparr>"

definition add_group :: "run_group \<Rightarrow> run_tally \<times> run_tally \<Rightarrow> run_tally \<times> run_tally" where
  "add_group g = (\<lambda>(good, bad). if rg_failed g then (good, add_runs (rg_count g) (rg_last g) bad) else (add_runs (rg_count g) (rg_last g) good, bad))"

lemma sum_groups_snoc: "sum_groups (gs @ [g]) = add_runs (rg_count g) (rg_last g) (sum_groups gs)"
proof -
  have "insert 0 (rg_last ` set (gs @ [g])) = insert (rg_last g) (insert 0 (rg_last ` set gs))" by auto
  moreover have "Max (insert (rg_last g) (insert 0 (rg_last ` set gs))) = max (rg_last g) (Max (insert 0 (rg_last ` set gs)))"
    by (rule Max_insert) auto
  ultimately show ?thesis by (simp only: sum_groups_def add_runs_def) (simp add: max.commute)
qed

lemma foldl_add_group:
  "foldl (\<lambda>a g. add_group g a) (empty_tally, empty_tally) gs
   = (sum_groups (filter (\<lambda>g. \<not> rg_failed g) gs), sum_groups (filter rg_failed gs))"
proof (induction gs rule: rev_induct)
  case Nil
  show ?case by (simp add: sum_groups_def empty_tally_def)
next
  case (snoc g gs)
  then show ?case by (simp add: add_group_def sum_groups_snoc)
qed

lemma sum_groups_direct:
  "sum_groups (filter (\<lambda>g. rg_failed g = failed \<and> (rg_namespace g, rg_cronjob g) = k \<and> is_finished_state (rg_status g)) (run_groups d))
   = direct_tally d k failed"
proof -
  define P where "P g \<longleftrightarrow> (fst g, fst (snd g)) = k \<and> is_finished_state (fst (snd (snd g))) \<and> snd (snd (snd g)) = failed"
    for g :: "string \<times> string \<times> string \<times> bool"
  let ?B = "{g \<in> group_key d ` set (jobs d). P g}" and ?R = "\<lambda>g. {r \<in> set (jobs d). group_key d r = g}"
  have P_key: "P (group_key d r) \<longleftrightarrow> run_owner r = k \<and> is_finished_state (j_status r) \<and> run_failed d r = failed" for r
    by (auto simp: P_def group_key_def run_owner_def)
  have sel: "filter (\<lambda>g. rg_failed g = failed \<and> (rg_namespace g, rg_cronjob g) = k \<and> is_finished_state (rg_status g)) (run_groups d)
    = map (group_of d) (filter P (remdups (map (group_key d) (jobs d))))"
    by (auto simp: run_groups_eq filter_map comp_def P_def group_of_def Let_def intro!: arg_cong [of _ _ "map (group_of d)"] filter_cong)
  have "rg_last (group_of d g) = Max (completion_time d ` ?R g)" if "g \<in> ?B" for g
  proof -
    have "filter (\<lambda>r. group_key d r = g) (jobs d) \<noteq> []" using that by (auto simp: filter_empty_conv)
    then show ?thesis by (simp add: group_of_def Let_def max_of_Max)
  qed
  then have lasts: "(\<lambda>g. rg_last (group_of d g)) ` ?B = (\<lambda>g. Max (completion_time d ` ?R g)) ` ?B" by (intro image_cong) auto
  have rows: "(\<Union>g \<in> ?B. ?R g) = set (finished_runs d k failed)"
  proof -
    have "(\<Union>g \<in> ?B. ?R g) = {r \<in> set (jobs d). P (group_key d r)}" by auto
    then show ?thesis by (simp add: finished_runs_def P_key)
  qed
  have "Max (insert 0 ((\<lambda>g. Max (completion_time d ` ?R g)) ` ?B)) = Max (insert 0 (completion_time d ` (\<Union>g \<in> ?B. ?R g)))"
    by (rule latest_by_group) auto
  moreover have "set (filter P (remdups (map (group_key d) (jobs d)))) = ?B" by auto
  ultimately have "Max (insert 0 (rg_last ` set (map (group_of d) (filter P (remdups (map (group_key d) (jobs d)))))))
    = Max (insert 0 (completion_time d ` set (finished_runs d k failed)))"
    by (simp only: set_map image_image lasts rows)
  moreover have "sum_list (map rg_count (map (group_of d) (filter P (remdups (map (group_key d) (jobs d)))))) = length (finished_runs d k failed)"
    using count_by_group [of "group_key d" "jobs d" P] by (simp add: comp_def group_of_def Let_def finished_runs_def P_key)
  ultimately show ?thesis unfolding sel sum_groups_def direct_tally_def by simp
qed

lemma tally_group_at:
  "tally_group ts g
   = (if is_finished_state (rg_status g)
      then at_entry (rg_namespace g, rg_cronjob g) (empty_tally, empty_tally) (add_group g) ts else ts)"
  by (simp add: tally_group_def add_group_def)

lemma foldl_tally_group:
  "foldl tally_group ts gs
   = foldl (\<lambda>ts g. at_entry (rg_namespace g, rg_cronjob g) (empty_tally, empty_tally) (add_group g) ts) ts
       (filter (\<lambda>g. is_finished_state (rg_status g)) gs)"
  by (induction gs arbitrary: ts) (simp_all add: tally_group_at)

lemma foldl_same: "foldl (\<lambda>a x. a) v xs = v"
  by (induction xs) auto

lemma finished_groups:
  "k \<in> (\<lambda>g. (rg_namespace g, rg_cronjob g)) ` set (filter (\<lambda>g. is_finished_state (rg_status g)) (run_groups d))
   \<longleftrightarrow> (\<exists>r \<in> set (jobs d). run_owner r = k \<and> is_finished_state (j_status r))"
  by (auto simp: run_groups_eq group_of_def Let_def group_key_def run_owner_def image_iff)

text \<open>
  C38. The counters of finished runs are those of the jobs table: there is an entry for each CronJob and for each owner of a finished run, no other, each
  once and in order; its two values are the number of the owner's finished runs that succeeded and that failed, with the time of the last of each or 0. So a
  CronJob that has not finished a run reads 0 instead of being absent.
\<close>

theorem run_counters_match_table:
  "key_sorted (tally_runs (run_groups d) keys)
   \<and> map_of (tally_runs (run_groups d) keys) k
     = (if k \<in> set keys \<or> (\<exists>r \<in> set (jobs d). run_owner r = k \<and> is_finished_state (j_status r))
        then Some (direct_tally d k False, direct_tally d k True) else None)"
proof -
  let ?z = "(empty_tally, empty_tally)"
  define t0 where "t0 = foldl (\<lambda>ts k. at_entry k ?z (\<lambda>v. v) ts) [] keys"
  have start: "key_sorted t0" unfolding t0_def by (rule btree.wf_all) (simp add: key_sorted_def)
  have zero: "map_of t0 k = (if k \<in> set keys then Some ?z else None)"
    unfolding t0_def by (subst btree.lookup_all) (auto simp: key_sorted_def unwrap_or_def foldl_same)
  have sums: "foldl (\<lambda>a g. add_group g a) ?z
      (filter (\<lambda>g. is_finished_state (rg_status g) \<and> (rg_namespace g, rg_cronjob g) = k) (run_groups d))
    = (direct_tally d k False, direct_tally d k True)"
    using sum_groups_direct [of False k d] sum_groups_direct [of True k d] by (simp add: foldl_add_group conj_commute conj_left_commute)
  have "key_sorted (tally_runs (run_groups d) keys)"
    unfolding tally_runs_def foldl_tally_group t0_def [symmetric] by (rule btree.wf_all [OF start])
  moreover have "map_of (tally_runs (run_groups d) keys) k
     = (if k \<in> set keys \<or> (\<exists>r \<in> set (jobs d). run_owner r = k \<and> is_finished_state (j_status r))
        then Some (direct_tally d k False, direct_tally d k True) else None)"
    unfolding tally_runs_def foldl_tally_group t0_def [symmetric] btree.lookup_all [OF start] finished_groups
    by (auto simp: zero unwrap_or_def sums)
  ultimately show ?thesis ..
qed

section \<open>Jobs by state\<close>

lemma map_of_counts:
  "map_of (map (\<lambda>s. (s, f s)) ks) st = (if st \<in> set ks then Some (f st) else None)"
  by (induction ks) auto

lemma map_of_filter_key: "map_of (filter (\<lambda>e. fst e \<noteq> k) kvs) st = (if st = k then None else map_of kvs st)"
  by (induction kvs) auto

lemma map_of_sort_key: "distinct (map fst kvs) \<Longrightarrow> map_of (sort_key fst kvs) = map_of kvs"
  by (rule map_of_inject_set [THEN iffD2]) (auto simp: distinct_map)

lemma distinct_filter_keys: "distinct (map fst kvs) \<Longrightarrow> distinct (map fst (filter P kvs))"
  by (induction kvs) auto

lemma state_series_lookup:
  "distinct (map fst counts) \<Longrightarrow>
   map_of (state_series counts states) st
   = (if st \<in> set states then Some (unwrap_or 0 (map_of counts st)) else map_of counts st)"
  by (induction counts states rule: state_series.induct)
     (auto simp: map_of_sort_key map_of_filter_key distinct_filter_keys unwrap_or_def)

lemma state_series_keys:
  "distinct (map fst counts) \<Longrightarrow> distinct states \<Longrightarrow> distinct (map fst (state_series counts states))
   \<and> fst ` set (state_series counts states) = set states \<union> fst ` set counts"
proof (induction counts states rule: state_series.induct)
  case (2 counts state states)
  then show ?case by (auto simp: distinct_filter_keys)
qed (auto simp: distinct_map)

definition jobs_in :: "database \<Rightarrow> string \<Rightarrow> nat" where
  "jobs_in d st = length (filter (\<lambda>r. j_status r = st) (jobs d))"

text \<open>
  The gauge of job states counts every job once: each state of the sequence has one series, with the number of jobs that are in it, 0 included; any other
  status has one only while some job is in it. \<open>Failed\<close> is such a status: it is no state of the sequence, so its series comes and goes.
\<close>

theorem state_gauge_counts_jobs:
  "distinct (map fst (state_series (status_counts d) STATE_SEQUENCE))
   \<and> map_of (state_series (status_counts d) STATE_SEQUENCE) st
     = (if st \<in> set STATE_SEQUENCE \<or> 0 < jobs_in d st then Some (jobs_in d st) else None)
   \<and> sum_list (map snd (state_series (status_counts d) STATE_SEQUENCE)) = length (jobs d)
   \<and> ''Failed'' \<notin> set STATE_SEQUENCE"
proof -
  let ?series = "state_series (status_counts d) STATE_SEQUENCE" and ?B = "set STATE_SEQUENCE \<union> j_status ` set (jobs d)"
  have counts: "distinct (map fst (status_counts d))" by (simp add: status_counts_def comp_def)
  have "distinct STATE_SEQUENCE" by (simp add: STATE_SEQUENCE_def)
  from state_series_keys [OF counts this] have keys: "distinct (map fst ?series)" "fst ` set ?series = ?B"
    by (auto simp: status_counts_def image_image)
  have pos: "0 < jobs_in d s \<longleftrightarrow> s \<in> j_status ` set (jobs d)" for s
    by (auto simp: jobs_in_def filter_empty_conv)
  have found: "map_of ?series s = (if s \<in> set STATE_SEQUENCE \<or> 0 < jobs_in d s then Some (jobs_in d s) else None)" for s
  proof -
    have "map_of (status_counts d) s = (if 0 < jobs_in d s then Some (jobs_in d s) else None)"
      unfolding status_counts_def map_of_counts by (simp add: pos) (simp add: jobs_in_def)
    then show ?thesis unfolding state_series_lookup [OF counts] by (auto simp: unwrap_or_def)
  qed
  have "map snd ?series = map (jobs_in d \<circ> fst) ?series"
    by (rule map_cong) (use keys found in \<open>auto simp: pos dest!: map_of_is_SomeI split: if_splits\<close>)
  then have "sum_list (map snd ?series) = sum_list (map (jobs_in d) (map fst ?series))" by (simp only: map_map)
  also have "\<dots> = (\<Sum>s \<in> ?B. jobs_in d s)" using keys by (simp only: sum_list_distinct_conv_sum_set set_map)
  also have "\<dots> = length (jobs d)" unfolding jobs_in_def by (rule count_partition) auto
  finally have "sum_list (map snd ?series) = length (jobs d)" .
  moreover have "''Failed'' \<notin> set STATE_SEQUENCE" by (simp add: STATE_SEQUENCE_def)
  ultimately show ?thesis using keys(1) found by blast
qed

section \<open>Label values\<close>

definition label_code :: "char \<Rightarrow> string" where
  "label_code c =
     (if c = CHR 0x5C then [CHR 0x5C, CHR 0x5C] else if c = CHR 0x22 then [CHR 0x5C, CHR 0x22]
      else if c = CHR 0x0A then [CHR 0x5C, CHR ''n''] else [c])"

text \<open>The reading of one character of a label value as the format describes it.\<close>

fun label_step :: "string \<Rightarrow> (char \<times> string) option" where
  "label_step [] = None"
| "label_step (c # s) =
     (if c \<noteq> CHR 0x5C then Some (c, s)
      else case s of
             [] \<Rightarrow> None
           | e # r \<Rightarrow> if e = CHR ''n'' then Some (CHR 0x0A, r) else if e = CHR 0x5C \<or> e = CHR 0x22 then Some (e, r) else None)"

interpretation label: delimited_code label_code label_step "CHR 0x22"
  by unfold_locales (auto simp: label_code_def)

lemma escape_label_codes: "escape_label v = concat (map label_code v)"
  by (induction v) (auto simp: escape_label_def label_code_def)

text \<open>A label value reads back up to its closing quote, whatever quotes, backslashes and line ends it has; so two different values never look the same.\<close>

theorem label_value_reads_back:
  "read_until (CHR 0x22) label_step (length v) (escape_label v @ CHR 0x22 # s) = Some (v, s)
   \<and> (escape_label v = escape_label v' \<longleftrightarrow> v = v')"
  unfolding escape_label_codes by (auto simp: label.read_delimited dest: label.encode_inj)

end
