(* ===== verification/StatusPage.thy ===== *)
theory StatusPage
  imports Loops JobApi Escaping
begin

text \<open>
  The public status page and the health endpoints, \<open>src/src/status_page.rs\<close>. The version is fixed when the program is built and a parameter here.
\<close>

section \<open>Text\<close>

definition dq :: string where
  "dq = [CHR 0x22]"

definition nl :: string where
  "nl = [CHR 0x0A]"

definition esc :: "string \<Rightarrow> string" where
  "esc s =
     replace_char (CHR 0x22) ''&quot;''
       (replace_char (CHR ''>'') ''&gt;'' (replace_char (CHR ''<'') ''&lt;'' (replace_char (CHR ''&'') ''&amp;'' s)))"

definition two_digits :: "int \<Rightarrow> string" where
  "two_digits n = (if n < 10 then ''0'' @ show_int n else show_int n)"

definition format_elapsed :: "int \<Rightarrow> string" where
  "format_elapsed secs =
     (let seconds = max secs 0; h = seconds div 3600; m = (seconds mod 3600) div 60; s = seconds mod 60
      in if h > 0 then show_int h @ ''h'' @ two_digits m @ ''m''
         else if m > 0 then show_int m @ ''m'' @ two_digits s @ ''s''
         else show_int s @ ''s'')"

section \<open>Queries\<close>

record running_job =
  rj_name :: string
  rj_namespace :: string
  rj_cronjob_name :: "string option"
  rj_status :: string
  rj_created_at :: int
  rj_plan_name :: "string option"

definition running_job_of :: "job_row \<Rightarrow> running_job" where
  "running_job_of r =
     \<lparr>rj_name = j_name r, rj_namespace = j_namespace r, rj_cronjob_name = j_cronjob_name r, rj_status = j_status r,
      rj_created_at = j_created_at r, rj_plan_name = j_worker_plan r\<rparr>"

definition running_jobs :: "database \<Rightarrow> running_job list" where
  "running_jobs d = map running_job_of (sort_key (\<lambda>r. - j_created_at r) (filter (\<lambda>r. j_status r \<noteq> ''Archived'') (jobs d)))"

record recent_event =
  re_reason :: string
  re_message :: string
  re_timestamp :: int
  re_type :: string
  re_job :: "(string \<times> string) option"

text \<open>The \<open>LEFT JOIN\<close>: namespace and name of the event's job, both or neither.\<close>

definition recent_event_of :: "database \<Rightarrow> event_row \<Rightarrow> recent_event" where
  "recent_event_of d e =
     \<lparr>re_reason = ev_reason e, re_message = ev_message e, re_timestamp = ev_timestamp e, re_type = ev_type e,
      re_job = map_option (\<lambda>j. (j_namespace j, j_name j)) (Option.bind (ev_job_id e) (\<lambda>i. find_job i d))\<rparr>"

definition recent_events :: "database \<Rightarrow> recent_event list" where
  "recent_events d = map (recent_event_of d) (take 20 (sort_key (\<lambda>e. - ev_timestamp e) (events d)))"

text \<open>How SQLite's \<open>SUM\<close> adds is SQLite's; of no rows it is NULL.\<close>

definition accumulated_cost :: "(f64 list \<Rightarrow> f64) \<Rightarrow> database \<Rightarrow> f64" where
  "accumulated_cost sql_sum d =
     (case List.map_filter j_actual_cost (jobs d) of
        [] \<Rightarrow> Fin 0
      | costs \<Rightarrow> sql_sum costs)"

section \<open>The page\<close>

definition job_row_html :: "int \<Rightarrow> running_job \<Rightarrow> string" where
  "job_row_html now j =
     ''<tr><td>'' @ esc (rj_namespace j) @ ''/'' @ esc (rj_name j) @ ''</td><td>''
     @ (case rj_cronjob_name j of Some cj \<Rightarrow> ''CronJob: '' @ esc cj | None \<Rightarrow> ''standalone'') @ ''</td><td>'' @ esc (rj_status j) @ ''</td><td>''
     @ format_elapsed (now - rj_created_at j) @ ''</td><td>'' @ unwrap_or ''n/a'' (rj_plan_name j) @ ''</td></tr>''"

definition event_row_html :: "int \<Rightarrow> recent_event \<Rightarrow> string" where
  "event_row_html now e =
     ''<tr class='' @ dq @ (if re_type e = ''Warning'' then ''warning'' else ''normal'') @ dq @ ''><td>'' @ format_elapsed (now - re_timestamp e)
     @ ''</td><td>'' @ (case re_job e of Some (ns, name) \<Rightarrow> esc ns @ ''/'' @ esc name | None \<Rightarrow> ''(system)'') @ ''</td><td>'' @ esc (re_reason e)
     @ ''</td><td>'' @ esc (re_message e) @ ''</td></tr>''"

definition none_row :: "string \<Rightarrow> string" where
  "none_row columns = ''<tr><td colspan='' @ dq @ columns @ dq @ ''><em>none</em></td></tr>''"

definition budget_html :: "(f64 \<times> budget_settings) option \<Rightarrow> string" where
  "budget_html budget =
     (let disabled = ''<p>Budget guard: <em>disabled</em></p>''
      in case budget of
           None \<Rightarrow> disabled
         | Some (balance, settings) \<Rightarrow>
            if f64_less (Fin 0) (budget_daily_rate settings)
            then ''<p>Balance: <strong>'' @ show_fixed 4 balance @ '' '' @ esc (main_currency settings) @ ''</strong> (accrues ''
                 @ show_fixed 4 (budget_daily_rate settings) @ ''/day, capped at '' @ show_nat (budget_rollover_cap_days settings) @ '' days)</p>''
            else disabled)"

definition page_head :: string where
  "page_head = concat (map (\<lambda>l. l @ nl)
     [''<!doctype html>'', ''<html lang='' @ dq @ ''en'' @ dq @ ''>'', ''<head>'', ''<meta charset='' @ dq @ ''utf-8'' @ dq @ ''>'',
      ''<meta name='' @ dq @ ''viewport'' @ dq @ '' content='' @ dq @ ''width=device-width, initial-scale=1'' @ dq @ ''>'',
      ''<meta http-equiv='' @ dq @ ''refresh'' @ dq @ '' content='' @ dq @ ''15'' @ dq @ ''>'', ''<title>kube-shim status</title>'', ''<style>'',
      ''  body { font-family: system-ui, sans-serif; margin: 1.5rem; max-width: 60rem; }'',
      ''  h1 { font-size: 1.3rem; }'', ''  h2 { font-size: 1.05rem; margin-top: 2rem; }'',
      ''  table { border-collapse: collapse; width: 100%; font-size: 0.9rem; }'',
      ''  td, th { text-align: left; padding: 0.3rem 0.6rem; border-bottom: 1px solid #ddd; vertical-align: top; }'',
      ''  tr.warning { background: #fff3e0; }'', ''  footer { margin-top: 2rem; font-size: 0.8rem; color: #666; }'',
      ''</style>'', ''</head>'', ''<body>'', ''<h1>kube-shim</h1>''])"

definition render_html ::
  "string \<Rightarrow> int \<Rightarrow> running_job list \<Rightarrow> recent_event list \<Rightarrow> (f64 \<times> budget_settings) option \<Rightarrow> f64 \<Rightarrow> string" where
  "render_html version now js es budget accumulated =
     (let jobs_rows = (if js = [] then none_row ''5'' else concat (map (job_row_html now) js));
          events_rows = (if es = [] then none_row ''4'' else concat (map (event_row_html now) es))
      in page_head @ concat (map (\<lambda>l. l @ nl)
           [budget_html budget,
            ''<p>Accumulated real cost (completed jobs): <strong>'' @ show_fixed 4 accumulated @ ''</strong></p>'', [],
            ''<h2>Running jobs</h2>'', ''<table>'',
            ''<tr><th>Job</th><th>Type</th><th>Status</th><th>Elapsed</th><th>VM size</th></tr>'', jobs_rows, ''</table>'', [],
            ''<h2>Recent events</h2>'', ''<table>'',
            ''<tr><th>Age</th><th>Job</th><th>Reason</th><th>Message</th></tr>'', events_rows, ''</table>'', [],
            ''<footer>kube-shim/'' @ version @ '' &middot; refreshes every 15s</footer>'', ''</body>'', ''</html>'']))"

definition render_status :: "'x services \<Rightarrow> (f64 list \<Rightarrow> f64) \<Rightarrow> string \<Rightarrow> 'x handler" where
  "render_status S sql_sum version =
     or_500 (sql_query S running_jobs) (\<lambda>js.
     or_500 (sql_query S recent_events) (\<lambda>es.
     or_500 (sql_query S (accumulated_cost sql_sum)) (\<lambda>accumulated.
     bnd (attempt (settle_accrual S)) (\<lambda>r.
     bnd (now_ts S) (\<lambda>now.
       ret (text_response 200 (render_html version now js es (case r of Inl _ \<Rightarrow> None | Inr b \<Rightarrow> b) accumulated)))))))"

section \<open>Health\<close>

definition ok_json :: json where
  "ok_json = JObj [(''status'', JStr ''ok'')]"

definition livez :: "'x handler" where
  "livez = ret (json_response 200 ok_json)"

definition readyz :: "'x services \<Rightarrow> tick_health \<Rightarrow> 'x handler" where
  "readyz S health =
     bnd (attempt (sql_query S (\<lambda>_. ()))) (\<lambda>r.
     bnd (now_ts S) (\<lambda>now.
       (let db_ok = (case r of Inl _ \<Rightarrow> False | Inr _ \<Rightarrow> True); loop_ok = is_healthy now health
        in if db_ok \<and> loop_ok then ret (json_response 200 ok_json)
           else ret (json_response 503
                  (JObj [(''db_ok'', JBool db_ok), (''reconcile_loop_ok'', JBool loop_ok), (''status'', JStr ''not ready'')])))))"

end
