(* ===== verification/PageProps.thy ===== *)
theory PageProps
  imports StatusPage ApiLaws Demo
begin

text \<open>
  What holds of the public status page and the health endpoints: names and messages cannot change the page's markup, they read back from its cells, and
  readiness is what it says.
\<close>

section \<open>Markup\<close>

text \<open>A scanner of HTML that keeps the tags; its state tells whether it is inside of one.\<close>

fun markup :: "bool \<Rightarrow> string \<Rightarrow> string" where
  "markup b [] = []"
| "markup True (c # s) = c # markup (c \<noteq> CHR ''>'') s"
| "markup False (c # s) = (if c = CHR ''<'' then c # markup True s else markup False s)"

fun inside :: "bool \<Rightarrow> string \<Rightarrow> bool" where
  "inside b [] = b"
| "inside b (c # s) = inside (if b then c \<noteq> CHR ''>'' else c = CHR ''<'') s"

lemma markup_append [simp]: "markup b (s @ t) = markup b s @ markup (inside b s) t"
  by (induction b s rule: markup.induct) auto

lemma inside_append [simp]: "inside b (s @ t) = inside (inside b s) t"
  by (induction s arbitrary: b) auto

definition plain :: "string \<Rightarrow> bool" where
  "plain s \<longleftrightarrow> CHR ''<'' \<notin> set s"

lemma plain_markup [simp]: "plain s \<Longrightarrow> markup False s = []" "plain s \<Longrightarrow> inside False s = False"
  unfolding plain_def by (induction s) auto

lemma plain_append [simp]: "plain (s @ t) \<longleftrightarrow> plain s \<and> plain t"
  by (auto simp: plain_def)

lemma plain_Cons [simp]: "plain (c # s) \<longleftrightarrow> c \<noteq> CHR ''<'' \<and> plain s"
  by (auto simp: plain_def)

lemma plain_Nil [simp]: "plain []"
  by (simp add: plain_def)

lemma plain_digits: "list_all is_ascii_digit s \<Longrightarrow> plain s"
  unfolding plain_def list_all_iff by (auto simp: is_ascii_digit_def)

lemma plain_show_nat [simp]: "plain (show_nat n)"
  by (simp add: plain_digits show_nat_digits)

lemma plain_show_int [simp]: "plain (show_int i)"
  by (simp add: show_int_def)

lemma plain_show_fixed [simp]: "plain (show_fixed n x)"
proof -
  have "plain (replicate k (CHR ''0''))" for k by (auto simp: plain_def)
  then show ?thesis by (auto simp: show_fixed_def show_fixed_rat_def Let_def split: f64.split)
qed

lemma plain_format_elapsed [simp]: "plain (format_elapsed s)"
  by (simp add: format_elapsed_def two_digits_def Let_def)

section \<open>Escaped text\<close>

definition html_code :: "char \<Rightarrow> string" where
  "html_code c =
     (if c = CHR ''&'' then ''&amp;'' else if c = CHR ''<'' then ''&lt;'' else if c = CHR ''>'' then ''&gt;''
      else if c = CHR 0x22 then ''&quot;'' else [c])"

text \<open>A browser's reading of one character of text, as far as the page uses entities.\<close>

definition html_step :: "string \<Rightarrow> (char \<times> string) option" where
  "html_step s =
     (if starts_with s ''&amp;'' then Some (CHR ''&'', drop 5 s)
      else if starts_with s ''&lt;'' then Some (CHR ''<'', drop 4 s)
      else if starts_with s ''&gt;'' then Some (CHR ''>'', drop 4 s)
      else if starts_with s ''&quot;'' then Some (CHR 0x22, drop 6 s)
      else case s of [] \<Rightarrow> None | c # r \<Rightarrow> if c = CHR ''&'' then None else Some (c, r))"

interpretation html: delimited_code html_code html_step "CHR ''<''"
  by unfold_locales (auto simp: html_code_def html_step_def starts_with_def)

lemma esc_codes: "esc s = concat (map html_code s)"
  by (induction s) (auto simp: esc_def html_code_def)

lemma plain_esc [simp]: "plain (esc s)"
  unfolding esc_codes by (induction s) (auto simp: html_code_def)

section \<open>The page\<close>

definition warns :: "recent_event \<Rightarrow> bool" where
  "warns e \<longleftrightarrow> re_type e = ''Warning''"

definition guard_shown :: "(f64 \<times> budget_settings) option \<Rightarrow> bool" where
  "guard_shown budget = (case budget of None \<Rightarrow> False | Some (_, settings) \<Rightarrow> f64_less (Fin 0) (budget_daily_rate settings))"

lemma job_row_markup:
  assumes "\<forall>p. rj_plan_name j = Some p \<longrightarrow> plain p"
  shows "markup False (job_row_html now j) = ''<tr><td></td><td></td><td></td><td></td><td></td></tr>'' \<and> \<not> inside False (job_row_html now j)"
  using assms by (cases "rj_cronjob_name j"; cases "rj_plan_name j") (simp_all add: job_row_html_def unwrap_or_def)

lemma event_row_markup:
  "markup False (event_row_html now e)
   = ''<tr class='' @ dq @ (if warns e then ''warning'' else ''normal'') @ dq @ ''><td></td><td></td><td></td><td></td></tr>''
   \<and> \<not> inside False (event_row_html now e)"
  by (cases "re_job e") (auto simp: event_row_html_def warns_def dq_def)

lemma concat_markup:
  "(\<And>x. x \<in> set xs \<Longrightarrow> markup False (f x) = g x \<and> \<not> inside False (f x)) \<Longrightarrow>
   markup False (concat (map f xs)) = concat (map g xs) \<and> \<not> inside False (concat (map f xs))"
  by (induction xs) auto

lemma budget_markup:
  "markup False (budget_html budget) = (if guard_shown budget then ''<p><strong></strong></p>'' else ''<p><em></em></p>'')
   \<and> \<not> inside False (budget_html budget)"
  by (auto simp: budget_html_def guard_shown_def split: option.split)

lemma head_closed: "\<not> inside False page_head"
  by code_simp

definition job_rows_markup :: "nat \<Rightarrow> string" where
  "job_rows_markup n =
     (if n = 0 then markup False (none_row ''5'') else concat (replicate n ''<tr><td></td><td></td><td></td><td></td><td></td></tr>''))"

definition event_rows_markup :: "bool list \<Rightarrow> string" where
  "event_rows_markup ws =
     (if ws = [] then markup False (none_row ''4'')
      else concat (map (\<lambda>w. ''<tr class='' @ dq @ (if w then ''warning'' else ''normal'') @ dq @ ''><td></td><td></td><td></td><td></td></tr>'') ws))"

lemma none_row_closed: "\<not> inside False (none_row ''4'')" "\<not> inside False (none_row ''5'')"
  by (simp_all add: none_row_def dq_def)

lemma job_rows_shape:
  assumes "\<forall>j \<in> set js. \<forall>p. rj_plan_name j = Some p \<longrightarrow> plain p"
  shows "markup False (if js = [] then none_row ''5'' else concat (map (job_row_html now) js)) = job_rows_markup (length js)
   \<and> \<not> inside False (if js = [] then none_row ''5'' else concat (map (job_row_html now) js))"
proof (cases "js = []")
  case False
  have "markup False (concat (map (job_row_html now) js)) = concat (map (\<lambda>_. ''<tr><td></td><td></td><td></td><td></td><td></td></tr>'') js)
     \<and> \<not> inside False (concat (map (job_row_html now) js))"
    by (rule concat_markup) (use assms in \<open>simp add: job_row_markup\<close>)
  with False show ?thesis by (simp add: job_rows_markup_def map_replicate_const)
qed (simp add: job_rows_markup_def none_row_closed)

lemma event_rows_shape:
  "markup False (if es = [] then none_row ''4'' else concat (map (event_row_html now) es)) = event_rows_markup (map warns es)
   \<and> \<not> inside False (if es = [] then none_row ''4'' else concat (map (event_row_html now) es))"
proof (cases "es = []")
  case False
  have "markup False (concat (map (event_row_html now) es)) = concat (map (\<lambda>e. ''<tr class='' @ dq @ (if warns e then ''warning'' else ''normal'') @ dq
       @ ''><td></td><td></td><td></td><td></td></tr>'') es)
     \<and> \<not> inside False (concat (map (event_row_html now) es))"
    by (rule concat_markup) (rule event_row_markup)
  with False show ?thesis by (simp add: event_rows_markup_def comp_def)
qed (simp add: event_rows_markup_def none_row_closed)

definition page_shape :: "nat \<Rightarrow> bool list \<Rightarrow> bool \<Rightarrow> string" where
  "page_shape n ws shown =
     markup False page_head @ (if shown then ''<p><strong></strong></p>'' else ''<p><em></em></p>'') @ ''<p><strong></strong></p>''
     @ ''<h2></h2><table><tr><th></th><th></th><th></th><th></th><th></th></tr>'' @ job_rows_markup n @ ''</table>''
     @ ''<h2></h2><table><tr><th></th><th></th><th></th><th></th></tr>'' @ event_rows_markup ws @ ''</table>''
     @ ''<footer></footer></body></html>''"

text \<open>
  C39. Names cannot change the status page: its tags are those of the template with one row for each running job and each recent event, the class of an event's
  row being its type and nothing else, whatever namespaces, names, statuses, reasons and messages are. Plan names are not escaped, so this needs that those
  of the provider have no \<open><\<close> in them.
\<close>

theorem page_markup_fixed:
  assumes "plain version" and "\<forall>j \<in> set js. \<forall>p. rj_plan_name j = Some p \<longrightarrow> plain p"
  shows "markup False (render_html version now js es budget accumulated) = page_shape (length js) (map warns es) (guard_shown budget)"
proof -
  define rows where "rows = (if js = [] then none_row ''5'' else concat (map (job_row_html now) js))"
  define evs where "evs = (if es = [] then none_row ''4'' else concat (map (event_row_html now) es))"
  have r: "markup False rows = job_rows_markup (length js)" "\<not> inside False rows"
    using job_rows_shape [OF assms(2), of now] unfolding rows_def by auto
  have e: "markup False evs = event_rows_markup (map warns es)" "\<not> inside False evs"
    using event_rows_shape [of es now] unfolding evs_def by auto
  show ?thesis
    unfolding render_html_def Let_def rows_def [symmetric] evs_def [symmetric] page_shape_def
    using assms(1) by (simp add: head_closed budget_markup r e nl_def)
qed

text \<open>The text of a cell is what it says: a name or message reads back from its cell up to the next tag.\<close>

theorem cell_reads_back: "read_until (CHR ''<'') html_step (length s) (esc s @ CHR ''<'' # rest) = Some (s, rest)"
  unfolding esc_codes by (simp add: html.read_delimited)

definition hostile_job :: running_job where
  "hostile_job =
     \<lparr>rj_name = ''</td><script>'', rj_namespace = ''a&b'', rj_cronjob_name = Some ''<b>'', rj_status = ''Created'', rj_created_at = 0,
      rj_plan_name = Some ''1xCPU-1GB''\<rparr>"

theorem page_markup_fixed_witness:
  "markup False (render_html ''0.1.0'' 60 [hostile_job] [] None (Fin 0)) = page_shape 1 [] False"
  using page_markup_fixed [of "''0.1.0''" "[hostile_job]" 60 "[]" None "Fin 0"] by (simp add: hostile_job_def guard_shown_def)

section \<open>Readiness\<close>

text \<open>
  Readiness is 200 exactly when the database answers and the job loop has finished a pass less than the threshold ago; otherwise it is 503 with the
  part that is missing. Asking changes no table.
\<close>

theorem ready_iff:
  "\<exists>r. fst (readyz S health w) = Inr r
     \<and> db (snd (readyz S health w)) = db w
     \<and> (let now = timestamp (fst (utc_now S (snd (db_fault S (ext w))))); db_ok = (fst (db_fault S (ext w)) = None); loop_ok = is_healthy now health
        in r = (if db_ok \<and> loop_ok then json_response 200 (JObj [(''status'', JStr ''ok'')])
                else json_response 503 (JObj [(''db_ok'', JBool db_ok), (''reconcile_loop_ok'', JBool loop_ok), (''status'', JStr ''not ready'')])))"
proof (cases "fst (db_fault S (ext w))")
  case None
  then show ?thesis
    by (simp add: readyz_def attempt_def sql_query_def lift_ext_eq bnd_def now_ts_eq ok_json_def ret_def Let_def)
next
  case (Some msg)
  then show ?thesis
    by (simp add: readyz_def attempt_def sql_query_def lift_ext_eq bnd_def now_ts_eq ok_json_def ret_def Let_def)
qed

end
