(* ===== verification/Protobuf.thy ===== *)
theory Protobuf
  imports Api
begin

text \<open>
  Kubernetes protobuf bodies, \<open>src/src/k8s_protobuf.rs\<close>: a body is decoded and written as the JSON that Go would have written for the same object.

  Decoding the wire format is prost's, and the descriptors and \<open>proto/go-fields.json\<close> are generated: all of them are fields of the parameter
  \<open>pb_schema\<close>. A decoded message has the fields \<open>has_field\<close> holds of, by number, and the numbers of the fields its descriptor does not know.

  \<open>write_fields\<close> recurses into the fields of a message and, for a field that Go writes without its being set, into an empty message of the field's type,
  so how deep it goes depends on the descriptors. Its first argument is the number of calls the stack has room for; a call that has none left overflows it.
  The stack overflow and the \<open>unreachable!\<close> of the source are panics.
\<close>

section \<open>Messages\<close>

datatype map_key = StringKey string | OtherKey

datatype pvalue =
    PBool bool
  | PI32 int
  | PI64 int
  | PU32 nat
  | PU64 nat
  | PF32 f64
  | PF64 f64
  | PStr string
  | PBytes string
  | PEnum int
  | PList "pvalue list"
  | PMap "(map_key \<times> pvalue) list"
  | PMsg pmessage
and pmessage = PMessage (pm_name: string) (pm_fields: "(nat \<times> pvalue) list") (pm_unknown: "nat list")

datatype pkind = KMessage string | KBytes | KOther

record pfield =
  fd_number :: nat
  fd_name :: string
  fd_full_name :: string
  fd_is_list :: bool
  fd_is_map :: bool
  fd_kind :: pkind
  fd_default :: pvalue

record go_field =
  gf_json :: string
  gf_omitempty :: bool
  gf_pointer :: bool
  gf_inline :: bool

record pb_schema =
  messages :: "string \<Rightarrow> pfield list option"
  go_fields :: "string \<Rightarrow> (nat \<Rightarrow> go_field option) option"
  decode_message :: "string \<Rightarrow> string \<Rightarrow> string + pmessage"
  json_from_slice :: "string \<Rightarrow> string + json"
  value_debug :: "pvalue \<Rightarrow> string"
  to_bytes :: "nat \<Rightarrow> string \<Rightarrow> string + string"

definition UNKNOWN :: string where
  "UNKNOWN = ''k8s.io.apimachinery.pkg.runtime.Unknown''"

definition TIME :: string where
  "TIME = ''k8s.io.apimachinery.pkg.apis.meta.v1.Time''"

definition FIELDS_V1 :: string where
  "FIELDS_V1 = ''k8s.io.apimachinery.pkg.apis.meta.v1.FieldsV1''"

definition QUANTITY :: string where
  "QUANTITY = ''k8s.io.apimachinery.pkg.api.resource.Quantity''"

definition INT_OR_STRING :: string where
  "INT_OR_STRING = ''k8s.io.apimachinery.pkg.util.intstr.IntOrString''"

definition MEDIA_TYPE :: string where
  "MEDIA_TYPE = ''application/vnd.kubernetes.protobuf''"

definition MAGIC :: string where
  "MAGIC = ''k8s'' @ [CHR 0x00]"

definition MAX_BODY_BYTES :: nat where
  "MAX_BODY_BYTES = 3 * 1024 * 1024"

text \<open>\<open>get_field\<close>: the value of a field, or its default; an absent message is an empty one.\<close>

definition default_value :: "pfield \<Rightarrow> pvalue" where
  "default_value fd =
     (if fd_is_list fd then PList [] else if fd_is_map fd then PMap []
      else case fd_kind fd of KMessage m \<Rightarrow> PMsg (PMessage m [] []) | _ \<Rightarrow> fd_default fd)"

definition has_field :: "pmessage \<Rightarrow> pfield \<Rightarrow> bool" where
  "has_field msg fd \<longleftrightarrow> map_of (pm_fields msg) (fd_number fd) \<noteq> None"

definition get_field :: "pmessage \<Rightarrow> pfield \<Rightarrow> pvalue" where
  "get_field msg fd = unwrap_or (default_value fd) (map_of (pm_fields msg) (fd_number fd))"

definition get_field_by_name :: "'g pb_schema_scheme \<Rightarrow> pmessage \<Rightarrow> string \<Rightarrow> pvalue option" where
  "get_field_by_name G msg name =
     Option.bind (messages G (pm_name msg)) (\<lambda>fds. map_option (get_field msg) (find (\<lambda>fd. fd_name fd = name) fds))"

definition message_field :: "'g pb_schema_scheme \<Rightarrow> pmessage \<Rightarrow> string \<Rightarrow> panic + pmessage" where
  "message_field G msg name = (case get_field_by_name G msg name of Some (PMsg m) \<Rightarrow> Inr m | _ \<Rightarrow> Inl Unreachable)"

definition string_field :: "'g pb_schema_scheme \<Rightarrow> pmessage \<Rightarrow> string \<Rightarrow> string" where
  "string_field G msg name = (case get_field_by_name G msg name of Some (PStr s) \<Rightarrow> s | _ \<Rightarrow> [])"

definition int_field :: "'g pb_schema_scheme \<Rightarrow> pmessage \<Rightarrow> string \<Rightarrow> int" where
  "int_field G msg name = (case get_field_by_name G msg name of Some (PI32 n) \<Rightarrow> n | Some (PI64 n) \<Rightarrow> n | _ \<Rightarrow> 0)"

definition display_path :: "string \<Rightarrow> string" where
  "display_path path = (if path = [] then ''<object>'' else path)"

definition join_path :: "string \<Rightarrow> string \<Rightarrow> string" where
  "join_path path name = (if path = [] then name else path @ ''.'' @ name)"

definition reject_unknown_pb_fields :: "pmessage \<Rightarrow> string \<Rightarrow> string + unit" where
  "reject_unknown_pb_fields msg path =
     (case pm_unknown msg of
        [] \<Rightarrow> Inr ()
      | n # _ \<Rightarrow> Inl (display_path path @ '': field number '' @ show_nat n @ '' is unknown to kube-shim'' @ apostrophe @ ''s '' @ pm_name msg))"

section \<open>Values\<close>

text \<open>A result that may also be a panic, and its \<open>?\<close>.\<close>

type_synonym 'a attempted = "panic + (string + 'a)"

definition on_value :: "'a attempted \<Rightarrow> ('a \<Rightarrow> 'b attempted) \<Rightarrow> 'b attempted" where
  "on_value r k = (case r of Inl p \<Rightarrow> Inl p | Inr (Inl e) \<Rightarrow> Inr (Inl e) | Inr (Inr a) \<Rightarrow> k a)"

type_synonym field_writer = "pmessage \<Rightarrow> entries \<Rightarrow> string \<Rightarrow> entries attempted"

fun is_empty_pb_value :: "pvalue \<Rightarrow> bool" where
  "is_empty_pb_value (PBool b) = (\<not> b)"
| "is_empty_pb_value (PI32 n) = (n = 0)"
| "is_empty_pb_value (PI64 n) = (n = 0)"
| "is_empty_pb_value (PU32 n) = (n = 0)"
| "is_empty_pb_value (PU64 n) = (n = 0)"
| "is_empty_pb_value (PF32 x) = (x = Fin 0)"
| "is_empty_pb_value (PF64 x) = (x = Fin 0)"
| "is_empty_pb_value (PStr s) = (s = [])"
| "is_empty_pb_value (PBytes b) = (b = [])"
| "is_empty_pb_value (PList vs) = (vs = [])"
| "is_empty_pb_value (PMap kvs) = (kvs = [])"
| "is_empty_pb_value (PEnum _) = False"
| "is_empty_pb_value (PMsg _) = False"

definition json_int :: "int \<Rightarrow> json" where
  "json_int n = (if n < 0 then JNeg n else JPos (nat n))"

definition number_from_f64 :: "f64 \<Rightarrow> string \<Rightarrow> string + json" where
  "number_from_f64 x path = (if f64_is_finite x then Inr (JFloat x) else Inl (path @ '': not a finite number''))"

fun scalar_to_json :: "'a libs_scheme \<Rightarrow> 'g pb_schema_scheme \<Rightarrow> pvalue \<Rightarrow> string \<Rightarrow> string + json" where
  "scalar_to_json L G (PBool b) path = Inr (JBool b)"
| "scalar_to_json L G (PI32 n) path = Inr (json_int n)"
| "scalar_to_json L G (PI64 n) path = Inr (json_int n)"
| "scalar_to_json L G (PU32 n) path = Inr (JPos n)"
| "scalar_to_json L G (PU64 n) path = Inr (JPos n)"
| "scalar_to_json L G (PF32 x) path = number_from_f64 x path"
| "scalar_to_json L G (PF64 x) path = number_from_f64 x path"
| "scalar_to_json L G (PStr s) path = Inr (JStr s)"
| "scalar_to_json L G (PBytes b) path = Inr (JStr (b64_encode L b))"
| "scalar_to_json L G other path = Inl (path @ '': unsupported protobuf value '' @ value_debug G other)"

definition time_to_json :: "'a libs_scheme \<Rightarrow> 'g pb_schema_scheme \<Rightarrow> pmessage \<Rightarrow> string \<Rightarrow> string + json" where
  "time_to_json L G msg path =
     (let secs = int_field G msg ''seconds''; nanos = int_field G msg ''nanos''
      in if secs = 0 \<and> nanos = 0 then Inr JNull
         else ok_or (path @ '': timestamp out of range'') (map_option JStr (rfc3339_secs L secs)))"

definition quantity_to_json :: "'g pb_schema_scheme \<Rightarrow> pmessage \<Rightarrow> json" where
  "quantity_to_json G msg = (let s = string_field G msg ''string'' in JStr (if s = [] then ''0'' else s))"

definition int_or_string_to_json :: "'g pb_schema_scheme \<Rightarrow> pmessage \<Rightarrow> string \<Rightarrow> string + json" where
  "int_or_string_to_json G msg path =
     (let ty = int_field G msg ''type''
      in if ty = 0 then Inr (json_int (int_field G msg ''intVal''))
         else if ty = 1 then Inr (JStr (string_field G msg ''strVal''))
         else Inl (path @ '': unknown IntOrString type '' @ show_int ty))"

definition fields_v1_to_json :: "'g pb_schema_scheme \<Rightarrow> pmessage \<Rightarrow> string \<Rightarrow> string + json" where
  "fields_v1_to_json G msg path =
     (case get_field_by_name G msg ''Raw'' of
        Some (PBytes raw) \<Rightarrow>
          if raw \<noteq> [] then map_err (\<lambda>e. path @ '': invalid FieldsV1 JSON: '' @ e) (json_from_slice G raw) else Inr JNull
      | _ \<Rightarrow> Inr JNull)"

definition is_special :: "string \<Rightarrow> bool" where
  "is_special name \<longleftrightarrow> name = TIME \<or> name = FIELDS_V1 \<or> name = QUANTITY \<or> name = INT_OR_STRING"

definition special_to_json :: "'a libs_scheme \<Rightarrow> 'g pb_schema_scheme \<Rightarrow> pmessage \<Rightarrow> string \<Rightarrow> string + json" where
  "special_to_json L G msg path =
     (if pm_name msg = TIME then time_to_json L G msg path
      else if pm_name msg = QUANTITY then Inr (quantity_to_json G msg)
      else if pm_name msg = INT_OR_STRING then int_or_string_to_json G msg path
      else fields_v1_to_json G msg path)"

definition message_to_json ::
  "'a libs_scheme \<Rightarrow> 'g pb_schema_scheme \<Rightarrow> field_writer \<Rightarrow> pmessage \<Rightarrow> string \<Rightarrow> json attempted" where
  "message_to_json L G writer msg path =
     (if is_special (pm_name msg)
      then on_value (Inr (reject_unknown_pb_fields msg path)) (\<lambda>_. Inr (special_to_json L G msg path))
      else on_value (writer msg [] path) (\<lambda>out. Inr (Inr (JObj out))))"

definition value_to_json ::
  "'a libs_scheme \<Rightarrow> 'g pb_schema_scheme \<Rightarrow> field_writer \<Rightarrow> pvalue \<Rightarrow> string \<Rightarrow> json attempted" where
  "value_to_json L G writer v path =
     (case v of PMsg m \<Rightarrow> message_to_json L G writer m path | _ \<Rightarrow> Inr (scalar_to_json L G v path))"

fun items_to_json ::
  "'a libs_scheme \<Rightarrow> 'g pb_schema_scheme \<Rightarrow> field_writer \<Rightarrow> nat \<Rightarrow> pvalue list \<Rightarrow> string \<Rightarrow> json list attempted" where
  "items_to_json L G writer i [] path = Inr (Inr [])"
| "items_to_json L G writer i (v # vs) path =
     on_value (value_to_json L G writer v (path @ ''['' @ show_nat i @ '']'')) (\<lambda>j.
     on_value (items_to_json L G writer (i + 1) vs path) (\<lambda>js. Inr (Inr (j # js))))"

fun entries_to_json ::
  "'a libs_scheme \<Rightarrow> 'g pb_schema_scheme \<Rightarrow> field_writer \<Rightarrow> pfield \<Rightarrow> (map_key \<times> pvalue) list \<Rightarrow> string \<Rightarrow> entries \<Rightarrow> entries attempted" where
  "entries_to_json L G writer fd [] path out = Inr (Inr out)"
| "entries_to_json L G writer fd ((k, v) # kvs) path out =
     (case k of
        OtherKey \<Rightarrow> Inr (Inl (path @ '': non-string map key in '' @ fd_full_name fd))
      | StringKey key \<Rightarrow>
         on_value (value_to_json L G writer v (path @ ''.'' @ key)) (\<lambda>j.
           entries_to_json L G writer fd kvs path (obj_insert key j out)))"

definition field_to_json ::
  "'a libs_scheme \<Rightarrow> 'g pb_schema_scheme \<Rightarrow> field_writer \<Rightarrow> pfield \<Rightarrow> pvalue \<Rightarrow> string \<Rightarrow> json attempted" where
  "field_to_json L G writer fd v path =
     (case v of
        PList items \<Rightarrow> on_value (items_to_json L G writer 0 items path) (\<lambda>js. Inr (Inr (JArr js)))
      | PMap kvs \<Rightarrow> on_value (entries_to_json L G writer fd kvs path []) (\<lambda>out. Inr (Inr (JObj out)))
      | _ \<Rightarrow> value_to_json L G writer v path)"

section \<open>Messages to objects\<close>

text \<open>What is written for one field that is not inline; \<open>None\<close> is the \<open>continue\<close> of the loop.\<close>

definition field_json ::
  "'a libs_scheme \<Rightarrow> 'g pb_schema_scheme \<Rightarrow> field_writer \<Rightarrow> pmessage \<Rightarrow> pfield \<Rightarrow> go_field \<Rightarrow> string \<Rightarrow> json option attempted" where
  "field_json L G writer msg fd go field_path =
     (let written = (\<lambda>r. on_value r (\<lambda>j. Inr (Inr (Some j))));
          skipped = Inr (Inr None)
      in if has_field msg fd
         then (let v = get_field msg fd
               in if \<not> gf_pointer go \<and> gf_omitempty go \<and> is_empty_pb_value v then skipped
                  else written (field_to_json L G writer fd v field_path))
         else if gf_pointer go \<or> fd_is_list fd \<or> fd_is_map fd \<or> fd_kind fd = KBytes
         then (if gf_omitempty go then skipped else Inr (Inr (Some JNull)))
         else case fd_kind fd of
                KMessage m \<Rightarrow> written (message_to_json L G writer (PMessage m [] []) field_path)
              | _ \<Rightarrow> if gf_omitempty go then skipped else written (Inr (scalar_to_json L G (default_value fd) field_path)))"

fun write_each ::
  "'a libs_scheme \<Rightarrow> 'g pb_schema_scheme \<Rightarrow> field_writer \<Rightarrow> pmessage \<Rightarrow> (nat \<Rightarrow> go_field option) \<Rightarrow> string \<Rightarrow> pfield list \<Rightarrow> entries
     \<Rightarrow> entries attempted" where
  "write_each L G writer msg gos path [] out = Inr (Inr out)"
| "write_each L G writer msg gos path (fd # fds) out =
     (case gos (fd_number fd) of
        None \<Rightarrow> Inr (Inl (pm_name msg @ ''.'' @ fd_name fd @ '' missing from go-fields.json''))
      | Some go \<Rightarrow>
         if gf_inline go
         then (case get_field msg fd of
                 PMsg inner \<Rightarrow> on_value (writer inner out path) (write_each L G writer msg gos path fds)
               | _ \<Rightarrow> Inr (Inl (pm_name msg @ ''.'' @ fd_name fd @ '': inline non-message'')))
         else on_value (field_json L G writer msg fd go (join_path path (gf_json go))) (\<lambda>j.
                write_each L G writer msg gos path fds (case j of None \<Rightarrow> out | Some v \<Rightarrow> obj_insert (gf_json go) v out)))"

definition descriptor_fields :: "'g pb_schema_scheme \<Rightarrow> pmessage \<Rightarrow> pfield list" where
  "descriptor_fields G msg = unwrap_or [] (messages G (pm_name msg))"

fun write_fields :: "nat \<Rightarrow> 'a libs_scheme \<Rightarrow> 'g pb_schema_scheme \<Rightarrow> field_writer" where
  "write_fields 0 L G msg out path = Inl StackOverflow"
| "write_fields (Suc n) L G msg out path =
     on_value (Inr (reject_unknown_pb_fields msg path)) (\<lambda>_.
     case go_fields G (pm_name msg) of
       None \<Rightarrow> Inr (Inl (display_path path @ '': '' @ pm_name msg @ '' isn'' @ apostrophe @ ''t supported''))
     | Some gos \<Rightarrow> write_each L G (write_fields n L G) msg gos path (descriptor_fields G msg) out)"

section \<open>Bodies\<close>

record type_meta =
  tm_api_version :: string
  tm_kind :: string

definition message_name :: "type_meta \<Rightarrow> string option" where
  "message_name tm =
     (if tm_api_version tm = ''v1'' \<and> tm_kind tm = ''Secret'' then Some ''k8s.io.api.core.v1.Secret''
      else if tm_api_version tm = ''batch/v1'' \<and> tm_kind tm = ''CronJob'' then Some ''k8s.io.api.batch.v1.CronJob''
      else if tm_api_version tm = ''batch/v1'' \<and> tm_kind tm = ''Job'' then Some ''k8s.io.api.batch.v1.Job''
      else None)"

definition raw_of :: "'g pb_schema_scheme \<Rightarrow> pmessage \<Rightarrow> string" where
  "raw_of G msg = (case get_field_by_name G msg ''raw'' of Some (PBytes raw) \<Rightarrow> raw | _ \<Rightarrow> [])"

definition check_encoding :: "'g pb_schema_scheme \<Rightarrow> pmessage \<Rightarrow> string + unit" where
  "check_encoding G msg =
     (let encoding = string_field G msg ''contentEncoding''; content = string_field G msg ''contentType''
      in if encoding \<noteq> [] then Inl (''unsupported contentEncoding '' @ str_debug encoding)
         else if content \<noteq> [] \<and> content \<noteq> MEDIA_TYPE then Inl (''unsupported contentType '' @ str_debug content)
         else Inr ())"

definition descriptor :: "'g pb_schema_scheme \<Rightarrow> string \<Rightarrow> string \<Rightarrow> string + string" where
  "descriptor G name missing = (if messages G name = None then Inl missing else Inr name)"

definition object_json :: "nat \<Rightarrow> 'a libs_scheme \<Rightarrow> 'g pb_schema_scheme \<Rightarrow> type_meta \<Rightarrow> pmessage \<Rightarrow> json attempted" where
  "object_json n L G tm msg =
     on_value (write_fields n L G msg (obj_insert ''kind'' (JStr (tm_kind tm)) (obj_insert ''apiVersion'' (JStr (tm_api_version tm)) [])) [])
       (\<lambda>out. Inr (Inr (JObj out)))"

definition decode_object ::
  "nat \<Rightarrow> 'a libs_scheme \<Rightarrow> 'g pb_schema_scheme \<Rightarrow> type_meta \<Rightarrow> string \<Rightarrow> (type_meta \<times> json) attempted" where
  "decode_object n L G tm raw =
     on_value (Inr (ok_or (''kube-shim doesn'' @ apostrophe @ ''t accept '' @ tm_api_version tm @ ''/'' @ tm_kind tm @ '' as protobuf'') (message_name tm))) (\<lambda>name.
     on_value (Inr (descriptor G name (name @ '' missing from descriptors''))) (\<lambda>desc.
     on_value (Inr (decode_message G desc raw)) (\<lambda>msg.
     on_value (object_json n L G tm msg) (\<lambda>j. Inr (Inr (tm, j))))))"

definition decode_envelope :: "nat \<Rightarrow> 'a libs_scheme \<Rightarrow> 'g pb_schema_scheme \<Rightarrow> pmessage \<Rightarrow> (type_meta \<times> json) attempted" where
  "decode_envelope n L G unknown =
     on_value (Inr (reject_unknown_pb_fields unknown [])) (\<lambda>_.
     case message_field G unknown ''typeMeta'' of
       Inl p \<Rightarrow> Inl p
     | Inr tmm \<Rightarrow>
        on_value (Inr (reject_unknown_pb_fields tmm ''typeMeta'')) (\<lambda>_.
        (let tm = \<lparr>tm_api_version = string_field G tmm ''apiVersion'', tm_kind = string_field G tmm ''kind''\<rparr>
         in on_value (Inr (check_encoding G unknown)) (\<lambda>_. decode_object n L G tm (raw_of G unknown)))))"

definition decode :: "nat \<Rightarrow> 'a libs_scheme \<Rightarrow> 'g pb_schema_scheme \<Rightarrow> string \<Rightarrow> (type_meta \<times> json) attempted" where
  "decode n L G body =
     (case strip_prefix body MAGIC of
        None \<Rightarrow> Inr (Inl (''missing the k8s'' @ [CHR 0x5C] @ ''0 protobuf prefix''))
      | Some envelope \<Rightarrow>
         on_value (Inr (descriptor G UNKNOWN ''runtime.Unknown missing from descriptors'')) (\<lambda>desc.
         on_value (Inr (decode_message G desc envelope)) (decode_envelope n L G)))"

section \<open>The middleware\<close>

datatype http_method = GET | HEAD | POST | PUT | PATCH | DELETE | OtherMethod string

record server_request =
  rq_method :: http_method
  rq_path :: string
  rq_headers :: "(string \<times> string) list"
  rq_body :: string

definition media_type :: "(string \<times> string) list \<Rightarrow> string" where
  "media_type headers =
     (case Option.bind (map_of headers ''content-type'') header_to_str of
        None \<Rightarrow> []
      | Some v \<Rightarrow> trim (hd (split_on (CHR '';'') v)))"

definition is_json_type :: "string \<Rightarrow> bool" where
  "is_json_type mt \<longleftrightarrow> mt = ''application/json'' \<or> ends_with mt ''+json''"

definition trim_matches :: "char \<Rightarrow> string \<Rightarrow> string" where
  "trim_matches c s = trim_end_matches c (dropWhile (\<lambda>x. x = c) s)"

definition path_segments :: "string \<Rightarrow> string list" where
  "path_segments path = split_on (CHR ''/'') (trim_matches (CHR ''/'') path)"

definition expected_type :: "http_method \<Rightarrow> string \<Rightarrow> type_meta option" where
  "expected_type method path =
     (let batch = (\<lambda>kind. Some \<lparr>tm_api_version = ''batch/v1'', tm_kind = kind\<rparr>)
      in case path_segments path of
           [a, b, c, ns, d] \<Rightarrow>
             if method = POST \<and> [a, b, c, d] = [''api'', ''v1'', ''namespaces'', ''secrets'']
             then Some \<lparr>tm_api_version = ''v1'', tm_kind = ''Secret''\<rparr> else None
         | [a, b, c, d, ns, e] \<Rightarrow>
             if method = POST \<and> [a, b, c, d, e] = [''apis'', ''batch'', ''v1'', ''namespaces'', ''cronjobs''] then batch ''CronJob''
             else if method = POST \<and> [a, b, c, d, e] = [''apis'', ''batch'', ''v1'', ''namespaces'', ''jobs''] then batch ''Job''
             else None
         | [a, b, c, d, ns, e, name] \<Rightarrow>
             if method = PUT \<and> [a, b, c, d, e] = [''apis'', ''batch'', ''v1'', ''namespaces'', ''cronjobs''] then batch ''CronJob'' else None
         | _ \<Rightarrow> None)"

text \<open>The request that is handed on for a converted body. Printing JSON does not fail, so the error branch of \<open>to_vec\<close> is not there.\<close>

definition with_json_body :: "'a libs_scheme \<Rightarrow> server_request \<Rightarrow> json \<Rightarrow> server_request" where
  "with_json_body L req j =
     req\<lparr>rq_headers := (''content-type'', ''application/json'')
           # filter (\<lambda>h. fst h \<noteq> ''content-type'' \<and> fst h \<noteq> ''content-length'') (rq_headers req),
        rq_body := to_string L j\<rparr>"

definition convert_body ::
  "nat \<Rightarrow> 'x services \<Rightarrow> 'g pb_schema_scheme \<Rightarrow> type_meta \<Rightarrow> server_request \<Rightarrow> (server_request \<Rightarrow> 'x handler) \<Rightarrow> 'x handler" where
  "convert_body n S G expected req nxt =
     (case to_bytes G MAX_BODY_BYTES (rq_body req) of
        Inl e \<Rightarrow> ret (bad_request (''reading request body: '' @ e))
      | Inr bytes \<Rightarrow>
         (case decode n S G bytes of
            Inl p \<Rightarrow> fail p
          | Inr (Inl e) \<Rightarrow> ret (bad_request (''invalid protobuf body: '' @ e))
          | Inr (Inr (tm, j)) \<Rightarrow>
             if tm \<noteq> expected
             then ret (bad_request (''the body holds '' @ tm_api_version tm @ ''/'' @ tm_kind tm @ '', but this endpoint takes ''
                    @ tm_api_version expected @ ''/'' @ tm_kind expected))
             else nxt (with_json_body S req j)))"

definition protobuf_bodies ::
  "nat \<Rightarrow> 'x services \<Rightarrow> 'g pb_schema_scheme \<Rightarrow> server_request \<Rightarrow> (server_request \<Rightarrow> 'x handler) \<Rightarrow> 'x handler" where
  "protobuf_bodies n S G req nxt =
     (if rq_method req \<noteq> POST \<and> rq_method req \<noteq> PUT then nxt req
      else let mt = media_type (rq_headers req)
           in if is_json_type mt then nxt req
              else if mt \<noteq> MEDIA_TYPE
              then ret (unsupported_media_type (''the body of the request was in an unknown format - accepted media types include: application/json, ''
                     @ MEDIA_TYPE @ '' (got '' @ str_debug mt @ '')''))
              else case expected_type (rq_method req) (rq_path req) of
                     None \<Rightarrow> ret (unsupported_media_type (''kube-shim accepts '' @ MEDIA_TYPE
                               @ '' only for creating Secrets, CronJobs and Jobs and for replacing CronJobs; send application/json here''))
                   | Some expected \<Rightarrow> convert_body n S G expected req nxt)"

end
