(* ===== verification/ProtobufProps.thy ===== *)
theory ProtobufProps
  imports Protobuf Demo
begin

text \<open>
  What holds of protobuf bodies: one that is accepted has no field, at any depth, that the descriptors do not know; conversion ends, however the descriptors
  nest, as long as those fields that Go always writes do not nest in a circle; and a handler only sees a converted body of the type its path takes.
\<close>

lemma on_value_accepted [simp]:
  "on_value r k = Inr (Inr b) \<longleftrightarrow> (\<exists>a. r = Inr (Inr a) \<and> k a = Inr (Inr b))"
  by (auto simp: on_value_def split: sum.splits)

section \<open>Unknown fields\<close>

text \<open>The messages that a field value holds: itself, the items of a list or the values of a map.\<close>

fun direct_messages :: "pvalue \<Rightarrow> pmessage list" where
  "direct_messages (PMsg m) = [m]"
| "direct_messages _ = []"

fun held_messages :: "pvalue \<Rightarrow> pmessage list" where
  "held_messages (PList vs) = concat (map direct_messages vs)"
| "held_messages (PMap kvs) = concat (map (direct_messages \<circ> snd) kvs)"
| "held_messages v = direct_messages v"

text \<open>The messages right below a message, in the fields of its descriptor.\<close>

definition below :: "'g pb_schema_scheme \<Rightarrow> pmessage \<Rightarrow> pmessage \<Rightarrow> bool" where
  "below G msg m \<longleftrightarrow> (\<exists>fd \<in> set (descriptor_fields G msg). \<exists>v. map_of (pm_fields msg) (fd_number fd) = Some v \<and> m \<in> set (held_messages v))"

inductive clean :: "'g pb_schema_scheme \<Rightarrow> pmessage \<Rightarrow> bool" for G where
  "pm_unknown msg = [] \<Longrightarrow> (\<And>m. \<not> is_special (pm_name msg) \<Longrightarrow> below G msg m \<Longrightarrow> clean G m) \<Longrightarrow> clean G msg"

lemma known_fields [simp]: "reject_unknown_pb_fields msg path = Inr u \<longleftrightarrow> pm_unknown msg = []"
  by (auto simp: reject_unknown_pb_fields_def split: list.split)

text \<open>A writer that only accepts messages with the property \<open>P\<close> makes the conversion of a value accept only those.\<close>

definition accepts_only :: "field_writer \<Rightarrow> (pmessage \<Rightarrow> bool) \<Rightarrow> bool" where
  "accepts_only writer P \<longleftrightarrow>
     (\<forall>m out path out'. writer m out path = Inr (Inr out') \<longrightarrow> P m)
     \<and> (\<forall>m. is_special (pm_name m) \<longrightarrow> pm_unknown m = [] \<longrightarrow> P m)"

lemma accepts_onlyD: "accepts_only writer P \<Longrightarrow> writer m out path = Inr (Inr out') \<Longrightarrow> P m"
  by (auto simp: accepts_only_def)

lemma accepted_message: "accepts_only writer P \<Longrightarrow> message_to_json L G writer m path = Inr (Inr j) \<Longrightarrow> P m"
  by (auto simp: message_to_json_def accepts_only_def split: if_splits)

lemma accepted_value:
  "accepts_only writer P \<Longrightarrow> value_to_json L G writer v path = Inr (Inr j) \<Longrightarrow> m \<in> set (direct_messages v) \<Longrightarrow> P m"
  by (cases v) (auto simp: value_to_json_def dest: accepted_message)

lemma accepted_items:
  "accepts_only writer P \<Longrightarrow> items_to_json L G writer i vs path = Inr (Inr js) \<Longrightarrow> v \<in> set vs \<Longrightarrow> m \<in> set (direct_messages v) \<Longrightarrow> P m"
  by (induction vs arbitrary: i js) (auto dest: accepted_value)

lemma accepted_entries:
  "accepts_only writer P \<Longrightarrow> entries_to_json L G writer fd kvs path out = Inr (Inr out') \<Longrightarrow> kv \<in> set kvs
   \<Longrightarrow> m \<in> set (direct_messages (snd kv)) \<Longrightarrow> P m"
  by (induction kvs arbitrary: out) (auto dest: accepted_value split: map_key.splits)

lemma accepted_field_value:
  "accepts_only writer P \<Longrightarrow> field_to_json L G writer fd v path = Inr (Inr j) \<Longrightarrow> m \<in> set (held_messages v) \<Longrightarrow> P m"
  by (cases v) (auto simp: field_to_json_def dest: accepted_value accepted_items accepted_entries)

lemma empty_holds_none: "is_empty_pb_value v \<Longrightarrow> held_messages v = []"
  by (cases v) auto

lemma accepted_field:
  assumes "accepts_only writer P" and "field_json L G writer msg fd go path = Inr (Inr j)"
    and "map_of (pm_fields msg) (fd_number fd) = Some v" and "m \<in> set (held_messages v)"
  shows "P m"
  using assms by (auto simp: field_json_def has_field_def get_field_def unwrap_or_def Let_def empty_holds_none
      intro: accepted_field_value split: if_splits)

lemma accepted_fields:
  assumes "accepts_only writer P" and "write_each L G writer msg gos path fds out = Inr (Inr out')" and "fd \<in> set fds"
    and "map_of (pm_fields msg) (fd_number fd) = Some v" and "m \<in> set (held_messages v)"
  shows "P m"
  using assms(2-)
proof (induction fds arbitrary: out)
  case (Cons f fds)
  then show ?case
    by (auto simp: get_field_def unwrap_or_def split: option.splits if_splits pvalue.splits
        dest: accepted_field [OF assms(1)] dest!: accepts_onlyD [OF assms(1)])
qed simp

lemma accepted_clean: "write_fields n L G msg out path = Inr (Inr out') \<Longrightarrow> clean G msg"
proof (induction n arbitrary: msg out path out')
  case (Suc n)
  have only: "accepts_only (write_fields n L G) (clean G)"
    unfolding accepts_only_def by (blast intro: Suc.IH clean.intros)
  from Suc.prems obtain gos where known: "pm_unknown msg = []"
    and each: "write_each L G (write_fields n L G) msg gos path (descriptor_fields G msg) out = Inr (Inr out')"
    by (auto split: option.splits)
  show ?case
  proof (rule clean.intros [OF known])
    fix m assume "below G msg m"
    then obtain fd v where "fd \<in> set (descriptor_fields G msg)" "map_of (pm_fields msg) (fd_number fd) = Some v" "m \<in> set (held_messages v)"
      by (auto simp: below_def)
    then show "clean G m" by (rule accepted_fields [OF only each])
  qed
qed simp

text \<open>
  C36. A body that is accepted has no unknown field: the envelope has none, its \<open>typeMeta\<close>, which names the type of the object, has none, and neither has
  the object in it nor any message that a field of the object holds, directly, in a list or in a map, all the way down. So nothing the client set is
  dropped before admission sees the object.
\<close>

theorem accepted_bodies_fully_known:
  assumes "decode n L G body = Inr (Inr (tm, j))"
  shows "\<exists>envelope unknown type_meta name msg.
     body = MAGIC @ envelope \<and> decode_message G UNKNOWN envelope = Inr unknown \<and> pm_unknown unknown = []
     \<and> message_field G unknown ''typeMeta'' = Inr type_meta \<and> pm_unknown type_meta = []
     \<and> tm = \<lparr>tm_api_version = string_field G type_meta ''apiVersion'', tm_kind = string_field G type_meta ''kind''\<rparr>
     \<and> message_name tm = Some name \<and> decode_message G name (raw_of G unknown) = Inr msg \<and> clean G msg"
proof -
  from assms obtain envelope unknown where body: "strip_prefix body MAGIC = Some envelope" and unknown: "decode_message G UNKNOWN envelope = Inr unknown"
    and inner: "decode_envelope n L G unknown = Inr (Inr (tm, j))"
    by (auto simp: decode_def descriptor_def split: option.splits if_splits)
  from inner obtain tmm where "pm_unknown unknown = []" and "message_field G unknown ''typeMeta'' = Inr tmm" and "pm_unknown tmm = []"
    and obj: "decode_object n L G \<lparr>tm_api_version = string_field G tmm ''apiVersion'', tm_kind = string_field G tmm ''kind''\<rparr> (raw_of G unknown)
        = Inr (Inr (tm, j))"
    by (auto simp: decode_envelope_def Let_def split: sum.splits)
  moreover from obj obtain name msg where "message_name tm = Some name" "decode_message G name (raw_of G unknown) = Inr msg"
    and tm: "tm = \<lparr>tm_api_version = string_field G tmm ''apiVersion'', tm_kind = string_field G tmm ''kind''\<rparr>"
    and json: "object_json n L G tm msg = Inr (Inr j)"
    by (auto simp: decode_object_def ok_or_def descriptor_def split: option.splits if_splits)
  moreover from json have "clean G msg" by (auto simp: object_json_def dest: accepted_clean)
  moreover from body have "body = MAGIC @ envelope"
    by (auto simp: strip_prefix_def starts_with_def split: if_splits) (metis append_take_drop_id)
  ultimately show ?thesis using unknown by blast
qed

section \<open>The stack\<close>

definition safe :: "'a attempted \<Rightarrow> bool" where
  "safe r \<longleftrightarrow> (\<forall>p. r \<noteq> Inl p)"

lemma safe_Inr [simp, intro!]: "safe (Inr r)"
  by (simp add: safe_def)

lemma safe_on_value [intro!]: "safe r \<Longrightarrow> (\<And>a. safe (k a)) \<Longrightarrow> safe (on_value r k)"
  by (auto simp: safe_def on_value_def split: sum.split)

text \<open>A writer that is safe on some messages keeps the conversion of the values that hold only those safe.\<close>

definition safe_on :: "field_writer \<Rightarrow> pmessage set \<Rightarrow> bool" where
  "safe_on writer ms \<longleftrightarrow> (\<forall>m \<in> ms. \<forall>out path. safe (writer m out path))"

lemma safe_on_Un [simp]: "safe_on writer (A \<union> B) \<longleftrightarrow> safe_on writer A \<and> safe_on writer B"
  by (auto simp: safe_on_def)

lemma safe_message: "safe_on writer {m} \<Longrightarrow> safe (message_to_json L G writer m path)"
  by (auto simp: message_to_json_def safe_on_def)

lemma safe_value: "safe_on writer (set (direct_messages v)) \<Longrightarrow> safe (value_to_json L G writer v path)"
  by (cases v) (auto simp: value_to_json_def intro!: safe_message)

lemma safe_items: "safe_on writer (\<Union>v \<in> set vs. set (direct_messages v)) \<Longrightarrow> safe (items_to_json L G writer i vs path)"
  by (induction vs arbitrary: i) (auto intro!: safe_value)

lemma safe_entries: "safe_on writer (\<Union>kv \<in> set kvs. set (direct_messages (snd kv))) \<Longrightarrow> safe (entries_to_json L G writer fd kvs path out)"
  by (induction kvs arbitrary: out) (auto intro!: safe_value split: map_key.split)

lemma safe_field_value: "safe_on writer (set (held_messages v)) \<Longrightarrow> safe (field_to_json L G writer fd v path)"
  by (cases v) (auto simp: field_to_json_def intro!: safe_value safe_items safe_entries simp: comp_def)

text \<open>Fields whose message Go writes even when it is not set.\<close>

definition always_written :: "pfield \<Rightarrow> go_field \<Rightarrow> string \<Rightarrow> bool" where
  "always_written fd go m \<longleftrightarrow> fd_kind fd = KMessage m \<and> \<not> fd_is_list fd \<and> \<not> fd_is_map fd \<and> (gf_inline go \<or> \<not> gf_pointer go)"

definition plain_default :: "pfield \<Rightarrow> bool" where
  "plain_default fd \<longleftrightarrow> direct_messages (fd_default fd) = []"

lemma safe_fields:
  assumes "\<And>fd v. fd \<in> set fds \<Longrightarrow> map_of (pm_fields msg) (fd_number fd) = Some v \<Longrightarrow> safe_on writer (set (held_messages v))"
    and "\<And>fd go m. fd \<in> set fds \<Longrightarrow> gos (fd_number fd) = Some go \<Longrightarrow> always_written fd go m \<Longrightarrow> safe_on writer {PMessage m [] []}"
    and "\<And>fd. fd \<in> set fds \<Longrightarrow> plain_default fd"
  shows "safe (write_each L G writer msg gos path fds out)"
  using assms
proof (induction fds arbitrary: out)
  case (Cons fd fds)
  have rest: "safe (write_each L G writer msg gos path fds o1)" for o1
    by (rule Cons.IH) (metis Cons.prems list.set_intros(2))+
  have inl: "safe (writer inner out path)"
    if "gos (fd_number fd) = Some go" "gf_inline go" "get_field msg fd = PMsg inner" for go inner
  proof (cases "map_of (pm_fields msg) (fd_number fd)")
    case None
    with that Cons.prems(3) [of fd] have "always_written fd go (pm_name inner)" "inner = PMessage (pm_name inner) [] []"
      by (auto simp: get_field_def unwrap_or_def default_value_def always_written_def plain_default_def split: if_splits pkind.splits)
    with Cons.prems(2) [of fd go "pm_name inner"] that show ?thesis by (simp add: safe_on_def)
  next
    case (Some v)
    with that Cons.prems(1) [of fd v] show ?thesis by (simp add: get_field_def unwrap_or_def safe_on_def)
  qed
  have val: "safe (field_json L G writer msg fd go fp)" if "gos (fd_number fd) = Some go" for go fp
    using Cons.prems(1) [of fd] Cons.prems(2) [of fd go] that
    by (auto simp: field_json_def Let_def has_field_def get_field_def unwrap_or_def always_written_def
        intro!: safe_field_value safe_message split: pkind.split option.split)
  show ?case by (auto intro!: rest inl val split: option.split pvalue.split)
qed simp

text \<open>The descriptors have a rank below \<open>R\<close> for each message that goes down along the fields that are always written.\<close>

definition ranked :: "'g pb_schema_scheme \<Rightarrow> (string \<Rightarrow> nat) \<Rightarrow> nat \<Rightarrow> bool" where
  "ranked G rk R \<longleftrightarrow>
     (\<forall>name. rk name < R)
     \<and> (\<forall>name fds fd. messages G name = Some fds \<longrightarrow> fd \<in> set fds \<longrightarrow> plain_default fd)
     \<and> (\<forall>name fds gos fd go m. messages G name = Some fds \<longrightarrow> fd \<in> set fds \<longrightarrow> go_fields G name = Some gos
          \<longrightarrow> gos (fd_number fd) = Some go \<longrightarrow> always_written fd go m \<longrightarrow> rk m < rk name)"

lemma rankedD:
  assumes "ranked G rk R" and "fd \<in> set (descriptor_fields G msg)"
  shows "plain_default fd"
    and "go_fields G (pm_name msg) = Some gos \<Longrightarrow> gos (fd_number fd) = Some go \<Longrightarrow> always_written fd go m \<Longrightarrow> rk m < rk (pm_name msg)"
  using assms unfolding ranked_def descriptor_fields_def unwrap_or_def by (cases "messages G (pm_name msg)"; auto)+

text \<open>How deep the messages in a message nest.\<close>

inductive nested :: "'g pb_schema_scheme \<Rightarrow> nat \<Rightarrow> pmessage \<Rightarrow> bool" for G where
  "(\<And>m. below G msg m \<Longrightarrow> nested G d m) \<Longrightarrow> nested G (Suc d) msg"

lemma write_step_safe:
  assumes "ranked G rk R"
    and "\<And>m. below G msg m \<Longrightarrow> safe_on (write_fields n L G) {m}"
    and "\<And>m. rk m < rk (pm_name msg) \<Longrightarrow> safe_on (write_fields n L G) {PMessage m [] []}"
  shows "safe (write_fields (Suc n) L G msg out path)"
proof -
  have "safe (write_each L G (write_fields n L G) msg gos path (descriptor_fields G msg) out)" if gos: "go_fields G (pm_name msg) = Some gos" for gos
  proof (rule safe_fields)
    fix fd v assume "fd \<in> set (descriptor_fields G msg)" "map_of (pm_fields msg) (fd_number fd) = Some v"
    then have "below G msg m" if "m \<in> set (held_messages v)" for m using that by (auto simp: below_def)
    with assms(2) show "safe_on (write_fields n L G) (set (held_messages v))" by (auto simp: safe_on_def)
  qed (use rankedD [OF assms(1)] gos assms(3) in auto)
  then show ?thesis by (auto split: option.split)
qed

lemma empty_below: "\<not> below G (PMessage m [] []) m'"
  by (auto simp: below_def)

lemma absent_safe: "ranked G rk R \<Longrightarrow> rk m < n \<Longrightarrow> safe (write_fields n L G (PMessage m [] []) out path)"
proof (induction n arbitrary: m out path)
  case (Suc n)
  show ?case
    by (rule write_step_safe [OF Suc.prems(1)]) (use Suc in \<open>auto simp: empty_below safe_on_def\<close>)
qed simp

lemma nested_safe:
  assumes "ranked G rk R"
  shows "nested G d msg \<Longrightarrow> d + R \<le> n \<Longrightarrow> safe (write_fields n L G msg out path)"
proof (induction d msg arbitrary: n out path rule: nested.induct)
  case (1 msg d)
  then obtain k where n: "n = Suc k" "d + R \<le> k" by (cases n) auto
  have "rk name < R" for name using assms by (simp add: ranked_def)
  then have low: "rk m < k" for m using n(2) by (meson le_add2 less_le_trans le_trans)
  show ?case unfolding n(1)
    by (rule write_step_safe [OF assms]) (use 1(2) n(2) absent_safe [OF assms low] in \<open>auto simp: safe_on_def\<close>)
qed

text \<open>
  Decoding a body never overflows the stack, and never meets what the source calls unreachable, when there is room for as many calls as messages may nest
  on the wire (\<open>d\<close>; prost gives up at 100) plus the rank of the descriptors: it returns the object or an error. What is needed is that the fields that are written without being
  set do not nest in a circle, and that \<open>typeMeta\<close> of the envelope is a message.
\<close>

theorem decode_returns:
  assumes "ranked G rk R" and "\<forall>name bytes m. decode_message G name bytes = Inr m \<longrightarrow> nested G d m"
    and "\<forall>bytes m. decode_message G UNKNOWN bytes = Inr m \<longrightarrow> (\<exists>tmm. message_field G m ''typeMeta'' = Inr tmm)"
    and "d + R \<le> n"
  shows "\<exists>r. decode n L G body = Inr r"
proof -
  have obj: "safe (decode_object n L G tm raw)" for tm raw
  proof (cases "message_name tm")
    case (Some name)
    have "safe (object_json n L G tm m)" if "decode_message G name raw = Inr m" for m
      unfolding object_json_def using that assms(2) by (auto intro!: nested_safe [OF assms(1) _ assms(4)])
    with Some show ?thesis
      by (auto simp: decode_object_def ok_or_def descriptor_def on_value_def safe_def split: sum.split)
  qed (simp add: decode_object_def ok_or_def on_value_def)
  have "safe (decode_envelope n L G m)" if "decode_message G UNKNOWN bytes = Inr m" for bytes m
    using assms(3) that by (fastforce simp: decode_envelope_def Let_def intro!: obj split: sum.split)
  then have "safe (decode n L G body)"
    by (auto simp: decode_def descriptor_def on_value_def safe_def split: option.split sum.split)
  then show ?thesis by (cases "decode n L G body") (auto simp: safe_def)
qed

section \<open>The middleware\<close>

lemma json_media_type: "media_type (rq_headers (with_json_body L req j)) = ''application/json''"
proof -
  have "header_to_str ''application/json'' = Some ''application/json''" by code_simp
  moreover have "trim (hd (split_on (CHR '';'') ''application/json'')) = ''application/json''" by code_simp
  ultimately show ?thesis by (simp add: media_type_def with_json_body_def)
qed

text \<open>
  A handler sees a request with a body in JSON, or one whose body its path does not care for: a \<open>POST\<close> or \<open>PUT\<close> whose body is not JSON is either refused with
  400 or 415, before anything is done, or handed on with the JSON of the decoded object as its body, marked as JSON, and only when the object is of the
  type that this path takes. Every other request is handed on as it is.
\<close>

theorem handlers_see_expected_json:
  "if rq_method req \<in> {POST, PUT} \<and> \<not> is_json_type (media_type (rq_headers req))
   then (\<exists>r. protobuf_bodies n S G req nxt w = (Inr r, w) \<and> resp_code r \<in> {400, 415})
      \<or> (\<exists>bytes p. decode n S G bytes = Inl p \<and> protobuf_bodies n S G req nxt w = (Inl p, w))
      \<or> (\<exists>bytes tm j. media_type (rq_headers req) = MEDIA_TYPE \<and> to_bytes G MAX_BODY_BYTES (rq_body req) = Inr bytes
           \<and> expected_type (rq_method req) (rq_path req) = Some tm \<and> decode n S G bytes = Inr (Inr (tm, j))
           \<and> protobuf_bodies n S G req nxt w = nxt (with_json_body S req j) w
           \<and> media_type (rq_headers (with_json_body S req j)) = ''application/json'')
   else protobuf_bodies n S G req nxt w = nxt req w"
proof (cases "rq_method req \<in> {POST, PUT} \<and> \<not> is_json_type (media_type (rq_headers req))")
  case True
  show ?thesis
  proof (cases "media_type (rq_headers req) = MEDIA_TYPE")
    case mt: True
    show ?thesis
    proof (cases "expected_type (rq_method req) (rq_path req)")
      case None
      with True mt show ?thesis
        by (auto simp: protobuf_bodies_def Let_def ret_def unsupported_media_type_def status_error_def status_error_with_details_def json_response_def)
    next
      case (Some tm)
      with True mt have "protobuf_bodies n S G req nxt = convert_body n S G tm req nxt" by (auto simp: protobuf_bodies_def Let_def)
      with True mt Some show ?thesis
        by (auto simp: convert_body_def json_media_type ret_def fail_def bad_request_def status_error_def status_error_with_details_def json_response_def
            split: sum.split)
    qed
  next
    case False
    with True show ?thesis
      by (auto simp: protobuf_bodies_def Let_def ret_def unsupported_media_type_def status_error_def status_error_with_details_def json_response_def)
  qed
next
  case False
  then show ?thesis by (auto simp: protobuf_bodies_def Let_def)
qed

text \<open>Integers of 64 bits reach admission as the numbers they are, not as text.\<close>

theorem integers_survive:
  assumes "- (2 ^ 63) \<le> n" and "n < 2 ^ 63"
  shows "\<exists>j. scalar_to_json L G (PI64 n) path = Inr j \<and> as_i64 j = Some n"
  using assms by (auto simp: json_int_def)

section \<open>A concrete schema\<close>

definition str_field :: "nat \<Rightarrow> string \<Rightarrow> pfield" where
  "str_field i name =
     \<lparr>fd_number = i, fd_name = name, fd_full_name = name, fd_is_list = False, fd_is_map = False, fd_kind = KOther, fd_default = PStr []\<rparr>"

definition msg_field :: "nat \<Rightarrow> string \<Rightarrow> string \<Rightarrow> pfield" where
  "msg_field i name m = (str_field i name)\<lparr>fd_kind := KMessage m\<rparr>"

definition small_schema :: pb_schema where
  "small_schema =
     \<lparr>messages = [UNKNOWN \<mapsto> [msg_field 1 ''typeMeta'' ''TypeMeta'', (str_field 2 ''raw'')\<lparr>fd_kind := KBytes\<rparr>],
                  ''TypeMeta'' \<mapsto> [str_field 1 ''apiVersion'', str_field 2 ''kind''],
                  ''k8s.io.api.core.v1.Secret'' \<mapsto> [msg_field 1 ''metadata'' ''ObjectMeta''], ''ObjectMeta'' \<mapsto> [str_field 1 ''name'']],
      go_fields = [''k8s.io.api.core.v1.Secret'' \<mapsto> [1 \<mapsto> \<lparr>gf_json = ''metadata'', gf_omitempty = True, gf_pointer = False, gf_inline = False\<rparr>],
                   ''ObjectMeta'' \<mapsto> [1 \<mapsto> \<lparr>gf_json = ''name'', gf_omitempty = True, gf_pointer = False, gf_inline = False\<rparr>]],
      decode_message = (\<lambda>name bytes. if name = UNKNOWN
                          then Inr (PMessage UNKNOWN [(1, PMsg (PMessage ''TypeMeta'' [(1, PStr ''v1''), (2, PStr ''Secret'')] [])), (2, PBytes bytes)] [])
                          else Inr (PMessage name [(1, PMsg (PMessage ''ObjectMeta'' [(1, PStr bytes)] []))] [])),
      json_from_slice = (\<lambda>_. Inl ''none''), value_debug = (\<lambda>_. []), to_bytes = (\<lambda>_ b. Inr b)\<rparr>"

lemma small_decode:
  "decode 3 demo_services small_schema (MAGIC @ ''s1'')
   = Inr (Inr (\<lparr>tm_api_version = ''v1'', tm_kind = ''Secret''\<rparr>,
        JObj [(''apiVersion'', JStr ''v1''), (''kind'', JStr ''Secret''), (''metadata'', JObj [(''name'', JStr ''s1'')])]))"
  by code_simp

theorem accepted_bodies_fully_known_witness:
  "\<exists>envelope unknown type_meta name msg.
     MAGIC @ ''s1'' = MAGIC @ envelope \<and> decode_message small_schema UNKNOWN envelope = Inr unknown \<and> pm_unknown unknown = []
     \<and> message_field small_schema unknown ''typeMeta'' = Inr type_meta \<and> pm_unknown type_meta = []
     \<and> message_name \<lparr>tm_api_version = ''v1'', tm_kind = ''Secret''\<rparr> = Some name
     \<and> decode_message small_schema name (raw_of small_schema unknown) = Inr msg \<and> clean small_schema msg"
  using accepted_bodies_fully_known [OF small_decode] by blast

definition small_rank :: "string \<Rightarrow> nat" where
  "small_rank name = (if name = ''k8s.io.api.core.v1.Secret'' \<or> name = UNKNOWN then 1 else 0)"

lemma small_ranked: "ranked small_schema small_rank 2"
  by (auto simp: ranked_def small_schema_def small_rank_def plain_default_def str_field_def msg_field_def always_written_def UNKNOWN_def split: if_splits)

lemma leaf_nested: "(\<And>k v. (k, v) \<in> set (pm_fields msg) \<Longrightarrow> held_messages v = []) \<Longrightarrow> nested G (Suc d) msg"
  by (rule nested.intros) (fastforce simp: below_def dest: map_of_SomeD)

lemma small_nested: "decode_message small_schema name bytes = Inr m \<Longrightarrow> nested small_schema 2 m"
proof -
  assume m: "decode_message small_schema name bytes = Inr m"
  have "nested small_schema 1 m'" if "below small_schema m m'" for m'
  proof -
    from that m have "m' = PMessage ''TypeMeta'' [(1, PStr ''v1''), (2, PStr ''Secret'')] [] \<or> m' = PMessage ''ObjectMeta'' [(1, PStr bytes)] []"
      by (auto simp: below_def small_schema_def dest!: map_of_SomeD split: if_splits)
    then have "nested small_schema (Suc 0) m'" by (intro leaf_nested) auto
    then show ?thesis by simp
  qed
  then show ?thesis using nested.intros [of small_schema m 1] by (simp add: numeral_2_eq_2)
qed

theorem decode_returns_witness: "\<exists>r. decode 4 demo_services small_schema (MAGIC @ ''s1'') = Inr r"
proof (rule decode_returns [OF small_ranked, where d = 2])
  show "\<forall>bytes m. decode_message small_schema UNKNOWN bytes = Inr m \<longrightarrow> (\<exists>tmm. message_field small_schema m ''typeMeta'' = Inr tmm)"
    by (auto simp: small_schema_def message_field_def get_field_by_name_def get_field_def unwrap_or_def msg_field_def str_field_def UNKNOWN_def)
qed (auto intro: small_nested)

end
