(* ===== verification/App.thy ===== *)
theory App
  imports Protobuf
begin

text \<open>
  The routes and layers of the HTTP server, \<open>src/src/app.rs\<close>. Matching a path is axum's: a route is a list of literal segments and of parameters, each
  of which takes one segment that is not empty; \<open>get\<close> also answers \<open>HEAD\<close>. What a handler's extractors make of a request, the answer to a path that is in no
  route or to a method a route does not have, and the CORS layer are parameters of the model, in the record \<open>app\<close>.
\<close>

section \<open>Routes\<close>

datatype endpoint =
    DiscoveryRoot | DiscoveryApisRoot | DiscoveryV1 | DiscoveryBatchV1 | DiscoveryMetrics | DiscoveryCost | HealthCheck
  | CreateSecret | ListSecrets | GetSecret | PatchSecret | DeleteSecret
  | GetPod | GetPodLog | ListEvents | ListNodes | ListNodeMetrics | ListPodMetrics | ListPodMetricsForNamespace
  | CreateCronJob | ListCronJobs | GetCronJob | ReplaceCronJob | PatchCronJob | DeleteCronJob
  | CreateJob | ListJobs | GetJob | DeleteJob
  | GetCostReport | GetSettings | PatchSettings | Topup
  | StatusPage | Readyz | Livez | Metrics

datatype segment = Lit string | Param

type_synonym methods = "(http_method \<times> endpoint) list"
type_synonym routes = "(segment list \<times> methods) list"

definition namespaced :: "string list \<Rightarrow> segment list \<Rightarrow> segment list" where
  "namespaced grp rest = map Lit grp @ [Lit ''namespaces'', Param] @ rest"

definition authenticated_routes :: routes where
  "authenticated_routes =
     [([Lit ''api''], [(GET, DiscoveryRoot)]),
      ([Lit ''apis''], [(GET, DiscoveryApisRoot)]),
      ([Lit ''api'', Lit ''v1''], [(GET, DiscoveryV1)]),
      ([Lit ''apis'', Lit ''batch'', Lit ''v1''], [(GET, DiscoveryBatchV1)]),
      ([Lit ''apis'', Lit ''metrics.k8s.io'', Lit ''v1beta1''], [(GET, DiscoveryMetrics)]),
      ([Lit ''apis'', Lit ''cost.kube-shim.brawer.ch'', Lit ''v1''], [(GET, DiscoveryCost)]),
      ([Lit ''health''], [(GET, HealthCheck)]),
      (namespaced [''api'', ''v1''] [Lit ''secrets''], [(POST, CreateSecret), (GET, ListSecrets)]),
      (namespaced [''api'', ''v1''] [Lit ''secrets'', Param], [(GET, GetSecret), (PATCH, PatchSecret), (DELETE, DeleteSecret)]),
      (namespaced [''api'', ''v1''] [Lit ''pods'', Param], [(GET, GetPod)]),
      (namespaced [''api'', ''v1''] [Lit ''pods'', Param, Lit ''log''], [(GET, GetPodLog)]),
      (namespaced [''api'', ''v1''] [Lit ''events''], [(GET, ListEvents)]),
      ([Lit ''api'', Lit ''v1'', Lit ''nodes''], [(GET, ListNodes)]),
      ([Lit ''apis'', Lit ''metrics.k8s.io'', Lit ''v1beta1'', Lit ''nodes''], [(GET, ListNodeMetrics)]),
      ([Lit ''apis'', Lit ''metrics.k8s.io'', Lit ''v1beta1'', Lit ''pods''], [(GET, ListPodMetrics)]),
      (namespaced [''apis'', ''metrics.k8s.io'', ''v1beta1''] [Lit ''pods''], [(GET, ListPodMetricsForNamespace)]),
      (namespaced [''apis'', ''batch'', ''v1''] [Lit ''cronjobs''], [(POST, CreateCronJob), (GET, ListCronJobs)]),
      (namespaced [''apis'', ''batch'', ''v1''] [Lit ''cronjobs'', Param],
         [(GET, GetCronJob), (PUT, ReplaceCronJob), (PATCH, PatchCronJob), (DELETE, DeleteCronJob)]),
      (namespaced [''apis'', ''batch'', ''v1''] [Lit ''jobs''], [(POST, CreateJob), (GET, ListJobs)]),
      (namespaced [''apis'', ''batch'', ''v1''] [Lit ''jobs'', Param], [(GET, GetJob), (DELETE, DeleteJob)]),
      ([Lit ''apis'', Lit ''cost.kube-shim.brawer.ch'', Lit ''v1'', Lit ''report''], [(GET, GetCostReport)]),
      ([Lit ''apis'', Lit ''cost.kube-shim.brawer.ch'', Lit ''v1'', Lit ''settings''], [(GET, GetSettings), (PATCH, PatchSettings)]),
      ([Lit ''apis'', Lit ''cost.kube-shim.brawer.ch'', Lit ''v1'', Lit ''budget'', Lit ''topup''], [(POST, Topup)])]"

definition public_routes :: routes where
  "public_routes =
     [([Lit []], [(GET, StatusPage)]), ([Lit ''statusz''], [(GET, StatusPage)]), ([Lit ''healthz''], [(GET, Readyz)]), ([Lit ''livez''], [(GET, Livez)]),
      ([Lit ''readyz''], [(GET, Readyz)]), ([Lit ''metrics''], [(GET, Metrics)])]"

fun seg_match :: "segment list \<Rightarrow> string list \<Rightarrow> string list option" where
  "seg_match [] [] = Some []"
| "seg_match (Lit l # ps) (s # ss) = (if l = s then seg_match ps ss else None)"
| "seg_match (Param # ps) (s # ss) = (if s = [] then None else map_option ((#) s) (seg_match ps ss))"
| "seg_match _ _ = None"

definition uri_segments :: "string \<Rightarrow> string list option" where
  "uri_segments path = map_option (split_on (CHR ''/'')) (strip_prefix path ''/'')"

definition find_route :: "routes \<Rightarrow> string \<Rightarrow> (methods \<times> string list) option" where
  "find_route rs path =
     Option.bind (uri_segments path) (\<lambda>ss. find_map (\<lambda>(ps, ms). map_option (Pair ms) (seg_match ps ss)) rs)"

definition endpoint_for :: "methods \<Rightarrow> http_method \<Rightarrow> endpoint option" where
  "endpoint_for ms m = map_of ms (if m = HEAD then GET else m)"

section \<open>Layers\<close>

record 'x app =
  app_services :: "'x services"
  app_schema :: "pb_schema"
  app_stack :: nat
  app_tokens :: "api_token list"
  app_handler :: "endpoint \<Rightarrow> string list \<Rightarrow> server_request \<Rightarrow> 'x handler"
  app_not_allowed :: "server_request \<Rightarrow> 'x handler"
  app_not_found :: "server_request \<Rightarrow> 'x handler"
  app_cors :: "(server_request \<Rightarrow> 'x handler) \<Rightarrow> server_request \<Rightarrow> 'x handler"

definition run_route :: "'x app \<Rightarrow> methods \<Rightarrow> string list \<Rightarrow> server_request \<Rightarrow> 'x handler" where
  "run_route A ms params req =
     (case endpoint_for ms (rq_method req) of Some e \<Rightarrow> app_handler A e params req | None \<Rightarrow> app_not_allowed A req)"

text \<open>A layer added later is outside of those added before it: the token check comes first, then CORS, then the conversion of bodies.\<close>

definition authenticated_router :: "'x app \<Rightarrow> methods \<Rightarrow> string list \<Rightarrow> server_request \<Rightarrow> 'x handler" where
  "authenticated_router A ms params req =
     require_bearer_token (app_services A) (app_tokens A) (map_of (rq_headers req) ''authorization'')
       (app_cors A (\<lambda>r. protobuf_bodies (app_stack A) (app_services A) (app_schema A) r (run_route A ms params)) req)"

definition public_router :: "'x app \<Rightarrow> methods \<Rightarrow> string list \<Rightarrow> server_request \<Rightarrow> 'x handler" where
  "public_router A ms params req = run_route A ms params req"

definition build_router :: "'x app \<Rightarrow> server_request \<Rightarrow> 'x handler" where
  "build_router A req =
     (case find_route authenticated_routes (rq_path req) of
        Some (ms, params) \<Rightarrow> authenticated_router A ms params req
      | None \<Rightarrow>
         (case find_route public_routes (rq_path req) of
            Some (ms, params) \<Rightarrow> public_router A ms params req
          | None \<Rightarrow> app_not_found A req))"

end
