(* ===== verification/Config.thy ===== *)
theory Config
  imports Api
begin

text \<open>
  The configuration, \<open>src/src/config.rs\<close>. Reading the file and TOML are parameters; how serde fills in what the file leaves out is written as the
  function \<open>shim_config_of\<close> and its like, from the table's entries to the struct.
\<close>

record server_config =
  sc_host :: string
  sc_port :: nat
  sc_tls_cert_path :: string
  sc_tls_key_path :: string
  sc_api_tokens :: "api_token list"
  sc_hostname :: "string option"
  sc_acme_directory :: string
  sc_acme_contact_email :: "string option"
  sc_acme_challenge_port :: nat
  sc_acme_cache_dir :: string

record database_config =
  dc_path :: string

record upcloud_config =
  uc_token :: string
  uc_dry_run :: bool
  uc_zone :: string
  uc_worker_template_uuid :: string
  uc_worker_ssh_public_keys :: "string list"
  uc_worker_ssh_private_key :: string
  uc_worker_plan_allow_prefixes :: "string list"
  uc_worker_plan_deny_prefixes :: "string list"

record reconciliation_config =
  rc_interval_secs :: nat

record shim_config =
  sh_resource_prefix :: string
  sh_main_currency :: string
  sh_budget_daily_rate :: f64
  sh_budget_rollover_cap_days :: nat

record config =
  cf_server :: server_config
  cf_database :: database_config
  cf_upcloud :: upcloud_config
  cf_reconciliation :: reconciliation_config
  cf_shim :: shim_config

section \<open>Defaults\<close>

definition default_acme_directory :: string where
  "default_acme_directory = ''staging''"

definition default_acme_challenge_port :: nat where
  "default_acme_challenge_port = 8080"

definition default_acme_cache_dir :: string where
  "default_acme_cache_dir = ''acme-cache''"

definition default_upcloud_zone :: string where
  "default_upcloud_zone = ''de-fra1''"

definition default_worker_template_uuid :: string where
  "default_worker_template_uuid = ''01000000-0000-4000-8000-000030240200''"

definition default_resource_prefix :: string where
  "default_resource_prefix = ''kube-shim''"

definition default_main_currency :: string where
  "default_main_currency = ''EUR''"

definition default_budget_rollover_cap_days :: nat where
  "default_budget_rollover_cap_days = 7"

definition shim_config_default :: shim_config where
  "shim_config_default =
     \<lparr>sh_resource_prefix = default_resource_prefix, sh_main_currency = default_main_currency, sh_budget_daily_rate = Fin 0,
      sh_budget_rollover_cap_days = default_budget_rollover_cap_days\<rparr>"

text \<open>The \<open>[shim]\<close> table with \<open>#[serde(default)]\<close> on each entry and on the table as a whole.\<close>

definition shim_config_of ::
  "(string option \<times> string option \<times> f64 option \<times> nat option) option \<Rightarrow> shim_config" where
  "shim_config_of tbl =
     (case tbl of
        None \<Rightarrow> shim_config_default
      | Some (p, c, r, d) \<Rightarrow>
         \<lparr>sh_resource_prefix = unwrap_or default_resource_prefix p, sh_main_currency = unwrap_or default_main_currency c,
          sh_budget_daily_rate = unwrap_or (Fin 0) r, sh_budget_rollover_cap_days = unwrap_or default_budget_rollover_cap_days d\<rparr>)"

section \<open>Loading\<close>

definition ensure_has_valid_api_token :: "config \<Rightarrow> int \<Rightarrow> string + unit" where
  "ensure_has_valid_api_token c now =
     (if list_ex (\<lambda>t. is_valid_at t now) (sc_api_tokens (cf_server c)) then Inr ()
      else Inl ''server.api_tokens has no currently-valid token (list is empty, or every entry has expired) -- refusing to start with no effective authentication'')"

text \<open>\<open>read_to_string\<close> and \<open>toml::from_str\<close> are the parameters; \<open>context\<close> puts its words in front of the error.\<close>

definition from_file ::
  "'x services \<Rightarrow> (string \<Rightarrow> string + string) \<Rightarrow> (string \<Rightarrow> string + config) \<Rightarrow> string \<Rightarrow> ('x, config) job_io" where
  "from_file S read_to_string toml_from_str path =
     bnd (of_result (map_err (\<lambda>e. ''Failed to read config file: '' @ e) (read_to_string path))) (\<lambda>config_str.
     bnd (of_result (map_err (\<lambda>e. ''Failed to parse TOML config: '' @ e) (toml_from_str config_str))) (\<lambda>c.
     bnd (now_nanos S) (\<lambda>now.
     seq (of_result (ensure_has_valid_api_token c now)) (ret c))))"

end
