(* ===== verification/AppProps.thy ===== *)
theory AppProps
  imports App Config ApiProps
begin

text \<open>
  What holds of the server as a whole: which requests reach a handler without a token, that no two routes take the same path, and that routes and protobuf
  bodies agree on types.
\<close>

section \<open>Routes\<close>

lemma seg_match_Lit: "seg_match (Lit l # ps) ss = Some r \<longleftrightarrow> (\<exists>ss'. ss = l # ss' \<and> seg_match ps ss' = Some r)"
  by (cases ss) auto

lemma seg_match_Param: "seg_match (Param # ps) ss = Some r \<longleftrightarrow> (\<exists>s ss' r'. ss = s # ss' \<and> s \<noteq> [] \<and> seg_match ps ss' = Some r' \<and> r = s # r')"
  by (cases ss) auto

lemma seg_match_Nil: "seg_match [] ss = Some r \<longleftrightarrow> ss = [] \<and> r = []"
  by (cases ss) auto

lemmas seg_matches = seg_match_Lit seg_match_Param seg_match_Nil

fun overlap :: "segment list \<Rightarrow> segment list \<Rightarrow> bool" where
  "overlap [] [] = True"
| "overlap (Lit a # ps) (Lit b # qs) = (a = b \<and> overlap ps qs)"
| "overlap (Lit a # ps) (Param # qs) = (a \<noteq> [] \<and> overlap ps qs)"
| "overlap (Param # ps) (Lit b # qs) = (b \<noteq> [] \<and> overlap ps qs)"
| "overlap (Param # ps) (Param # qs) = overlap ps qs"
| "overlap _ _ = False"

lemma match_overlap: "seg_match ps ss = Some r \<Longrightarrow> seg_match qs ss = Some r' \<Longrightarrow> overlap ps qs"
proof (induction ps arbitrary: qs ss r r')
  case Nil
  then show ?case by (cases qs rule: list.exhaust; cases "hd qs") (auto simp: seg_matches)
next
  case (Cons p ps)
  then show ?case by (cases p; cases qs rule: list.exhaust; cases "hd qs") (auto simp: seg_matches)
qed

lemma no_overlaps: "sorted_wrt (\<lambda>a b. \<not> overlap (fst a) (fst b)) (authenticated_routes @ public_routes)"
  by code_simp

text \<open>
  No path is in two routes: whichever order axum tries them in, it finds the same methods and parameters, and a public path is never one that needs a token.
\<close>

theorem routes_unambiguous:
  assumes "i < length (authenticated_routes @ public_routes)" and "j < length (authenticated_routes @ public_routes)"
    and "seg_match (fst ((authenticated_routes @ public_routes) ! i)) ss = Some r"
    and "seg_match (fst ((authenticated_routes @ public_routes) ! j)) ss = Some r'"
  shows "i = j"
proof (rule ccontr)
  let ?rs = "authenticated_routes @ public_routes"
  assume "i \<noteq> j"
  then have "\<not> overlap (fst (?rs ! i)) (fst (?rs ! j)) \<or> \<not> overlap (fst (?rs ! j)) (fst (?rs ! i))"
    using no_overlaps assms(1,2) unfolding sorted_wrt_iff_nth_less by (meson linorder_neqE_nat)
  with match_overlap assms(3,4) show False by blast
qed

lemma found_route:
  "find_route rs path = Some (ms, params) \<Longrightarrow> \<exists>ps ss. uri_segments path = Some ss \<and> (ps, ms) \<in> set rs \<and> seg_match ps ss = Some params"
proof -
  assume "find_route rs path = Some (ms, params)"
  then obtain ss where "uri_segments path = Some ss" and "find_map (\<lambda>(ps, ms). map_option (Pair ms) (seg_match ps ss)) rs = Some (ms, params)"
    by (auto simp: find_route_def bind_eq_Some_conv)
  moreover from this(2) have "\<exists>ps. (ps, ms) \<in> set rs \<and> seg_match ps ss = Some params"
    by (induction rs) (auto split: option.splits)
  ultimately show ?thesis by blast
qed

section \<open>Tokens\<close>

definition bears_valid_token :: "'x app \<Rightarrow> server_request \<Rightarrow> int \<Rightarrow> bool" where
  "bears_valid_token A req now \<longleftrightarrow>
     (\<exists>token. map_of (rq_headers req) ''authorization'' = Some (''Bearer '' @ token) \<and> header_to_str (''Bearer '' @ token) \<noteq> None
        \<and> (\<exists>e \<in> set (app_tokens A). at_token e = token \<and> (\<forall>expiry. at_expires_at e = Some expiry \<longrightarrow> now < expiry)))"

lemma public_endpoints:
  "(ps, ms) \<in> set public_routes \<Longrightarrow> endpoint_for ms m = Some e \<Longrightarrow> e \<in> {StatusPage, Readyz, Livez, Metrics} \<and> m \<in> {GET, HEAD}"
  by (auto simp: public_routes_def endpoint_for_def split: if_splits)

text \<open>
  C34. The API is behind the token check as a whole. A request for one of its paths gets to the layers behind the check, and so to a handler, exactly when it bears
  a configured token that has not expired; any other gets a 401 and changes no table, whatever its method and body. Without a token there are the
  status page, the health endpoints and the metrics, for \<open>GET\<close> and \<open>HEAD\<close>, and nothing else.
\<close>

theorem api_behind_token_check:
  fixes w :: "'x world"
  shows "case find_route authenticated_routes (rq_path req) of
      Some (ms, params) \<Rightarrow>
        (if bears_valid_token A req (fst (utc_now (app_services A) (ext w)))
         then build_router A req w
           = app_cors A (\<lambda>r. protobuf_bodies (app_stack A) (app_services A) (app_schema A) r (run_route A ms params)) req
               (w\<lparr>ext := snd (utc_now (app_services A) (ext w))\<rparr>)
         else fst (build_router A req w) = Inr (unauthorized ''Unauthorized'') \<and> db (snd (build_router A req w)) = db w)
    | None \<Rightarrow>
        (\<exists>e params. e \<in> {StatusPage, Readyz, Livez, Metrics} \<and> rq_method req \<in> {GET, HEAD} \<and> build_router A req = app_handler A e params req)
        \<or> build_router A req = app_not_allowed A req \<or> build_router A req = app_not_found A req"
proof (cases "find_route authenticated_routes (rq_path req)")
  case None
  show ?thesis
  proof (cases "find_route public_routes (rq_path req)")
    case (Some p)
    obtain ms params where p: "p = (ms, params)" by (cases p)
    from found_route Some p obtain ps where "(ps, ms) \<in> set public_routes" by blast
    with None Some p show ?thesis
      by (auto simp: build_router_def public_router_def run_route_def split: option.split dest!: public_endpoints)
  qed (simp add: None build_router_def)
next
  case (Some p)
  obtain ms params where p: "p = (ms, params)" by (cases p)
  let ?k = "app_cors A (\<lambda>r. protobuf_bodies (app_stack A) (app_services A) (app_schema A) r (run_route A ms params)) req"
  have run: "build_router A req = require_bearer_token (app_services A) (app_tokens A) (map_of (rq_headers req) ''authorization'') ?k"
    by (simp add: build_router_def authenticated_router_def Some p)
  show ?thesis
    using only_valid_tokens_reach_handlers [of "app_services A" w "fst (utc_now (app_services A) (ext w))" "snd (utc_now (app_services A) (ext w))" "map_of (rq_headers req) ''authorization''" "app_tokens A" ?k]
    by (simp add: Some p run bears_valid_token_def)
qed

section \<open>Routes and protobuf bodies\<close>

lemma split_on_hd: "hd (split_on c s) = [] \<longleftrightarrow> s = [] \<or> hd s = c"
  by (cases s) (auto split: list.split)

lemma split_on_single: "split_on c s = [a] \<Longrightarrow> a = s"
  by (induction s arbitrary: a) (auto simp: split_on_nonempty split: list.splits if_splits)

lemma split_on_last: "last (split_on c s) = [] \<longleftrightarrow> s = [] \<or> last s = c"
proof (induction s)
  case (Cons x xs)
  show ?case
  proof (cases "split_on c xs")
    case (Cons a as)
    then show ?thesis
      using Cons.IH split_on_single [of c xs a] split_on_hd [of c xs] by (cases "as = []"; cases "xs = []") auto
  qed (simp add: split_on_nonempty)
qed simp

lemma inner_segments:
  assumes "uri_segments path = Some ss" and "hd ss \<noteq> []" and "last ss \<noteq> []"
  shows "path_segments path = ss"
proof -
  from assms(1) obtain r where path: "path = CHR ''/'' # r" and ss: "ss = split_on (CHR ''/'') r"
    by (cases path) (auto simp: uri_segments_def strip_prefix_def starts_with_def split: if_splits)
  with assms split_on_hd [of "CHR ''/''" r] split_on_last [of "CHR ''/''" r] have r: "r \<noteq> []" "hd r \<noteq> CHR ''/''" "last r \<noteq> CHR ''/''" by auto
  then have "dropWhile (\<lambda>x. x = CHR ''/'') r = r" "dropWhile (\<lambda>x. x = CHR ''/'') (rev r) = rev r"
    by (simp_all add: dropWhile_eq_self_iff hd_rev)
  then show ?thesis by (simp add: path_segments_def trim_matches_def trim_end_matches_def path ss)
qed

definition type_of_endpoint :: "endpoint \<Rightarrow> type_meta option" where
  "type_of_endpoint e =
     (case e of
        CreateSecret \<Rightarrow> Some \<lparr>tm_api_version = ''v1'', tm_kind = ''Secret''\<rparr>
      | CreateCronJob \<Rightarrow> Some \<lparr>tm_api_version = ''batch/v1'', tm_kind = ''CronJob''\<rparr>
      | ReplaceCronJob \<Rightarrow> Some \<lparr>tm_api_version = ''batch/v1'', tm_kind = ''CronJob''\<rparr>
      | CreateJob \<Rightarrow> Some \<lparr>tm_api_version = ''batch/v1'', tm_kind = ''Job''\<rparr>
      | _ \<Rightarrow> None)"

text \<open>The type for a matched route, from the segments of its pattern.\<close>

lemma expected_type_of_route:
  assumes "(ps, ms) \<in> set authenticated_routes" and "seg_match ps ss = Some params" and "path_segments path = ss"
    and "endpoint_for ms m = Some e"
  shows "expected_type m path = type_of_endpoint e"
  using assms(1) unfolding authenticated_routes_def list.set insert_iff empty_iff prod.inject
  by (elim disjE conjE FalseE)
     (use assms(2-4) in \<open>simp_all add: namespaced_def seg_matches expected_type_def type_of_endpoint_def endpoint_for_def split: if_splits\<close>)

lemma inner_route:
  assumes "(ps, ms) \<in> set authenticated_routes" and "seg_match ps ss = Some params"
  shows "hd ss \<noteq> [] \<and> last ss \<noteq> []"
  using assms(1) unfolding authenticated_routes_def list.set insert_iff empty_iff prod.inject
  by (elim disjE conjE FalseE) (use assms(2) in \<open>auto simp: namespaced_def seg_matches\<close>)

text \<open>
  C35. Routes and protobuf bodies agree: the type that a protobuf body must have for a method and a path is that of the handler which the routes give them. The
  handlers that create Secrets, CronJobs and Jobs and the one that replaces CronJobs take their own type, and no other handler takes protobuf.
\<close>

theorem routes_agree_with_types:
  assumes "find_route authenticated_routes path = Some (ms, params)" and "endpoint_for ms m = Some e"
  shows "expected_type m path = type_of_endpoint e"
proof -
  from found_route [OF assms(1)] obtain ps ss where "uri_segments path = Some ss" "(ps, ms) \<in> set authenticated_routes" "seg_match ps ss = Some params"
    by blast
  with inner_segments inner_route expected_type_of_route [OF _ _ _ assms(2)] show ?thesis by metis
qed

theorem routes_agree_with_types_witness:
  "expected_type PUT ''/apis/batch/v1/namespaces/default/cronjobs/nightly'' = type_of_endpoint ReplaceCronJob"
  by (rule routes_agree_with_types
        [of _ "[(GET, GetCronJob), (PUT, ReplaceCronJob), (PATCH, PatchCronJob), (DELETE, DeleteCronJob)]" "[''default'', ''nightly'']"])
     (code_simp, simp add: endpoint_for_def)

end
