(* ===== verification/System.thy ===== *)
theory System
  imports ScheduleProps JobApiProps ApiProps Loops MetricsProps CostReport MetricsExport StatusPage
begin

text \<open>
  The whole program on its database: the passes of the four background loops (\<open>src/src/reconcile/mod.rs\<close>) and the requests that are routed to the
  handlers (\<open>src/src/app.rs\<close>), in any order, each as a whole, while the world outside changes as it likes. What every such operation does to the table of
  jobs is stated once (\<open>job_evolution\<close>), and proved for each.
\<close>

section \<open>Operations\<close>

record 'x system =
  sys_services :: "'x services"
  sys_context :: "'x job_context"
  sys_report :: cost_report_config

datatype 'x operation =
    TickPass "'x \<Rightarrow> bool \<times> 'x"
  | OrphanScanPass
  | MetricsPass "(string \<times> string) list \<Rightarrow> (string \<times> string) list" "'x \<Rightarrow> bool \<times> 'x"
  | PriceSyncPass "'x ecb_feed"
  | PostJob create_job_request
  | RemoveJob string string
  | PostCronJob create_cronjob_request
  | PutCronJob string string create_cronjob_request
  | ApplyCronJobPatch string string "string option" string
  | RemoveCronJob string string
  | PostSecret create_secret_request
  | ApplySecretPatch string string "string option" string
  | RemoveSecret string string
  | ApplySettings settings_patch
  | PostTopup f64
  | ReadSettings
  | Read read_request
  | ReadReport calendar "string \<Rightarrow> string option"
  | ReadMetrics string tick_health
  | ReadStatusPage "f64 list \<Rightarrow> f64" string
  | Outside "'x \<Rightarrow> 'x"

fun perform :: "'x system \<Rightarrow> 'x operation \<Rightarrow> 'x world \<Rightarrow> 'x world" where
  "perform Y (TickPass shutdown) w = snd (tick_until (sys_services Y) (sys_context Y) shutdown w)"
| "perform Y OrphanScanPass w = snd (scan_and_clean (sys_services Y) (sys_context Y) w)"
| "perform Y (MetricsPass order timer) w =
     snd (poll_once_with_timeout (sys_services Y) order timer (worker_ssh_config_of (sys_context Y)) w)"
| "perform Y (PriceSyncPass ecb) w = snd (sync_pricing_and_rates (sys_services Y) (sys_context Y) ecb w)"
| "perform Y (PostJob req) w = snd (create_job (sys_services Y) (sys_report Y) req w)"
| "perform Y (RemoveJob ns name) w = snd (delete_job (sys_services Y) ns name w)"
| "perform Y (PostCronJob req) w = snd (create_cronjob (sys_services Y) (sys_report Y) req w)"
| "perform Y (PutCronJob ns name req) w = snd (replace_cronjob (sys_services Y) (sys_report Y) ns name req w)"
| "perform Y (ApplyCronJobPatch ns name ct body) w = snd (patch_cronjob (sys_services Y) (sys_report Y) ns name ct body w)"
| "perform Y (RemoveCronJob ns name) w = snd (delete_cronjob (sys_services Y) ns name w)"
| "perform Y (PostSecret req) w = snd (create_secret (sys_services Y) req w)"
| "perform Y (ApplySecretPatch ns name ct body) w = snd (patch_secret (sys_services Y) ns name ct body w)"
| "perform Y (RemoveSecret ns name) w = snd (delete_secret (sys_services Y) ns name w)"
| "perform Y (ApplySettings patch) w = snd (patch_settings_request (sys_services Y) patch w)"
| "perform Y (PostTopup amount) w = snd (topup (sys_services Y) amount w)"
| "perform Y ReadSettings w = snd (get_settings (sys_services Y) w)"
| "perform Y (Read req) w = snd (answer (sys_services Y) req w)"
| "perform Y (ReadReport cal params) w = snd (get_cost_report (sys_services Y) cal (sys_report Y) params w)"
| "perform Y (ReadMetrics version h) w = snd (render_metrics (sys_services Y) version h w)"
| "perform Y (ReadStatusPage sum_f64 version) w = snd (render_status (sys_services Y) sum_f64 version w)"
| "perform Y (Outside f) w = w\<lparr>ext := f (ext w)\<rparr>"

text \<open>A run of the program, one operation after the other.\<close>

inductive system_run :: "'x system \<Rightarrow> 'x world \<Rightarrow> 'x world \<Rightarrow> bool" for Y where
  idle: "system_run Y w w"
| operate: "system_run Y w v \<Longrightarrow> system_run Y w (perform Y op v)"

section \<open>What one operation does to the jobs\<close>

definition one_move :: "job_row \<Rightarrow> job_row \<Rightarrow> bool" where
  "one_move r r' \<longleftrightarrow> core r' = core r \<or> (\<exists>t. edge (j_status r) t \<and> moved t r r')"

definition fresh_row :: "job_row \<Rightarrow> bool" where
  "fresh_row r \<longleftrightarrow> j_status r = ''Created'' \<and> j_version r = 1"

definition unique_ids :: "database \<Rightarrow> bool" where
  "unique_ids d \<longleftrightarrow> distinct (map j_id (jobs d))"

definition removes :: "'x operation \<Rightarrow> job_row \<Rightarrow> bool" where
  "removes op r \<longleftrightarrow>
     (case op of RemoveJob ns name \<Rightarrow> j_namespace r = ns \<and> j_name r = name \<and> \<not> is_pre_completion_state (j_status r) | _ \<Rightarrow> False)"

definition job_evolution :: "(job_row \<Rightarrow> bool) \<Rightarrow> database \<Rightarrow> database \<Rightarrow> bool" where
  "job_evolution gone d d' \<longleftrightarrow> unique_ids d \<longrightarrow>
     unique_ids d'
     \<and> (\<forall>r \<in> set (jobs d). gone r \<or> (\<exists>r' \<in> set (jobs d'). one_move r r'))
     \<and> (\<forall>r' \<in> set (jobs d'). (\<exists>r \<in> set (jobs d). one_move r r')
          \<or> j_id r' \<notin> j_id ` set (jobs d) \<and> (\<exists>r. fresh_row r \<and> one_move r r'))"

lemma one_move_refl [simp]: "one_move r r"
  by (simp add: one_move_def)

lemma one_move_in: "r \<in> A \<Longrightarrow> \<exists>r' \<in> A. one_move r r'" "r \<in> A \<Longrightarrow> \<exists>q \<in> A. one_move q r" "fresh_row r \<Longrightarrow> \<exists>q. fresh_row q \<and> one_move q r"
  by (blast intro: one_move_refl)+

lemma one_move_id: "one_move r r' \<Longrightarrow> j_id r' = j_id r"
  by (auto simp: one_move_def dest: core_id moved_id)

lemma evolution_same_jobs: "jobs d' = jobs d \<Longrightarrow> job_evolution gone d d'"
  by (simp add: job_evolution_def unique_ids_def one_move_in)

text \<open>New rows only.\<close>

definition grows :: "database \<Rightarrow> database \<Rightarrow> bool" where
  "grows d d' \<longleftrightarrow> (unique_ids d \<longrightarrow> unique_ids d') \<and> (\<exists>new. jobs d' = jobs d @ new \<and> (\<forall>r \<in> set new. fresh_row r))"

interpretation grow: budget_frame grows
proof unfold_locales
  fix a b c
  assume "grows a b" and "grows b c"
  then show "grows a c" unfolding grows_def by (metis Un_iff append.assoc set_append)
qed (auto simp: grows_def unique_ids_def)

lemma grows_insert_job_row: "fresh_row r \<Longrightarrow> keeps grow.on_world (sql_exec S (insert_job_row r))"
  by (rule grow.keeps_sql_exec) (auto simp: insert_job_row_def grows_def unique_ids_def split: if_splits)

lemma fresh_new_job_row: "fresh_row (new_job_row jid name ns cron spec cost now)"
  by (simp add: fresh_row_def new_job_row_def)

lemma grows_create_job_run: "keeps grow.on_world (create_job_run S C name ns spec now)"
  by (auto simp: create_job_run_def Let_def intro!: grows_insert_job_row fresh_new_job_row split: option.split)

lemma grows_schedule_one: "keeps grow.on_world (schedule_one S C now c)"
  by (auto simp: schedule_one_def Let_def intro!: grows_create_job_run split: option.split)

lemma grows_schedule_due_jobs: "keeps grow.on_world (schedule_due_jobs S C)"
proof -
  have "keeps grow.on_world (schedule_rows S C now cs n)" for now cs n
    by (induction cs arbitrary: n) (auto intro!: grows_schedule_one)
  then show ?thesis by (auto simp: schedule_due_jobs_def)
qed

lemma grows_create_job: "keeps grow.on_world (create_job S cfg req)"
  by (auto simp: create_job_def budget_then_store_def store_job_def Let_def effective_main_currency_def current_settings_def fetch_budget_row_def
      intro!: grows_insert_job_row fresh_new_job_row split: option.split)

lemma evolution_grows:
  assumes "grows d d'"
  shows "job_evolution gone d d'"
proof -
  from assms obtain new where new: "jobs d' = jobs d @ new" and fresh: "\<forall>r \<in> set new. fresh_row r" by (auto simp: grows_def)
  have "j_id r \<notin> j_id ` set (jobs d)" if "unique_ids d" and "r \<in> set new" for r
    using assms new that by (auto simp: grows_def unique_ids_def)
  with assms new fresh show ?thesis by (auto simp: job_evolution_def grows_def one_move_in)
qed

text \<open>Rows that move, none added and none removed.\<close>

lemma moves_rows:
  assumes "list_all2 one_move xs ys"
  shows "map j_id ys = map j_id xs" and "\<forall>r \<in> set xs. \<exists>r' \<in> set ys. one_move r r'" and "\<forall>r' \<in> set ys. \<exists>r \<in> set xs. one_move r r'"
  using assms by (induction rule: list_all2_induct) (auto dest: one_move_id)

lemma evolution_moves: "(unique_ids d \<Longrightarrow> list_all2 one_move (jobs d) (jobs d')) \<Longrightarrow> job_evolution gone d d'"
  using moves_rows [of "jobs d" "jobs d'"] by (auto simp: job_evolution_def unique_ids_def)

lemma job_tick_one_move: "job_tick r r' \<Longrightarrow> one_move r r'"
  by (auto simp: job_tick_def one_move_def split: if_splits)

lemma evolution_tick: "job_evolution gone (db w) (db (snd (tick_until S C shutdown w)))"
proof (cases rule: bnd_cases [of "schedule_due_jobs S C" w "\<lambda>_. bnd (advance_all_until S C shutdown) (\<lambda>_. ret ())"])
  case (err e v)
  with keepsD [OF grows_schedule_due_jobs, of w S C] have "grows (db w) (db v)" by (simp add: grow.on_world_def)
  then show ?thesis using err by (simp add: tick_until_def evolution_grows)
next
  case (val n v)
  with keepsD [OF grows_schedule_due_jobs, of w S C] have g: "grows (db w) (db v)" by (simp add: grow.on_world_def)
  have run: "snd (tick_until S C shutdown w) = snd (advance_all_until S C shutdown v)"
    using val by (simp add: tick_until_def bnd_def split: prod.split sum.split)
  show ?thesis
    unfolding job_evolution_def run
  proof
    assume u: "unique_ids (db w)"
    let ?d = "db (snd (advance_all_until S C shutdown v))"
    from u g have v: "unique_ids (db v)" by (simp add: grows_def)
    then have m: "list_all2 one_move (jobs (db v)) (jobs ?d)"
      unfolding unique_ids_def using tick_rows by (fastforce elim: list_all2_mono intro: job_tick_one_move)
    from g obtain new where new: "jobs (db v) = jobs (db w) @ new" and fresh: "\<forall>r \<in> set new. fresh_row r" by (auto simp: grows_def)
    have other: "j_id r' \<notin> j_id ` set (jobs (db w)) \<and> (\<exists>r. fresh_row r \<and> one_move r r')" if "r \<in> set new" "one_move r r'" for r r'
      using v new fresh that by (auto simp: unique_ids_def one_move_id)
    show "unique_ids ?d \<and> (\<forall>r \<in> set (jobs (db w)). gone r \<or> (\<exists>r' \<in> set (jobs ?d). one_move r r'))
       \<and> (\<forall>r' \<in> set (jobs ?d). (\<exists>r \<in> set (jobs (db w)). one_move r r')
          \<or> j_id r' \<notin> j_id ` set (jobs (db w)) \<and> (\<exists>r. fresh_row r \<and> one_move r r'))"
    proof (intro conjI ballI)
      show "unique_ids ?d" using v moves_rows(1) [OF m] by (simp add: unique_ids_def)
      show "gone r \<or> (\<exists>r' \<in> set (jobs ?d). one_move r r')" if "r \<in> set (jobs (db w))" for r
        using that new moves_rows(2) [OF m] by auto
      show "(\<exists>r \<in> set (jobs (db w)). one_move r r') \<or> j_id r' \<notin> j_id ` set (jobs (db w)) \<and> (\<exists>r. fresh_row r \<and> one_move r r')"
        if "r' \<in> set (jobs ?d)" for r'
        using that new moves_rows(3) [OF m] other by fastforce
    qed
  qed
qed

lemma evolution_removal:
  assumes "jobs d' = filter (\<lambda>q. j_id q \<noteq> j_id r) (jobs d)" and "\<And>q. unique_ids d \<Longrightarrow> q \<in> set (jobs d) \<Longrightarrow> j_id q = j_id r \<Longrightarrow> q = r" and "gone r"
  shows "job_evolution gone d d'"
  unfolding job_evolution_def
proof (intro impI conjI ballI)
  assume u: "unique_ids d"
  then show "unique_ids d'" using assms(1) by (simp add: unique_ids_def distinct_map_filter)
  show "gone q \<or> (\<exists>r' \<in> set (jobs d'). one_move q r')" if "q \<in> set (jobs d)" for q
    using that assms u one_move_in(1) [of q "set (jobs d')"] by (cases "j_id q = j_id r") auto
qed (use assms(1) one_move_in(2) in auto)

lemma evolution_delete: "job_evolution (removes (RemoveJob ns name)) (db w) (db (snd (delete_job S ns name w)))"
proof (cases rule: or_500_query_cases [where S = S and q = "job_named ns name" and w = w and k = "\<lambda>row. case row of
         None \<Rightarrow> ret (text_response 404 ''Job not found'')
       | Some r \<Rightarrow>
          (if is_pre_completion_state (j_status r)
           then bnd (now_ts S) (\<lambda>now. or_500 (force_failed S (j_id r) deleted_message now) (\<lambda>_. ret no_content))
           else or_500 (sql_exec S (delete_job_row (j_id r))) (\<lambda>_. ret no_content))"])
  case (fault e v)
  then show ?thesis by (simp add: delete_job_def evolution_same_jobs)
next
  case (val v)
  show ?thesis
  proof (cases "job_named ns name (db w)")
    case None
    with val show ?thesis by (simp add: delete_job_def evolution_same_jobs)
  next
    case (Some r)
    then have r: "r \<in> set (jobs (db w))" "j_namespace r = ns" "j_name r = name" by (auto simp: job_named_def find_Some_iff)
    have only: "q = r" if "unique_ids (db w)" "q \<in> set (jobs (db w))" "j_id q = j_id r" for q
      using that r(1) by (auto simp: unique_ids_def distinct_map inj_on_def)
    show ?thesis
    proof (cases "is_pre_completion_state (j_status r)")
      case True
      let ?fail = "\<lambda>now. or_500 (force_failed S (j_id r) deleted_message now) (\<lambda>_. ret no_content)"
      obtain now u where run: "delete_job S ns name w = ?fail now u" and u: "db u = db w"
        using val Some True by (auto simp: delete_job_def stepping)
      have "snd (?fail now u) = snd (force_failed S (j_id r) deleted_message now u)"
        by (auto simp: or_500_def bnd_def attempt_def split: prod.split sum.split)
      with keepsD [OF keeps_steps_force_failed [of "j_id r" S deleted_message now], of u] run u
      have "steps_of (j_id r) {''Failed''} (db w) (db (snd (delete_job S ns name w)))" by (simp add: on_db_def)
      then show ?thesis
        unfolding steps_of_def
        by (intro evolution_moves, elim list_all2_mono [rotated] list.rel_mono_strong)
           (use only True in \<open>auto simp: one_move_def edge_def split: if_splits\<close>)
    next
      case False
      then have run: "delete_job S ns name w = or_500 (sql_exec S (delete_job_row (j_id r))) (\<lambda>_. ret no_content) v"
        using val Some by (simp add: delete_job_def)
      show ?thesis
      proof (cases rule: or_500_exec_cases [where S = S and f = "delete_job_row (j_id r)" and w = v and k = "\<lambda>_. ret no_content"])
        case (fault e x)
        then show ?thesis using run val by (simp add: evolution_same_jobs)
      next
        case (val x)
        from val(1) have x: "db x = (db w)\<lparr>jobs := filter (\<lambda>q. j_id q \<noteq> j_id r) (jobs (db w))\<rparr>" using \<open>db v = db w\<close> by (simp add: delete_job_row_def)
        have "jobs (db (snd (delete_job S ns name w))) = filter (\<lambda>q. j_id q \<noteq> j_id r) (jobs (db w))" using run val(2) by (simp add: x)
        then show ?thesis
          by (rule evolution_removal) (use only r False in \<open>auto simp: removes_def\<close>)
      qed
    qed
  qed
qed

section \<open>Operations that leave the jobs alone\<close>

context db_frame
begin

lemma keeps_sql_exec_counted:
  assumes "\<And>d d'. fst (f d) = Inr d' \<Longrightarrow> Q d d'"
  shows "keeps on_world (sql_exec_counted S f)"
  unfolding sql_exec_counted_def
  by (intro keeps_bnd keeps_seq keeps_ret keeps_sql_exec) (auto intro: assms keeps_same_db)

lemma keeps_transaction [intro!]:
  assumes "keeps on_world m"
  shows "keeps on_world (transaction S m)"
proof (rule keepsI)
  fix w
  let ?m = "bnd (sql_query S (\<lambda>_. ())) (\<lambda>_. bnd m (\<lambda>a. bnd (sql_query S (\<lambda>_. ())) (\<lambda>_. ret a)))"
  have "keeps on_world ?m" using assms by auto
  from keepsD [OF this, of w] show "on_world w (snd (transaction S m w))"
    by (auto simp: transaction_def on_world_def Q_refl split: prod.split sum.split)
qed

lemma keeps_or_budget_error [intro!]:
  "keeps on_world m \<Longrightarrow> (\<And>a. keeps on_world (k a)) \<Longrightarrow> keeps on_world (or_budget_error m k)"
  unfolding or_budget_error_def by (intro keeps_bnd keeps_attempt) (auto split: sum.split)

end

lemma rows_create_secret: "keeps same_jobs.on_world (create_secret S req)"
  by (auto simp: create_secret_def insert_secret_row_def Let_def intro!: same_jobs.keeps_sql_exec split: sum.split option.split if_splits)

lemma rows_delete_secret: "keeps same_jobs.on_world (delete_secret S ns name)"
  by (auto simp: delete_secret_def delete_secret_rows_def intro!: same_jobs.keeps_sql_exec_counted)

lemma rows_patch_secret: "keeps same_jobs.on_world (patch_secret S ns name ct body)"
  by (auto simp: patch_secret_def update_secret_rows_def Let_def intro!: same_jobs.keeps_sql_exec_counted split: sum.split option.split)

lemma rows_create_cronjob: "keeps same_jobs.on_world (create_cronjob S cfg req)"
  by (auto simp: create_cronjob_def store_cronjob_def insert_cronjob_row_def cronjob_exists_def Let_def intro!: same_jobs.keeps_sql_exec split: option.split if_splits)

lemma rows_update_cronjob: "keeps same_jobs.on_world (update_cronjob S zone ns name spec)"
  by (auto simp: update_cronjob_def update_cronjob_rows_def Let_def intro!: same_jobs.keeps_sql_exec_counted split: option.split)

lemma rows_replace_cronjob: "keeps same_jobs.on_world (replace_cronjob S cfg ns name req)"
  by (auto simp: replace_cronjob_def intro!: rows_update_cronjob split: option.split)

lemma rows_patch_cronjob: "keeps same_jobs.on_world (patch_cronjob S cfg ns name ct body)"
  by (auto simp: patch_cronjob_def patch_current_def Let_def intro!: rows_update_cronjob split: option.split sum.split)

lemma rows_delete_cronjob: "keeps same_jobs.on_world (delete_cronjob S ns name)"
  by (auto simp: delete_cronjob_def delete_cronjob_rows_def intro!: same_jobs.keeps_sql_exec_counted)

lemma rows_update_budget: "keeps same_jobs.on_world (sql_exec S (update_budget f))"
  by (rule same_jobs.keeps_sql_exec) (auto simp: update_budget_def rbind_def not_null_def split: option.splits sum.splits if_splits)

lemma rows_topup: "keeps same_jobs.on_world (topup S amount)"
  by (auto simp: topup_def apply_topup_def Let_def intro!: rows_update_budget split: option.split)

lemma rows_patch_settings: "keeps same_jobs.on_world (patch_settings_request S patch)"
  by (auto simp: patch_settings_request_def patch_settings_def change_currency_def convert_or_conflict_def Let_def intro!: rows_update_budget
      split: option.split)

lemma rows_get_settings: "keeps same_jobs.on_world (get_settings S)"
  by (auto simp: get_settings_def split: option.split)

lemma rows_reads: "keeps same_db.on_world m \<Longrightarrow> keeps same_jobs.on_world m"
  by (erule keeps_weaken) (simp add: same_db.on_world_def same_jobs.on_world_def)

lemma rows_metrics_poll: "keeps same_jobs.on_world (poll_once_with_timeout S order timer cfg)"
proof -
  have "keeps same_jobs.on_world (poll_one_job S timer cfg command job)" for command job
    by (cases job)
       (auto simp: poll_one_job_def upsert_sample_def upsert_metrics_row_def Let_def intro!: same_jobs.keeps_sql_exec
          rows_reads [OF same_db.keeps_exec_once] rows_reads [OF same_db.keeps_timed_out] split: sum.split bool.split option.split if_splits)
  then have "keeps same_jobs.on_world (run_tasks (poll_one_job S timer cfg command) js n)" for command js n
    by (induction js arbitrary: n) auto
  then show ?thesis
    by (auto simp: poll_once_with_timeout_def forget_stale_samples_def delete_sample_def
        intro!: same_jobs.keeps_sql_exec same_jobs.keeps_for_each split: prod.split)
qed

lemma rows_price_sync: "keeps same_jobs.on_world (sync_pricing_and_rates S C ecb)"
proof -
  have "keeps same_jobs.on_world (sync_plans S C)"
    by (auto simp: sync_plans_def store_plans_def insert_plan_row_def Let_def intro!: same_jobs.keeps_sql_exec rows_reads [OF reads_try_cloud]
        same_jobs.keeps_for_each split: if_splits)
  moreover have "keeps same_jobs.on_world (sync_pricing S C)"
    by (auto simp: sync_pricing_def upsert_price_row_def Let_def intro!: same_jobs.keeps_sql_exec rows_reads [OF reads_try_cloud]
        same_jobs.keeps_for_each split: if_splits)
  moreover have "keeps same_jobs.on_world (fetch_ecb_rates ecb)"
    by (rule same_jobs.keeps_same_db) (simp add: fetch_ecb_rates_def bnd_def lift_ext_eq split: sum.split)
  then have "keeps same_jobs.on_world (sync_exchange_rates S ecb)"
    by (auto simp: sync_exchange_rates_def store_rates_def insert_rate_row_def rbind_def not_null_def
        intro!: same_jobs.keeps_sql_exec same_jobs.keeps_for_each split: if_splits sum.splits)
  ultimately show ?thesis by (auto simp: sync_pricing_and_rates_def tolerate_def)
qed

lemma rows_report: "keeps same_jobs.on_world (get_cost_report S cal cfg params)"
proof -
  have "keeps same_jobs.on_world (charge_lines S cal cfg job cur cs csv)" for job cur cs csv
    by (induction cs arbitrary: csv) (auto simp: charge_row_def billing_period_for_def split: option.split)
  then have "keeps same_jobs.on_world (job_lines S cal cfg js csv)" for js csv
    by (induction js arbitrary: csv) (auto simp: actual_job_charges_def split: option.split)
  then show ?thesis by (auto simp: get_cost_report_def report_between_def Let_def split: option.split sum.split)
qed

lemma rows_metrics: "keeps same_jobs.on_world (render_metrics S version h)"
  by (auto simp: render_metrics_def render_all_def write_jobs_by_state_def write_job_runs_def write_budget_def Let_def split: option.split sum.split)

lemma rows_status_page: "keeps same_jobs.on_world (render_status S sm version)"
  by (auto simp: render_status_def Let_def split: option.split sum.split)

lemmas rows_kept = rows_create_secret rows_delete_secret rows_patch_secret rows_create_cronjob rows_replace_cronjob rows_patch_cronjob
  rows_delete_cronjob rows_topup rows_patch_settings rows_get_settings rows_metrics_poll rows_price_sync rows_report rows_metrics rows_status_page
  rows_reads [OF reads_scan_and_clean] rows_reads [OF reads_answer]

lemma rows_keptD: "keeps same_jobs.on_world m \<Longrightarrow> jobs (db (snd (m w))) = jobs (db w)"
  by (drule keepsD [of _ _ w]) (simp add: same_jobs.on_world_def)

section \<open>The whole program\<close>

lemma perform_evolution: "job_evolution (removes op) (db w) (db (perform Y op w))"
proof (cases op)
  case (TickPass sd)
  then show ?thesis by (simp add: evolution_tick)
next
  case (PostJob req)
  then show ?thesis using keepsD [OF grows_create_job, of w] by (simp add: grow.on_world_def evolution_grows)
next
  case (RemoveJob ns name)
  then show ?thesis by (simp add: evolution_delete)
qed (auto intro!: evolution_same_jobs rows_keptD rows_kept)

definition jobs_ok :: "database \<Rightarrow> bool" where
  "jobs_ok d \<longleftrightarrow> unique_ids d
     \<and> (\<forall>r \<in> set (jobs d). recognised (j_status r) \<and> 1 \<le> j_version r \<and> j_version r \<le> 1 + int (rank (j_status r)))"

lemma edge_recognised: "edge s t \<Longrightarrow> recognised t \<and> rank s < rank t"
  using edge_rank by (auto simp: edge_def recognised_def dest: next_state_rank)

lemma one_move_ok:
  assumes "one_move r r'" and "recognised (j_status r)" "1 \<le> j_version r" "j_version r \<le> 1 + int (rank (j_status r))"
  shows "recognised (j_status r') \<and> 1 \<le> j_version r' \<and> j_version r' \<le> 1 + int (rank (j_status r'))"
  using assms unfolding one_move_def by (fastforce simp: core_def moved_def dest: edge_recognised)

lemma fresh_row_ok: "fresh_row r \<Longrightarrow> recognised (j_status r) \<and> 1 \<le> j_version r \<and> j_version r \<le> 1 + int (rank (j_status r))"
  by (simp add: fresh_row_def recognised_def STATE_SEQUENCE_def)

lemma jobs_ok_evolution: "jobs_ok d \<Longrightarrow> job_evolution gone d d' \<Longrightarrow> jobs_ok d'"
  unfolding jobs_ok_def job_evolution_def by (metis one_move_ok fresh_row_ok)

lemma jobs_ok_run: "system_run Y w v \<Longrightarrow> jobs_ok (db w) \<Longrightarrow> jobs_ok (db v)"
  by (induction rule: system_run.induct) (auto intro: jobs_ok_evolution perform_evolution)

lemma jobs_ok_empty: "jobs d = [] \<Longrightarrow> jobs_ok d"
  by (simp add: jobs_ok_def unique_ids_def)

definition demo_system :: "nat system" where
  "demo_system = \<lparr>sys_services = demo_services, sys_context = demo_context, sys_report = demo_report_config\<rparr>"

lemma demo_jobs_ok: "jobs_ok (db (demo_world ''Created'' 900))"
  by (simp add: jobs_ok_def unique_ids_def demo_world_def demo_db_def demo_job_def recognised_def STATE_SEQUENCE_def)

section \<open>Properties\<close>

text \<open>
  C4. Whatever passes and requests the program performs, in any order and with any faults: if the table of jobs is sound, as an empty one is, then it stays
  sound. No two jobs have one id, every job is in a state of the pipeline, and its version, which starts at one, is at most one more than the position
  of its state, so at most 18.
\<close>

theorem job_table_stays_sound:
  assumes "system_run Y w v" and "jobs (db w) = [] \<or> jobs_ok (db w)"
  shows "distinct (map j_id (jobs (db v)))
    \<and> (\<forall>r \<in> set (jobs (db v)). recognised (j_status r) \<and> 1 \<le> j_version r \<and> j_version r \<le> 1 + int (rank (j_status r)) \<and> j_version r \<le> 18)"
proof -
  have ok: "jobs_ok (db v)" using assms(2) by (intro jobs_ok_run [OF assms(1)]) (auto intro: jobs_ok_empty)
  have "j_version r \<le> 18" if "j_version r \<le> 1 + int (rank (j_status r))" for r using that rank_le [of "j_status r"] by linarith
  with ok show ?thesis by (auto simp: jobs_ok_def unique_ids_def)
qed

theorem job_table_stays_sound_witness:
  "distinct (map j_id (jobs (db (perform demo_system (RemoveJob ''default'' ''job'') (perform demo_system (TickPass never) (demo_world ''Created'' 900))))))"
  using job_table_stays_sound [OF system_run.operate [OF system_run.operate [OF system_run.idle]], of "demo_world ''Created'' 900" demo_system]
    demo_jobs_ok by blast

text \<open>
  C5. In every world the program can get to, the next operation, whichever it is, leaves each job where it is or moves it along one edge of the
  pipeline, its version growing by one and nothing else of its identity changing; a job disappears only by a request to delete it under its name, and
  only once it has completed.
\<close>

theorem jobs_never_lost:
  assumes "system_run Y w v" and "jobs (db w) = [] \<or> jobs_ok (db w)" and "r \<in> set (jobs (db v))"
  shows "(\<exists>r' \<in> set (jobs (db (perform Y op v))). core r' = core r \<or> (\<exists>t. edge (j_status r) t \<and> moved t r r'))
    \<or> op = RemoveJob (j_namespace r) (j_name r) \<and> \<not> is_pre_completion_state (j_status r)"
proof -
  have "jobs_ok (db v)" using assms(2) by (intro jobs_ok_run [OF assms(1)]) (auto intro: jobs_ok_empty)
  then have "unique_ids (db v)" by (simp add: jobs_ok_def)
  with perform_evolution [of op v Y] assms(3) have "removes op r \<or> (\<exists>r' \<in> set (jobs (db (perform Y op v))). one_move r r')"
    by (auto simp: job_evolution_def)
  then show ?thesis by (auto simp: removes_def one_move_def split: operation.splits)
qed

theorem jobs_never_lost_witness:
  "jobs (db (perform demo_system (RemoveJob ''default'' ''job'') (demo_world ''Created'' 900))) \<noteq> []"
proof -
  have r: "demo_job ''Created'' 900 \<in> set (jobs (db (demo_world ''Created'' 900)))" by (simp add: demo_world_def demo_db_def)
  have "is_pre_completion_state (j_status (demo_job ''Created'' 900))" by (simp add: demo_job_def is_pre_completion_rank recognised_def STATE_SEQUENCE_def)
  then show ?thesis
    using jobs_never_lost [OF system_run.idle [of demo_system] _ r, of "RemoveJob ''default'' ''job''"] demo_jobs_ok by (cases "jobs (db (perform demo_system (RemoveJob ''default'' ''job'') (demo_world ''Created'' 900)))") auto
qed

end
