(* ===== verification/ReadProps.thy ===== *)
theory ReadProps
  imports System App
begin

text \<open>
  What the \<open>GET\<close> requests do to the tables. All but three only query them; the settings, the metrics and the status page show the balance, and settle its accrual first,
  which writes the budget's row. That no \<open>GET\<close> request is forgotten is checked against the routes.
\<close>

section \<open>The requests\<close>

datatype get_request =
    Query read_request
  | Report calendar "string \<Rightarrow> string option"
  | ShowSettings
  | ShowMetrics string tick_health
  | ShowStatus "f64 list \<Rightarrow> f64" string
  | CheckReady tick_health
  | CheckLive

fun respond :: "'x services \<Rightarrow> cost_report_config \<Rightarrow> get_request \<Rightarrow> 'x handler" where
  "respond S cfg (Query req) = answer S req"
| "respond S cfg (Report cal params) = get_cost_report S cal cfg params"
| "respond S cfg ShowSettings = get_settings S"
| "respond S cfg (ShowMetrics version health) = render_metrics S version health"
| "respond S cfg (ShowStatus sum_f64 version) = render_status S sum_f64 version"
| "respond S cfg (CheckReady health) = readyz S health"
| "respond S cfg CheckLive = livez"

text \<open>The endpoint of a request, in the table of routes.\<close>

fun query_endpoint :: "read_request \<Rightarrow> endpoint" where
  "query_endpoint (read_request.ListJobs _) = endpoint.ListJobs"
| "query_endpoint (read_request.GetJob _ _) = endpoint.GetJob"
| "query_endpoint (read_request.GetPod _ _) = endpoint.GetPod"
| "query_endpoint (read_request.ListCronJobs _) = endpoint.ListCronJobs"
| "query_endpoint (read_request.GetCronJob _ _) = endpoint.GetCronJob"
| "query_endpoint (read_request.ListSecrets _) = endpoint.ListSecrets"
| "query_endpoint (read_request.GetSecret _ _) = endpoint.GetSecret"
| "query_endpoint (read_request.ListEvents _ _) = endpoint.ListEvents"
| "query_endpoint read_request.ListNodes = endpoint.ListNodes"
| "query_endpoint read_request.ListNodeMetrics = endpoint.ListNodeMetrics"
| "query_endpoint read_request.ListPodMetrics = endpoint.ListPodMetrics"
| "query_endpoint (ListPodMetricsIn _) = ListPodMetricsForNamespace"
| "query_endpoint (PodLog _ _ _ _ _) = GetPodLog"

fun endpoint_of :: "get_request \<Rightarrow> endpoint" where
  "endpoint_of (Query req) = query_endpoint req"
| "endpoint_of (Report _ _) = GetCostReport"
| "endpoint_of ShowSettings = GetSettings"
| "endpoint_of (ShowMetrics _ _) = Metrics"
| "endpoint_of (ShowStatus _ _) = endpoint.StatusPage"
| "endpoint_of (CheckReady _) = Readyz"
| "endpoint_of CheckLive = Livez"

text \<open>Endpoints that answer with a constant: API discovery and \<open>/health\<close>. They have no access to the database.\<close>

definition constant_endpoints :: "endpoint set" where
  "constant_endpoints = {DiscoveryRoot, DiscoveryApisRoot, DiscoveryV1, DiscoveryBatchV1, DiscoveryMetrics, DiscoveryCost, HealthCheck}"

definition get_endpoints :: "endpoint set" where
  "get_endpoints = {e. \<exists>(path, methods) \<in> set (authenticated_routes @ public_routes). (GET, e) \<in> set methods}"

lemma query_endpoints:
  "\<exists>r. query_endpoint r = e" if "e \<in> {endpoint.ListJobs, endpoint.GetJob, endpoint.GetPod, endpoint.ListCronJobs, endpoint.GetCronJob,
     endpoint.ListSecrets, endpoint.GetSecret, endpoint.ListEvents, endpoint.ListNodes, endpoint.ListNodeMetrics, endpoint.ListPodMetrics,
     ListPodMetricsForNamespace, GetPodLog}"
  using that by (auto intro: query_endpoint.simps)

lemma get_endpoints_covered: "get_endpoints \<subseteq> constant_endpoints \<union> range endpoint_of"
proof
  fix e
  assume "e \<in> get_endpoints"
  then have "e \<in> constant_endpoints \<union> {endpoint.ListJobs, endpoint.GetJob, endpoint.GetPod, endpoint.ListCronJobs, endpoint.GetCronJob,
     endpoint.ListSecrets, endpoint.GetSecret, endpoint.ListEvents, endpoint.ListNodes, endpoint.ListNodeMetrics, endpoint.ListPodMetrics,
     ListPodMetricsForNamespace, GetPodLog} \<union> {GetCostReport, GetSettings, Metrics, endpoint.StatusPage, Readyz, Livez}"
    by (auto simp: get_endpoints_def authenticated_routes_def public_routes_def constant_endpoints_def)
  then show "e \<in> constant_endpoints \<union> range endpoint_of"
  proof (elim UnE)
    assume "e \<in> {endpoint.ListJobs, endpoint.GetJob, endpoint.GetPod, endpoint.ListCronJobs, endpoint.GetCronJob,
       endpoint.ListSecrets, endpoint.GetSecret, endpoint.ListEvents, endpoint.ListNodes, endpoint.ListNodeMetrics, endpoint.ListPodMetrics,
       ListPodMetricsForNamespace, GetPodLog}"
    then obtain r where "query_endpoint r = e" using query_endpoints by blast
    then have "endpoint_of (Query r) = e" by simp
    then show ?thesis by blast
  qed (auto intro: range_eqI [where f = endpoint_of] endpoint_of.simps [symmetric])
qed

section \<open>What they change\<close>

text \<open>The requests that settle the budget first.\<close>

fun settles :: "get_request \<Rightarrow> bool" where
  "settles ShowSettings = True"
| "settles (ShowMetrics _ _) = True"
| "settles (ShowStatus _ _) = True"
| "settles _ = False"

lemma reads_report: "keeps same_db.on_world (get_cost_report S cal cfg params)"
proof -
  have "keeps same_db.on_world (charge_lines S cal cfg job cur cs csv)" for job cur cs csv
    by (induction cs arbitrary: csv) (auto simp: charge_row_def billing_period_for_def split: option.split)
  then have "keeps same_db.on_world (job_lines S cal cfg js csv)" for js csv
    by (induction js arbitrary: csv) (auto simp: actual_job_charges_def split: option.split)
  then show ?thesis by (auto simp: get_cost_report_def report_between_def Let_def split: option.split sum.split)
qed

lemma reads_ready: "keeps same_db.on_world (readyz S health)"
  by (auto simp: readyz_def Let_def split: sum.split)

lemma settles_only:
  "keeps guard.on_world (get_settings S)" "keeps guard.on_world (render_metrics S version health)" "keeps guard.on_world (render_status S sm version)"
  by (auto simp: get_settings_def or_budget_error_def render_metrics_def render_all_def write_jobs_by_state_def write_job_runs_def write_budget_def
      render_status_def Let_def split: option.split sum.split)

lemma respond_panics:
  assumes "fst (respond S cfg req w) = Inl p"
  shows "p = TimeOutOfRange
    \<and> ((\<exists>arrivals ssh ns name params n. req = Query (PodLog arrivals ssh ns name params) \<and> lq_since_seconds params = Some n \<and> 1 \<le> n)
       \<or> (\<exists>cal params d. req = Report cal params \<and> parse_date_param cal params ''to'' = Inr d \<and> max_date cal < d + 1))"
proof (cases req)
  case (Query r)
  with assms answer_panics [of S r w p] show ?thesis by auto
next
  case (Report cal params)
  have "responds (report_between S cal cfg a b)" for a b by (auto simp: report_between_def)
  with assms Report show ?thesis
    by (auto simp: get_cost_report_def responds_Inl fail_def split: sum.splits if_splits)
next
  case ShowSettings
  have "responds (get_settings S)" by (auto simp: get_settings_def or_budget_error_def split: sum.split option.split)
  with assms ShowSettings show ?thesis by (simp add: responds_Inl)
next
  case (ShowMetrics version health)
  have "responds (render_metrics S version health)" by (auto simp: render_metrics_def)
  with assms ShowMetrics show ?thesis by (simp add: responds_Inl)
next
  case (ShowStatus sm version)
  have "responds (now_ts S :: ('a world, panic, int) io)" by (simp add: responds_def now_ts_eq)
  then have "responds (render_status S sm version)" by (auto simp: render_status_def)
  with assms ShowStatus show ?thesis by (simp add: responds_Inl)
next
  case (CheckReady health)
  have "responds (now_ts S :: ('a world, panic, int) io)" by (simp add: responds_def now_ts_eq)
  then have "responds (readyz S health)" by (auto simp: readyz_def Let_def)
  with assms CheckReady show ?thesis by (simp add: responds_Inl)
next
  case CheckLive
  with assms show ?thesis by (simp add: livez_def)
qed

text \<open>
  C32. A \<open>GET\<close> request, whatever its endpoint, changes at most the budget's balance and its clock, also when it fails or panics: one for the settings, the metrics or the
  status page settles the accrual, which keeps the settings and every other table, and any other changes no table at all. A request panics only when it asks for the log of a pod
  from further back than there is time, or for a cost report up to the last day of the calendar. The requests are those of all \<open>GET\<close> routes but API discovery
  and \<open>/health\<close>, which answer with a constant.
\<close>

theorem reads_change_nothing:
  "get_endpoints \<subseteq> constant_endpoints \<union> range endpoint_of
   \<and> (if settles req then guard_only (db w) (db (snd (respond S cfg req w))) else db (snd (respond S cfg req w)) = db w)
   \<and> (case fst (respond S cfg req w) of
        Inr _ \<Rightarrow> True
      | Inl p \<Rightarrow> p = TimeOutOfRange
          \<and> ((\<exists>arrivals ssh ns name params n. req = Query (PodLog arrivals ssh ns name params) \<and> lq_since_seconds params = Some n \<and> 1 \<le> n)
             \<or> (\<exists>cal params d. req = Report cal params \<and> parse_date_param cal params ''to'' = Inr d \<and> max_date cal < d + 1)))"
proof -
  have guard: "guard_only (db w) (db (snd (m w)))" if "keeps guard.on_world m" for m :: "'a handler"
    using keepsD [OF that, of w] by (simp add: guard.on_world_def)
  have same: "db (snd (m w)) = db w" if "keeps same_db.on_world m" for m :: "'a handler"
    using keepsD [OF that, of w] by (simp add: same_db.on_world_def)
  have "if settles req then guard_only (db w) (db (snd (respond S cfg req w))) else db (snd (respond S cfg req w)) = db w"
    by (cases req) (simp_all add: guard settles_only same reads_answer reads_report reads_ready livez_def)
  then show ?thesis using get_endpoints_covered respond_panics [of S cfg req w] by (auto split: sum.split)
qed

text \<open>Showing the settings does write: it sets the clock of the accrual.\<close>

theorem settings_write_budget:
  "db (snd (get_settings demo_services (budget_world (Fin 500)))) \<noteq> db (budget_world (Fin 500))"
proof -
  from demo_settled obtain w' where "settle_accrual demo_services (budget_world (Fin 500)) = (Inr (Some (Fin 500, settings_of (demo_budget (Fin 500)))), w')"
    and w': "budget_state (db w') = Some ((demo_budget (Fin 500))\<lparr>bs_last_accrual_at := 1000\<rparr>)" by blast
  then have "snd (get_settings demo_services (budget_world (Fin 500))) = w'"
    by (simp add: get_settings_def or_budget_error_def attempt_def bnd_def io_map_err_def map_err_def)
  with w' show ?thesis by (auto simp: budget_world_def demo_budget_def dest!: arg_cong [of _ _ budget_state])
qed

end
