(* ===== verification/Startup.thy ===== *)
theory Startup
  imports Config Loops OrphanScan JobApi
begin

text \<open>
  Starting up: the shim's own address from the provider's metadata service (\<open>src/src/metadata.rs\<close>), the columns added to tables of older databases
  (\<open>src/src/db/migrations.rs\<close>) and the sequence of \<open>main\<close> (\<open>src/src/main.rs\<close>) up to the start of the loops and the server, for a start that no signal
  interrupts. HTTP, the file system and the connection to SQLite are parameters.
\<close>

section \<open>The shim's own address\<close>

record ip_address_metadata =
  ia_family :: string
  ia_address :: string

record interface_metadata =
  if_type :: string
  if_ip_addresses :: "ip_address_metadata list"

record metadata_response =
  md_interfaces :: "interface_metadata list"

definition public_ipv4 :: "metadata_response \<Rightarrow> string option" where
  "public_ipv4 body =
     map_option ia_address
       (Option.bind (find (\<lambda>i. if_type i = ''public'') (md_interfaces body))
          (\<lambda>i. find (\<lambda>a. ia_family a = ''IPv4'') (if_ip_addresses i)))"

text \<open>The answer of the service: no client, no connection, a body that cannot be read, or one that can.\<close>

datatype metadata_answer = NoClient | Unreachable_service string | Unparseable string | Answer metadata_response

definition own_public_ipv4_from :: "('x \<Rightarrow> metadata_answer \<times> 'x) \<Rightarrow> ('x, string option) job_io" where
  "own_public_ipv4_from service =
     (\<lambda>w. case lift_ext service w of (a, w') \<Rightarrow> (Inr (case a of Answer body \<Rightarrow> public_ipv4 body | _ \<Rightarrow> None), w'))"

section \<open>Added columns\<close>

text \<open>The columns of each table; \<open>ALTER TABLE\<close> of a table that is not there, or with a column that is, fails.\<close>

type_synonym table_columns = "string \<Rightarrow> string list option"

definition ADDED_COLUMNS :: "(string \<times> string \<times> string) list" where
  "ADDED_COLUMNS =
     [(''jobs'', ''cached_logs'', ''TEXT''), (''jobs'', ''estimated_cost'', ''REAL''), (''jobs'', ''actual_cost'', ''REAL''),
      (''jobs'', ''completed_at'', ''INTEGER''), (''job_volumes'', ''provider_volume_name'', ''TEXT''), (''jobs'', ''worker_plan'', ''TEXT''),
      (''worker_metrics'', ''pgfault'', ''INTEGER''), (''worker_metrics'', ''pgmajfault'', ''INTEGER''), (''worker_metrics'', ''pswpin'', ''INTEGER''),
      (''worker_metrics'', ''pswpout'', ''INTEGER''), (''worker_metrics'', ''mapped_bytes'', ''INTEGER''),
      (''worker_metrics'', ''cached_bytes'', ''INTEGER''), (''worker_metrics'', ''anon_bytes'', ''INTEGER''),
      (''jobs'', ''cached_logs_timestamped'', ''INTEGER NOT NULL DEFAULT 0'')]"

definition column_exists :: "table_columns \<Rightarrow> string \<Rightarrow> string \<Rightarrow> bool" where
  "column_exists t table column = (column \<in> set (unwrap_or [] (t table)))"

definition add_column :: "string \<Rightarrow> string \<Rightarrow> string \<Rightarrow> table_columns \<Rightarrow> string + table_columns" where
  "add_column table column def t =
     (case t table of
        None \<Rightarrow> Inl (''Failed to run migration: ALTER TABLE '' @ table @ '' ADD COLUMN '' @ column @ '' '' @ def)
      | Some cols \<Rightarrow>
          if column \<in> set cols then Inl (''Failed to run migration: ALTER TABLE '' @ table @ '' ADD COLUMN '' @ column @ '' '' @ def)
          else Inr (t(table \<mapsto> cols @ [column])))"

fun apply_added_columns :: "(string \<times> string \<times> string) list \<Rightarrow> table_columns \<Rightarrow> string + table_columns" where
  "apply_added_columns [] t = Inr t"
| "apply_added_columns ((table, column, def) # cs) t =
     (if column_exists t table column then apply_added_columns cs t
      else rbind (add_column table column def t) (apply_added_columns cs))"

definition run_migrations :: "table_columns \<Rightarrow> string + table_columns" where
  "run_migrations t = apply_added_columns ADDED_COLUMNS t"

section \<open>The start\<close>

record 'x boot_env =
  be_read_to_string :: "string \<Rightarrow> string + string"
  be_toml_from_str :: "string \<Rightarrow> string + config"
  be_init_pool :: "string \<Rightarrow> 'x \<Rightarrow> (string + unit) \<times> 'x"
  be_provider :: "string \<Rightarrow> 'x cloud_provider"
  be_check_connectivity :: "string \<Rightarrow> 'x \<Rightarrow> (string + unit) \<times> 'x"
  be_metadata :: "'x \<Rightarrow> metadata_answer \<times> 'x"
  be_ecb :: "'x ecb_feed"
  be_cloud_init_template :: string

definition job_context_of :: "'x boot_env \<Rightarrow> config \<Rightarrow> string option \<Rightarrow> 'x job_context" where
  "job_context_of E cfg own_ip =
     \<lparr>provider = be_provider E (uc_token (cf_upcloud cfg)), dry_run = uc_dry_run (cf_upcloud cfg), resource_prefix = sh_resource_prefix (cf_shim cfg),
      ctx_zone = uc_zone (cf_upcloud cfg), worker_template_uuid = uc_worker_template_uuid (cf_upcloud cfg),
      worker_ssh_public_keys = uc_worker_ssh_public_keys (cf_upcloud cfg), own_public_ip = own_ip,
      worker_ssh_private_key = uc_worker_ssh_private_key (cf_upcloud cfg), worker_ssh_port = SSH_PORT,
      ctx_main_currency = sh_main_currency (cf_shim cfg),
      ctx_plan_filter = \<lparr>allow_prefixes = uc_worker_plan_allow_prefixes (cf_upcloud cfg), deny_prefixes = uc_worker_plan_deny_prefixes (cf_upcloud cfg)\<rparr>,
      cloud_init_template = be_cloud_init_template E\<rparr>"

definition report_config_of :: "'x boot_env \<Rightarrow> config \<Rightarrow> cost_report_config" where
  "report_config_of E cfg =
     (let p = be_provider E (uc_token (cf_upcloud cfg))
      in \<lparr>cr_resource_prefix = sh_resource_prefix (cf_shim cfg), cr_zone = uc_zone (cf_upcloud cfg), cr_main_currency = sh_main_currency (cf_shim cfg),
          cr_provider_name = provider_name p, cr_invoice_issuer_name = invoice_issuer_name p\<rparr>)"

definition budget_seed :: "config \<Rightarrow> budget_settings" where
  "budget_seed cfg =
     \<lparr>main_currency = sh_main_currency (cf_shim cfg), budget_daily_rate = sh_budget_daily_rate (cf_shim cfg),
      budget_rollover_cap_days = sh_budget_rollover_cap_days (cf_shim cfg)\<rparr>"

definition boot :: "'x services \<Rightarrow> 'x boot_env \<Rightarrow> string \<Rightarrow> ('x, config \<times> 'x job_context \<times> cost_report_config) job_io" where
  "boot S E config_path =
     bnd (from_file S (be_read_to_string E) (be_toml_from_str E) config_path) (\<lambda>cfg.
     seq (lift_ext (be_init_pool E (dc_path (cf_database cfg)))) (
     seq (recover S) (
     seq (attempt (lift_ext (be_check_connectivity E (uc_token (cf_upcloud cfg))) :: ('x, unit) job_io)) (
     bnd (own_public_ipv4_from (be_metadata E)) (\<lambda>own_ip.
     (let C = job_context_of E cfg own_ip
      in bnd (has_cached_pricing S) (\<lambda>cached.
         seq (if cached then ret () else sync_pricing_and_rates S C (be_ecb E)) (
         seq (ensure_budget_seeded S (budget_seed cfg)) (
           ret (cfg, C, report_config_of E cfg))))))))))"

end
