(* ===== verification/StartupProps.thy ===== *)
theory StartupProps
  imports Startup LoopProps Demo
begin

text \<open>
  What holds of the start: migrations bring any older database to all columns and a second run changes nothing, the budget is seeded from the configuration
  once, and the shim's own address is not found when the provider lists an interface without IPv4 first.
\<close>

section \<open>Migrations\<close>

definition has_table :: "table_columns \<Rightarrow> string \<times> string \<times> string \<Rightarrow> bool" where
  "has_table t c \<longleftrightarrow> t (fst c) \<noteq> None"

definition has_column :: "table_columns \<Rightarrow> string \<times> string \<times> string \<Rightarrow> bool" where
  "has_column t c \<longleftrightarrow> column_exists t (fst c) (fst (snd c))"

lemma migrated_none: "list_all (has_column t) cs \<Longrightarrow> apply_added_columns cs t = Inr t"
  by (induction cs) (auto simp: has_column_def)

text \<open>Only columns at the end of tables are added.\<close>

definition extends :: "table_columns \<Rightarrow> table_columns \<Rightarrow> bool" where
  "extends t t' \<longleftrightarrow> (\<forall>table. (t table = None \<longleftrightarrow> t' table = None) \<and> prefix (unwrap_or [] (t table)) (unwrap_or [] (t' table)))"

lemma extends_trans: "extends a b \<Longrightarrow> extends b c \<Longrightarrow> extends a c"
  unfolding extends_def by (meson prefix_order.trans)

lemma extends_keeps: "extends t t' \<Longrightarrow> has_column t c \<Longrightarrow> has_column t' c"
  by (auto simp: extends_def has_column_def column_exists_def dest: set_mono_prefix)

lemma extends_tables: "extends t t' \<Longrightarrow> has_table t c \<Longrightarrow> has_table t' c"
  by (auto simp: extends_def has_table_def)

lemma migrate:
  "list_all (has_table t) cs \<Longrightarrow> \<exists>t'. apply_added_columns cs t = Inr t' \<and> extends t t' \<and> list_all (has_column t') cs"
proof (induction cs arbitrary: t)
  case Nil
  show ?case by (simp add: extends_def)
next
  case (Cons c cs)
  obtain table column def where c: "c = (table, column, def)" by (cases c)
  obtain u where first: "apply_added_columns (c # cs) t = apply_added_columns cs u" and u: "extends t u" "has_column u c"
  proof (cases "column_exists t table column")
    case True
    then show thesis by (intro that [of t]) (auto simp: c extends_def has_column_def)
  next
    case False
    from Cons.prems obtain cols where cols: "t table = Some cols" by (auto simp: c has_table_def)
    with False show thesis
      by (intro that [of "t(table \<mapsto> cols @ [column])"])
         (auto simp: c extends_def has_column_def column_exists_def unwrap_or_def add_column_def rbind_def)
  qed
  from Cons.prems extends_tables [OF u(1)] have "list_all (has_table u) cs" by (auto simp: list_all_iff)
  from Cons.IH [OF this] obtain t' where "apply_added_columns cs u = Inr t'" "extends u t'" "list_all (has_column t') cs" by blast
  with first u show ?case by (auto intro: extends_trans extends_keeps)
qed

text \<open>
  The migrations bring any database that has the tables to all added columns, keep the columns it has in their places, and run again change nothing.
\<close>

theorem migrations_complete_and_idempotent:
  assumes "\<forall>c \<in> set ADDED_COLUMNS. t (fst c) \<noteq> None"
  shows "\<exists>t'. run_migrations t = Inr t' \<and> extends t t' \<and> (\<forall>c \<in> set ADDED_COLUMNS. column_exists t' (fst c) (fst (snd c)))
     \<and> run_migrations t' = Inr t'"
proof -
  from assms have "list_all (has_table t) ADDED_COLUMNS" by (simp add: list_all_iff has_table_def)
  from migrate [OF this] obtain t' where t': "run_migrations t = Inr t'" "extends t t'" "list_all (has_column t') ADDED_COLUMNS"
    by (auto simp: run_migrations_def)
  moreover have "run_migrations t' = Inr t'" unfolding run_migrations_def by (rule migrated_none [OF t'(3)])
  ultimately show ?thesis by (auto simp: list_all_iff has_column_def)
qed

theorem migrations_complete_and_idempotent_witness:
  "\<exists>t'. run_migrations [''jobs'' \<mapsto> [''id''], ''job_volumes'' \<mapsto> [''id''], ''worker_metrics'' \<mapsto> [''job_id'', ''pgfault'']] = Inr t'
     \<and> run_migrations t' = Inr t'"
  using migrations_complete_and_idempotent [of "[''jobs'' \<mapsto> [''id''], ''job_volumes'' \<mapsto> [''id''], ''worker_metrics'' \<mapsto> [''job_id'', ''pgfault'']]"]
  by (auto simp: ADDED_COLUMNS_def)

section \<open>The shim's own address\<close>

text \<open>
  The address is that of the first public interface. When the provider lists the public IPv6 interface before the public IPv4 one, none is found, although the
  answer has a public IPv4 address, and workers are then made without a rule for SSH.
\<close>

theorem later_public_interface_ignored:
  "public_ipv4 \<lparr>md_interfaces = \<lparr>if_type = ''public'', if_ip_addresses = [\<lparr>ia_family = ''IPv6'', ia_address = a6\<rparr>]\<rparr>
       # \<lparr>if_type = ''public'', if_ip_addresses = [\<lparr>ia_family = ''IPv4'', ia_address = a4\<rparr>]\<rparr> # rest\<rparr> = None"
  by (simp add: public_ipv4_def)

section \<open>The start\<close>

lemma sync_only_prices: "sync_pricing_and_rates S C ecb w = (r, w') \<Longrightarrow> only_prices (db w) (db w')"
proof -
  assume run: "sync_pricing_and_rates S C ecb w = (r, w')"
  let ?w1 = "snd (sync_plans S C w)"
  let ?w2 = "snd (sync_pricing S C ?w1)"
  from run have "w' = snd (sync_exchange_rates S ecb ?w2)"
    by (simp add: sync_pricing_and_rates_def seq_def bnd_def tolerate_apply ret_def)
  with sync_plans_refines [of C w S] sync_pricing_refines [of C ?w1 S] sync_exchange_rates_refines [of ecb ?w2 S] show ?thesis
    by (auto simp: refines_def intro: only_prices_trans)
qed

lemma lift_ext_db: "lift_ext f w = (r, w') \<Longrightarrow> db w' = db w"
  by (auto simp: lift_ext_def split: prod.splits)

lemma from_file_db: "from_file S rd toml path w = (r, w') \<Longrightarrow> db w' = db w"
  by (rule same_dbD [of "from_file S rd toml path"])
     (auto simp: from_file_def)

lemma loaded_token:
  assumes "from_file S rd toml path w = (Inr c, w')"
  shows "\<exists>e \<in> set (sc_api_tokens (cf_server c)). is_valid_at e (fst (utc_now S (ext w)))"
  using assms by (auto simp: from_file_def ensure_has_valid_api_token_def list_ex_iff bnd_returns seq_returns of_result_def now_nanos_def lift_ext_eq ret_def
      split: if_splits prod.splits)

lemma cached_pricing_db: "has_cached_pricing S w = (r, w') \<Longrightarrow> db w' = db w"
  by (rule same_dbD [of "has_cached_pricing S"]) (auto simp: has_cached_pricing_def has_cached_plans_def)

lemma query_returns: "sql_query S q w = (Inr a, w') \<Longrightarrow> a = q (db w) \<and> db w' = db w"
  by (cases rule: sql_query_cases [of S q w]) auto

lemma cached_when_full:
  assumes "has_cached_pricing S w = (Inr cached, w')"
    and "provider_pricing (db w) \<noteq> [] \<and> exchange_rates (db w) \<noteq> [] \<and> provider_plans (db w) \<noteq> []"
  shows cached
  using assms by (auto simp: has_cached_pricing_def has_cached_plans_def bnd_returns ret_def split: if_splits dest!: query_returns)

lemma only_prices_budget: "only_prices d d' \<Longrightarrow> budget_state d' = budget_state d"
  unfolding only_prices_def by (cases d; cases d') simp

lemma recover_db: "recover S w = (r, w') \<Longrightarrow> db w' = db w"
  by (rule same_dbD [of "recover S"]) (auto simp: recover_def)

lemma seeded:
  assumes "ensure_budget_seeded S seed w = (Inr (), w')"
  shows "\<exists>row. db w' = (db w)\<lparr>budget_state := Some row\<rparr>
     \<and> (case budget_state (db w) of Some b \<Rightarrow> row = b | None \<Rightarrow> settings_of row = seed \<and> bs_balance row = Fin 0)"
proof -
  let ?insert = "bnd (now_ts S) (\<lambda>now. sql_exec S (insert_budget_row \<lparr>bs_balance = Fin 0, bs_last_accrual_at = now,
     bs_main_currency = main_currency seed, bs_budget_daily_rate = budget_daily_rate seed,
     bs_budget_rollover_cap_days = budget_rollover_cap_days seed\<rparr>))"
  have "\<exists>a v. sql_query S budget_state w = (Inr a, v) \<and> (if a \<noteq> None then ret () else ?insert) v = (Inr (), w')"
    using assms unfolding ensure_budget_seeded_def fetch_budget_row_def bnd_returns [of "sql_query S budget_state"] .
  then obtain a v where query: "sql_query S budget_state w = (Inr a, v)" and if_none: "(if a \<noteq> None then ret () else ?insert) v = (Inr (), w')"
    by (elim exE conjE)
  from query have v: "a = budget_state (db w)" "db v = db w" by (auto dest: query_returns)
  note rest = if_none [unfolded v(1)]
  show ?thesis
  proof (cases "budget_state (db w)")
    case None
    let ?u = "v\<lparr>ext := snd (utc_now S (ext v))\<rparr>"
    from None rest have "sql_exec S (insert_budget_row \<lparr>bs_balance = Fin 0, bs_last_accrual_at = timestamp (fst (utc_now S (ext v))),
          bs_main_currency = main_currency seed, bs_budget_daily_rate = budget_daily_rate seed,
          bs_budget_rollover_cap_days = budget_rollover_cap_days seed\<rparr>) ?u = (Inr (), w')"
      by (simp add: bnd_returns now_ts_eq)
    from exec_returns [OF this] v(2) None show ?thesis
      by (auto simp: insert_budget_row_def rbind_def settings_of_def split: sum.splits dest: sym)
  next
    case (Some b)
    with rest v show ?thesis by (auto simp: ret_def intro!: exI [of _ b])
  qed
qed

text \<open>
  C40. A start that succeeds leaves the budget seeded, once: the settings of the configuration are taken over with a balance of 0 when there were none, and otherwise
  balance and settings stay as they were, whatever the configuration says now. Nothing else has changed but the cached prices, and those only when
  some were missing; and the configuration has a token that was valid.
\<close>

theorem boot_seeds_budget_once:
  assumes "boot S E path w = (Inr (cfg, C, R), w')"
  shows "\<exists>row d. db w' = d\<lparr>budget_state := Some row\<rparr> \<and> only_prices (db w) d
     \<and> (case budget_state (db w) of Some b \<Rightarrow> row = b | None \<Rightarrow> settings_of row = budget_seed cfg \<and> bs_balance row = Fin 0)
     \<and> (provider_pricing (db w) \<noteq> [] \<and> exchange_rates (db w) \<noteq> [] \<and> provider_plans (db w) \<noteq> [] \<longrightarrow> d = db w)
     \<and> (\<exists>e \<in> set (sc_api_tokens (cf_server cfg)). \<exists>x. is_valid_at e (fst (utc_now S x)))
     \<and> ctx_zone C = cr_zone R \<and> resource_prefix C = cr_resource_prefix R \<and> ctx_main_currency C = cr_main_currency R"
proof -
  from assms [unfolded boot_def Let_def bnd_returns seq_returns] obtain cfg' w1 u1 w2 r1 w3 r2 w4 ip w5 cached w6 u2 w7 u3 w8 where
    cfg_file: "from_file S (be_read_to_string E) (be_toml_from_str E) path w = (Inr cfg', w1)"
    and pool: "lift_ext (be_init_pool E (dc_path (cf_database cfg'))) w1 = (Inr u1, w2)"
    and rec: "recover S w2 = (Inr r1, w3)"
    and conn: "attempt (lift_ext (be_check_connectivity E (uc_token (cf_upcloud cfg'))) :: ('a, unit) job_io) w3 = (Inr r2 :: string + (string + unit), w4)"
    and ip: "own_public_ipv4_from (be_metadata E) w4 = (Inr ip, w5)"
    and cached: "has_cached_pricing S w5 = (Inr cached, w6)"
    and sync: "(if cached then ret () else sync_pricing_and_rates S (job_context_of E cfg' ip) (be_ecb E)) w6 = (Inr u2, w7)"
    and seed: "ensure_budget_seeded S (budget_seed cfg') w7 = (Inr u3, w8)"
    and last_step: "ret (cfg', job_context_of E cfg' ip, report_config_of E cfg') w8 = (Inr (cfg, C, R) :: string + _, w')"
    by (elim exE conjE) (rule that, assumption+)
  from last_step have eqs: "cfg' = cfg" "C = job_context_of E cfg ip" "R = report_config_of E cfg" "w8 = w'" by (auto simp: ret_def)
  have "db w4 = db w3" using conn by (auto simp: attempt_def lift_ext_def split: prod.splits)
  moreover have "db w5 = db w4" using ip by (auto simp: own_public_ipv4_from_def lift_ext_def split: prod.splits)
  ultimately have db6: "db w6 = db w"
    using from_file_db [OF cfg_file] lift_ext_db [OF pool] recover_db [OF rec] cached_pricing_db [OF cached] by simp
  have prices: "only_prices (db w) (db w7)"
    using sync eqs sync_only_prices [of S "job_context_of E cfg ip" "be_ecb E" w6] db6 by (auto simp: ret_def only_prices_def split: if_splits)
  from seed eqs seeded [of S "budget_seed cfg" w7 w'] obtain row where row: "db w' = (db w7)\<lparr>budget_state := Some row\<rparr>"
    "case budget_state (db w7) of Some b \<Rightarrow> row = b | None \<Rightarrow> settings_of row = budget_seed cfg \<and> bs_balance row = Fin 0" by auto
  note row(2) [unfolded only_prices_budget [OF prices]]
  moreover have "provider_pricing (db w) \<noteq> [] \<and> exchange_rates (db w) \<noteq> [] \<and> provider_plans (db w) \<noteq> [] \<Longrightarrow> db w7 = db w"
    using cached_when_full [OF cached] sync db6 cached_pricing_db [OF cached] by (simp add: ret_def)
  moreover have "\<exists>e \<in> set (sc_api_tokens (cf_server cfg)). \<exists>x. is_valid_at e (fst (utc_now S x))"
    using loaded_token [OF cfg_file] eqs by blast
  ultimately show ?thesis using row(1) prices
    by (intro exI [of _ row] exI [of _ "db w7"]) (simp add: eqs job_context_of_def report_config_of_def Let_def)
qed

definition boot_config :: config where
  "boot_config =
     \<lparr>cf_server = \<lparr>sc_host = ''::'', sc_port = 443, sc_tls_cert_path = [], sc_tls_key_path = [], sc_api_tokens = [\<lparr>at_token = ''t'', at_expires_at = None\<rparr>],
        sc_hostname = None, sc_acme_directory = default_acme_directory, sc_acme_contact_email = None, sc_acme_challenge_port = default_acme_challenge_port,
        sc_acme_cache_dir = default_acme_cache_dir\<rparr>,
      cf_database = \<lparr>dc_path = ''db.sqlite''\<rparr>,
      cf_upcloud = \<lparr>uc_token = ''u'', uc_dry_run = True, uc_zone = default_upcloud_zone, uc_worker_template_uuid = default_worker_template_uuid,
        uc_worker_ssh_public_keys = [], uc_worker_ssh_private_key = [], uc_worker_plan_allow_prefixes = [], uc_worker_plan_deny_prefixes = []\<rparr>,
      cf_reconciliation = \<lparr>rc_interval_secs = 10\<rparr>, cf_shim = shim_config_of (Some (None, Some ''CHF'', Some (Fin 2), None))\<rparr>"

definition demo_boot_env :: "nat boot_env" where
  "demo_boot_env =
     \<lparr>be_read_to_string = (\<lambda>_. Inr ''toml''), be_toml_from_str = (\<lambda>_. Inr boot_config), be_init_pool = (\<lambda>_ n. (Inr (), n)),
      be_provider = (\<lambda>_. demo_provider), be_check_connectivity = (\<lambda>_ n. (Inl ''no token'', n)), be_metadata = (\<lambda>n. (NoClient, n)),
      be_ecb = (\<lambda>n. (Inl ''offline'', n)), be_cloud_init_template = []\<rparr>"

lemma demo_query: "sql_query demo_services q w = (Inr (q (db w)), w)"
  by (simp add: sql_query_def lift_ext_eq demo_services_def)

lemma demo_exec: "f (db w) = Inr d \<Longrightarrow> sql_exec demo_services f w = (Inr (), w\<lparr>db := d\<rparr>)"
  by (simp add: sql_exec_def lift_ext_eq demo_services_def)

lemma demo_now: "now_nanos demo_services w = (Inr (10 ^ 12), w)" "now_ts demo_services w = (Inr 1000, w)"
  by (simp_all add: now_nanos_def now_ts_eq lift_ext_eq demo_services_def timestamp_def nanos_per_second_def)

lemma demo_boots: "\<exists>C R w'. boot demo_services demo_boot_env ''config.toml'' (demo_world ''Created'' 900) = (Inr (boot_config, C, R), w')"
proof -
  let ?w = "demo_world ''Created'' 900" and ?C = "job_context_of demo_boot_env boot_config None"
  have file_read: "from_file demo_services (be_read_to_string demo_boot_env) (be_toml_from_str demo_boot_env) ''config.toml'' ?w = (Inr boot_config, ?w)"
    by (simp add: from_file_def demo_boot_env_def of_result_def map_err_def bnd_def seq_def demo_now ensure_has_valid_api_token_def boot_config_def
        is_valid_at_def ret_def)
  have outside: "lift_ext (be_init_pool demo_boot_env p) ?w = (Inr (), ?w)"
    "attempt (lift_ext (be_check_connectivity demo_boot_env tok)) ?w = (Inr (Inl ''no token''), ?w)"
    "own_public_ipv4_from (be_metadata demo_boot_env) ?w = (Inr None, ?w)" for p tok
    by (simp_all add: demo_boot_env_def lift_ext_eq attempt_def own_public_ipv4_from_def)
  obtain r where rec: "recover demo_services ?w = (Inr r, ?w)"
    by (simp add: recover_def bnd_def demo_query demo_now ret_def)
  have cached: "has_cached_pricing demo_services ?w = (Inr False, ?w)"
    by (simp add: has_cached_pricing_def bnd_def demo_query ret_def demo_world_def demo_db_def)
  obtain w2 where sync: "sync_pricing_and_rates demo_services ?C (be_ecb demo_boot_env) ?w = (Inr (), w2)"
    by (simp add: sync_pricing_and_rates_def seq_def bnd_def tolerate_apply ret_def)
  obtain w3 where seed: "ensure_budget_seeded demo_services (budget_seed boot_config) w2 = (Inr (), w3)"
  proof (cases "budget_state (db w2)")
    case None
    then have "\<exists>w3. ensure_budget_seeded demo_services (budget_seed boot_config) w2 = (Inr (), w3)"
      by (auto simp: ensure_budget_seeded_def fetch_budget_row_def bnd_def demo_query demo_now budget_seed_def boot_config_def shim_config_of_def unwrap_or_def
          insert_budget_row_def not_null_def rbind_def intro!: exI demo_exec)
    then show thesis using that by blast
  qed (use that [of w2] in \<open>simp add: ensure_budget_seeded_def fetch_budget_row_def bnd_def demo_query ret_def\<close>)
  show ?thesis
    by (simp add: boot_def bnd_def seq_def Let_def file_read outside rec cached sync seed ret_def)
qed

theorem boot_seeds_budget_once_witness:
  "\<exists>C R w' row d. boot demo_services demo_boot_env ''config.toml'' (demo_world ''Created'' 900) = (Inr (boot_config, C, R), w')
     \<and> db w' = d\<lparr>budget_state := Some row\<rparr> \<and> settings_of row = budget_seed boot_config \<and> bs_balance row = Fin 0"
proof -
  from demo_boots obtain C R w' where run: "boot demo_services demo_boot_env ''config.toml'' (demo_world ''Created'' 900) = (Inr (boot_config, C, R), w')"
    by blast
  from boot_seeds_budget_once [OF run] show ?thesis using run by (auto simp: demo_world_def demo_db_def)
qed

end
