(* ===== verification/Lifecycle.thy ===== *)
theory Lifecycle
  imports System
begin

text \<open>
  The life of the process, from its start to its exit (\<open>src/src/main.rs\<close>, \<open>src/src/shutdown.rs\<close> and \<open>run\<close> of \<open>src/src/reconcile/mod.rs\<close>): the main task, the
  task that receives signals, the one that drains the HTTP server and the four loops, interleaved. A step is labelled with the operation it
  performs on the world, if any. Time is counted in seconds; it passes only while every task waits, that is, the runtime runs a task that is ready before the
  next second. A pass that the exit of the process cuts off performs nothing here.
\<close>

section \<open>State\<close>

datatype background_loop = JobLoop | OrphanScanLoop | MetricsPollLoop | PricingSyncLoop

datatype loop_state = NotStarted | Waiting | InPass | Stopped | Crashed

text \<open>The steps of \<open>main\<close> before the loops are spawned, and those of \<open>serve\<close> before the server listens.\<close>

datatype startup_step =
    LoadConfig | InitPool | RecoverJobs | CheckConnectivity | OwnAddress | ReadPricingCache | FirstSync | SeedBudget
  | ParseAddress | ObtainCertificate | LoadCertificate

datatype main_state =
    Booting "startup_step list"
  | Preparing "startup_step list"
  | Serving
  | Draining nat
  | Finishing nat nat
  | Exited nat

record process =
  pr_clock :: nat
  pr_signals :: nat
  pr_requested :: bool
  pr_main :: main_state
  pr_loops :: "background_loop \<Rightarrow> loop_state"
  pr_finish_at :: "nat option"

definition RECONCILE_DRAIN_TIMEOUT :: nat where
  "RECONCILE_DRAIN_TIMEOUT = 45"

definition HTTP_DRAIN_TIMEOUT :: nat where
  "HTTP_DRAIN_TIMEOUT = 5"

definition boot_steps :: "bool \<Rightarrow> startup_step list" where
  "boot_steps first_boot =
     [LoadConfig, InitPool, RecoverJobs, CheckConnectivity, OwnAddress, ReadPricingCache] @ (if first_boot then [FirstSync] else []) @ [SeedBudget]"

definition serve_steps :: "string option \<Rightarrow> startup_step list" where
  "serve_steps hostname = [ParseAddress, case hostname of Some _ \<Rightarrow> ObtainCertificate | None \<Rightarrow> LoadCertificate]"

text \<open>The steps under \<open>unless_shutdown\<close>, and those whose error ends the start.\<close>

definition abandonable :: "startup_step \<Rightarrow> bool" where
  "abandonable s \<longleftrightarrow> s \<in> {CheckConnectivity, OwnAddress, FirstSync, ObtainCertificate}"

definition can_fail :: "startup_step \<Rightarrow> bool" where
  "can_fail s \<longleftrightarrow> s \<notin> {CheckConnectivity, OwnAddress}"

definition started :: "bool \<Rightarrow> process" where
  "started first_boot =
     \<lparr>pr_clock = 0, pr_signals = 0, pr_requested = False, pr_main = Booting (boot_steps first_boot), pr_loops = (\<lambda>_. NotStarted),
      pr_finish_at = None\<rparr>"

definition exited :: "process \<Rightarrow> bool" where
  "exited p = (case pr_main p of Exited _ \<Rightarrow> True | _ \<Rightarrow> False)"

section \<open>Tasks\<close>

definition trigger :: "process \<Rightarrow> process" where
  "trigger p = p\<lparr>pr_requested := True\<rparr>"

text \<open>The signal task: the first signal asks for shutdown, the second one exits.\<close>

inductive signal_step :: "process \<Rightarrow> process \<Rightarrow> bool" where
  first_signal: "\<not> exited p \<Longrightarrow> pr_signals p = 0 \<Longrightarrow> signal_step p (trigger (p\<lparr>pr_signals := 1\<rparr>))"
| second_signal: "\<not> exited p \<Longrightarrow> pr_signals p = 1 \<Longrightarrow> signal_step p (p\<lparr>pr_signals := 2, pr_main := Exited 1\<rparr>)"

text \<open>The start; \<open>unless_shutdown\<close> looks at the request first, so that a step under it does not end any more once there is one.\<close>

inductive boot_step :: "string option \<Rightarrow> process \<Rightarrow> process \<Rightarrow> bool" for hostname where
  boot_done: "pr_main p = Booting (s # ss) \<Longrightarrow> \<not> (abandonable s \<and> pr_requested p) \<Longrightarrow> boot_step hostname p (p\<lparr>pr_main := Booting ss\<rparr>)"
| boot_abandoned: "pr_main p = Booting (s # ss) \<Longrightarrow> abandonable s \<Longrightarrow> pr_requested p \<Longrightarrow> boot_step hostname p (p\<lparr>pr_main := Exited 0\<rparr>)"
| boot_failed: "pr_main p = Booting (s # ss) \<Longrightarrow> can_fail s \<Longrightarrow> \<not> (abandonable s \<and> pr_requested p) \<Longrightarrow> boot_step hostname p (p\<lparr>pr_main := Exited 1\<rparr>)"
| spawn_loops: "pr_main p = Booting [] \<Longrightarrow>
    boot_step hostname p (p\<lparr>pr_main := Preparing (serve_steps hostname), pr_loops := (\<lambda>_. Waiting)\<rparr>)"

text \<open>\<open>finish\<close>: the request for those loops that do not have it yet, and the wait for their end.\<close>

definition finish :: "nat \<Rightarrow> process \<Rightarrow> process" where
  "finish code p = trigger (p\<lparr>pr_main := Finishing (pr_clock p + RECONCILE_DRAIN_TIMEOUT) code, pr_finish_at := Some (pr_clock p)\<rparr>)"

inductive serve_step :: "process \<Rightarrow> process \<Rightarrow> bool" where
  serve_done: "pr_main p = Preparing (s # ss) \<Longrightarrow> \<not> (abandonable s \<and> pr_requested p) \<Longrightarrow> serve_step p (p\<lparr>pr_main := Preparing ss\<rparr>)"
| serve_abandoned: "pr_main p = Preparing (s # ss) \<Longrightarrow> abandonable s \<Longrightarrow> pr_requested p \<Longrightarrow> serve_step p (finish 0 p)"
| serve_failed: "pr_main p = Preparing (s # ss) \<Longrightarrow> can_fail s \<Longrightarrow> \<not> (abandonable s \<and> pr_requested p) \<Longrightarrow> serve_step p (finish 1 p)"
| listening: "pr_main p = Preparing [] \<Longrightarrow> serve_step p (p\<lparr>pr_main := Serving\<rparr>)"
| server_error: "pr_main p = Serving \<or> pr_main p = Draining d \<Longrightarrow> serve_step p (finish 1 p)"
| drained: "pr_main p = Draining d \<Longrightarrow> serve_step p (finish 0 p)"

inductive graceful_on_shutdown :: "process \<Rightarrow> process \<Rightarrow> bool" where
  graceful: "pr_main p = Serving \<Longrightarrow> pr_requested p \<Longrightarrow>
    graceful_on_shutdown p (p\<lparr>pr_main := Draining (pr_clock p + HTTP_DRAIN_TIMEOUT)\<rparr>)"

text \<open>The task of \<open>reconcile::run\<close>: the job loop runs in it, so a panic there ends it; otherwise it waits for the other loops, however they end.\<close>

definition run_ended :: "process \<Rightarrow> bool" where
  "run_ended p \<longleftrightarrow> pr_loops p JobLoop = Crashed
     \<or> pr_loops p JobLoop = Stopped \<and> (\<forall>l \<in> {OrphanScanLoop, MetricsPollLoop, PricingSyncLoop}. pr_loops p l \<in> {Stopped, Crashed})"

inductive finish_step :: "process \<Rightarrow> process \<Rightarrow> bool" where
  loops_ended: "pr_main p = Finishing d code \<Longrightarrow> run_ended p \<Longrightarrow> finish_step p (p\<lparr>pr_main := Exited code\<rparr>)"
| still_busy: "pr_main p = Finishing d code \<Longrightarrow> d \<le> pr_clock p \<Longrightarrow> finish_step p (p\<lparr>pr_main := Exited code\<rparr>)"

text \<open>The loops. The metrics poll and the price sync look at the request during a pass, the others only before one.\<close>

definition cut_short :: "background_loop \<Rightarrow> bool" where
  "cut_short l \<longleftrightarrow> l \<in> {MetricsPollLoop, PricingSyncLoop}"

fun pass_of :: "background_loop \<Rightarrow> 'x operation \<Rightarrow> bool" where
  "pass_of JobLoop op = (case op of TickPass _ \<Rightarrow> True | _ \<Rightarrow> False)"
| "pass_of OrphanScanLoop op = (case op of OrphanScanPass \<Rightarrow> True | _ \<Rightarrow> False)"
| "pass_of MetricsPollLoop op = (case op of MetricsPass _ _ \<Rightarrow> True | _ \<Rightarrow> False)"
| "pass_of PricingSyncLoop op = (case op of PriceSyncPass _ \<Rightarrow> True | _ \<Rightarrow> False)"

definition set_loop :: "background_loop \<Rightarrow> loop_state \<Rightarrow> process \<Rightarrow> process" where
  "set_loop l s p = p\<lparr>pr_loops := (pr_loops p)(l := s)\<rparr>"

inductive loop_step :: "process \<Rightarrow> 'x operation option \<Rightarrow> process \<Rightarrow> bool" where
  begin_pass: "\<not> exited p \<Longrightarrow> pr_loops p l = Waiting \<Longrightarrow> \<not> pr_requested p \<Longrightarrow> loop_step p None (set_loop l InPass p)"
| end_pass: "\<not> exited p \<Longrightarrow> pr_loops p l = InPass \<Longrightarrow> \<not> (cut_short l \<and> pr_requested p) \<Longrightarrow> pass_of l op
    \<Longrightarrow> loop_step p (Some op) (set_loop l Waiting p)"
| cut_pass: "\<not> exited p \<Longrightarrow> pr_loops p l = InPass \<Longrightarrow> cut_short l \<Longrightarrow> pr_requested p \<Longrightarrow> pass_of l op
    \<Longrightarrow> loop_step p (Some op) (set_loop l Stopped p)"
| stop_loop: "\<not> exited p \<Longrightarrow> pr_loops p l = Waiting \<Longrightarrow> pr_requested p \<Longrightarrow> loop_step p None (set_loop l Stopped p)"
| crash: "\<not> exited p \<Longrightarrow> pr_loops p l = InPass \<Longrightarrow> pass_of l op \<Longrightarrow> loop_step p (Some op) (set_loop l Crashed p)"

section \<open>The process\<close>

text \<open>Some task can go on without waiting for anything but the processor.\<close>

definition main_ready :: "process \<Rightarrow> bool" where
  "main_ready p =
     (case pr_main p of
        Booting [] \<Rightarrow> True
      | Booting (s # _) \<Rightarrow> abandonable s \<and> pr_requested p
      | Preparing [] \<Rightarrow> True
      | Preparing (s # _) \<Rightarrow> abandonable s \<and> pr_requested p
      | Serving \<Rightarrow> pr_requested p
      | Draining d \<Rightarrow> d \<le> pr_clock p
      | Finishing d _ \<Rightarrow> d \<le> pr_clock p \<or> run_ended p
      | Exited _ \<Rightarrow> False)"

definition loop_ready :: "process \<Rightarrow> background_loop \<Rightarrow> bool" where
  "loop_ready p l \<longleftrightarrow> pr_requested p \<and> (pr_loops p l = Waiting \<or> pr_loops p l = InPass \<and> cut_short l)"

inductive process_step :: "string option \<Rightarrow> process \<Rightarrow> 'x operation option \<Rightarrow> process \<Rightarrow> bool" for hostname where
  signal: "signal_step p q \<Longrightarrow> process_step hostname p None q"
| boot: "boot_step hostname p q \<Longrightarrow> process_step hostname p None q"
| serve: "serve_step p q \<Longrightarrow> process_step hostname p None q"
| drain: "graceful_on_shutdown p q \<Longrightarrow> process_step hostname p None q"
| finished: "finish_step p q \<Longrightarrow> process_step hostname p None q"
| loops: "loop_step p op q \<Longrightarrow> process_step hostname p op q"
| second: "\<not> exited p \<Longrightarrow> \<not> main_ready p \<Longrightarrow> (\<And>l. \<not> loop_ready p l) \<Longrightarrow> process_step hostname p None (p\<lparr>pr_clock := pr_clock p + 1\<rparr>)"

text \<open>A run of the process on its world, with the number of steps its tasks have made; the server answers requests while it listens.\<close>

fun is_pass :: "'x operation \<Rightarrow> bool" where
  "is_pass (TickPass _) = True"
| "is_pass OrphanScanPass = True"
| "is_pass (MetricsPass _ _) = True"
| "is_pass (PriceSyncPass _) = True"
| "is_pass _ = False"

definition answers :: "process \<Rightarrow> bool" where
  "answers p = (case pr_main p of Serving \<Rightarrow> True | Draining _ \<Rightarrow> True | _ \<Rightarrow> False)"

fun perform_opt :: "'x system \<Rightarrow> 'x operation option \<Rightarrow> 'x world \<Rightarrow> 'x world" where
  "perform_opt Y None w = w"
| "perform_opt Y (Some op) w = perform Y op w"

inductive process_run :: "'x system \<Rightarrow> string option \<Rightarrow> nat \<Rightarrow> process \<Rightarrow> 'x world \<Rightarrow> process \<Rightarrow> 'x world \<Rightarrow> bool" for Y hostname where
  begins: "process_run Y hostname 0 p w p w"
| task: "process_run Y hostname n p w q v \<Longrightarrow> process_step hostname q op q' \<Longrightarrow> process_run Y hostname (Suc n) p w q' (perform_opt Y op v)"
| request: "process_run Y hostname n p w q v \<Longrightarrow> answers q \<Longrightarrow> \<not> is_pass op \<Longrightarrow> process_run Y hostname n p w q (perform Y op v)"
| world: "process_run Y hostname n p w q v \<Longrightarrow> process_run Y hostname n p w q (perform Y (Outside f) v)"

end
