(* ===== verification/LifecycleProps.thy ===== *)
theory LifecycleProps
  imports Lifecycle
begin

text \<open>
  What a shutdown does: it ends, in time, and no pass that changes cloud resources is cut off by it. The runs of the process are runs of the
  program in the sense of theory System.
\<close>

section \<open>Progress\<close>

lemma pass_exists: "\<exists>op. pass_of l op"
  by (cases l) (auto intro: exI [of _ "TickPass f" for f] exI [of _ OrphanScanPass] exI [of _ "MetricsPass f g" for f g] exI [of _ "PriceSyncPass f" for f])

lemma ready_main_steps:
  assumes "main_ready p"
  shows "process_step hostname p None (case pr_main p of
      Booting [] \<Rightarrow> p\<lparr>pr_main := Preparing (serve_steps hostname), pr_loops := (\<lambda>_. Waiting)\<rparr>
    | Booting (_ # _) \<Rightarrow> p\<lparr>pr_main := Exited 0\<rparr>
    | Preparing [] \<Rightarrow> p\<lparr>pr_main := Serving\<rparr>
    | Preparing (_ # _) \<Rightarrow> finish 0 p
    | Serving \<Rightarrow> p\<lparr>pr_main := Draining (pr_clock p + HTTP_DRAIN_TIMEOUT)\<rparr>
    | Draining _ \<Rightarrow> finish 0 p
    | Finishing d code \<Rightarrow> p\<lparr>pr_main := Exited code\<rparr>
    | Exited _ \<Rightarrow> p)"
  using assms unfolding main_ready_def
  by (auto split: main_state.splits list.splits if_splits intro: process_step.intros boot_step.intros serve_step.intros
      graceful_on_shutdown.intros finish_step.intros)

lemma ready_loop_steps:
  assumes "loop_ready p l" and "\<not> exited p"
  shows "\<exists>(op :: 'x operation option) q. process_step hostname p op q"
proof (cases "pr_loops p l = Waiting")
  case True
  with assms show ?thesis by (auto simp: loop_ready_def intro: process_step.loops loop_step.stop_loop)
next
  case False
  obtain op :: "'x operation" where "pass_of l op" using pass_exists by blast
  with False assms show ?thesis by (auto simp: loop_ready_def intro: process_step.loops loop_step.cut_pass)
qed

lemma never_stuck:
  assumes "\<not> exited p"
  shows "\<exists>(op :: 'x operation option) q. process_step hostname p op q"
proof (cases "main_ready p")
  case True
  then show ?thesis using ready_main_steps by blast
next
  case main: False
  show ?thesis
  proof (cases "\<exists>l. loop_ready p l")
    case True
    then show ?thesis using ready_loop_steps [OF _ assms] by blast
  next
    case False
    then have "process_step hostname p None (p\<lparr>pr_clock := pr_clock p + 1\<rparr>)" using main assms by (intro process_step.second) auto
    then show ?thesis by blast
  qed
qed

section \<open>Shutting down\<close>

definition winding_down :: "process \<Rightarrow> bool" where
  "winding_down p \<longleftrightarrow> pr_requested p \<and>
     (case pr_main p of
        Serving \<Rightarrow> True
      | Draining d \<Rightarrow> pr_clock p \<le> d \<and> d \<le> pr_clock p + HTTP_DRAIN_TIMEOUT
      | Finishing d _ \<Rightarrow> pr_clock p \<le> d \<and> d \<le> pr_clock p + RECONCILE_DRAIN_TIMEOUT
      | Exited _ \<Rightarrow> True
      | _ \<Rightarrow> False)"

fun time_left :: "nat \<Rightarrow> main_state \<Rightarrow> nat" where
  "time_left now (Draining d) = d - now + RECONCILE_DRAIN_TIMEOUT"
| "time_left now (Finishing d _) = d - now"
| "time_left now (Exited _) = 0"
| "time_left now _ = HTTP_DRAIN_TIMEOUT + RECONCILE_DRAIN_TIMEOUT"

fun main_left :: "main_state \<Rightarrow> nat" where
  "main_left (Exited _) = 0"
| "main_left (Finishing _ _) = 1"
| "main_left (Draining _) = 2"
| "main_left _ = 3"

definition loop_left :: "loop_state \<Rightarrow> nat" where
  "loop_left s = (case s of InPass \<Rightarrow> 2 | Waiting \<Rightarrow> 1 | _ \<Rightarrow> 0)"

definition steps_left :: "process \<Rightarrow> nat" where
  "steps_left p = time_left (pr_clock p) (pr_main p) + main_left (pr_main p) + (2 - pr_signals p)
     + loop_left (pr_loops p JobLoop) + loop_left (pr_loops p OrphanScanLoop) + loop_left (pr_loops p MetricsPollLoop)
     + loop_left (pr_loops p PricingSyncLoop)"

definition winds :: "process \<Rightarrow> process \<Rightarrow> bool" where
  "winds p q \<longleftrightarrow> winding_down q \<and> steps_left q < steps_left p
     \<and> pr_clock q + time_left (pr_clock q) (pr_main q) \<le> pr_clock p + time_left (pr_clock p) (pr_main p)"

lemmas winding_simps = winds_def winding_down_def steps_left_def exited_def trigger_def finish_def loop_left_def
  HTTP_DRAIN_TIMEOUT_def RECONCILE_DRAIN_TIMEOUT_def

lemma signal_winds: "winding_down p \<Longrightarrow> signal_step p q \<Longrightarrow> winds p q"
  by (auto simp: winding_simps elim!: signal_step.cases split: main_state.splits)

lemma boot_winds: "winding_down p \<Longrightarrow> \<not> boot_step hostname p q"
  by (auto simp: winding_simps elim!: boot_step.cases)

lemma serve_winds: "winding_down p \<Longrightarrow> serve_step p q \<Longrightarrow> winds p q"
  by (auto simp: winding_simps elim!: serve_step.cases split: main_state.splits)

lemma drain_winds: "winding_down p \<Longrightarrow> graceful_on_shutdown p q \<Longrightarrow> winds p q"
  by (auto simp: winding_simps elim!: graceful_on_shutdown.cases)

lemma finish_winds: "winding_down p \<Longrightarrow> finish_step p q \<Longrightarrow> winds p q"
  by (auto simp: winding_simps elim!: finish_step.cases)

lemma set_loop_winds:
  assumes "winding_down p" and "loop_left s < loop_left (pr_loops p l)"
  shows "winds p (set_loop l s p)"
  using assms by (cases l) (simp_all add: winds_def winding_down_def steps_left_def set_loop_def split: main_state.splits)

lemma loop_winds: "winding_down p \<Longrightarrow> loop_step p op q \<Longrightarrow> winds p q"
  by (erule loop_step.cases) (auto intro!: set_loop_winds simp: loop_left_def winding_down_def)

lemma second_winds: "winding_down p \<Longrightarrow> \<not> exited p \<Longrightarrow> \<not> main_ready p \<Longrightarrow> winds p (p\<lparr>pr_clock := Suc (pr_clock p)\<rparr>)"
  by (auto simp: winding_simps main_ready_def split: main_state.splits)

lemma step_winds: "winding_down p \<Longrightarrow> process_step hostname p op q \<Longrightarrow> winds p q"
  by (erule process_step.cases) (auto intro: signal_winds serve_winds drain_winds finish_winds loop_winds second_winds dest: boot_winds)

lemma run_winds:
  "process_run Y hostname n p w q v \<Longrightarrow> winding_down p
   \<Longrightarrow> winding_down q \<and> n + steps_left q \<le> steps_left p
      \<and> pr_clock q + time_left (pr_clock q) (pr_main q) \<le> pr_clock p + time_left (pr_clock p) (pr_main p)"
proof (induction rule: process_run.induct)
  case (task n p w q v op q')
  then have "winds q q'" by (auto intro: step_winds)
  with task show ?case by (auto simp: winds_def)
qed auto

lemma steps_left_bound: "pr_main p = Serving \<Longrightarrow> steps_left p \<le> 63"
  by (auto simp: winding_simps split: loop_state.splits)

section \<open>Passes\<close>

lemma step_begins_no_pass:
  assumes "process_step hostname p op q" and "pr_requested p"
  shows "pr_requested q \<and> (pr_loops q l = InPass \<longrightarrow> pr_loops p l = InPass)"
  using assms
  by (cases rule: process_step.cases)
     (auto simp: trigger_def finish_def set_loop_def elim!: signal_step.cases boot_step.cases serve_step.cases graceful_on_shutdown.cases
        finish_step.cases loop_step.cases split: if_splits)

lemma run_begins_no_pass:
  "process_run Y hostname n p w q v \<Longrightarrow> pr_requested p \<Longrightarrow> pr_requested q \<and> (pr_loops q l = InPass \<longrightarrow> pr_loops p l = InPass)"
  by (induction rule: process_run.induct) (auto dest: step_begins_no_pass)

text \<open>What holds of the process in all runs from the start.\<close>

definition orderly :: "process \<Rightarrow> bool" where
  "orderly p \<longleftrightarrow>
     (case pr_main p of
        Booting _ \<Rightarrow> pr_loops p = (\<lambda>_. NotStarted) \<and> pr_signals p = (if pr_requested p then 1 else 0)
      | Draining _ \<Rightarrow> pr_requested p \<and> pr_signals p = 1
      | Finishing d code \<Rightarrow> pr_requested p \<and> (code = 0 \<longrightarrow> pr_signals p = 1)
          \<and> (\<exists>t. pr_finish_at p = Some t \<and> d = t + RECONCILE_DRAIN_TIMEOUT)
      | Exited code \<Rightarrow> (code = 0 \<longrightarrow> pr_signals p = 1)
          \<and> (pr_loops p = (\<lambda>_. NotStarted) \<or> pr_signals p = 2 \<or> run_ended p
             \<or> (\<exists>t. pr_finish_at p = Some t \<and> t + RECONCILE_DRAIN_TIMEOUT \<le> pr_clock p))
      | _ \<Rightarrow> pr_signals p = (if pr_requested p then 1 else 0))"

lemma orderly_started: "orderly (started first_boot)"
  by (simp add: orderly_def started_def)

lemma orderly_signal: "orderly p \<Longrightarrow> signal_step p q \<Longrightarrow> orderly q"
  by (auto simp: orderly_def trigger_def exited_def elim!: signal_step.cases split: main_state.splits if_splits)

lemma orderly_boot: "orderly p \<Longrightarrow> boot_step hostname p q \<Longrightarrow> orderly q"
  by (auto simp: orderly_def elim!: boot_step.cases split: if_splits)

lemma orderly_serve: "orderly p \<Longrightarrow> serve_step p q \<Longrightarrow> orderly q"
  by (auto simp: orderly_def finish_def trigger_def elim!: serve_step.cases split: if_splits)

lemma orderly_drain: "orderly p \<Longrightarrow> graceful_on_shutdown p q \<Longrightarrow> orderly q"
  by (auto simp: orderly_def elim!: graceful_on_shutdown.cases)

lemma orderly_finish: "orderly p \<Longrightarrow> finish_step p q \<Longrightarrow> orderly q"
  by (auto simp: orderly_def run_ended_def elim!: finish_step.cases)

lemma orderly_set_loop: "orderly p \<Longrightarrow> \<not> exited p \<Longrightarrow> pr_loops p l \<noteq> NotStarted \<Longrightarrow> orderly (set_loop l s p)"
  by (simp add: orderly_def set_loop_def exited_def split: main_state.splits)

lemma orderly_loop: "orderly p \<Longrightarrow> loop_step p op q \<Longrightarrow> orderly q"
  by (erule loop_step.cases) (simp_all add: orderly_set_loop)

lemma orderly_second: "orderly p \<Longrightarrow> \<not> exited p \<Longrightarrow> orderly (p\<lparr>pr_clock := k\<rparr>)"
  by (simp add: orderly_def exited_def split: main_state.splits)

lemmas orderly_steps = orderly_signal orderly_boot orderly_serve orderly_drain orderly_finish orderly_loop orderly_second

lemma orderly_step: "orderly p \<Longrightarrow> process_step hostname p op q \<Longrightarrow> orderly q"
  by (erule process_step.cases) (blast intro: orderly_steps)+

lemma orderly_run: "process_run Y hostname n p w q v \<Longrightarrow> orderly p \<Longrightarrow> orderly q"
  by (induction rule: process_run.induct) (auto intro: orderly_step)

lemma process_run_is_system_run: "process_run Y hostname n p w q v \<Longrightarrow> system_run Y w v"
proof (induction rule: process_run.induct)
  case (task n p w q v op q')
  then show ?case by (cases op) (auto intro: system_run.operate)
next
  case (world n p w q v f)
  then show ?case by (intro system_run.operate)
qed (auto intro: system_run.intros)

lemma quiet_task:
  fixes Y :: "'x system"
  assumes "process_run Y hostname n p w q v" and "process_step hostname q (None :: 'x operation option) q'"
  shows "process_run Y hostname (Suc n) p w q' v"
  using process_run.task [OF assms] by simp

section \<open>Properties\<close>

text \<open>
  C23. A shutdown that is requested while the server listens ends: the process gets stuck nowhere, its tasks make at most 63 more steps, it is gone at
  most 50 seconds later, well within the 60 that podman waits, and no loop begins another pass. This holds however the tasks interleave and
  whatever requests come in meanwhile.
\<close>

theorem shutdown_completes:
  assumes "process_run Y hostname n p w q v" and "pr_main p = Serving" and "pr_requested p"
  shows "n \<le> 63 \<and> pr_clock q \<le> pr_clock p + 50
    \<and> (exited q \<or> (\<exists>(op :: 'x operation option) q'. process_step hostname q op q'))
    \<and> (\<forall>l. pr_loops q l = InPass \<longrightarrow> pr_loops p l = InPass)"
proof -
  have "winding_down p" using assms(2,3) by (simp add: winding_down_def)
  from run_winds [OF assms(1) this] steps_left_bound [OF assms(2)] assms(2) have "n \<le> 63" and "pr_clock q \<le> pr_clock p + 50"
    by (auto simp: HTTP_DRAIN_TIMEOUT_def RECONCILE_DRAIN_TIMEOUT_def)
  then show ?thesis using never_stuck run_begins_no_pass [OF assms(1,3)] by blast
qed

definition demo_serving :: process where
  "demo_serving = \<lparr>pr_clock = 100, pr_signals = 1, pr_requested = True, pr_main = Serving, pr_loops = (\<lambda>_. Stopped), pr_finish_at = None\<rparr>"

theorem shutdown_completes_witness:
  "\<exists>q. process_run demo_system None 3 demo_serving (demo_world ''Created'' 900) q (demo_world ''Created'' 900) \<and> pr_main q = Exited 0
     \<and> pr_clock q \<le> 150"
proof -
  let ?w = "demo_world ''Created'' 900"
  let ?p1 = "demo_serving\<lparr>pr_main := Draining 105\<rparr>" and ?p2 = "demo_serving\<lparr>pr_main := Finishing 145 0, pr_finish_at := Some 100\<rparr>"
  let ?p3 = "demo_serving\<lparr>pr_main := Exited 0, pr_finish_at := Some 100\<rparr>"
  have "graceful_on_shutdown demo_serving ?p1"
    using graceful_on_shutdown.graceful [of demo_serving] by (simp add: demo_serving_def HTTP_DRAIN_TIMEOUT_def)
  moreover have "serve_step ?p1 ?p2"
    using serve_step.drained [of ?p1 105] by (simp add: demo_serving_def finish_def trigger_def RECONCILE_DRAIN_TIMEOUT_def)
  moreover have "finish_step ?p2 ?p3"
    using finish_step.loops_ended [of ?p2 145 0] by (simp add: demo_serving_def run_ended_def)
  ultimately have run: "process_run demo_system None 3 demo_serving ?w ?p3 ?w"
    unfolding numeral_3_eq_3 by (intro quiet_task [OF quiet_task [OF quiet_task [OF process_run.begins]]] process_step.drain process_step.serve process_step.finished)
  from shutdown_completes [OF this] have "pr_clock ?p3 \<le> 150" by (simp add: demo_serving_def)
  with run show ?thesis by (intro exI [of _ ?p3]) simp
qed

text \<open>
  C24. No pass of the job loop or of the orphan scan, the loops that change cloud resources, is cut off by the exit of the process, unless a second signal asked
  for it, the loops were still busy 45 seconds after the server had stopped, or the job loop had crashed. The process exits with status 0 only when a
  signal asked it to.
\<close>

theorem exit_cuts_no_pass:
  assumes "process_run Y hostname n (started first_boot) w p v" and "pr_main p = Exited code"
  shows "(code = 0 \<longrightarrow> pr_signals p = 1)
    \<and> (pr_loops p JobLoop = InPass \<or> pr_loops p OrphanScanLoop = InPass \<longrightarrow>
        pr_signals p = 2 \<or> pr_loops p JobLoop = Crashed
        \<or> (\<exists>t. pr_finish_at p = Some t \<and> t + RECONCILE_DRAIN_TIMEOUT \<le> pr_clock p))"
  using orderly_run [OF assms(1) orderly_started] assms(2) by (auto simp: orderly_def run_ended_def)

theorem exit_cuts_no_pass_witness:
  "\<exists>p. process_run demo_system None 2 (started False) (demo_world ''Created'' 900) p (demo_world ''Created'' 900) \<and> pr_main p = Exited 1
     \<and> pr_loops p JobLoop \<noteq> InPass"
proof -
  let ?w = "demo_world ''Created'' 900"
  let ?p1 = "trigger ((started False)\<lparr>pr_signals := 1\<rparr>)" and ?p2 = "trigger ((started False)\<lparr>pr_signals := 1\<rparr>)\<lparr>pr_main := Exited 1\<rparr>"
  have "signal_step (started False) ?p1" by (rule signal_step.first_signal) (simp_all add: started_def exited_def)
  moreover have "boot_step None ?p1 ?p2"
    by (rule boot_step.boot_failed [of _ LoadConfig]) (simp_all add: started_def trigger_def boot_steps_def can_fail_def abandonable_def)
  ultimately have run: "process_run demo_system None 2 (started False) ?w ?p2 ?w"
    unfolding numeral_2_eq_2 by (intro quiet_task [OF quiet_task [OF process_run.begins]] process_step.signal process_step.boot)
  from exit_cuts_no_pass [OF this, of 1] have "pr_loops ?p2 JobLoop \<noteq> InPass" by (auto simp: trigger_def started_def)
  with run show ?thesis by (intro exI [of _ ?p2]) simp
qed

end
