(* ===== verification/Tls.thy ===== *)
theory Tls
  imports Startup
begin

text \<open>
  The server's certificate and its start: files with a certificate and its key (\<open>src/src/tls.rs\<close>), certificates by ACME (\<open>src/src/acme.rs\<close>) and \<open>serve\<close>
  (\<open>src/src/main.rs\<close>). Files, PEM and TLS, the state machine of rustls-acme and the listener are parameters, in the record \<open>tls_env\<close>: of the state
  machine there are the events its stream delivers, with the second each arrives at. What the code starts is returned as a list of actions. Text is ASCII.
\<close>

section \<open>Certificate files\<close>

datatype acme_event = DeployedNewCert | DeployedCachedCert | OtherEvent string | FailedAttempt string | StreamEnd

record 'c tls_env =
  te_read :: "string \<Rightarrow> string + string"
  te_certs :: "string \<Rightarrow> string + string list"
  te_private_key :: "string \<Rightarrow> string + string option"
  te_from_pem :: "string \<Rightarrow> string \<Rightarrow> string + 'c"
  te_create_dir_all :: "string \<Rightarrow> string + unit"
  te_parse_addr :: "string \<Rightarrow> string + string"
  te_acme_events :: "(nat \<times> acme_event) list"
  te_listen :: "string \<Rightarrow> string + unit"

definition with_context :: "string \<Rightarrow> string + 'a \<Rightarrow> string + 'a" where
  "with_context msg r = map_err (\<lambda>_. msg) r"

definition load_tls_config :: "'c tls_env \<Rightarrow> string \<Rightarrow> string \<Rightarrow> string + 'c" where
  "load_tls_config E cert_path key_path =
     rbind (with_context (''Failed to read TLS certificate at '' @ cert_path) (te_read E cert_path)) (\<lambda>cert_bytes.
     rbind (with_context (''Failed to read TLS private key at '' @ key_path) (te_read E key_path)) (\<lambda>key_bytes.
     rbind (with_context (cert_path @ '' does not contain valid PEM certificate data'') (te_certs E cert_bytes)) (\<lambda>certs.
     if length certs = 0 then Inl (cert_path @ '' contains no certificates'')
     else
       rbind (with_context (key_path @ '' does not contain valid PEM private key data'') (te_private_key E key_bytes)) (\<lambda>key.
       if key = None then Inl (key_path @ '' contains no private key'')
       else with_context (''Failed to build TLS server config from '' @ cert_path @ '' and '' @ key_path)
              (te_from_pem E cert_bytes key_bytes)))))"

section \<open>ACME\<close>

definition DIRECTORY_STAGING :: string where
  "DIRECTORY_STAGING = ''staging''"

definition DIRECTORY_PRODUCTION :: string where
  "DIRECTORY_PRODUCTION = ''production''"

definition COLD_START_TIMEOUT :: nat where
  "COLD_START_TIMEOUT = 5 * 60"

datatype acme_directory = LetsEncrypt bool | DirectoryUrl string

record acme_config =
  ac_domain :: string
  ac_cache_dir :: string
  ac_directory :: acme_directory
  ac_contacts :: "string list"

definition acme_directory_of :: "string \<Rightarrow> acme_directory" where
  "acme_directory_of setting =
     (let lower = map to_ascii_lower setting
      in if lower = DIRECTORY_STAGING then LetsEncrypt False
         else if lower = DIRECTORY_PRODUCTION then LetsEncrypt True
         else DirectoryUrl lower)"

definition acme_config_of :: "server_config \<Rightarrow> string \<Rightarrow> acme_config" where
  "acme_config_of cfg hostname =
     \<lparr>ac_domain = hostname, ac_cache_dir = sc_acme_cache_dir cfg, ac_directory = acme_directory_of (sc_acme_directory cfg),
      ac_contacts = (case sc_acme_contact_email cfg of Some email \<Rightarrow> [''mailto:'' @ email] | None \<Rightarrow> [])\<rparr>"

text \<open>The wait for the first certificate, with the second it ends at; \<open>None\<close> when the events end before it does.\<close>

fun wait_for_first_certificate :: "(nat \<times> acme_event) list \<Rightarrow> (nat \<times> (string + unit)) option" where
  "wait_for_first_certificate [] = None"
| "wait_for_first_certificate ((t, ev) # evs) =
     (case ev of
        DeployedNewCert \<Rightarrow> Some (t, Inr ())
      | DeployedCachedCert \<Rightarrow> Some (t, Inr ())
      | OtherEvent _ \<Rightarrow> wait_for_first_certificate evs
      | FailedAttempt _ \<Rightarrow> wait_for_first_certificate evs
      | StreamEnd \<Rightarrow> Some (t, Inl ''ACME event stream ended unexpectedly before a certificate was obtained''))"

datatype 'c certificate = AcmeCertificate acme_config | LoadedCertificate 'c

datatype 'c server_action = RespondToChallenges string | RenewCertificates string | ListenWith string "'c certificate"

definition cold_start_message :: "string \<Rightarrow> nat \<Rightarrow> string" where
  "cold_start_message hostname port =
     ''Failed to obtain an ACME certificate for '' @ hostname @ '' within 300s -- check that DNS for '' @ hostname
     @ '' already resolves to this host, and that port '' @ show_nat port @ '' is reachable from the internet for the HTTP-01 challenge''"

text \<open>\<open>setup\<close>: the second it ends at, its result and what it started.\<close>

definition acme_setup :: "'c tls_env \<Rightarrow> server_config \<Rightarrow> string \<Rightarrow> nat \<times> (string + 'c certificate) \<times> 'c server_action list" where
  "acme_setup E cfg hostname =
     (case with_context (''Failed to create ACME cache directory at '' @ sc_acme_cache_dir cfg) (te_create_dir_all E (sc_acme_cache_dir cfg)) of
        Inl e \<Rightarrow> (0, Inl e, [])
      | Inr _ \<Rightarrow>
         (case with_context ''Invalid server host/acme_challenge_port''
                 (te_parse_addr E (sc_host cfg @ '':'' @ show_nat (sc_acme_challenge_port cfg))) of
            Inl e \<Rightarrow> (0, Inl e, [])
          | Inr challenge_addr \<Rightarrow>
             (case wait_for_first_certificate (te_acme_events E) of
                None \<Rightarrow> (COLD_START_TIMEOUT, Inl (cold_start_message hostname (sc_acme_challenge_port cfg)), [RespondToChallenges challenge_addr])
              | Some (t, r) \<Rightarrow>
                 if COLD_START_TIMEOUT < t
                 then (COLD_START_TIMEOUT, Inl (cold_start_message hostname (sc_acme_challenge_port cfg)), [RespondToChallenges challenge_addr])
                 else (case r of
                         Inl e \<Rightarrow> (t, Inl e, [RespondToChallenges challenge_addr])
                       | Inr _ \<Rightarrow> (t, Inr (AcmeCertificate (acme_config_of cfg hostname)), [RespondToChallenges challenge_addr, RenewCertificates hostname])))))"

text \<open>The task that goes on with the stream: it only logs, and ends with the stream.\<close>

definition renewal_events :: "acme_event list \<Rightarrow> acme_event list" where
  "renewal_events evs = takeWhile (\<lambda>ev. ev \<noteq> StreamEnd) evs"

section \<open>Serving\<close>

text \<open>
  \<open>unless_shutdown\<close>: the request wins against a step that ends in the same second. Second 0 stands for a request that was made before, on which
  the step is not even begun.
\<close>

definition unless_shutdown :: "nat option \<Rightarrow> nat \<times> 'r \<Rightarrow> 'r option" where
  "unless_shutdown requested_at step =
     (case requested_at of Some r \<Rightarrow> if r \<le> fst step then None else Some (snd step) | None \<Rightarrow> Some (snd step))"

definition acme_actions :: "nat option \<Rightarrow> nat \<Rightarrow> 'c server_action list \<Rightarrow> 'c server_action list" where
  "acme_actions requested_at t acts = (case requested_at of Some r \<Rightarrow> if r = 0 then [] else if r \<le> t then take 1 acts else acts | None \<Rightarrow> acts)"

definition serve :: "'c tls_env \<Rightarrow> server_config \<Rightarrow> nat option \<Rightarrow> (string + unit) \<times> 'c server_action list" where
  "serve E cfg requested_at =
     (case with_context ''Invalid server host/port'' (te_parse_addr E (sc_host cfg @ '':'' @ show_nat (sc_port cfg))) of
        Inl e \<Rightarrow> (Inl e, [])
      | Inr addr \<Rightarrow>
         (case sc_hostname cfg of
            Some hostname \<Rightarrow>
              (case acme_setup E cfg hostname of (t, r, acts) \<Rightarrow>
                 (case unless_shutdown requested_at (t, r) of
                    None \<Rightarrow> (Inr (), acme_actions requested_at t acts)
                  | Some (Inl e) \<Rightarrow> (Inl e, acts)
                  | Some (Inr acceptor) \<Rightarrow> (with_context ''Server error'' (te_listen E addr), acts @ [ListenWith addr acceptor])))
          | None \<Rightarrow>
              (case with_context ''Failed to load TLS configuration'' (load_tls_config E (sc_tls_cert_path cfg) (sc_tls_key_path cfg)) of
                 Inl e \<Rightarrow> (Inl e, [])
               | Inr tls_config \<Rightarrow> (with_context ''Server error'' (te_listen E addr), [ListenWith addr (LoadedCertificate tls_config)]))))"

end
