(* ===== verification/TlsProps.thy ===== *)
theory TlsProps
  imports Tls
begin

text \<open>When the server listens, and with which certificate.\<close>

lemma with_context_Inr [simp]: "with_context msg r = Inr a \<longleftrightarrow> r = Inr a"
  by (cases r) (simp_all add: with_context_def map_err_def)

lemma with_context_cases:
  obtains e where "r = Inl e" and "with_context msg r = Inl msg"
  | a where "r = Inr a" and "with_context msg r = Inr a"
  by (cases r) (simp_all add: with_context_def map_err_def)

lemma load_tls_config_Inr:
  "load_tls_config E cert_path key_path = Inr c \<longleftrightarrow>
     (\<exists>cert key certs k. te_read E cert_path = Inr cert \<and> te_read E key_path = Inr key \<and> te_certs E cert = Inr certs \<and> certs \<noteq> []
        \<and> te_private_key E key = Inr (Some k) \<and> te_from_pem E cert key = Inr c)"
  unfolding load_tls_config_def rbind_def with_context_def map_err_def by (auto split: sum.splits if_splits)

text \<open>The first certificate of a stream of events: one that is deployed before the stream ends.\<close>

definition first_certificate :: "(nat \<times> acme_event) list \<Rightarrow> nat \<Rightarrow> bool" where
  "first_certificate evs t \<longleftrightarrow>
     (\<exists>before ev rest. evs = before @ (t, ev) # rest \<and> ev \<in> {DeployedNewCert, DeployedCachedCert}
        \<and> (\<forall>(_, e) \<in> set before. e \<notin> {DeployedNewCert, DeployedCachedCert, StreamEnd}))"

lemma first_certificate_Cons:
  "first_certificate ((t', ev) # evs) t \<longleftrightarrow>
     (if ev \<in> {DeployedNewCert, DeployedCachedCert} then t = t' else ev \<noteq> StreamEnd \<and> first_certificate evs t)"
proof
  assume "first_certificate ((t', ev) # evs) t"
  then obtain before e rest where *: "(t', ev) # evs = before @ (t, e) # rest" "e \<in> {DeployedNewCert, DeployedCachedCert}"
    "\<forall>(_, e) \<in> set before. e \<notin> {DeployedNewCert, DeployedCachedCert, StreamEnd}"
    unfolding first_certificate_def by blast
  then show "if ev \<in> {DeployedNewCert, DeployedCachedCert} then t = t' else ev \<noteq> StreamEnd \<and> first_certificate evs t"
    by (cases before) (auto simp: first_certificate_def)
next
  assume a: "if ev \<in> {DeployedNewCert, DeployedCachedCert} then t = t' else ev \<noteq> StreamEnd \<and> first_certificate evs t"
  show "first_certificate ((t', ev) # evs) t"
  proof (cases "ev \<in> {DeployedNewCert, DeployedCachedCert}")
    case True
    with a show ?thesis unfolding first_certificate_def by (intro exI [of _ "[]"]) auto
  next
    case False
    with a obtain before e rest where "evs = before @ (t, e) # rest" "e \<in> {DeployedNewCert, DeployedCachedCert}" "ev \<noteq> StreamEnd"
      "\<forall>(_, e) \<in> set before. e \<notin> {DeployedNewCert, DeployedCachedCert, StreamEnd}"
      unfolding first_certificate_def by auto
    with False show ?thesis unfolding first_certificate_def by (intro exI [of _ "(t', ev) # before"] exI [of _ e] exI [of _ rest]) auto
  qed
qed

lemma wait_certificate: "wait_for_first_certificate evs = Some (t, Inr ()) \<longleftrightarrow> first_certificate evs t"
proof (induction evs)
  case Nil
  show ?case by (simp add: first_certificate_def)
next
  case (Cons x evs)
  then show ?case by (cases x) (auto simp: first_certificate_Cons split: acme_event.splits)
qed

lemma acme_setup_Inr:
  "acme_setup E cfg hostname = (t, Inr c, acts) \<longleftrightarrow>
     (\<exists>addr. te_create_dir_all E (sc_acme_cache_dir cfg) = Inr () \<and> te_parse_addr E (sc_host cfg @ '':'' @ show_nat (sc_acme_challenge_port cfg)) = Inr addr
        \<and> first_certificate (te_acme_events E) t \<and> t \<le> COLD_START_TIMEOUT \<and> c = AcmeCertificate (acme_config_of cfg hostname)
        \<and> acts = [RespondToChallenges addr, RenewCertificates hostname])"
  unfolding acme_setup_def wait_certificate [symmetric]
  by (auto simp: with_context_def map_err_def split: sum.splits option.splits prod.splits if_splits)

lemma acme_setup_never_listens: "acme_setup E cfg hostname = (t, r, acts) \<Longrightarrow> ListenWith a c \<notin> set acts"
  by (auto simp: acme_setup_def split: sum.splits option.splits prod.splits if_splits)

section \<open>Properties\<close>

text \<open>
  C25. The server listens exactly when it has a certificate for it: without a hostname, when the files hold at least one certificate and a key that
  make a TLS configuration; with one, when the responder for challenges could be started and a new or cached certificate was deployed within five
  minutes, before the stream of events ended and before a shutdown was requested. Otherwise nothing listens.
\<close>

theorem listens_iff_certificate:
  "ListenWith addr c \<in> set (snd (serve E cfg requested_at)) \<longleftrightarrow>
     te_parse_addr E (sc_host cfg @ '':'' @ show_nat (sc_port cfg)) = Inr addr
     \<and> (case sc_hostname cfg of
          None \<Rightarrow> \<exists>cert key certs k tls. te_read E (sc_tls_cert_path cfg) = Inr cert \<and> te_read E (sc_tls_key_path cfg) = Inr key
                    \<and> te_certs E cert = Inr certs \<and> certs \<noteq> [] \<and> te_private_key E key = Inr (Some k) \<and> te_from_pem E cert key = Inr tls
                    \<and> c = LoadedCertificate tls
        | Some hostname \<Rightarrow> \<exists>challenges t. te_create_dir_all E (sc_acme_cache_dir cfg) = Inr ()
                    \<and> te_parse_addr E (sc_host cfg @ '':'' @ show_nat (sc_acme_challenge_port cfg)) = Inr challenges
                    \<and> first_certificate (te_acme_events E) t \<and> t \<le> 300 \<and> \<not> (\<exists>r \<le> t. requested_at = Some r)
                    \<and> c = AcmeCertificate (acme_config_of cfg hostname))"
proof (cases "te_parse_addr E (sc_host cfg @ '':'' @ show_nat (sc_port cfg))")
  case (Inl e)
  then show ?thesis by (simp add: serve_def with_context_def map_err_def)
next
  case (Inr a)
  show ?thesis
  proof (cases "sc_hostname cfg")
    case None
    have "ListenWith addr c \<in> set (snd (serve E cfg requested_at)) \<longleftrightarrow>
        a = addr \<and> (\<exists>tls. load_tls_config E (sc_tls_cert_path cfg) (sc_tls_key_path cfg) = Inr tls \<and> c = LoadedCertificate tls)"
      using Inr None by (auto simp: serve_def with_context_def map_err_def split: sum.splits)
    then show ?thesis unfolding load_tls_config_Inr using Inr None by auto
  next
    case (Some hostname)
    let ?deployed = "\<lambda>challenges t. te_create_dir_all E (sc_acme_cache_dir cfg) = Inr ()
        \<and> te_parse_addr E (sc_host cfg @ '':'' @ show_nat (sc_acme_challenge_port cfg)) = Inr challenges
        \<and> first_certificate (te_acme_events E) t \<and> t \<le> 300 \<and> \<not> (\<exists>r \<le> t. requested_at = Some r)
        \<and> c = AcmeCertificate (acme_config_of cfg hostname)"
    obtain t r acts where s: "acme_setup E cfg hostname = (t, r, acts)" by (cases "acme_setup E cfg hostname") auto
    have take: "ListenWith addr c \<notin> set (acme_actions requested_at t acts)"
      using acme_setup_never_listens [OF s] by (auto simp: acme_actions_def split: option.splits dest: in_set_takeD)
    have "ListenWith addr c \<in> set (snd (serve E cfg requested_at)) \<longleftrightarrow> a = addr \<and> r = Inr c \<and> \<not> (\<exists>r \<le> t. requested_at = Some r)"
      using Inr Some s take acme_setup_never_listens [OF s]
      by (auto simp: serve_def with_context_def map_err_def unless_shutdown_def split: sum.splits option.splits if_splits)
    moreover have "r = Inr c \<and> \<not> (\<exists>r \<le> t. requested_at = Some r) \<longleftrightarrow> (\<exists>challenges t. ?deployed challenges t)"
    proof
      assume "r = Inr c \<and> \<not> (\<exists>r \<le> t. requested_at = Some r)"
      with s show "\<exists>challenges t. ?deployed challenges t" by (auto simp: acme_setup_Inr COLD_START_TIMEOUT_def)
    next
      assume "\<exists>challenges t. ?deployed challenges t"
      then obtain challenges t' where d: "?deployed challenges t'" by blast
      then have "acme_setup E cfg hostname = (t', Inr c, [RespondToChallenges challenges, RenewCertificates hostname])"
        by (simp add: acme_setup_Inr COLD_START_TIMEOUT_def)
      with d s show "r = Inr c \<and> \<not> (\<exists>r \<le> t. requested_at = Some r)" by simp
    qed
    ultimately show ?thesis using Inr Some by auto
  qed
qed

end
