(* ===== verification/SshSession.thy ===== *)
theory SshSession
  imports Ssh
begin

text \<open>
  How a session with a worker comes about (\<open>src/src/ssh.rs\<close>): the key is decoded, the connection made within its timeout, the key offered as
  user root, a channel opened and the command started. The operations of russh are parameters, in the record \<open>ssh_lib\<close>; each may do something to the world
  outside. \<open>ssh_session_of\<close> is what theory Ssh takes as its session.
\<close>

datatype ssh_error = InvalidKey string | Protocol string | AuthenticationFailed | ConnectTimeout nat

definition show_ssh_error :: "ssh_error \<Rightarrow> string" where
  "show_ssh_error err =
     (case err of
        InvalidKey e \<Rightarrow> ''invalid private key: '' @ e
      | Protocol e \<Rightarrow> ''SSH connection/protocol error: '' @ e
      | AuthenticationFailed \<Rightarrow> ''SSH authentication failed''
      | ConnectTimeout secs \<Rightarrow> ''connection timed out after '' @ show_nat secs @ ''s'')"

definition CONNECT_TIMEOUT :: nat where
  "CONNECT_TIMEOUT = 15"

text \<open>A connection attempt comes with the seconds it takes.\<close>

record ('x, 'k, 's, 'c) ssh_lib =
  sl_decode_secret_key :: "string \<Rightarrow> string + 'k"
  sl_connect :: "string \<Rightarrow> nat \<Rightarrow> 'x \<Rightarrow> (nat \<times> (string + 's)) \<times> 'x"
  sl_best_supported_rsa_hash :: "'s \<Rightarrow> ('x, string, string option option) io"
  sl_authenticate_publickey :: "'s \<Rightarrow> string \<Rightarrow> 'k \<Rightarrow> string option \<Rightarrow> ('x, string, bool) io"
  sl_channel_open_session :: "'s \<Rightarrow> ('x, string, 'c) io"
  sl_exec :: "'c \<Rightarrow> string \<Rightarrow> ('x, string, unit) io"
  sl_data :: "'c \<Rightarrow> string \<Rightarrow> ('x, string, unit) io"
  sl_eof :: "'c \<Rightarrow> ('x, string, unit) io"
  sl_messages :: "'c \<Rightarrow> 'x \<Rightarrow> channel_msg list \<times> 'x"

text \<open>The handler accepts every host key.\<close>

definition check_server_key :: "string \<Rightarrow> bool" where
  "check_server_key server_public_key = True"

definition connect_within :: "('x, 'k, 's, 'c) ssh_lib \<Rightarrow> string \<Rightarrow> nat \<Rightarrow> nat \<Rightarrow> ('x, ssh_error, 's) io" where
  "connect_within L host port connect_timeout = (\<lambda>x.
     case sl_connect L host port x of
       ((secs, r), x') \<Rightarrow> (if connect_timeout < secs then Inl (ConnectTimeout connect_timeout) else map_err Protocol r, x'))"

definition connect_and_open_channel_with_timeout ::
  "('x, 'k, 's, 'c) ssh_lib \<Rightarrow> string \<Rightarrow> nat \<Rightarrow> string \<Rightarrow> string \<Rightarrow> nat \<Rightarrow> ('x, ssh_error, 'c) io" where
  "connect_and_open_channel_with_timeout L host port private_key_pem command connect_timeout =
     bnd (of_result (map_err InvalidKey (sl_decode_secret_key L private_key_pem))) (\<lambda>key_pair.
     bnd (connect_within L host port connect_timeout) (\<lambda>session.
     bnd (io_map_err Protocol (sl_best_supported_rsa_hash L session)) (\<lambda>hash_alg.
     bnd (io_map_err Protocol (sl_authenticate_publickey L session ''root'' key_pair (Option.bind hash_alg id))) (\<lambda>success.
     if \<not> success then fail AuthenticationFailed
     else
       bnd (io_map_err Protocol (sl_channel_open_session L session)) (\<lambda>channel.
       seq (io_map_err Protocol (sl_exec L channel command)) (ret channel))))))"

definition connect_and_open_channel ::
  "('x, 'k, 's, 'c) ssh_lib \<Rightarrow> string \<Rightarrow> nat \<Rightarrow> string \<Rightarrow> string \<Rightarrow> ('x, ssh_error, 'c) io" where
  "connect_and_open_channel L host port private_key_pem command =
     connect_and_open_channel_with_timeout L host port private_key_pem command CONNECT_TIMEOUT"

definition send_stdin :: "('x, 'k, 's, 'c) ssh_lib \<Rightarrow> 'c \<Rightarrow> string option \<Rightarrow> ('x, ssh_error, unit) io" where
  "send_stdin L channel stdin =
     (case stdin of
        None \<Rightarrow> ret ()
      | Some d \<Rightarrow> seq (io_map_err Protocol (sl_data L channel d)) (io_map_err Protocol (sl_eof L channel)))"

definition ssh_session_of ::
  "('x, 'k, 's, 'c) ssh_lib \<Rightarrow> string \<Rightarrow> nat \<Rightarrow> string \<Rightarrow> string \<Rightarrow> string option \<Rightarrow> 'x \<Rightarrow> (string + channel_msg list) \<times> 'x" where
  "ssh_session_of L host port key command stdin =
     io_map_err show_ssh_error
       (bnd (connect_and_open_channel L host port key command) (\<lambda>channel.
        seq (send_stdin L channel stdin)
          (\<lambda>x. case sl_messages L channel x of (msgs, x') \<Rightarrow> (Inr msgs, x'))))"

section \<open>Lemmas\<close>

lemma never_succeeds:
  assumes "\<And>y. fst (m y) \<noteq> Inr True"
  shows "bnd (io_map_err f m) (\<lambda>success. if \<not> success then fail e else k) = bnd (io_map_err f m) (\<lambda>_. fail e)"
proof
  fix y
  show "bnd (io_map_err f m) (\<lambda>success. if \<not> success then fail e else k) y = bnd (io_map_err f m) (\<lambda>_. fail e) y"
    using assms [of y] by (cases "m y"; cases "fst (m y)") (auto simp: bnd_def io_map_err_def map_err_def)
qed

text \<open>No command is started, and nothing sent or read, unless the worker accepted the key.\<close>

lemma no_command_without_authentication:
  assumes "\<And>s k h x. fst (sl_authenticate_publickey L s ''root'' k h x) \<noteq> Inr True"
  shows "ssh_session_of L host port key command stdin
      = ssh_session_of (L\<lparr>sl_channel_open_session := opn, sl_exec := ex, sl_data := dat, sl_messages := msgs\<rparr>) host port key command stdin"
    and "\<exists>err. fst (ssh_session_of L host port key command stdin x) = Inl err"
proof -
  have drop: "bnd (bnd a (\<lambda>k. bnd b (\<lambda>s. bnd (c s) (\<lambda>h. bnd (d k s h) (\<lambda>_. fail e))))) rest
      = bnd a (\<lambda>k. bnd b (\<lambda>s. bnd (c s) (\<lambda>h. bnd (d k s h) (\<lambda>_. fail e))))" for a b c d e rest
    by (simp add: bnd_assoc)
  show "ssh_session_of L host port key command stdin
      = ssh_session_of (L\<lparr>sl_channel_open_session := opn, sl_exec := ex, sl_data := dat, sl_messages := msgs\<rparr>) host port key command stdin"
    by (simp add: ssh_session_of_def connect_and_open_channel_def connect_and_open_channel_with_timeout_def connect_within_def never_succeeds assms drop)
  have "connect_and_open_channel L host port key command =
      bnd (of_result (map_err InvalidKey (sl_decode_secret_key L key))) (\<lambda>k.
      bnd (connect_within L host port CONNECT_TIMEOUT) (\<lambda>s.
      bnd (io_map_err Protocol (sl_best_supported_rsa_hash L s)) (\<lambda>h.
      bnd (io_map_err Protocol (sl_authenticate_publickey L s ''root'' k (Option.bind h id))) (\<lambda>_. fail AuthenticationFailed))))"
    by (simp add: connect_and_open_channel_def connect_and_open_channel_with_timeout_def never_succeeds assms)
  then have "fst (connect_and_open_channel L host port key command x) \<noteq> Inr c" for c
    by (cases "connect_and_open_channel L host port key command x") (auto simp: bnd_returns)
  then show "\<exists>err. fst (ssh_session_of L host port key command stdin x) = Inl err"
    by (cases "connect_and_open_channel L host port key command x"; cases "fst (connect_and_open_channel L host port key command x)")
       (auto simp: ssh_session_of_def io_map_err_def bnd_def map_err_def)
qed

end
