(* ===== verification/Database.thy ===== *)
theory Database
  imports StartupProps
begin

text \<open>
  Opening the database, \<open>src/src/db/mod.rs\<close>: the connection, the statements of \<open>schema.sql\<close>, and the migrations of theory Startup, on the columns of the
  tables. SQLite is a parameter: \<open>connect\<close> opens the file or creates it, \<open>exec\<close> runs one statement. What is relied on of \<open>exec\<close> for the statements of the
  schema, all of them \<open>CREATE ... IF NOT EXISTS\<close>, is \<open>creates_if_missing\<close>.
\<close>

fun run_statements :: "(string \<Rightarrow> table_columns \<Rightarrow> string + table_columns) \<Rightarrow> string list \<Rightarrow> table_columns \<Rightarrow> string + table_columns" where
  "run_statements exec [] t = Inr t"
| "run_statements exec (s # ss) t =
     (let trimmed = trim s
      in if trimmed = [] then run_statements exec ss t
         else rbind (map_err (\<lambda>_. ''Failed to execute SQL: '' @ trimmed) (exec trimmed t)) (run_statements exec ss))"

definition run_schema :: "(string \<Rightarrow> table_columns \<Rightarrow> string + table_columns) \<Rightarrow> string \<Rightarrow> table_columns \<Rightarrow> string + table_columns" where
  "run_schema exec schema t = run_statements exec (split_on (CHR '';'') schema) t"

definition init_pool ::
  "(string \<Rightarrow> string + table_columns) \<Rightarrow> (string \<Rightarrow> table_columns \<Rightarrow> string + table_columns) \<Rightarrow> string \<Rightarrow> string \<Rightarrow> string + table_columns" where
  "init_pool connect exec schema db_path =
     rbind (map_err (\<lambda>_. ''Failed to connect to SQLite database'') (connect (''sqlite://'' @ db_path))) (\<lambda>t.
     rbind (run_schema exec schema t) run_migrations)"

section \<open>Statements that create what is missing\<close>

text \<open>Tables stay as they are, and where a statement has been run before it does nothing, however many columns were added to the tables since.\<close>

definition has_tables_of :: "table_columns \<Rightarrow> table_columns \<Rightarrow> bool" where
  "has_tables_of t u \<longleftrightarrow> (\<forall>table. t table \<noteq> None \<longrightarrow> u table \<noteq> None)"

definition creates_if_missing :: "(string \<Rightarrow> table_columns \<Rightarrow> string + table_columns) \<Rightarrow> string \<Rightarrow> bool" where
  "creates_if_missing exec s \<longleftrightarrow>
     (\<forall>t t'. exec s t = Inr t' \<longrightarrow>
        (\<forall>table cols. t table = Some cols \<longrightarrow> t' table = Some cols) \<and> (\<forall>u. has_tables_of t' u \<longrightarrow> exec s u = Inr u))"

lemma run_statements_Cons:
  assumes "run_statements exec (s # ss) t = Inr t'" and "trim s \<noteq> []"
  obtains u where "exec (trim s) t = Inr u" and "run_statements exec ss u = Inr t'"
  using assms by (auto simp: Let_def rbind_def map_err_def split: sum.splits)

lemma run_keeps_tables:
  assumes "\<forall>s \<in> set ss. creates_if_missing exec (trim s)" and "run_statements exec ss t = Inr t'" and "t table = Some cols"
  shows "t' table = Some cols"
  using assms
proof (induction ss arbitrary: t)
  case (Cons s ss)
  show ?case
  proof (cases "trim s = []")
    case True
    with Cons show ?thesis by simp
  next
    case False
    from Cons.prems(2) False obtain u where u: "exec (trim s) t = Inr u" "run_statements exec ss u = Inr t'" by (rule run_statements_Cons)
    from Cons.prems(1) False have c: "creates_if_missing exec (trim s)" "\<forall>s \<in> set ss. creates_if_missing exec (trim s)" by simp_all
    from c(1) u(1) Cons.prems(3) have "u table = Some cols" unfolding creates_if_missing_def by blast
    then show ?thesis by (rule Cons.IH [OF c(2) u(2)])
  qed
qed simp

lemma run_again:
  assumes "\<forall>s \<in> set ss. creates_if_missing exec (trim s)" and "run_statements exec ss t = Inr t'" and "has_tables_of t' u"
  shows "run_statements exec ss u = Inr u"
  using assms
proof (induction ss arbitrary: t)
  case (Cons s ss)
  show ?case
  proof (cases "trim s = []")
    case True
    with Cons show ?thesis by simp
  next
    case False
    from Cons.prems(2) False obtain v where v: "exec (trim s) t = Inr v" "run_statements exec ss v = Inr t'" by (rule run_statements_Cons)
    from Cons.prems(1) False have c: "creates_if_missing exec (trim s)" "\<forall>s \<in> set ss. creates_if_missing exec (trim s)" by simp_all
    have "has_tables_of v t'" using run_keeps_tables [OF c(2) v(2)] by (auto simp: has_tables_of_def)
    with Cons.prems(3) have "has_tables_of v u" by (auto simp: has_tables_of_def)
    with c(1) v(1) have "exec (trim s) u = Inr u" unfolding creates_if_missing_def by blast
    with Cons.IH [OF c(2) v(2) Cons.prems(3)] False show ?thesis by (simp add: Let_def rbind_def map_err_def)
  qed
qed simp

lemma extends_has_tables: "extends t u \<Longrightarrow> has_tables_of t u"
  by (auto simp: extends_def has_tables_of_def)

lemma migrated_has_tables: "apply_added_columns cs t = Inr t' \<Longrightarrow> list_all (has_table t) cs"
proof (induction cs t rule: apply_added_columns.induct)
  case (2 table column def cs t)
  show ?case
  proof (cases "column_exists t table column")
    case True
    then have "t table \<noteq> None" by (cases "t table") (simp_all add: column_exists_def unwrap_or_def)
    with True 2 show ?thesis by (simp add: has_table_def)
  next
    case False
    with 2(3) obtain u where u: "add_column table column def t = Inr u" "apply_added_columns cs u = Inr t'"
      by (auto simp: rbind_def split: sum.splits)
    from u(1) obtain cols where cols: "t table = Some cols" "u = t(table \<mapsto> cols @ [column])"
      by (auto simp: add_column_def split: option.splits if_splits)
    from 2(2) [OF False u(2)] have "list_all (has_table u) cs" .
    with cols show ?thesis by (auto simp: has_table_def list_all_iff split: if_splits)
  qed
qed simp

section \<open>Properties\<close>

text \<open>
  Opening a database that an earlier start has opened changes nothing, whether that start found an empty file or one of an older version: the schema is run again
  without effect on the tables and the columns added to them, the migrations find nothing to do, and all added columns are there.
\<close>

theorem reopening_changes_nothing:
  assumes "\<forall>s \<in> set (split_on (CHR '';'') schema). creates_if_missing exec (trim s)"
    and "init_pool connect exec schema db_path = Inr t"
    and "reconnect (''sqlite://'' @ db_path) = Inr t"
  shows "init_pool reconnect exec schema db_path = Inr t \<and> (\<forall>c \<in> set ADDED_COLUMNS. column_exists t (fst c) (fst (snd c)))"
proof -
  from assms(2) obtain t0 t1 where schema: "run_schema exec schema t0 = Inr t1" and migrated: "run_migrations t1 = Inr t"
    by (auto simp: init_pool_def rbind_def map_err_def split: sum.splits)
  from migrated have "list_all (has_table t1) ADDED_COLUMNS" unfolding run_migrations_def by (rule migrated_has_tables)
  from migrate [OF this] migrated have t: "extends t1 t" "list_all (has_column t) ADDED_COLUMNS" by (auto simp: run_migrations_def)
  have "run_schema exec schema t = Inr t"
    using run_again [OF assms(1) schema [unfolded run_schema_def] extends_has_tables [OF t(1)]] by (simp add: run_schema_def)
  moreover have "run_migrations t = Inr t" unfolding run_migrations_def by (rule migrated_none [OF t(2)])
  ultimately show ?thesis using assms(3) t(2) by (auto simp: init_pool_def rbind_def map_err_def list_all_iff has_column_def)
qed

definition demo_create :: "string \<Rightarrow> table_columns \<Rightarrow> string + table_columns" where
  "demo_create s t = Inr (if t s = None then t(s \<mapsto> [''id'']) else t)"

theorem reopening_changes_nothing_witness:
  "\<exists>t. init_pool (\<lambda>_. Inr (\<lambda>_. None)) demo_create ''jobs; job_volumes ;worker_metrics;'' ''kube-shim.db'' = Inr t
     \<and> init_pool (\<lambda>_. Inr t) demo_create ''jobs; job_volumes ;worker_metrics;'' ''kube-shim.db'' = Inr t"
proof -
  let ?schema = "''jobs; job_volumes ;worker_metrics;''"
  have split: "split_on (CHR '';'') ?schema = [''jobs'', '' job_volumes '', ''worker_metrics'', []]"
    and trims: "trim '' job_volumes '' = ''job_volumes''" "trim ''jobs'' = ''jobs''" "trim ''worker_metrics'' = ''worker_metrics''" "trim [] = []"
    by code_simp+
  have tables: "run_schema demo_create ?schema (\<lambda>_. None) = Inr [''jobs'' \<mapsto> [''id''], ''job_volumes'' \<mapsto> [''id''], ''worker_metrics'' \<mapsto> [''id'']]"
    by (simp add: run_schema_def split trims demo_create_def Let_def rbind_def map_err_def)
  have "list_all (has_table [''jobs'' \<mapsto> [''id''], ''job_volumes'' \<mapsto> [''id''], ''worker_metrics'' \<mapsto> [''id'']]) ADDED_COLUMNS"
    by (simp add: ADDED_COLUMNS_def has_table_def)
  from migrate [OF this] obtain t where
    "run_migrations [''jobs'' \<mapsto> [''id''], ''job_volumes'' \<mapsto> [''id''], ''worker_metrics'' \<mapsto> [''id'']] = Inr t" by (auto simp: run_migrations_def)
  with tables have first: "init_pool (\<lambda>_. Inr (\<lambda>_. None)) demo_create ?schema ''kube-shim.db'' = Inr t" by (simp add: init_pool_def rbind_def map_err_def)
  have again: "demo_create s u = Inr u" if "demo_create s t = Inr t'" "has_tables_of t' u" for s t t' u
  proof -
    from that(1) have "t' s \<noteq> None" by (auto simp: demo_create_def split: if_splits)
    with that(2) have "u s \<noteq> None" by (simp add: has_tables_of_def)
    then show ?thesis by (auto simp: demo_create_def)
  qed
  have kept: "t' table = Some cols" if "demo_create s t = Inr t'" "t table = Some cols" for s t t' table cols
    using that by (auto simp: demo_create_def split: if_splits)
  have "creates_if_missing demo_create s" for s
    unfolding creates_if_missing_def by (intro allI impI conjI) (erule (1) kept, erule (1) again)
  then have "\<forall>s \<in> set (split_on (CHR '';'') ?schema). creates_if_missing demo_create (trim s)" by blast
  from reopening_changes_nothing [OF this first, of "\<lambda>_. Inr t"] first show ?thesis by blast
qed

end
