(* ===== verification/Spec2Isabelle.thy ===== *)
theory Spec2Isabelle
  imports JobProps ConfigProps LogProps CostProps Interleaving ScheduleProps DayOfWeek OrphanScan UpCloudProps MetricsProps LoopProps JobApiProps CronJobProps SecretProps
    ReportProps ExportProps PageProps ProtobufProps AppProps ReadProps StartupProps System LifecycleProps TlsProps SshSession Database
begin

text \<open>
  A verified model of kube-shim, a server that speaks enough of the Kubernetes API to run Jobs and CronJobs on cloud VMs that exist only while a job
  runs. All paths below are under \<open>src/src/\<close>.

  \<^bold>\<open>The program and its parts.\<close> Clients create CronJobs, Jobs and Secrets over HTTP (\<open>api/\<close>, behind \<open>app.rs\<close>, \<open>auth.rs\<close>, \<open>admission.rs\<close> and
  \<open>k8s_protobuf.rs\<close>); handlers store rows in SQLite and wake a loop. The reconciliation loop (\<open>reconcile/mod.rs\<close>) creates due runs of CronJobs
  (\<open>reconcile/schedule.rs\<close>) and moves every job along a sequence of eighteen states (\<open>reconcile/job.rs\<close>): volume, VM, firewall, container, clean-up. It
  talks to the cloud through \<open>providers/mod.rs\<close> (one implementation, \<open>providers/upcloud\<close>) and to the worker over \<open>ssh.rs\<close>, and starts the container from
  files made by \<open>cloud_init.rs\<close>, \<open>container_env.rs\<close> and \<open>run_options.rs\<close>. Three slower loops look for leaked resources (\<open>reconcile/orphan_scan.rs\<close>),
  sample the workers (\<open>reconcile/metrics_collector.rs\<close>) and sync prices (\<open>reconcile/pricing.rs\<close>). A budget (\<open>pricing/mod.rs\<close>) decides at creation whether a
  job may run; \<open>api/cost_report.rs\<close>, \<open>metrics_export.rs\<close> and \<open>status_page.rs\<close> report.

  \<^bold>\<open>How the code is translated.\<close> An \<open>async\<close> function is a function of the \<open>world\<close>: the database as a record of tables, and an outside whose type is free.
  It returns \<open>Inl\<close> an error or \<open>Inr\<close> a value and the world it leaves; \<open>bnd\<close> and \<open>seq\<close> are \<open>?\<close> and \<open>;\<close>, so what was done before an error stays
  done. One SQL statement is one atomic step, \<open>sql_query\<close> or \<open>sql_exec\<close>, and any of them may fail (\<open>db_fault\<close>). A handler's error is a panic; all else is
  a response. Numbers are \<open>int\<close> and \<open>nat\<close> where the source checks or cannot exceed the range, words where counters wrap, and exact IEEE doubles
  (theory Float64) for money.

  What is not in the repository is a parameter: the record \<open>libs\<close> has JSON and Base64 text, RFC 3339 and cron expressions, its extension \<open>services\<close> the
  clock, UUIDs, the database's faults, the wake-up and SSH; \<open>cloud_provider\<close> is the trait; \<open>calendar\<close>, \<open>pb_schema\<close>, \<open>app\<close> and \<open>boot_env\<close> have what the cost report, protobuf
  bodies, the server and the start ask of their libraries, \<open>ssh_lib\<close> and \<open>tls_env\<close> what SSH sessions and certificates do. Loops run over the list of their wake-ups, so every theorem about them is for any
  number of passes. The only bound that is an argument is the stack of \<open>write_fields\<close>, whose depth depends on generated descriptors; \<open>decode_returns\<close>
  says how much is enough.

  \<^bold>\<open>Theories.\<close>
  \<^item> Prelude, Escaping, Float64, Json, JsonObject: results, effects, \<open>str\<close> functions, escapes, doubles, JSON values and objects.
  \<^item> World, Demo: tables, libraries and services; a concrete instance for the evaluations.
  \<^item> Providers, UpCloud, Ssh: the cloud interface, its REST client, commands on workers.
  \<^item> Workload, Volumes, ContainerEnv, RunOptions, CloudInit: what of a spec decides about the worker and the container.
  \<^item> Pricing: charges, currencies and the rolling budget (\<open>currency.rs\<close>, \<open>pricing/mod.rs\<close>).
  \<^item> JobStates, Jobs: the states and the job loop, one definition for each handler.
  \<^item> Schedule, OrphanScan, MetricsCollector, Loops: the other loops and the tick.
  \<^item> Api, JobApi, CronJobApi, SecretApi, BudgetApi, ReadApi, LogFilter: responses, tokens, admission, and the handlers by resource.
  \<^item> CostReport, MetricsExport, StatusPage: the reports.
  \<^item> Protobuf, App, Config, Startup, Database: request bodies, routes and layers, configuration, start, schema and migrations, the shim's own address.
  \<^item> SshSession, Tls: how a session with a worker and the server's certificate come about (\<open>ssh.rs\<close>, \<open>tls.rs\<close>, \<open>acme.rs\<close>, \<open>serve\<close> of \<open>main.rs\<close>).
  \<^item> System, Lifecycle: all operations on one world (\<open>perform\<close>); the process with its tasks and signals as a step relation (\<open>main.rs\<close>, \<open>shutdown.rs\<close>, \<open>run\<close> of
    \<open>reconcile/mod.rs\<close>), labelled with the operations it performs.

  \<^bold>\<open>Interfaces.\<close> A component's contract with the tables is a locale, and what a handler does to them is proved once inside: \<open>frame\<close> (Prelude) for any
  relation between worlds, \<open>db_frame\<close> for one on databases, \<open>job_frame\<close> for the handlers of one job, \<open>tick_frame\<close> for a tick, \<open>settle_frame\<close> and
  \<open>budget_frame\<close> for those who consult the budget. Interpretations give the facts: reads change nothing (\<open>same_db\<close>), a step touches one job (\<open>touch\<close>), records its events
  (\<open>recd\<close>) and leaves the other tables (\<open>outside\<close>), scheduling only adds (\<open>added\<close>, and with unique ids \<open>grow\<close>), a pass over workers replaces only their samples (\<open>resample\<close>), the budget guard
  only settles (\<open>guard\<close>). \<open>rounding\<close> has what the budget needs of floating point, \<open>ranking\<close> what the choice of a plan needs of its order,
  \<open>entry_map\<close> what counting needs of a map, \<open>char_code\<close> and \<open>delimited_code\<close> what reading back needs of an escape.

  \<^bold>\<open>What is shown.\<close>
  \<^item> JobSteps, JobProps: the loop refines a state machine (\<open>edge\<close>); a tick moves a job at most once, transitions are bounded, failures are recorded, the
    deadline is enforced, a dry run does not depend on the cloud, clean-up comes before archiving, and where it gets stuck.
  \<^item> CostProps, LoopProps, MetricsProps, OrphanScan: the budget check in terms of the balance and the unfinished jobs, plan choice, the price sync as a refinement of a
    cache, samples, and what the orphan scan spares.
  \<^item> ScheduleProps, DayOfWeek: which instants are due, which runs are ruled out (the budget included), how long a served instant stays served, and the day-of-week
    field against a description of cron fields that is independent of the code's parsers.
  \<^item> Interleaving: the top-up cut into its statements is the top-up when it runs alone, and loses another one that runs in between.
  \<^item> ConfigProps, LogProps, UpCloudProps: round trips of the container's files, read with podman's rules, completeness of followed logs, rules of the firewall.
  \<^item> ApiProps, JobApiProps, CronJobProps, PatchProps, SecretProps: what requests store, refuse, delete and patch, and when they panic.
  \<^item> ReadProps: what the \<open>GET\<close> requests of all routes may write, and when they panic.
  \<^item> ReportProps, ExportProps, PageProps: the cost report read by a CSV reader, exported counters against the table, the markup of the status page, readiness.
  \<^item> ProtobufProps, AppProps, StartupProps: unknown fields, the stack, types by route, the token check around the API, migrations and the seeding of the budget.

  \<^item> System: the passes of all loops and all requests, in any order, as one relation on worlds: the table of jobs stays sound, and no job is lost.
  \<^item> LifecycleProps: a shutdown ends in time and cuts off no pass that changes cloud resources; runs of the process are runs in the sense of System.
  \<^item> TlsProps, SshSession, Database: the server listens only with a certificate, no command without authentication, reopening a database changes nothing.

  \<^bold>\<open>Not modelled.\<close> The ECB's XML, UpCloud's HTTP, the operations of russh, rustls and rustls-acme, and SQLite's execution of \<open>CREATE\<close> statements are parameters, as are
  axum's extractors and default responses. Log output, the command line and the Server header are left out. In System an operation is performed as a
  whole; only for top-ups are interleavings between statements covered (Interleaving). In Lifecycle time is in seconds and the runtime is prompt: a second
  passes only when no task is ready; what a pass has done when the exit of the process cuts it off is not in the model.
\<close>

end
